(* ===== verification/Prelude.thy ===== *)
theory Prelude
  imports Complex_Main "HOL-Library.Sublist" "HOL-Library.Char_ord" "HOL-Library.List_Lexorder"
begin

text \<open>
  Shared vocabulary of the development.

  \<^item> \<open>err\<close> names the sentinel errors of the modules (\<open>x/*/types/errors.go\<close>); \<open>ErrSdk\<close> stands for
    an error made by the SDK or by \<open>fmt.Errorf\<close>, told apart by its text.
  \<^item> \<open>result\<close> is what a Go function that returns \<open>(T, error)\<close> and may panic delivers.
  \<^item> \<open>('s, 'a) M\<close> is a handler: it reads and writes the chain state \<open>'s\<close> and delivers a result.
    The state it leaves is kept on every outcome: a keeper writes to the store at once, and a later
    error of the same handler does not undo the write by itself.
  \<^item> \<open>preserves f m\<close> (handler \<open>m\<close> never changes the part \<open>f\<close> of the state) and \<open>keeps I m\<close>
    (\<open>m\<close> never breaks the invariant \<open>I\<close>) come with one rule per combinator, collected in
    \<open>frame_intros\<close> and \<open>keeps_intros\<close>.
  \<^item> 64-bit conversions of Go and facts on truncated division close the theory.
\<close>

section \<open>Errors and results\<close>

datatype (plugins only: code size) err =
    ErrInvalid | ErrPoolDoesNotExist | ErrLiquidityProviderDoesNotExist | ErrInValidAsset
  | ErrInValidAmount | ErrTotalAmountTooLow | ErrNotEnoughAssetTokens | ErrInvalidAsymmetry
  | ErrInvalidWBasis | ErrBalanceTooHigh | ErrUnableToSetPool | ErrUnableToDestroyPool
  | ErrUnableToCreatePool | ErrBalanceNotAvailable | ErrTokenNotSupported | ErrUnableToAddBalance
  | ErrNotEnoughLiquidity | ErrPoolTooShallow | ErrOverFlow | ErrUnableToAddLiquidity
  | ErrUnableToRemoveLiquidity | ErrUnableToSwap | ErrUnableToRemoveLiquidityProvider
  | ErrUnableToDecommissionPool | ErrUnableToParseInt | ErrReceivedAmountBelowExpected
  | ErrAmountTooLow | ErrNotEnoughPermissions | ErrCannotStartPolicy | ErrAsymmetricAdd
  | ErrAsymmetricRemove | ErrAsymmetricRatioAdd | ErrTypeCast | ErrReachedMaxFuryLiquidityThreshold
  | ErrMaxFuryLiquidityThresholdAssetPoolDoesNotExist | ErrQueued | ErrRemovalsBlockedByHealth
  | ErrPermissionDenied | ErrNotAllowedToSellAsset | ErrNotAllowedToBuyAsset
  | ErrKeyNotFound | ErrInvalidAddress
  | ErrMTPDoesNotExist | ErrMTPInvalid | ErrMTPDisabled | ErrMTPHealthy | ErrInvalidPosition
  | ErrMaxOpenPositions | ErrUnauthorised | ErrBorrowTooLow | ErrBorrowTooHigh | ErrCustodyTooHigh
  | ErrMTPUnhealthy | ErrFuryAsCollateralNotAllowed
  | ErrInvalidIdentifier | ErrProphecyFinalized | ErrDuplicateMessage | ErrInvalidClaim | ErrInvalidValidator
  | ErrValidatorNotInWhiteList | ErrNotAdminAccount | ErrInvalidOperationType
  | ErrInvalidEthNonce | ErrInvalidEthAddress | ErrJSONMarshalling | ErrInvalidEthSymbol | ErrInvalidClaimType
  | ErrInvalidEthereumChainID | ErrInvalidSymbol | ErrInvalidBurnSymbol | ErrCethAmount | ErrPaused | ErrInvalidAmount
  | ErrUnknownAddress | ErrFailedInputs | ErrFailedOutputs | ErrDistribution | ErrNotFoundMintController
  | ErrAmountTooLowToConvert | ErrConvertingToUnitDenom
  | ErrSdk string

datatype 'a result = Ok 'a | Err err | Panic

fun rbind :: "'a result \<Rightarrow> ('a \<Rightarrow> 'b result) \<Rightarrow> 'b result" where
  "rbind (Ok x) f = f x"
| "rbind (Err e) f = Err e"
| "rbind Panic f = Panic"

text \<open>\<open>sdkerrors.Wrap(e, err.Error())\<close>: the sentinel of the result is \<open>e\<close>.\<close>

fun rwrap :: "err \<Rightarrow> 'a result \<Rightarrow> 'a result" where
  "rwrap e (Err e') = Err e"
| "rwrap e r = r"

text \<open>Code that panics on the error of a call.\<close>

fun must :: "'a result \<Rightarrow> 'a result" where
  "must (Err e) = Panic"
| "must r = r"

text \<open>A value that Go obtains with an \<open>ok\<close> flag.\<close>

fun of_option :: "err \<Rightarrow> 'a option \<Rightarrow> 'a result" where
  "of_option e None = Err e"
| "of_option e (Some x) = Ok x"

text \<open>A loop whose body can panic or return an error, threading an accumulator.\<close>

fun rfold :: "('x \<Rightarrow> 'a \<Rightarrow> 'a result) \<Rightarrow> 'x list \<Rightarrow> 'a \<Rightarrow> 'a result" where
  "rfold f [] a = Ok a"
| "rfold f (x # xs) a = rbind (f x a) (rfold f xs)"

named_theorems result_inv \<open>inversion of a computation that succeeded\<close>

lemma rbind_Ok_iff [result_inv]: "rbind r f = Ok y \<longleftrightarrow> (\<exists>x. r = Ok x \<and> f x = Ok y)"
  by (cases r) auto

lemma rwrap_Ok_iff [result_inv]: "rwrap e r = Ok x \<longleftrightarrow> r = Ok x"
  by (cases r) auto

lemma must_Ok_iff [result_inv]: "must r = Ok x \<longleftrightarrow> r = Ok x"
  by (cases r) auto

lemma of_option_Ok_iff [result_inv]: "of_option e r = Ok x \<longleftrightarrow> r = Some x"
  by (cases r) auto

lemma rbind_Panic_iff: "rbind r f = Panic \<longleftrightarrow> r = Panic \<or> (\<exists>x. r = Ok x \<and> f x = Panic)"
  by (cases r) auto

lemma rwrap_Err: "rwrap e r = Err e' \<Longrightarrow> e' = e"
  by (cases r) auto

lemma rfold_append: "rfold f (xs @ ys) a = rbind (rfold f xs a) (rfold f ys)"
proof (induction xs arbitrary: a)
  case (Cons x xs)
  then show ?case by (cases "f x a") auto
qed simp

text \<open>A guard that returns the error when the condition fails.\<close>

definition check :: "bool \<Rightarrow> err \<Rightarrow> unit result" where
  "check b e = (if b then Ok () else Err e)"

section \<open>Handlers\<close>

type_synonym ('s, 'a) M = "'s \<Rightarrow> 'a result \<times> 's"

definition ret :: "'a \<Rightarrow> ('s, 'a) M" where
  "ret x s = (Ok x, s)"

definition throw :: "err \<Rightarrow> ('s, 'a) M" where
  "throw e s = (Err e, s)"

definition panic :: "('s, 'a) M" where
  "panic s = (Panic, s)"

definition liftR :: "'a result \<Rightarrow> ('s, 'a) M" where
  "liftR r s = (r, s)"

definition gets :: "('s \<Rightarrow> 'a) \<Rightarrow> ('s, 'a) M" where
  "gets f s = (Ok (f s), s)"

text \<open>A read that can fail.\<close>

definition getsR :: "('s \<Rightarrow> 'a result) \<Rightarrow> ('s, 'a) M" where
  "getsR f s = (f s, s)"

definition modify :: "('s \<Rightarrow> 's) \<Rightarrow> ('s, unit) M" where
  "modify f s = (Ok (), f s)"

definition bindM :: "('s, 'a) M \<Rightarrow> ('a \<Rightarrow> ('s, 'b) M) \<Rightarrow> ('s, 'b) M" where
  "bindM m f s = (case m s of (Ok x, t) \<Rightarrow> f x t | (Err e, t) \<Rightarrow> (Err e, t) | (Panic, t) \<Rightarrow> (Panic, t))"

definition thenM :: "('s, unit) M \<Rightarrow> ('s, 'b) M \<Rightarrow> ('s, 'b) M" where
  "thenM m k = bindM m (\<lambda>_. k)"

definition wrapM :: "err \<Rightarrow> ('s, 'a) M \<Rightarrow> ('s, 'a) M" where
  "wrapM e m s = (let (r, t) = m s in (rwrap e r, t))"

text \<open>\<open>catchM m h\<close>: Go code that inspects the returned error and goes on; a panic is not caught.\<close>

definition catchM :: "('s, 'a) M \<Rightarrow> (err \<Rightarrow> ('s, 'a) M) \<Rightarrow> ('s, 'a) M" where
  "catchM m h s = (case m s of (Err e, t) \<Rightarrow> h e t | (r, t) \<Rightarrow> (r, t))"

text \<open>\<open>ignoreM m\<close>: a call whose error is dropped.\<close>

definition ignoreM :: "('s, unit) M \<Rightarrow> ('s, unit) M" where
  "ignoreM m = catchM m (\<lambda>_. ret ())"

fun foldM :: "('x \<Rightarrow> 'a \<Rightarrow> ('s, 'a) M) \<Rightarrow> 'x list \<Rightarrow> 'a \<Rightarrow> ('s, 'a) M" where
  "foldM f [] a = ret a"
| "foldM f (x # xs) a = bindM (f x a) (foldM f xs)"

fun eachM :: "('x \<Rightarrow> ('s, unit) M) \<Rightarrow> 'x list \<Rightarrow> ('s, unit) M" where
  "eachM f [] = ret ()"
| "eachM f (x # xs) = thenM (f x) (eachM f xs)"

text \<open>A transaction whose message fails or panics is rolled back.\<close>

definition deliver :: "('s, 'a) M \<Rightarrow> 's \<Rightarrow> 's" where
  "deliver m s = (case m s of (Ok _, t) \<Rightarrow> t | _ \<Rightarrow> s)"

lemma deliver_Ok: "m s = (Ok x, t) \<Longrightarrow> deliver m s = t"
  by (simp add: deliver_def)

lemma deliver_keeps: "I s \<Longrightarrow> (\<And>x t. m s = (Ok x, t) \<Longrightarrow> I t) \<Longrightarrow> I (deliver m s)"
  by (auto simp: deliver_def split: prod.split result.split)

lemmas monad_defs = ret_def throw_def panic_def liftR_def gets_def getsR_def modify_def thenM_def wrapM_def
  catchM_def ignoreM_def

lemma ret_Ok_iff [result_inv]: "ret x s = (Ok y, t) \<longleftrightarrow> x = y \<and> s = t"
  by (auto simp: ret_def)

lemma throw_Ok_iff [result_inv]: "throw e s = (Ok y, t) \<longleftrightarrow> False"
  by (simp add: throw_def)

lemma panic_Ok_iff [result_inv]: "panic s = (Ok y, t) \<longleftrightarrow> False"
  by (simp add: panic_def)

lemma liftR_Ok_iff [result_inv]: "liftR r s = (Ok y, t) \<longleftrightarrow> r = Ok y \<and> s = t"
  by (auto simp: liftR_def)

lemma gets_Ok_iff [result_inv]: "gets f s = (Ok y, t) \<longleftrightarrow> f s = y \<and> s = t"
  by (auto simp: gets_def)

lemma getsR_Ok_iff [result_inv]: "getsR f s = (Ok y, t) \<longleftrightarrow> f s = Ok y \<and> s = t"
  by (auto simp: getsR_def)

lemma modify_Ok_iff [result_inv]: "modify f s = (Ok y, t) \<longleftrightarrow> f s = t"
  by (auto simp: modify_def)

lemma bindM_Ok_iff [result_inv]:
  "bindM m f s = (Ok y, t) \<longleftrightarrow> (\<exists>x u. m s = (Ok x, u) \<and> f x u = (Ok y, t))"
  by (auto simp: bindM_def split: prod.splits result.splits)

lemma thenM_Ok_iff [result_inv]:
  "thenM m k s = (Ok y, t) \<longleftrightarrow> (\<exists>u. m s = (Ok (), u) \<and> k u = (Ok y, t))"
  by (auto simp: thenM_def bindM_Ok_iff)

lemma wrapM_Ok_iff [result_inv]: "wrapM e m s = (Ok y, t) \<longleftrightarrow> m s = (Ok y, t)"
  by (auto simp: wrapM_def Let_def rwrap_Ok_iff split: prod.splits)

lemma catch_panic_Ok [result_inv]: "catchM m (\<lambda>_. panic) s = (Ok x, t) \<longleftrightarrow> m s = (Ok x, t)"
  by (auto simp: catchM_def panic_def split: prod.splits result.splits)

lemma if_Ok_iff [result_inv]:
  "(if b then m else k) s = (Ok y, t) \<longleftrightarrow> (b \<and> m s = (Ok y, t)) \<or> (\<not> b \<and> k s = (Ok y, t))"
  by simp

lemma case_option_Ok_iff [result_inv]:
  "(case v of None \<Rightarrow> m | Some x \<Rightarrow> k x) s = (Ok y, t) \<longleftrightarrow>
     (v = None \<and> m s = (Ok y, t)) \<or> (\<exists>x. v = Some x \<and> k x s = (Ok y, t))"
  by (cases v) auto

lemma case_result_Ok_iff [result_inv]:
  "(case v of Ok x \<Rightarrow> k x | Err e \<Rightarrow> m e | Panic \<Rightarrow> n) s = (Ok y, t) \<longleftrightarrow>
     (\<exists>x. v = Ok x \<and> k x s = (Ok y, t)) \<or> (\<exists>e. v = Err e \<and> m e s = (Ok y, t)) \<or> (v = Panic \<and> n s = (Ok y, t))"
  by (cases v) auto

lemma case_prod_Ok_iff [result_inv]:
  "(case p of (a, b) \<Rightarrow> f a b) s = (Ok y, t) \<longleftrightarrow> (\<exists>a b. p = (a, b) \<and> f a b s = (Ok y, t))"
  by (cases p) auto

named_theorems op_inv \<open>the state a keeper operation that succeeded leaves\<close>

text \<open>Running a handler step by step, for evaluation at a known state.\<close>

named_theorems run \<open>evaluation of handlers\<close>

lemma bindM_run [run]:
  "m s = (Ok x, t) \<Longrightarrow> bindM m f s = f x t"
  "m s = (Err e, t) \<Longrightarrow> bindM m f s = (Err e, t)"
  "m s = (Panic, t) \<Longrightarrow> bindM m f s = (Panic, t)"
  by (simp_all add: bindM_def)

lemma bindM_prim [run]:
  "bindM (ret x) f s = f x s"
  "bindM (gets g) f s = f (g s) s"
  "bindM (modify h) k s = k () (h s)"
  "bindM (throw e) f s = (Err e, s)"
  "bindM panic f s = (Panic, s)"
  "bindM (liftR (Ok x)) f s = f x s"
  "bindM (liftR (Err e)) f s = (Err e, s)"
  "bindM (liftR Panic) f s = (Panic, s)"
  "q s = Ok y \<Longrightarrow> bindM (getsR q) f s = f y s"
  "q s = Err e \<Longrightarrow> bindM (getsR q) f s = (Err e, s)"
  by (simp_all add: bindM_def monad_defs)

lemma thenM_prim [run]:
  "thenM (ret ()) k s = k s"
  "thenM (modify h) k s = k (h s)"
  "thenM (throw e) k s = (Err e, s)"
  "thenM panic k s = (Panic, s)"
  by (simp_all add: thenM_def bindM_prim)

lemma bindM_assoc: "bindM (bindM m f) g = bindM m (\<lambda>x. bindM (f x) g)"
  by (rule ext) (auto simp: bindM_def split: prod.splits result.splits)

section \<open>Frames and invariants of handlers\<close>

definition preserves :: "('s \<Rightarrow> 'c) \<Rightarrow> ('s, 'a) M \<Rightarrow> bool" where
  "preserves f m \<longleftrightarrow> (\<forall>s. f (snd (m s)) = f s)"

definition keeps :: "('s \<Rightarrow> bool) \<Rightarrow> ('s, 'a) M \<Rightarrow> bool" where
  "keeps I m \<longleftrightarrow> (\<forall>s. I s \<longrightarrow> I (snd (m s)))"

named_theorems frame_intros \<open>which handlers leave a part of the state alone\<close>
named_theorems keeps_intros \<open>which handlers keep an invariant\<close>

lemma preservesD: "preserves f m \<Longrightarrow> m s = (r, t) \<Longrightarrow> f t = f s"
  unfolding preserves_def by (metis snd_conv)

lemma keepsD: "keeps I m \<Longrightarrow> m s = (r, t) \<Longrightarrow> I s \<Longrightarrow> I t"
  unfolding keeps_def by (metis snd_conv)

lemma keeps_snd: "keeps I m \<Longrightarrow> I s \<Longrightarrow> I (snd (m s))"
  by (simp add: keeps_def)

lemma keeps_of_preserves: "preserves f m \<Longrightarrow> keeps (\<lambda>s. P (f s)) m"
  by (simp add: preserves_def keeps_def)

lemma preserves_prim [frame_intros]:
  "preserves f (ret x)" "preserves f (throw e)" "preserves f panic" "preserves f (liftR r)"
  "preserves f (gets g)" "preserves f (getsR h)"
  by (simp_all add: preserves_def monad_defs)

lemma preserves_modify [frame_intros]: "(\<And>s. f (h s) = f s) \<Longrightarrow> preserves f (modify h)"
  by (simp add: preserves_def modify_def)

lemma preserves_bindM [frame_intros]:
  "preserves f m \<Longrightarrow> (\<And>x. preserves f (k x)) \<Longrightarrow> preserves f (bindM m k)"
  unfolding preserves_def bindM_def
  by (auto split: prod.splits result.splits) (metis snd_conv)+

lemma preserves_thenM [frame_intros]:
  "preserves f m \<Longrightarrow> preserves f k \<Longrightarrow> preserves f (thenM m k)"
  by (simp add: thenM_def preserves_bindM)

lemma preserves_wrapM [frame_intros]: "preserves f m \<Longrightarrow> preserves f (wrapM e m)"
  by (auto simp: preserves_def wrapM_def Let_def split: prod.splits) (metis snd_conv)

lemma preserves_catchM [frame_intros]:
  "preserves f m \<Longrightarrow> (\<And>e. preserves f (h e)) \<Longrightarrow> preserves f (catchM m h)"
  unfolding preserves_def catchM_def
  by (auto split: prod.splits result.splits) (metis snd_conv)+

lemma preserves_ignoreM [frame_intros]: "preserves f m \<Longrightarrow> preserves f (ignoreM m)"
  by (simp add: ignoreM_def preserves_catchM preserves_prim)

lemma preserves_if [frame_intros]:
  "(b \<Longrightarrow> preserves f m) \<Longrightarrow> (\<not> b \<Longrightarrow> preserves f k) \<Longrightarrow> preserves f (if b then m else k)"
  by simp

lemma preserves_let [frame_intros]: "(\<And>x. preserves f (k x)) \<Longrightarrow> preserves f (let x = v in k x)"
  by simp

lemma preserves_case_prod [frame_intros]:
  "(\<And>a b. preserves f (k a b)) \<Longrightarrow> preserves f (case p of (a, b) \<Rightarrow> k a b)"
  by (cases p) simp

lemma preserves_case_option [frame_intros]:
  "preserves f m \<Longrightarrow> (\<And>x. preserves f (k x)) \<Longrightarrow> preserves f (case v of None \<Rightarrow> m | Some x \<Rightarrow> k x)"
  by (cases v) simp_all

lemma preserves_foldM [frame_intros]:
  "(\<And>x a. preserves f (g x a)) \<Longrightarrow> preserves f (foldM g xs a)"
  by (induction xs arbitrary: a) (simp_all add: preserves_prim preserves_bindM)

lemma preserves_eachM [frame_intros]: "(\<And>x. preserves f (g x)) \<Longrightarrow> preserves f (eachM g xs)"
  by (induction xs) (simp_all add: preserves_prim preserves_thenM)

lemma keeps_prim [keeps_intros]:
  "keeps I (ret x)" "keeps I (throw e)" "keeps I panic" "keeps I (liftR r)" "keeps I (gets g)"
  "keeps I (getsR h)"
  by (simp_all add: keeps_def monad_defs)

lemma keeps_bindM [keeps_intros]:
  "keeps I m \<Longrightarrow> (\<And>x. keeps I (k x)) \<Longrightarrow> keeps I (bindM m k)"
  unfolding keeps_def bindM_def
  by (auto split: prod.splits result.splits)

lemma keeps_thenM [keeps_intros]: "keeps I m \<Longrightarrow> keeps I k \<Longrightarrow> keeps I (thenM m k)"
  by (simp add: thenM_def keeps_bindM)

lemma keeps_wrapM [keeps_intros]: "keeps I m \<Longrightarrow> keeps I (wrapM e m)"
  unfolding keeps_def wrapM_def Let_def
  by (auto split: prod.splits)

lemma keeps_catchM [keeps_intros]:
  "keeps I m \<Longrightarrow> (\<And>e. keeps I (h e)) \<Longrightarrow> keeps I (catchM m h)"
  unfolding keeps_def catchM_def
  by (auto split: prod.splits result.splits)

lemma keeps_ignoreM [keeps_intros]: "keeps I m \<Longrightarrow> keeps I (ignoreM m)"
  by (simp add: ignoreM_def keeps_catchM keeps_prim)

lemma keeps_if [keeps_intros]:
  "(b \<Longrightarrow> keeps I m) \<Longrightarrow> (\<not> b \<Longrightarrow> keeps I k) \<Longrightarrow> keeps I (if b then m else k)"
  by simp

lemma keeps_let [keeps_intros]: "(\<And>x. keeps I (k x)) \<Longrightarrow> keeps I (let x = v in k x)"
  by simp

lemma keeps_case_prod [keeps_intros]:
  "(\<And>a b. keeps I (k a b)) \<Longrightarrow> keeps I (case p of (a, b) \<Rightarrow> k a b)"
  by (cases p) simp

lemma keeps_case_option [keeps_intros]:
  "keeps I m \<Longrightarrow> (\<And>x. keeps I (k x)) \<Longrightarrow> keeps I (case v of None \<Rightarrow> m | Some x \<Rightarrow> k x)"
  by (cases v) simp_all

lemma keeps_eachM [keeps_intros]: "(\<And>x. keeps I (g x)) \<Longrightarrow> keeps I (eachM g xs)"
  by (induction xs) (simp_all add: keeps_prim keeps_thenM)

text \<open>
  \<open>yields I R m\<close>: \<open>m\<close> keeps the invariant \<open>I\<close> on every outcome, errors and panics included,
  and what it returns from a state in \<open>I\<close> satisfies \<open>R\<close>.
\<close>

definition yields :: "('s \<Rightarrow> bool) \<Rightarrow> ('a \<Rightarrow> bool) \<Rightarrow> ('s, 'a) M \<Rightarrow> bool" where
  "yields I R m \<longleftrightarrow> (\<forall>s. I s \<longrightarrow> I (snd (m s)) \<and> (\<forall>x t. m s = (Ok x, t) \<longrightarrow> R x))"

named_theorems yields_intros \<open>which handlers keep an invariant and what they return\<close>

lemma yieldsD: "yields I R m \<Longrightarrow> I s \<Longrightarrow> m s = (Ok x, t) \<Longrightarrow> I t \<and> R x"
  unfolding yields_def by (metis snd_conv)

lemma yields_True: "yields I (\<lambda>_. True) m \<longleftrightarrow> keeps I m"
  by (simp add: yields_def keeps_def)

lemma yields_weaken: "yields I R m \<Longrightarrow> (\<And>x. R x \<Longrightarrow> R' x) \<Longrightarrow> yields I R' m"
  unfolding yields_def by blast

lemma yields_prim [yields_intros]:
  "R x \<Longrightarrow> yields I R (ret x)"
  "yields I R (throw e)"
  "yields I R panic"
  by (simp_all add: yields_def monad_defs)

lemma yields_liftR [yields_intros]: "(\<And>x. r = Ok x \<Longrightarrow> R x) \<Longrightarrow> yields I R (liftR r)"
  by (simp add: yields_def monad_defs)

lemma yields_gets [yields_intros]: "(\<And>s. I s \<Longrightarrow> R (f s)) \<Longrightarrow> yields I R (gets f)"
  by (simp add: yields_def monad_defs)

lemma yields_getsR [yields_intros]: "(\<And>s x. I s \<Longrightarrow> f s = Ok x \<Longrightarrow> R x) \<Longrightarrow> yields I R (getsR f)"
  by (simp add: yields_def monad_defs)

lemma yields_modify [yields_intros]: "(\<And>s. I s \<Longrightarrow> I (f s)) \<Longrightarrow> R () \<Longrightarrow> yields I R (modify f)"
  by (simp add: yields_def monad_defs)

lemma yields_bindM:
  assumes "yields I R m" and "\<And>x. R x \<Longrightarrow> yields I Q (k x)"
  shows "yields I Q (bindM m k)"
  unfolding yields_def
proof (intro allI impI)
  fix s assume s: "I s"
  obtain r t where m: "m s = (r, t)" by (cases "m s")
  have t: "I t" using assms(1) s m unfolding yields_def by (metis snd_conv)
  show "I (snd (bindM m k s)) \<and> (\<forall>x u. bindM m k s = (Ok x, u) \<longrightarrow> Q x)"
  proof (cases r)
    case (Ok x)
    then have "R x" using assms(1) s m unfolding yields_def by blast
    then show ?thesis using assms(2) [of x] t m Ok unfolding yields_def bindM_def by simp
  qed (use m t in \<open>simp_all add: bindM_def\<close>)
qed

lemma yields_thenM [yields_intros]: "keeps I m \<Longrightarrow> yields I R k \<Longrightarrow> yields I R (thenM m k)"
  unfolding thenM_def by (rule yields_bindM [where R = "\<lambda>_. True"]) (simp_all add: yields_True)

lemma yields_if [yields_intros]:
  "(b \<Longrightarrow> yields I R m) \<Longrightarrow> (\<not> b \<Longrightarrow> yields I R k) \<Longrightarrow> yields I R (if b then m else k)"
  by simp

lemma yields_foldM:
  assumes "\<And>x a. x \<in> set xs \<Longrightarrow> R a \<Longrightarrow> yields I R (f x a)" and "R a"
  shows "yields I R (foldM f xs a)"
  using assms
proof (induction xs arbitrary: a)
  case (Cons x xs)
  have "yields I R (bindM (f x a) (foldM f xs))"
    by (rule yields_bindM [where R = R]) (use Cons in auto)
  then show ?case by simp
qed (simp add: yields_prim)

lemma keeps_each:
  assumes "\<And>x. x \<in> set xs \<Longrightarrow> keeps I (g x)"
  shows "keeps I (eachM g xs)"
  using assms by (induction xs) (simp_all add: keeps_prim keeps_thenM)

lemma keeps_bind:
  assumes "yields I R m" and "\<And>x. R x \<Longrightarrow> keeps I (k x)"
  shows "keeps I (bindM m k)"
  using yields_bindM [of I R m "\<lambda>_. True" k] assms by (simp add: yields_True)

lemma rfold_inv:
  assumes "rfold f xs a = Ok b" and "R a" and "\<And>x a b. x \<in> set xs \<Longrightarrow> R a \<Longrightarrow> f x a = Ok b \<Longrightarrow> R b"
  shows "R b"
  using assms
proof (induction xs arbitrary: a)
  case (Cons x xs)
  then obtain c where "f x a = Ok c" "rfold f xs c = Ok b" by (auto simp: rbind_Ok_iff)
  with Cons show ?case by (meson list.set_intros)
qed simp

section \<open>Go's 64-bit conversions and truncated division\<close>

text \<open>\<open>int64(x)\<close>, \<open>uint64(x)\<close> and 64-bit arithmetic: two's complement wrap-around.\<close>

definition to_i64 :: "int \<Rightarrow> int" where
  "to_i64 x = (x + 2 ^ 63) mod 2 ^ 64 - 2 ^ 63"

definition to_u64 :: "int \<Rightarrow> int" where
  "to_u64 x = x mod 2 ^ 64"

lemma to_i64_id: "- (2 ^ 63) \<le> x \<Longrightarrow> x < 2 ^ 63 \<Longrightarrow> to_i64 x = x"
  by (simp add: to_i64_def)

lemma to_u64_id: "0 \<le> x \<Longrightarrow> x < 2 ^ 64 \<Longrightarrow> to_u64 x = x"
  by (simp add: to_u64_def)

lemma to_i64_range: "- (2 ^ 63) \<le> to_i64 x \<and> to_i64 x < 2 ^ 63"
  unfolding to_i64_def using pos_mod_bound [of "2 ^ 64" "x + 2 ^ 63"] pos_mod_sign [of "2 ^ 64" "x + 2 ^ 63"]
  by simp

lemma to_i64_add: "to_i64 (to_i64 x + y) = to_i64 (x + y)"
proof -
  have "to_i64 x + y + 2 ^ 63 = (x + 2 ^ 63) mod 2 ^ 64 + y" by (simp add: to_i64_def)
  then have "(to_i64 x + y + 2 ^ 63) mod 2 ^ 64 = (x + 2 ^ 63 + y) mod 2 ^ 64" by (simp only: mod_add_left_eq)
  then show ?thesis unfolding to_i64_def [of "to_i64 x + y"] to_i64_def [of "x + y"] by (simp add: add_ac)
qed

text \<open>Go's \<open>/\<close> and \<open>%\<close> on integers and \<open>big.Int.Quo\<close> truncate towards zero.\<close>

definition tquo :: "int \<Rightarrow> int \<Rightarrow> int" where
  "tquo a b = sgn a * sgn b * (\<bar>a\<bar> div \<bar>b\<bar>)"

definition trem :: "int \<Rightarrow> int \<Rightarrow> int" where
  "trem a b = a - b * tquo a b"

lemma tquo_nonneg: "0 \<le> a \<Longrightarrow> 0 \<le> b \<Longrightarrow> tquo a b = a div b"
  by (cases "a = 0"; cases "b = 0") (auto simp: tquo_def sgn_if)

lemma trem_eq: "trem a b = sgn a * (\<bar>a\<bar> mod \<bar>b\<bar>)"
proof -
  have "b * sgn b = \<bar>b\<bar>"
    by (rule abs_sgn [symmetric])
  then have "b * tquo a b = sgn a * (\<bar>b\<bar> * (\<bar>a\<bar> div \<bar>b\<bar>))"
    unfolding tquo_def by (metis mult.assoc mult.left_commute)
  also have "\<dots> = sgn a * (\<bar>a\<bar> - \<bar>a\<bar> mod \<bar>b\<bar>)"
    by (simp only: minus_mod_eq_mult_div)
  finally show ?thesis
    by (simp add: trem_def right_diff_distrib sgn_mult_abs)
qed

lemma trem_eq_0_iff: "trem a b = 0 \<longleftrightarrow> b dvd a"
  by (cases "a = 0") (auto simp: trem_eq sgn_0_0 mod_eq_0_iff_dvd)

section \<open>Lists\<close>

lemma nth_filter: "map (\<lambda>i. xs ! i) (filter (\<lambda>i. P (xs ! i)) [0..<length xs]) = filter P xs"
proof -
  have "map (\<lambda>i. xs ! i) (filter (P \<circ> (\<lambda>i. xs ! i)) [0..<length xs]) = filter P (map (\<lambda>i. xs ! i) [0..<length xs])"
    by (rule filter_map [symmetric])
  then show ?thesis by (simp add: map_nth comp_def)
qed

section \<open>Keys\<close>

text \<open>A separator that does not occur in the first part makes a key unambiguous.\<close>

lemma sep_key_inj:
  assumes "c \<notin> set xs" and "c \<notin> set ys" and "xs @ c # us = ys @ c # vs"
  shows "xs = ys \<and> us = vs"
  using assms
proof (induction xs arbitrary: ys)
  case Nil
  then show ?case by (cases ys) auto
next
  case (Cons x xs)
  then show ?case by (cases ys) auto
qed

section \<open>Evaluation\<close>

text \<open>
  The simplifier would work on the rest of a handler before it knows what the handler continues
  with; these congruence rules make it run the first step first.
\<close>

lemma eval_cong:
  "s = t \<Longrightarrow> bindM m f s = bindM m f t"
  "s = t \<Longrightarrow> thenM m' k s = thenM m' k t"
  "r = r' \<Longrightarrow> rbind r g = rbind r' g"
  "b = b' \<Longrightarrow> (if b then x else y) = (if b' then x else y)"
  "v = v' \<Longrightarrow> Let v h = Let v' h"
  by simp_all

end
