(* ===== verification/KVStore.thy ===== *)
theory KVStore
  imports Prelude
begin

text \<open>
  The key-value store of a module (\<open>ctx.KVStore(k.storeKey)\<close>) as the keepers use it: get, set,
  delete and iteration over the keys in ascending byte order. A store holds the values of one key
  prefix, decoded; keys are byte strings built by the \<open>Get...Key\<close> functions of the modules.
  The locale \<open>kvstore\<close> is the interface the keepers rely on; the sorted association list below is
  the model, and the interpretation \<open>kv\<close> discharges the laws for it.
\<close>

section \<open>The interface\<close>

locale kvstore =
  fixes get :: "'m \<Rightarrow> 'k::linorder \<Rightarrow> 'v option"
    and put :: "'k \<Rightarrow> 'v \<Rightarrow> 'm \<Rightarrow> 'm"
    and del :: "'k \<Rightarrow> 'm \<Rightarrow> 'm"
    and entries :: "'m \<Rightarrow> ('k \<times> 'v) list"
    and wf :: "'m \<Rightarrow> bool"
  assumes get_put: "wf m \<Longrightarrow> get (put k v m) = (get m)(k \<mapsto> v)"
    and get_del: "wf m \<Longrightarrow> get (del k m) = (get m)(k := None)"
    and wf_put: "wf m \<Longrightarrow> wf (put k v m)"
    and wf_del: "wf m \<Longrightarrow> wf (del k m)"
    and entries_get: "wf m \<Longrightarrow> map_of (entries m) = get m"
    and entries_ordered: "wf m \<Longrightarrow> sorted_wrt (<) (map fst (entries m))"
begin

text \<open>What a keeper obtains by summing over an iterator.\<close>

definition total :: "('k \<Rightarrow> 'v \<Rightarrow> 'n::comm_monoid_add) \<Rightarrow> 'm \<Rightarrow> 'n" where
  "total f m = sum_list (map (\<lambda>(k, v). f k v) (entries m))"

lemma entries_distinct: "wf m \<Longrightarrow> distinct (map fst (entries m))"
  using entries_ordered strict_sorted_iff by blast

lemma finite_dom: "wf m \<Longrightarrow> finite (dom (get m))"
  using finite_dom_map_of [of "entries m"] by (simp add: entries_get)

lemma in_entries_iff: "wf m \<Longrightarrow> (k, v) \<in> set (entries m) \<longleftrightarrow> get m k = Some v"
  using entries_distinct [of m] by (simp add: map_of_eq_Some_iff [symmetric] entries_get)

lemma total_dom: "wf m \<Longrightarrow> total f m = (\<Sum>k\<in>dom (get m). f k (the (get m k)))"
proof -
  assume wf: "wf m"
  have d: "distinct (entries m)"
    using entries_distinct [OF wf] by (rule distinct_map [THEN iffD1, THEN conjunct1])
  have inj: "inj_on fst (set (entries m))"
    using entries_distinct [OF wf] by (simp add: distinct_map)
  have "total f m = (\<Sum>(k, v)\<in>set (entries m). f k v)"
    using d by (simp add: total_def sum_list_distinct_conv_sum_set)
  also have "\<dots> = (\<Sum>(k, v)\<in>set (entries m). f k (the (get m k)))"
    by (rule sum.cong) (auto simp: in_entries_iff [OF wf])
  also have "\<dots> = (\<Sum>k\<in>fst ` set (entries m). f k (the (get m k)))"
    using sum.reindex [OF inj, of "\<lambda>k. f k (the (get m k))"] by (simp add: case_prod_unfold)
  also have "fst ` set (entries m) = dom (get m)"
    using dom_map_of_conv_image_fst [of "entries m"] by (simp add: entries_get [OF wf])
  finally show ?thesis .
qed

lemma total_put:
  assumes wf: "wf m"
  shows "total f (put k v m) = total f (del k m) + f k v"
proof -
  let ?D = "dom (get m) - {k}"
  have "total f (put k v m) = (\<Sum>j\<in>insert k ?D. f j (the (((get m)(k \<mapsto> v)) j)))"
    by (simp add: total_dom wf wf_put get_put)
  also have "\<dots> = f k v + (\<Sum>j\<in>?D. f j (the (((get m)(k \<mapsto> v)) j)))"
    using finite_dom [OF wf] by (subst sum.insert) auto
  also have "(\<Sum>j\<in>?D. f j (the (((get m)(k \<mapsto> v)) j))) = (\<Sum>j\<in>?D. f j (the (get m j)))"
    by (rule sum.cong) auto
  also have "\<dots> = total f (del k m)"
    using wf by (auto simp: total_dom wf_del get_del intro: sum.cong)
  finally show ?thesis by (simp add: add.commute)
qed

lemma total_del:
  assumes wf: "wf m"
  shows "total f m = total f (del k m) + (case get m k of None \<Rightarrow> 0 | Some v \<Rightarrow> f k v)"
proof (cases "get m k")
  case None
  then have "(get m)(k := None) = get m" by auto
  with None wf show ?thesis by (simp add: total_dom wf_del get_del)
next
  case (Some v)
  have "total f m = (\<Sum>j\<in>insert k (dom (get m) - {k}). f j (the (get m j)))"
    using Some wf by (simp add: total_dom insert_absorb domI)
  also have "\<dots> = f k v + (\<Sum>j\<in>dom (get m) - {k}. f j (the (get m j)))"
    using finite_dom [OF wf] Some by (subst sum.insert) auto
  also have "(\<Sum>j\<in>dom (get m) - {k}. f j (the (get m j))) = total f (del k m)"
    using wf by (auto simp: total_dom wf_del get_del intro: sum.cong)
  finally show ?thesis using Some by (simp add: add.commute)
qed

end

section \<open>The model: a sorted association list\<close>

type_synonym 'v kv = "(string \<times> 'v) list"

definition kv_get :: "'v kv \<Rightarrow> string \<Rightarrow> 'v option" where
  "kv_get m k = map_of m k"

fun kv_put :: "string \<Rightarrow> 'v \<Rightarrow> 'v kv \<Rightarrow> 'v kv" where
  "kv_put k v [] = [(k, v)]"
| "kv_put k v ((j, w) # m) =
     (if k < j then (k, v) # (j, w) # m
      else if k = j then (k, v) # m
      else (j, w) # kv_put k v m)"

definition kv_del :: "string \<Rightarrow> 'v kv \<Rightarrow> 'v kv" where
  "kv_del k m = filter (\<lambda>e. fst e \<noteq> k) m"

definition kv_values :: "'v kv \<Rightarrow> 'v list" where
  "kv_values m = map snd m"

text \<open>\<open>sdk.KVStorePrefixIterator\<close>: the values under the keys with a given prefix, in key order.\<close>

definition kv_prefix :: "string \<Rightarrow> 'v kv \<Rightarrow> 'v list" where
  "kv_prefix p m = map snd (filter (\<lambda>e. prefix p (fst e)) m)"

definition kv_wf :: "'v kv \<Rightarrow> bool" where
  "kv_wf m \<longleftrightarrow> sorted_wrt (<) (map fst m)"

lemma kv_put_keys: "fst ` set (kv_put k v m) = insert k (fst ` set m)"
  by (induction k v m rule: kv_put.induct) auto

lemma kv_put_wf: "kv_wf m \<Longrightarrow> kv_wf (kv_put k v m)"
proof (induction k v m rule: kv_put.induct)
  case (2 k v j w m)
  have keys: "set (map fst (kv_put k v m)) = insert k (set (map fst m))"
    using kv_put_keys [of k v m] by simp
  show ?case
    using 2 keys by (auto simp: kv_wf_def)
qed (simp add: kv_wf_def)

lemma kv_put_get: "kv_wf m \<Longrightarrow> map_of (kv_put k v m) = (map_of m)(k \<mapsto> v)"
proof (induction k v m rule: kv_put.induct)
  case (2 k v j w m)
  have "kv_wf m" using "2.prems" by (simp add: kv_wf_def)
  with "2.IH" show ?case by (auto simp: fun_upd_twist)
qed simp

lemma kv_del_get: "map_of (kv_del k m) = (map_of m)(k := None)"
  by (induction m) (auto simp: kv_del_def)

lemma kv_del_wf: "kv_wf m \<Longrightarrow> kv_wf (kv_del k m)"
  unfolding kv_wf_def kv_del_def by (induction m) auto

lemma kv_get_fun: "kv_get m = map_of m"
  by (rule ext) (simp add: kv_get_def)

lemma kv_wf_sorted: "kv_wf m \<Longrightarrow> sorted_wrt (<) (map fst m)"
  by (simp add: kv_wf_def)

interpretation kv: kvstore kv_get kv_put kv_del "\<lambda>m. m" kv_wf
  by unfold_locales
    (simp_all add: kv_get_fun kv_put_get kv_del_get kv_put_wf kv_del_wf kv_wf_sorted)

lemmas kv_simps [simp] = kv.get_put kv.get_del kv.wf_put kv.wf_del

lemma kv_wf_Nil [simp]: "kv_wf []"
  by (simp add: kv_wf_def)

lemma kv_get_Nil [simp]: "kv_get [] k = None"
  by (simp add: kv_get_def)

lemma kv_values_total: "sum_list (map f (kv_values m)) = kv.total (\<lambda>_. f) m"
  by (simp add: kv.total_def kv_values_def case_prod_unfold comp_def)

lemma kv_values_set: "kv_wf m \<Longrightarrow> v \<in> set (kv_values m) \<longleftrightarrow> (\<exists>k. kv_get m k = Some v)"
  using kv.in_entries_iff [of m] by (force simp: kv_values_def)

lemma kv_del_absent: "kv_get m k = None \<Longrightarrow> kv_del k m = m"
  unfolding kv_get_def kv_del_def map_of_eq_None_iff by (auto simp: filter_id_conv)

lemma kv_put_twice: "kv_wf m \<Longrightarrow> kv_put k v (kv_put k w m) = kv_put k v m"
  by (induction k w m rule: kv_put.induct) (auto simp: kv_wf_def)

lemma kv_total_zero: "kv_wf m \<Longrightarrow> (\<And>k v. kv_get m k = Some v \<Longrightarrow> f k v = (0 :: nat)) \<Longrightarrow> kv.total f m = 0"
  by (subst kv.total_dom) (auto intro!: sum.neutral)

lemma kv_put_last: "\<forall>e \<in> set m. fst e < k \<Longrightarrow> kv_put k v m = m @ [(k, v)]"
  by (induction k v m rule: kv_put.induct) auto

text \<open>Storing values in ascending order of their keys appends them.\<close>

lemma fold_kv_put: "sorted_wrt (<) (map fst m @ map f vs) \<Longrightarrow>
    fold (\<lambda>v. kv_put (f v) v) vs m = m @ map (\<lambda>v. (f v, v)) vs"
proof (induction vs arbitrary: m)
  case (Cons v vs)
  have "kv_put (f v) v m = m @ [(f v, v)]"
    using Cons.prems by (intro kv_put_last) (auto simp: sorted_wrt_append)
  then show ?case using Cons.IH [of "m @ [(f v, v)]"] Cons.prems by simp
qed simp

end
