(* ===== verification/Sdk.thy ===== *)
theory Sdk
  imports Complex_Main KVStore
begin

text \<open>
  The Cosmos SDK as the modules see it. The SDK is not part of the repository, so each of its
  operations that can round, overflow, fail or move coins is a field of the record \<open>sdk\<close>, an
  argument \<open>S\<close> of every definition that calls it, and what the modules rely on are the named
  assumptions of the locale \<open>sdk_laws\<close>: the documented behaviour of \<open>sdk.Uint\<close> (256 bits,
  panics outside), of \<open>sdk.Dec\<close> (18 decimals, rounding within half a unit of the last decimal
  for products and less than one unit for quotients) and of the bank keeper (a transfer that
  succeeds moves exactly the coins named). Only values are fixed: an \<open>sdk.Uint\<close> is its natural
  number, an \<open>sdk.Int\<close> its integer, an \<open>sdk.Dec\<close> the integer \<open>Dec.BigInt()\<close> (the value times
  \<open>10^18\<close>), an account address its Bech32 string and the bank the balance of every account in
  every denomination; comparisons and conversions that cannot fail act on these values.

  \<open>sdk_ref\<close> is an instance that satisfies the laws (banker's rounding, exact transfers); the
  interpretation \<open>ref\<close> proves it and the witnesses of the properties use it.
\<close>

section \<open>Values\<close>

type_synonym coin = "string \<times> nat"
type_synonym bank = "string \<Rightarrow> string \<Rightarrow> nat"

abbreviation dec_one :: int where
  "dec_one \<equiv> 10 ^ 18"

text \<open>\<open>sdk.NewDec\<close> and \<open>sdk.NewDecFromBigInt\<close>.\<close>

definition new_dec :: "int \<Rightarrow> int" where
  "new_dec n = n * dec_one"

text \<open>The amount of a denomination in a list of coins.\<close>

definition amount_of :: "coin list \<Rightarrow> string \<Rightarrow> nat" where
  "amount_of cs d = sum_list (map snd (filter (\<lambda>c. fst c = d) cs))"

definition has_balance :: "bank \<Rightarrow> string \<Rightarrow> coin \<Rightarrow> bool" where
  "has_balance b a c \<longleftrightarrow> snd c \<le> b a (fst c)"

text \<open>The bank after the coins \<open>cs\<close> went from one account to another.\<close>

definition move_coins :: "string \<Rightarrow> string \<Rightarrow> coin list \<Rightarrow> bank \<Rightarrow> bank" where
  "move_coins f t cs b =
     (\<lambda>a d. if f = t then b a d
            else if a = f then b a d - amount_of cs d
            else if a = t then b a d + amount_of cs d
            else b a d)"

lemma amount_of_Nil [simp]: "amount_of [] d = 0"
  by (simp add: amount_of_def)

lemma amount_of_Cons [simp]: "amount_of ((d', n) # cs) d = (if d' = d then n else 0) + amount_of cs d"
  by (simp add: amount_of_def)

section \<open>The interface\<close>

record sdk =
  uint_add :: "nat \<Rightarrow> nat \<Rightarrow> nat result"
  uint_sub :: "nat \<Rightarrow> nat \<Rightarrow> nat result"
  uint_mul :: "nat \<Rightarrow> nat \<Rightarrow> nat result"
  uint_quo :: "nat \<Rightarrow> nat \<Rightarrow> nat result"
  uint_of_big :: "int \<Rightarrow> nat result"       \<comment> \<open>\<open>sdk.NewUintFromBigInt\<close>\<close>
  int_of_uint :: "nat \<Rightarrow> int option"       \<comment> \<open>\<open>sdk.NewIntFromString\<close> of the digits of a \<open>Uint\<close>\<close>
  int_of_str :: "string \<Rightarrow> int option"     \<comment> \<open>\<open>sdk.NewIntFromString\<close>\<close>
  int_add :: "int \<Rightarrow> int \<Rightarrow> int result"
  int_sub :: "int \<Rightarrow> int \<Rightarrow> int result"
  dec_add :: "int \<Rightarrow> int \<Rightarrow> int result"
  dec_sub :: "int \<Rightarrow> int \<Rightarrow> int result"
  dec_mul :: "int \<Rightarrow> int \<Rightarrow> int result"
  dec_quo :: "int \<Rightarrow> int \<Rightarrow> int result"
  dec_mul_truncate :: "int \<Rightarrow> int \<Rightarrow> int result"
  dec_quo_truncate :: "int \<Rightarrow> int \<Rightarrow> int result"
  dec_power :: "int \<Rightarrow> int \<Rightarrow> int result"
  dec_round :: "int \<Rightarrow> int result"         \<comment> \<open>\<open>Dec.RoundInt\<close>\<close>
  dec_truncate :: "int \<Rightarrow> int result"      \<comment> \<open>\<open>Dec.TruncateInt\<close>\<close>
  dec_of_str :: "string \<Rightarrow> int result"     \<comment> \<open>\<open>sdk.NewDecFromStr\<close>\<close>
  dec_of_digits :: "int \<Rightarrow> int result"     \<comment> \<open>\<open>sdk.NewDecFromStr\<close> of the digits of an integer\<close>
  float_block_rate :: "int \<Rightarrow> int \<Rightarrow> int \<Rightarrow> int result"
    \<comment> \<open>float64 arithmetic of \<open>PolicyStart\<close>: governance rate, epochs, blocks\<close>
  dec_float :: "int \<Rightarrow> rat"                \<comment> \<open>the value of \<open>Dec.MustFloat64\<close>\<close>
  exp_decay :: "int \<Rightarrow> int \<Rightarrow> int result"  \<comment> \<open>float64 arithmetic of \<open>GetSQFromBlocks\<close>: \<open>e\<close> to the power of minus rate times blocks\<close>
  acc_from_bech32 :: "string \<Rightarrow> string option"
  module_address :: "string \<Rightarrow> string"
  valid_denom :: "string \<Rightarrow> bool"
  new_coin :: "string \<Rightarrow> int \<Rightarrow> coin result"  \<comment> \<open>\<open>sdk.NewCoin\<close>, with \<open>sdk.NewIntFromBigInt\<close> of the amount\<close>
  coin_add :: "coin \<Rightarrow> coin \<Rightarrow> coin result"
  coin_sub :: "coin \<Rightarrow> coin \<Rightarrow> coin result"
  new_coins :: "coin list \<Rightarrow> coin list result"
  coins_add :: "coin list \<Rightarrow> coin \<Rightarrow> coin list result"
  coins_plus :: "coin list \<Rightarrow> coin list \<Rightarrow> coin list result"  \<comment> \<open>\<open>Coins.Add\<close> of several coins\<close>
  coins_valid :: "coin list \<Rightarrow> bool"       \<comment> \<open>\<open>Coins.IsValid\<close>\<close>
  send_coins :: "string \<Rightarrow> string \<Rightarrow> coin list \<Rightarrow> bank \<Rightarrow> bank result"
  send_acc_to_mod :: "string \<Rightarrow> string \<Rightarrow> coin list \<Rightarrow> bank \<Rightarrow> bank result"
  send_mod_to_acc :: "string \<Rightarrow> string \<Rightarrow> coin list \<Rightarrow> bank \<Rightarrow> bank result"
  mint_coins :: "string \<Rightarrow> coin list \<Rightarrow> bank \<Rightarrow> bank result"
  burn_coins :: "string \<Rightarrow> coin list \<Rightarrow> bank \<Rightarrow> bank result"
  mint_params_validate :: "string \<Rightarrow> unit result"  \<comment> \<open>\<open>Params.Validate\<close> of the mint module\<close>
  filtered_paginate :: "nat \<Rightarrow> bool list \<Rightarrow> nat list"
    \<comment> \<open>\<open>query.FilteredPaginate\<close>: the positions of the first page, from the limit and which entries are hits\<close>

locale sdk_laws =
  fixes S :: sdk
  assumes uint_add: "uint_add S a b = (if a + b < 2 ^ 256 then Ok (a + b) else Panic)"
    and uint_sub: "uint_sub S a b = (if b \<le> a then Ok (a - b) else Panic)"
    and uint_mul: "uint_mul S a b = (if a * b < 2 ^ 256 then Ok (a * b) else Panic)"
    and uint_quo: "uint_quo S a b = (if b = 0 then Panic else Ok (a div b))"
    and uint_of_big: "uint_of_big S i = (if 0 \<le> i \<and> i < 2 ^ 256 then Ok (nat i) else Panic)"
    and int_of_uint: "int_of_uint S a = Some i \<Longrightarrow> i = int a"
    and int_of_uint_total: "a < 2 ^ 255 \<Longrightarrow> int_of_uint S a = Some (int a)"
    and int_add: "int_add S i j = Ok k \<Longrightarrow> k = i + j"
    and int_sub: "int_sub S i j = Ok k \<Longrightarrow> k = i - j"
    and dec_add: "dec_add S x y = Ok z \<Longrightarrow> z = x + y"
    and dec_add_total: "\<bar>x + y\<bar> < 2 ^ 314 \<Longrightarrow> dec_add S x y = Ok (x + y)"
    and dec_sub: "dec_sub S x y = Ok z \<Longrightarrow> z = x - y"
    and dec_sub_total: "\<bar>x - y\<bar> < 2 ^ 314 \<Longrightarrow> dec_sub S x y = Ok (x - y)"
    and dec_mul: "dec_mul S x y = Ok z \<Longrightarrow> 2 * \<bar>z * dec_one - x * y\<bar> \<le> dec_one"
    and dec_mul_total: "\<bar>x * y\<bar> < 2 ^ 314 * dec_one \<Longrightarrow> \<exists>z. dec_mul S x y = Ok z"
    and dec_mul_no_err: "dec_mul S x y \<noteq> Err e"
    and dec_quo: "dec_quo S x y = Ok z \<Longrightarrow> y \<noteq> 0 \<and> \<bar>z * y - x * dec_one\<bar> < \<bar>y\<bar>"
    and dec_quo_total: "y \<noteq> 0 \<Longrightarrow> \<bar>x * dec_one\<bar> < 2 ^ 314 * \<bar>y\<bar> \<Longrightarrow> \<exists>z. dec_quo S x y = Ok z"
    and dec_quo_zero: "dec_quo S x 0 = Panic"
    and dec_quo_no_err: "dec_quo S x y \<noteq> Err e"
    and dec_mul_truncate: "dec_mul_truncate S x y = Ok z \<Longrightarrow> z = tquo (x * y) dec_one"
    and dec_quo_truncate: "dec_quo_truncate S x y = Ok z \<Longrightarrow> y \<noteq> 0 \<and> z = tquo (x * dec_one) y"
    and dec_power_integer: "dec_power S (b * dec_one) n = Ok z \<Longrightarrow> 0 \<le> n \<Longrightarrow> z = b ^ nat n * dec_one"
    and dec_round: "dec_round S x = Ok i \<Longrightarrow> 2 * \<bar>i * dec_one - x\<bar> \<le> dec_one"
    and dec_round_total: "\<bar>x\<bar> < 2 ^ 254 * dec_one \<Longrightarrow> \<exists>i. dec_round S x = Ok i"
    and dec_truncate: "dec_truncate S x = Ok i \<Longrightarrow> i = tquo x dec_one"
    and dec_truncate_total: "\<bar>x\<bar> < 2 ^ 254 * dec_one \<Longrightarrow> dec_truncate S x = Ok (tquo x dec_one)"
    and dec_of_digits: "dec_of_digits S i = Ok x \<Longrightarrow> x = i * dec_one"
    and dec_of_digits_total: "\<bar>i\<bar> < 2 ^ 255 \<Longrightarrow> dec_of_digits S i = Ok (i * dec_one)"
    and dec_float_nonneg: "0 \<le> x \<Longrightarrow> 0 \<le> dec_float S x"
    and bech32_chars: "acc_from_bech32 S s = Some addr \<Longrightarrow> CHR ''_'' \<notin> set addr"
    and bech32_canonical: "acc_from_bech32 S s = Some addr \<Longrightarrow> acc_from_bech32 S addr = Some addr"
    and new_coin: "new_coin S d i = Ok c \<Longrightarrow> 0 \<le> i \<and> c = (d, nat i)"
    and new_coin_total: "valid_denom S d \<Longrightarrow> 0 \<le> i \<Longrightarrow> i < 2 ^ 255 \<Longrightarrow> new_coin S d i = Ok (d, nat i)"
    and coin_add: "coin_add S c c' = Ok c'' \<Longrightarrow> fst c = fst c' \<and> c'' = (fst c, snd c + snd c')"
    and coin_add_no_err: "coin_add S c c' \<noteq> Err e"
    and coin_sub: "coin_sub S c c' = Ok c'' \<Longrightarrow>
      fst c = fst c' \<and> snd c' \<le> snd c \<and> c'' = (fst c, snd c - snd c')"
    and new_coins: "new_coins S cs = Ok cs' \<Longrightarrow> amount_of cs' d = amount_of cs d"
    and coins_add: "coins_add S cs c = Ok cs' \<Longrightarrow> amount_of cs' d = amount_of (c # cs) d"
    and coins_plus: "coins_plus S cs cs' = Ok cs'' \<Longrightarrow> amount_of cs'' d = amount_of cs d + amount_of cs' d"
    and send_coins: "send_coins S addr addr' cs bk = Ok bk' \<Longrightarrow>
      (\<forall>d. amount_of cs d \<le> bk addr d) \<and> bk' = move_coins addr addr' cs bk"
    and send_acc_to_mod: "send_acc_to_mod S addr md cs bk = Ok bk' \<Longrightarrow>
      (\<forall>d. amount_of cs d \<le> bk addr d) \<and> bk' = move_coins addr (module_address S md) cs bk"
    and send_mod_to_acc: "send_mod_to_acc S md addr cs bk = Ok bk' \<Longrightarrow>
      (\<forall>d. amount_of cs d \<le> bk (module_address S md) d) \<and>
      bk' = move_coins (module_address S md) addr cs bk"
    and mint_coins: "mint_coins S md cs bk = Ok bk' \<Longrightarrow>
      bk' = bk(module_address S md := (\<lambda>d. bk (module_address S md) d + amount_of cs d))"
    and burn_coins: "burn_coins S md cs bk = Ok bk' \<Longrightarrow>
      (\<forall>d. amount_of cs d \<le> bk (module_address S md) d) \<and>
      bk' = bk(module_address S md := (\<lambda>d. bk (module_address S md) d - amount_of cs d))"
    and filtered_paginate: "limit < 2 ^ 64 - 1 \<Longrightarrow>
      filtered_paginate S limit hits = take limit (filter (\<lambda>i. hits ! i) [0..<length hits])"
    and paginate_hits: "pos \<in> set (filtered_paginate S limit hits) \<Longrightarrow> pos < length hits \<and> hits ! pos"
begin

lemmas uint_laws = uint_add uint_sub uint_mul uint_quo uint_of_big

lemma uint_Ok:
  "uint_add S a b = Ok c \<longleftrightarrow> c = a + b \<and> a + b < 2 ^ 256"
  "uint_sub S a b = Ok c \<longleftrightarrow> b \<le> a \<and> c = a - b"
  "uint_mul S a b = Ok c \<longleftrightarrow> c = a * b \<and> a * b < 2 ^ 256"
  "uint_quo S a b = Ok c \<longleftrightarrow> b \<noteq> 0 \<and> c = a div b"
  "uint_of_big S i = Ok c \<longleftrightarrow> 0 \<le> i \<and> i < 2 ^ 256 \<and> c = nat i"
  by (auto simp: uint_laws split: if_splits)

text \<open>An exact quotient is returned exactly, and quotients keep the sign.\<close>

lemma dec_quo_exact:
  assumes "dec_quo S x y = Ok z" and "x * dec_one = q * y"
  shows "z = q"
proof -
  from dec_quo [OF assms(1)] have y: "y \<noteq> 0" and "\<bar>z * y - q * y\<bar> < \<bar>y\<bar>"
    using assms(2) by simp_all
  then have "\<bar>z - q\<bar> * \<bar>y\<bar> < 1 * \<bar>y\<bar>"
    by (simp add: left_diff_distrib flip: abs_mult)
  then have "\<bar>z - q\<bar> < 1"
    using y by (simp only: mult_less_cancel_right)
  then show ?thesis by simp
qed

lemma dec_quo_nonneg:
  assumes q: "dec_quo S x y = Ok z" and "0 \<le> x" and "0 < y"
  shows "0 \<le> z"
proof (rule ccontr)
  assume "\<not> 0 \<le> z"
  then have "z \<le> -1" by simp
  then have "z * y \<le> -1 * y"
    using \<open>0 < y\<close> by (intro mult_right_mono) auto
  moreover have "0 \<le> x * dec_one" using \<open>0 \<le> x\<close> by simp
  ultimately have "\<bar>y\<bar> \<le> \<bar>z * y - x * dec_one\<bar>"
    using \<open>0 < y\<close> by linarith
  with dec_quo [OF q] show False by linarith
qed

lemma dec_mul_nonneg:
  assumes m: "dec_mul S x y = Ok z" and "0 \<le> x" and "0 \<le> y"
  shows "0 \<le> z"
proof (rule ccontr)
  assume "\<not> 0 \<le> z"
  then have "z * dec_one \<le> - dec_one" by simp
  moreover have "0 \<le> x * y" using assms(2,3) by simp
  ultimately have "dec_one \<le> \<bar>z * dec_one - x * y\<bar>" by linarith
  with dec_mul [OF m] show False by simp
qed

lemma dec_round_nonneg: "dec_round S x = Ok i \<Longrightarrow> 0 \<le> x \<Longrightarrow> 0 \<le> i"
  using dec_round [of x i] by simp

lemma dec_round_exact: "dec_round S (i * dec_one) = Ok j \<Longrightarrow> j = i"
  using dec_round [of "i * dec_one" j] by simp

lemma dec_quo_ge_one:
  assumes q: "dec_quo S x y = Ok z" and "0 < y" "y \<le> x"
  shows "dec_one \<le> z"
proof -
  have "\<bar>z * y - x * dec_one\<bar> < y" using dec_quo [OF q] assms(2) by simp
  then have "x * dec_one - y < z * y" by linarith
  moreover have "y * dec_one \<le> x * dec_one" using assms(3) by simp
  ultimately have "(dec_one - 1) * y < z * y" by (simp add: algebra_simps)
  then show ?thesis using assms(2) by (simp only: mult_less_cancel_right_pos)
qed

lemma dec_quo_le:
  assumes q: "dec_quo S x y = Ok z" and "dec_one \<le> y" "0 \<le> x"
  shows "z \<le> x"
proof (rule ccontr)
  assume "\<not> z \<le> x"
  then have z: "x + 1 \<le> z" by simp
  have y: "0 < y" using assms(2) by simp
  have "\<bar>z * y - x * dec_one\<bar> < y" using dec_quo [OF q] y by simp
  then have "z * y < x * dec_one + y" by linarith
  also have "\<dots> \<le> x * y + y" using assms(2,3) by (simp add: mult_left_mono)
  finally have "z * y < (x + 1) * y" by (simp add: distrib_right)
  with y z show False by (simp only: mult_less_cancel_right_pos)
qed

lemma dec_round_le:
  assumes r: "dec_round S x = Ok i" and "x \<le> n * dec_one"
  shows "i \<le> n"
proof -
  have "2 * \<bar>i * dec_one - x\<bar> \<le> dec_one" by (rule dec_round [OF r])
  then have "2 * (i * dec_one) \<le> 2 * x + dec_one" by (simp add: abs_if split: if_splits)
  with assms(2) show ?thesis by simp
qed

end

section \<open>An instance of the laws\<close>

text \<open>Division rounding half to even, as \<open>chopPrecisionAndRound\<close> is documented.\<close>

definition round_div :: "int \<Rightarrow> int \<Rightarrow> int" where
  "round_div n d =
     (let q = \<bar>n\<bar> div d; r = \<bar>n\<bar> mod d
      in sgn n * (if 2 * r < d \<or> 2 * r = d \<and> even q then q else q + 1))"

lemma round_div_error:
  assumes d: "0 < d"
  shows "2 * \<bar>round_div n d * d - n\<bar> \<le> d"
proof -
  define q r where "q = \<bar>n\<bar> div d" and "r = \<bar>n\<bar> mod d"
  have n: "\<bar>n\<bar> = q * d + r" and r: "0 \<le> r" "r < d"
    using d by (simp_all add: q_def r_def)
  define p where "p = (if 2 * r < d \<or> 2 * r = d \<and> even q then q else q + 1)"
  have "2 * \<bar>p * d - \<bar>n\<bar>\<bar> \<le> d"
    using n r by (auto simp: p_def algebra_simps)
  moreover have "round_div n d * d - n = sgn n * (p * d - \<bar>n\<bar>)"
    by (simp add: round_div_def Let_def p_def q_def r_def right_diff_distrib mult.assoc sgn_mult_abs)
  then have "\<bar>round_div n d * d - n\<bar> \<le> \<bar>p * d - \<bar>n\<bar>\<bar>"
    by (simp add: abs_mult sgn_if)
  ultimately show ?thesis by (meson mult_left_mono order_trans zero_le_numeral)
qed

lemma tquo_error: "b \<noteq> 0 \<Longrightarrow> \<bar>tquo a b * b - a\<bar> < \<bar>b\<bar>"
proof -
  assume b: "b \<noteq> 0"
  have "\<bar>tquo a b * b - a\<bar> = \<bar>trem a b\<bar>"
    by (simp add: trem_def abs_minus_commute mult.commute)
  also have "\<dots> \<le> \<bar>a\<bar> mod \<bar>b\<bar>"
    using b by (simp add: trem_eq abs_mult sgn_if)
  also have "\<dots> < \<bar>b\<bar>"
    using b by (intro pos_mod_bound) simp
  finally show ?thesis .
qed

definition fits :: "nat \<Rightarrow> int \<Rightarrow> int result" where
  "fits w z = (if \<bar>z\<bar> < 2 ^ w then Ok z else Panic)"

lemma fits_Ok: "fits w z = Ok y \<Longrightarrow> y = z"
  by (simp add: fits_def split: if_splits)

definition quo_ref :: "int \<Rightarrow> int \<Rightarrow> int result" where
  "quo_ref x y =
     (if y = 0 then Panic else fits 315 (round_div (tquo (x * 10 ^ 36) y) dec_one))"

lemma quo_ref_error:
  assumes y: "y \<noteq> 0"
  shows "\<bar>round_div (tquo (x * 10 ^ 36) y) dec_one * y - x * dec_one\<bar> < \<bar>y\<bar>"
proof -
  define t where "t = tquo (x * 10 ^ 36) y"
  define z where "z = round_div t dec_one"
  have t: "\<bar>t * y - x * 10 ^ 36\<bar> < \<bar>y\<bar>"
    using tquo_error [OF y] by (simp add: t_def)
  have "2 * \<bar>z * dec_one - t\<bar> \<le> dec_one"
    unfolding z_def by (rule round_div_error) simp
  then have "2 * (\<bar>z * dec_one - t\<bar> * \<bar>y\<bar>) \<le> dec_one * \<bar>y\<bar>"
    by (metis abs_ge_zero mult.assoc mult_right_mono)
  then have "2 * \<bar>z * dec_one * y - t * y\<bar> \<le> dec_one * \<bar>y\<bar>"
    by (simp add: abs_mult [symmetric] left_diff_distrib)
  with t have "\<bar>z * dec_one * y - x * 10 ^ 36\<bar> < dec_one * \<bar>y\<bar>"
    using y by simp
  also have "z * dec_one * y - x * 10 ^ 36 = dec_one * (z * y - x * dec_one)"
    by (simp add: algebra_simps)
  finally have "dec_one * \<bar>z * y - x * dec_one\<bar> < dec_one * \<bar>y\<bar>"
    by (simp only: abs_mult)  simp
  then show ?thesis
    by (simp add: z_def t_def)
qed

fun power_ref :: "int \<Rightarrow> nat \<Rightarrow> int result" where
  "power_ref x 0 = Ok dec_one"
| "power_ref x (Suc n) = rbind (power_ref x n) (\<lambda>y. fits 315 (round_div (y * x) dec_one))"

definition denom_ref :: "string \<Rightarrow> bool" where
  "denom_ref d \<longleftrightarrow> 3 \<le> length d \<and> length d \<le> 128"

definition new_coins_ref :: "coin list \<Rightarrow> coin list result" where
  "new_coins_ref cs =
     (let ds = filter (\<lambda>c. snd c \<noteq> 0) cs
      in if distinct (map fst ds) then Ok (sort_key fst ds) else Panic)"

fun coins_add_ref :: "coin list \<Rightarrow> coin \<Rightarrow> coin list" where
  "coins_add_ref [] (d, n) = (if n = 0 then [] else [(d, n)])"
| "coins_add_ref ((d', k) # cs) (d, n) =
     (if n = 0 then (d', k) # cs
      else if d < d' then (d, n) # (d', k) # cs
      else if d = d' then (d, k + n) # cs
      else (d', k) # coins_add_ref cs (d, n))"

definition send_ref :: "string \<Rightarrow> string \<Rightarrow> coin list \<Rightarrow> bank \<Rightarrow> bank result" where
  "send_ref f t cs b =
     (if list_all (\<lambda>c. amount_of cs (fst c) \<le> b f (fst c)) cs
      then Ok (move_coins f t cs b) else Err (ErrSdk ''insufficient funds''))"

definition coins_valid_ref :: "coin list \<Rightarrow> bool" where
  "coins_valid_ref cs \<longleftrightarrow> list_all (\<lambda>c. denom_ref (fst c) \<and> 0 < snd c) cs \<and> sorted_wrt (<) (map fst cs)"

text \<open>Decimal digits; the instance knows no sign and no underscores.\<close>

definition digit_value :: "char \<Rightarrow> int option" where
  "digit_value c = (let k = of_char c :: nat in if 48 \<le> k \<and> k \<le> 57 then Some (int (k - 48)) else None)"

fun digits_from :: "int \<Rightarrow> string \<Rightarrow> int option" where
  "digits_from acc [] = Some acc"
| "digits_from acc (c # cs) =
     (case digit_value c of None \<Rightarrow> None | Some k \<Rightarrow> digits_from (10 * acc + k) cs)"

definition digits_ref :: "string \<Rightarrow> int option" where
  "digits_ref s = (if s = [] then None else digits_from 0 s)"

definition mod_ref :: "string \<Rightarrow> string" where
  "mod_ref m = ''module/'' @ m"

definition sdk_ref :: sdk where
  "sdk_ref = \<lparr>
     uint_add = (\<lambda>a b. if a + b < 2 ^ 256 then Ok (a + b) else Panic),
     uint_sub = (\<lambda>a b. if b \<le> a then Ok (a - b) else Panic),
     uint_mul = (\<lambda>a b. if a * b < 2 ^ 256 then Ok (a * b) else Panic),
     uint_quo = (\<lambda>a b. if b = 0 then Panic else Ok (a div b)),
     uint_of_big = (\<lambda>i. if 0 \<le> i \<and> i < 2 ^ 256 then Ok (nat i) else Panic),
     int_of_uint = (\<lambda>a. if a < 2 ^ 255 then Some (int a) else None),
     int_of_str = digits_ref,
     int_add = (\<lambda>i j. fits 255 (i + j)),
     int_sub = (\<lambda>i j. fits 255 (i - j)),
     dec_add = (\<lambda>x y. fits 315 (x + y)),
     dec_sub = (\<lambda>x y. fits 315 (x - y)),
     dec_mul = (\<lambda>x y. fits 315 (round_div (x * y) dec_one)),
     dec_quo = quo_ref,
     dec_mul_truncate = (\<lambda>x y. fits 315 (tquo (x * y) dec_one)),
     dec_quo_truncate = (\<lambda>x y. if y = 0 then Panic else fits 315 (tquo (x * dec_one) y)),
     dec_power = (\<lambda>x n. power_ref x (nat n)),
     dec_round = (\<lambda>x. fits 255 (round_div x dec_one)),
     dec_truncate = (\<lambda>x. fits 255 (tquo x dec_one)),
     dec_of_str = (\<lambda>s. Err (ErrSdk ''decimal'')),
     dec_of_digits = (\<lambda>i. if \<bar>i\<bar> < 2 ^ 255 then Ok (i * dec_one) else Err (ErrSdk ''decimal'')),
     float_block_rate = (\<lambda>g e n. Ok 0),
     dec_float = (\<lambda>x. of_int x / 10 ^ 18),
     exp_decay = (\<lambda>r n. Ok 0),
     acc_from_bech32 = (\<lambda>s. if s = [] \<or> CHR ''_'' \<in> set s then None else Some s),
     module_address = mod_ref,
     valid_denom = denom_ref,
     new_coin = (\<lambda>d i. if denom_ref d \<and> 0 \<le> i then Ok (d, nat i) else Panic),
     coin_add = (\<lambda>c c'. if fst c = fst c' then Ok (fst c, snd c + snd c') else Panic),
     coin_sub = (\<lambda>c c'. if fst c = fst c' \<and> snd c' \<le> snd c then Ok (fst c, snd c - snd c') else Panic),
     new_coins = new_coins_ref,
     coins_add = (\<lambda>cs c. Ok (coins_add_ref cs c)),
     coins_plus = (\<lambda>cs cs'. Ok (foldl coins_add_ref cs cs')),
     coins_valid = coins_valid_ref,
     send_coins = send_ref,
     send_acc_to_mod = (\<lambda>a m. send_ref a (mod_ref m)),
     send_mod_to_acc = (\<lambda>m a. send_ref (mod_ref m) a),
     mint_coins = (\<lambda>m cs b. Ok (b(mod_ref m := (\<lambda>d. b (mod_ref m) d + amount_of cs d)))),
     burn_coins = (\<lambda>m cs b.
       if list_all (\<lambda>c. amount_of cs (fst c) \<le> b (mod_ref m) (fst c)) cs
       then Ok (b(mod_ref m := (\<lambda>d. b (mod_ref m) d - amount_of cs d)))
       else Err (ErrSdk ''insufficient funds'')),
     mint_params_validate = (\<lambda>p. Ok ()),
     filtered_paginate = (\<lambda>limit hits. take limit (filter (\<lambda>i. hits ! i) [0..<length hits]))\<rparr>"

text \<open>The fields of the instance, for evaluation.\<close>

lemma sdk_ref_sel:
  "uint_add sdk_ref a b = (if a + b < 2 ^ 256 then Ok (a + b) else Panic)"
  "uint_sub sdk_ref a b = (if b \<le> a then Ok (a - b) else Panic)"
  "uint_mul sdk_ref a b = (if a * b < 2 ^ 256 then Ok (a * b) else Panic)"
  "uint_quo sdk_ref a b = (if b = 0 then Panic else Ok (a div b))"
  "uint_of_big sdk_ref i = (if 0 \<le> i \<and> i < 2 ^ 256 then Ok (nat i) else Panic)"
  "int_of_uint sdk_ref a = (if a < 2 ^ 255 then Some (int a) else None)"
  "int_of_str sdk_ref str = digits_ref str"
  "int_add sdk_ref i j = fits 255 (i + j)"
  "int_sub sdk_ref i j = fits 255 (i - j)"
  "dec_add sdk_ref x y = fits 315 (x + y)"
  "dec_sub sdk_ref x y = fits 315 (x - y)"
  "dec_mul sdk_ref x y = fits 315 (round_div (x * y) dec_one)"
  "dec_quo sdk_ref x y = quo_ref x y"
  "dec_mul_truncate sdk_ref x y = fits 315 (tquo (x * y) dec_one)"
  "dec_quo_truncate sdk_ref x y = (if y = 0 then Panic else fits 315 (tquo (x * dec_one) y))"
  "dec_power sdk_ref x n = power_ref x (nat n)"
  "dec_round sdk_ref x = fits 255 (round_div x dec_one)"
  "dec_truncate sdk_ref x = fits 255 (tquo x dec_one)"
  "dec_of_str sdk_ref str = Err (ErrSdk ''decimal'')"
  "dec_of_digits sdk_ref i = (if \<bar>i\<bar> < 2 ^ 255 then Ok (i * dec_one) else Err (ErrSdk ''decimal''))"
  "float_block_rate sdk_ref g e k = Ok 0"
  "dec_float sdk_ref x = of_int x / 10 ^ 18"
  "exp_decay sdk_ref x y = Ok 0"
  "acc_from_bech32 sdk_ref str = (if str = [] \<or> CHR ''_'' \<in> set str then None else Some str)"
  "module_address sdk_ref m = mod_ref m"
  "valid_denom sdk_ref d = denom_ref d"
  "new_coin sdk_ref d i = (if denom_ref d \<and> 0 \<le> i then Ok (d, nat i) else Panic)"
  "coin_add sdk_ref c c' = (if fst c = fst c' then Ok (fst c, snd c + snd c') else Panic)"
  "coin_sub sdk_ref c c' = (if fst c = fst c' \<and> snd c' \<le> snd c then Ok (fst c, snd c - snd c') else Panic)"
  "new_coins sdk_ref cs = new_coins_ref cs"
  "coins_add sdk_ref cs c = Ok (coins_add_ref cs c)"
  "coins_plus sdk_ref cs cs' = Ok (foldl coins_add_ref cs cs')"
  "coins_valid sdk_ref cs = coins_valid_ref cs"
  "send_coins sdk_ref adr adr' = send_ref adr adr'"
  "send_acc_to_mod sdk_ref adr m = send_ref adr (mod_ref m)"
  "send_mod_to_acc sdk_ref m adr = send_ref (mod_ref m) adr"
  "mint_coins sdk_ref m cs bal = Ok (bal(mod_ref m := (\<lambda>d. bal (mod_ref m) d + amount_of cs d)))"
  "burn_coins sdk_ref m cs bal = (if list_all (\<lambda>c. amount_of cs (fst c) \<le> bal (mod_ref m) (fst c)) cs then Ok (bal(mod_ref m := (\<lambda>d. bal (mod_ref m) d - amount_of cs d))) else Err (ErrSdk ''insufficient funds''))"
  "mint_params_validate sdk_ref par = Ok ()"
  "filtered_paginate sdk_ref limit hits = take limit (filter (\<lambda>i. hits ! i) [0..<length hits])"
  by (simp_all add: sdk_ref_def)

lemma amount_of_absent: "list_all (\<lambda>c. amount_of cs (fst c) \<le> f (fst c)) cs \<Longrightarrow> amount_of cs d \<le> f d"
proof (cases "d \<in> fst ` set cs")
  case False
  then have "filter (\<lambda>c. fst c = d) cs = []" by (auto simp: filter_empty_conv)
  then show ?thesis by (simp add: amount_of_def)
qed (auto simp: list_all_iff)

lemma amount_of_insort: "amount_of (insort_key fst c cs) d = amount_of (c # cs) d"
  by (induction cs) (auto simp: amount_of_def)

lemma amount_of_sort: "amount_of (sort_key fst cs) d = amount_of cs d"
  by (induction cs) (auto simp: amount_of_insort simp del: amount_of_Cons, auto simp: amount_of_def)

lemma amount_of_nonzero: "amount_of (filter (\<lambda>c. 0 < snd c) cs) d = amount_of cs d"
  by (induction cs) (auto simp: amount_of_def)

lemma amount_of_coins_add: "amount_of (coins_add_ref cs c) d = amount_of (c # cs) d"
  by (induction cs c rule: coins_add_ref.induct) auto

lemma amount_of_coins_plus: "amount_of (foldl coins_add_ref cs cs') d = amount_of cs d + amount_of cs' d"
  by (induction cs' arbitrary: cs) (auto simp: amount_of_coins_add)

lemma round_div_exact: "0 < d \<Longrightarrow> round_div (k * d) d = k"
  by (simp add: round_div_def Let_def abs_mult sgn_mult sgn_mult_abs)

lemma power_ref_integer: "power_ref (b * dec_one) n = Ok z \<Longrightarrow> z = b ^ n * dec_one"
proof (induction n arbitrary: z)
  case (Suc n)
  from Suc.prems obtain y where y: "power_ref (b * dec_one) n = Ok y"
    and z: "fits 315 (round_div (y * (b * dec_one)) dec_one) = Ok z"
    by (auto simp: rbind_Ok_iff)
  have "y = b ^ n * dec_one" by (rule Suc.IH [OF y])
  then have "y * (b * dec_one) = (b ^ Suc n * dec_one) * dec_one" by (simp add: algebra_simps)
  moreover have "round_div ((b ^ Suc n * dec_one) * dec_one) dec_one = b ^ Suc n * dec_one"
    by (rule round_div_exact) simp
  ultimately have "round_div (y * (b * dec_one)) dec_one = b ^ Suc n * dec_one" by (simp only:)
  with z have "fits 315 (b ^ Suc n * dec_one) = Ok z" by (simp only:)
  then show ?case by (rule fits_Ok)
qed simp

lemma half_step: "2 * \<bar>x - n\<bar> \<le> d \<Longrightarrow> 0 < d \<Longrightarrow> \<bar>n\<bar> < k \<Longrightarrow> \<bar>x\<bar> < k + d"
  for x n d k :: int
  by (auto simp: abs_if split: if_splits)

lemma round_div_small:
  assumes "0 < d" and "\<bar>n\<bar> < m * d" and "0 \<le> m"
  shows "\<bar>round_div n d\<bar> < m + 1"
proof -
  have "2 * \<bar>round_div n d * d - n\<bar> \<le> d" using assms(1) by (rule round_div_error)
  then have "\<bar>round_div n d * d\<bar> < m * d + d"
    using assms(1,2) by (rule half_step)
  then have "\<bar>round_div n d * d\<bar> < (m + 1) * d"
    by (simp add: distrib_right)
  then have "\<bar>round_div n d\<bar> * d < (m + 1) * d"
    using assms(1) by (simp add: abs_mult)
  then show ?thesis using assms(1) by simp
qed


lemma dec_mul_fits: "\<bar>x\<bar> < 2 ^ 314 * dec_one \<Longrightarrow> \<bar>round_div x dec_one\<bar> < 2 ^ 315"
  using round_div_small [of dec_one x "2 ^ 314"] by simp

lemma quo_ref_fits:
  assumes y: "y \<noteq> 0" and x: "\<bar>x * dec_one\<bar> < 2 ^ 314 * \<bar>y\<bar>"
  shows "\<bar>round_div (tquo (x * 10 ^ 36) y) dec_one\<bar> < 2 ^ 315"
proof -
  let ?z = "round_div (tquo (x * 10 ^ 36) y) dec_one"
  have "\<bar>?z * y\<bar> < 2 ^ 314 * \<bar>y\<bar> + \<bar>y\<bar>"
    using quo_ref_error [OF y, of x] x by linarith
  then have "\<bar>?z\<bar> * \<bar>y\<bar> < (2 ^ 314 + 1) * \<bar>y\<bar>"
    by (simp add: abs_mult distrib_right)
  then have "\<bar>?z\<bar> < 2 ^ 314 + 1"
    using y by (simp only: mult_less_cancel_right)
  then show ?thesis by simp
qed

lemma tquo_fits: "\<bar>x\<bar> < 2 ^ 254 * dec_one \<Longrightarrow> \<bar>tquo x dec_one\<bar> < 2 ^ 255"
  using tquo_error [of dec_one x] by simp

interpretation ref: sdk_laws sdk_ref
proof unfold_locales
  show "\<exists>z. dec_quo sdk_ref x y = Ok z" if "y \<noteq> 0" "\<bar>x * dec_one\<bar> < 2 ^ 314 * \<bar>y\<bar>" for x y
    using quo_ref_fits [OF that] that by (simp add: sdk_ref_def quo_ref_def fits_def)
  show "y \<noteq> 0 \<and> \<bar>z * y - x * dec_one\<bar> < \<bar>y\<bar>" if "dec_quo sdk_ref x y = Ok z" for x y z
    using that quo_ref_error [of y x]
    by (auto simp: sdk_ref_def quo_ref_def fits_def split: if_splits)
  show "\<exists>z. dec_mul sdk_ref x y = Ok z" if "\<bar>x * y\<bar> < 2 ^ 314 * dec_one" for x y
    using dec_mul_fits [OF that] by (simp add: sdk_ref_def fits_def)
  show "2 * \<bar>z * dec_one - x * y\<bar> \<le> dec_one" if "dec_mul sdk_ref x y = Ok z" for x y z
    using that round_div_error [of dec_one "x * y"] by (auto simp: sdk_ref_def fits_def split: if_splits)
  show "\<exists>i. dec_round sdk_ref x = Ok i" if "\<bar>x\<bar> < 2 ^ 254 * dec_one" for x
    using round_div_small [of dec_one x "2 ^ 254"] that by (simp add: sdk_ref_def fits_def)
  show "2 * \<bar>i * dec_one - x\<bar> \<le> dec_one" if "dec_round sdk_ref x = Ok i" for x i
    using that round_div_error [of dec_one x] by (auto simp: sdk_ref_def fits_def split: if_splits)
  show "dec_truncate sdk_ref x = Ok (tquo x dec_one)" if "\<bar>x\<bar> < 2 ^ 254 * dec_one" for x
    using tquo_fits [OF that] by (simp add: sdk_ref_def fits_def)
  show "amount_of cs' d = amount_of cs d" if "new_coins sdk_ref cs = Ok cs'" for cs cs' d
    using that
    by (auto simp: sdk_ref_def new_coins_ref_def Let_def amount_of_sort amount_of_nonzero split: if_splits)
  show "amount_of cs' d = amount_of (c # cs) d" if "coins_add sdk_ref cs c = Ok cs'" for cs c cs' d
    using that by (auto simp: sdk_ref_def amount_of_coins_add simp del: amount_of_Cons)
  show "z = b ^ nat n * dec_one" if "dec_power sdk_ref (b * dec_one) n = Ok z" "0 \<le> n" for b n z
    using that power_ref_integer [of b "nat n" z] by (simp add: sdk_ref_def)
  show "amount_of cs'' d = amount_of cs d + amount_of cs' d" if "coins_plus sdk_ref cs cs' = Ok cs''" for cs cs' cs'' d
    using that by (auto simp: sdk_ref_def amount_of_coins_plus)
  show "i < length hits \<and> hits ! i" if "i \<in> set (filtered_paginate sdk_ref limit hits)" for i limit hits
    using that set_take_subset [of limit "filter (\<lambda>i. hits ! i) [0..<length hits]"] by (auto simp: sdk_ref_def)
qed (auto simp: sdk_ref_def fits_def send_ref_def quo_ref_def split: if_splits
       intro: amount_of_absent)

end
