(* ===== verification/GoLib.thy ===== *)
theory GoLib
  imports Prelude "HOL-Library.Log_Nat"
begin

text \<open>
  What the source uses of Go and its standard library beyond results and 64-bit integers: the order of a loop over
  a map, decimal digits (\<open>strconv\<close>, \<open>fmt\<close>), white space, \<open>float64\<close> division and a few functions of \<open>strings\<close>.
\<close>

section \<open>Loops over maps\<close>

text \<open>
  Go leaves the order of a loop over a map open. The argument \<open>ord\<close> gives it, as a permutation of
  \<open>[0..<n]\<close> for a map of \<open>n\<close> entries.
\<close>

definition in_order :: "(nat \<Rightarrow> nat list) \<Rightarrow> 'a list \<Rightarrow> 'a list" where
  "in_order ord xs = map (\<lambda>i. xs ! i) (ord (length xs))"

definition any_order :: "(nat \<Rightarrow> nat list) \<Rightarrow> bool" where
  "any_order ord \<longleftrightarrow> (\<forall>n. distinct (ord n) \<and> set (ord n) = {0..<n})"

lemma in_order_set: "any_order ord \<Longrightarrow> set (in_order ord xs) = set xs"
proof -
  assume "any_order ord"
  then have "set (in_order ord xs) = (\<lambda>i. xs ! i) ` {0..<length xs}" by (simp add: any_order_def in_order_def)
  also have "\<dots> = set xs" by (metis list.set_map map_nth set_upt)
  finally show ?thesis .
qed

lemma in_order_sum:
  fixes f :: "'a \<Rightarrow> 'b :: comm_monoid_add"
  assumes "any_order ord"
  shows "sum_list (map f (in_order ord xs)) = sum_list (map f xs)"
proof -
  have d: "distinct (ord (length xs))" "set (ord (length xs)) = {0..<length xs}"
    using assms by (simp_all add: any_order_def)
  have "sum_list (map f (in_order ord xs)) = (\<Sum>i\<in>{0..<length xs}. f (xs ! i))"
    using d by (simp add: in_order_def comp_def sum_list_distinct_conv_sum_set)
  also have "\<dots> = sum_list (map f xs)"
    by (simp add: sum_list_sum_nth atLeast0LessThan)
  finally show ?thesis .
qed

section \<open>Digits\<close>

text \<open>The digits that \<open>fmt.Sprintf\<close> prints for \<open>%d\<close>.\<close>

fun digits :: "nat \<Rightarrow> string" where
  "digits n = (if n < 10 then [char_of (48 + n)] else digits (n div 10) @ [char_of (48 + n mod 10)])"

declare digits.simps [simp del]

definition show_int :: "int \<Rightarrow> string" where
  "show_int i = (if i < 0 then CHR ''-'' # digits (nat (- i)) else digits (nat i))"

section \<open>Text\<close>

text \<open>\<open>strings.TrimSpace\<close> on bytes: the white space of ASCII is cut off at both ends.\<close>

definition is_space :: "char \<Rightarrow> bool" where
  "is_space c \<longleftrightarrow> (let n = of_char c :: nat in 9 \<le> n \<and> n \<le> 13 \<or> n = 32)"

definition TrimSpace :: "string \<Rightarrow> string" where
  "TrimSpace s = rev (dropWhile is_space (rev (dropWhile is_space s)))"

section \<open>Floating point\<close>

text \<open>
  \<open>float64\<close> is IEEE 754 binary64. A finite value is the rational number it stands for; \<open>float64 q\<close> is the
  nearest one with 53 significant bits (ties to even), which is what a conversion from \<open>int64\<close> and a
  division return. The quotients of two \<open>int64\<close> are far from the ends of the range of exponents.
\<close>

definition log2_floor :: "rat \<Rightarrow> int" where
  "log2_floor q =
     (let (n, d) = quotient_of q; l = int (floorlog 2 (nat n)) - int (floorlog 2 (nat d)) in
      if 2 powi l \<le> q then l else l - 1)"

definition round_even :: "rat \<Rightarrow> int" where
  "round_even q =
     (let f = \<lfloor>q\<rfloor>; r = q - of_int f in
      if r < 1 / 2 then f else if 1 / 2 < r then f + 1 else if even f then f else f + 1)"

definition float64 :: "rat \<Rightarrow> rat" where
  "float64 q =
     (if q = 0 then 0
      else let e = log2_floor \<bar>q\<bar> - 52 in sgn q * (of_int (round_even (\<bar>q\<bar> / 2 powi e)) * 2 powi e))"

datatype flt = NaN | PosInf | NegInf | Fin rat

text \<open>\<open>float64(a) / float64(b)\<close> for two \<open>int64\<close>.\<close>

definition float_div :: "int \<Rightarrow> int \<Rightarrow> flt" where
  "float_div a b =
     (let x = float64 (of_int a); y = float64 (of_int b) in
      if y = 0 then (if x = 0 then NaN else if 0 < x then PosInf else NegInf)
      else Fin (float64 (x / y)))"

text \<open>\<open>x >= c\<close> and \<open>x < c\<close> for a finite \<open>c\<close>: with a NaN both are false.\<close>

fun float_ge :: "flt \<Rightarrow> rat \<Rightarrow> bool" where
  "float_ge NaN c = False"
| "float_ge PosInf c = True"
| "float_ge NegInf c = False"
| "float_ge (Fin x) c = (c \<le> x)"

fun float_less :: "flt \<Rightarrow> rat \<Rightarrow> bool" where
  "float_less NaN c = False"
| "float_less PosInf c = False"
| "float_less NegInf c = True"
| "float_less (Fin x) c = (x < c)"

lemma round_even_near: "\<bar>of_int (round_even q) - q\<bar> \<le> 1 / 2"
proof -
  define x :: rat where "x = of_int \<lfloor>q\<rfloor>"
  have f: "x \<le> q" "q < x + 1" unfolding x_def by linarith+
  have "of_int (round_even q) = x \<and> q - x \<le> 1 / 2 \<or> of_int (round_even q) = x + 1 \<and> 1 / 2 \<le> q - x"
    by (auto simp: round_even_def Let_def x_def)
  then show ?thesis using f by (auto simp: abs_if)
qed

lemma log2_floor_bounds:
  assumes "0 < q"
  shows "2 powi log2_floor q \<le> q \<and> q < 2 powi (log2_floor q + 1)"
proof -
  obtain n d where nd: "quotient_of q = (n, d)" by fastforce
  have d: "0 < d" using nd by (rule quotient_of_denom_pos)
  have q: "q = of_int n / of_int d" using nd by (rule quotient_of_div)
  have n: "0 < n" using assms d q by (simp add: zero_less_divide_iff)
  define a c where "a = floorlog 2 (nat n)" and "c = floorlog 2 (nat d)"
  have b: "2 ^ (a - 1) \<le> nat n" "nat n < 2 ^ a" "2 ^ (c - 1) \<le> nat d" "nat d < 2 ^ c"
    using n d floorlog_bounds [of "nat n" 2] floorlog_bounds [of "nat d" 2] by (auto simp: a_def c_def)
  have pos: "0 < a" "0 < c"
    using n d by (auto simp: a_def c_def floorlog_eq_zero_iff intro!: Nat.gr0I)
  have r: "(2 :: rat) ^ (a - 1) \<le> of_int n" "of_int n < (2 :: rat) ^ a" "(2 :: rat) ^ (c - 1) \<le> of_int d" "of_int d < (2 :: rat) ^ c"
    using n d b(1,3) [THEN of_nat_mono [where 'a = rat]] b(2,4) [THEN of_nat_less_iff [where 'a = rat, THEN iffD2]] by simp_all
  have "q < 2 ^ a / 2 ^ (c - 1)"
    unfolding q using r d n by (intro frac_less) auto
  moreover have "2 ^ (a - 1) / 2 ^ c < q"
    unfolding q using r d n by (intro frac_less2) auto
  moreover have "(2 :: rat) ^ a / 2 ^ (c - 1) = 2 powi (int a - int c + 1)"
    using pos by (simp add: power_int_diff power_int_add power_diff)
  moreover have "(2 :: rat) ^ (a - 1) / 2 ^ c = 2 powi (int a - int c - 1)"
    using pos by (simp add: power_int_diff power_int_add power_diff)
  ultimately show ?thesis
    using nd by (auto simp: log2_floor_def Let_def a_def c_def)
qed

lemma float64_near: "\<bar>float64 q - q\<bar> \<le> \<bar>q\<bar> / 2 ^ 53"
proof (cases "q = 0")
  case False
  define e where "e = log2_floor \<bar>q\<bar> - 52"
  define p :: rat where "p = 2 powi e"
  have p: "0 < p" by (simp add: p_def)
  have "p * 2 ^ 52 = 2 powi (e + 52)" by (simp add: p_def power_int_add)
  then have big: "p * 2 ^ 52 \<le> \<bar>q\<bar>" using log2_floor_bounds [of "\<bar>q\<bar>"] False by (simp add: e_def)
  have "of_int (round_even (\<bar>q\<bar> / p)) * p - \<bar>q\<bar> = (of_int (round_even (\<bar>q\<bar> / p)) - \<bar>q\<bar> / p) * p"
    using p by (simp add: left_diff_distrib)
  then have "\<bar>of_int (round_even (\<bar>q\<bar> / p)) * p - \<bar>q\<bar>\<bar> = \<bar>of_int (round_even (\<bar>q\<bar> / p)) - \<bar>q\<bar> / p\<bar> * p"
    using p by (simp add: abs_mult)
  also have "\<dots> \<le> 1 / 2 * p" using round_even_near [of "\<bar>q\<bar> / p"] p by (intro mult_right_mono) auto
  also have "\<dots> \<le> \<bar>q\<bar> / 2 ^ 53" using big by simp
  finally have "\<bar>sgn q * (of_int (round_even (\<bar>q\<bar> / p)) * p) - sgn q * \<bar>q\<bar>\<bar> \<le> \<bar>q\<bar> / 2 ^ 53"
    using False by (simp add: abs_mult flip: right_diff_distrib)
  then show ?thesis using False by (simp add: float64_def Let_def e_def p_def sgn_mult_abs)
qed (simp add: float64_def)

lemma float64_bounds:
  assumes "0 \<le> q"
  shows "q * (1 - 1 / 2 ^ 53) \<le> float64 q" "float64 q \<le> q * (1 + 1 / 2 ^ 53)" "0 \<le> float64 q"
proof -
  have "\<bar>float64 q - q\<bar> \<le> q / 2 ^ 53" using float64_near [of q] assms by simp
  then have b: "q - q / 2 ^ 53 \<le> float64 q" "float64 q \<le> q + q / 2 ^ 53" by linarith+
  then show "q * (1 - 1 / 2 ^ 53) \<le> float64 q" "float64 q \<le> q * (1 + 1 / 2 ^ 53)"
    by (simp_all only: right_diff_distrib distrib_left mult_1_right times_divide_eq_right)
  show "0 \<le> float64 q" using b(1) assms by simp
qed

section \<open>Strings\<close>

text \<open>\<open>strings.ToLower\<close> on ASCII.\<close>

definition to_lower :: "string \<Rightarrow> string" where
  "to_lower s = map (\<lambda>c. let n = of_char c :: nat in if 65 \<le> n \<and> n \<le> 90 then char_of (n + 32) else c) s"

text \<open>\<open>strings.Contains\<close>, the text sought first.\<close>

fun str_contains :: "string \<Rightarrow> string \<Rightarrow> bool" where
  "str_contains p [] \<longleftrightarrow> p = []"
| "str_contains p (c # cs) \<longleftrightarrow> prefix p (c # cs) \<or> str_contains p cs"

end
