(* ===== verification/PureCalculation.thy ===== *)
theory PureCalculation
  imports Sdk GoLib
begin

text \<open>
  \<open>x/clp/keeper/pureCalculation.go\<close>: conversions between \<open>sdk.Dec\<close>, \<open>big.Rat\<close> and
  \<open>big.Int\<close>. A \<open>big.Rat\<close> is a \<open>rat\<close>, its \<open>Num()\<close> and \<open>Denom()\<close> are \<open>quotient_of\<close>; the operations
  of \<open>math/big\<close> that panic (\<open>Rat.Quo\<close> and \<open>Rat.SetFrac\<close> at zero, \<open>Int.Sqrt\<close> below zero) deliver
  \<open>Panic\<close>. \<open>isqrt\<close> is the floor of the square root, computed two bits at a time.
\<close>

section \<open>Go's math/big\<close>

definition rat_quo :: "rat \<Rightarrow> rat \<Rightarrow> rat result" where
  "rat_quo x y = (if y = 0 then Panic else Ok (x / y))"

definition rat_frac :: "int \<Rightarrow> int \<Rightarrow> rat result" where
  "rat_frac a b = (if b = 0 then Panic else Ok (of_int a / of_int b))"

definition big_quo :: "int \<Rightarrow> int \<Rightarrow> int result" where
  "big_quo a b = (if b = 0 then Panic else Ok (tquo a b))"

fun isqrt :: "nat \<Rightarrow> nat" where
  "isqrt n =
     (if n = 0 then 0
      else let s = 2 * isqrt (n div 4) in if (s + 1) * (s + 1) \<le> n then s + 1 else s)"

declare isqrt.simps [simp del]

definition big_sqrt :: "int \<Rightarrow> int result" where
  "big_sqrt n = (if n < 0 then Panic else Ok (int (isqrt (nat n))))"

section \<open>pureCalculation.go\<close>

definition maxDecBitLen :: nat where
  "maxDecBitLen = 315"

definition DecToRat :: "int \<Rightarrow> rat" where
  "DecToRat d = of_int d / 10 ^ 18"

definition RatToDec :: "rat \<Rightarrow> int result" where
  "RatToDec r =
     (let (num, denom) = quotient_of r;
          d = tquo (num * 10 ^ 18) denom
      in if 2 ^ maxDecBitLen \<le> \<bar>d\<bar> then Err (ErrSdk ''decimal out of range'') else Ok d)"

definition RatIntQuo :: "rat \<Rightarrow> int" where
  "RatIntQuo r = (let (num, denom) = quotient_of r in tquo num denom)"

definition ApproxRatSquareRoot :: "rat \<Rightarrow> int result" where
  "ApproxRatSquareRoot x = big_sqrt (RatIntQuo x)"

definition IsAnyZero :: "nat list \<Rightarrow> bool" where
  "IsAnyZero inputs = list_ex (\<lambda>val. val = 0) inputs"

definition Int64ToUint8Safe :: "int \<Rightarrow> nat result" where
  "Int64ToUint8Safe x = (let trial = x mod 256 in if trial \<noteq> x then Err ErrTypeCast else Ok (nat trial))"

text \<open>\<open>uint16(-a)\<close> for a negative \<open>int16\<close>; the least \<open>int16\<close> wraps to itself and reads 32768.\<close>

definition Abs :: "int \<Rightarrow> nat" where
  "Abs a = (if a < 0 then nat ((- a) mod 2 ^ 16) else nat (a mod 2 ^ 16))"

section \<open>Facts\<close>

lemma isqrt_bounds: "isqrt n * isqrt n \<le> n \<and> n < (isqrt n + 1) * (isqrt n + 1)"
proof (induction n rule: isqrt.induct)
  case (1 n)
  show ?case
  proof (cases "n = 0")
    case True
    then show ?thesis by (simp add: isqrt.simps [of 0])
  next
    case False
    define m where "m = isqrt (n div 4)"
    have IH: "m * m \<le> n div 4" "n div 4 < (m + 1) * (m + 1)"
      using "1.IH" [OF False] by (simp_all add: m_def)
    from IH(1) have lo: "(2 * m) * (2 * m) \<le> n" by simp
    from IH(2) have "n div 4 + 1 \<le> (m + 1) * (m + 1)" by simp
    then have hi: "n < (2 * m + 2) * (2 * m + 2)"
      by (simp add: algebra_simps)
    have eq: "isqrt n = (if (2 * m + 1) * (2 * m + 1) \<le> n then 2 * m + 1 else 2 * m)"
      using False by (subst isqrt.simps) (simp add: m_def Let_def)
    show ?thesis
      unfolding eq using lo hi by auto
  qed
qed

lemma isqrt_le_iff: "isqrt n \<le> k \<longleftrightarrow> n < (k + 1) * (k + 1)"
proof
  assume "isqrt n \<le> k"
  then have "(isqrt n + 1) * (isqrt n + 1) \<le> (k + 1) * (k + 1)" by (intro mult_le_mono) simp_all
  with isqrt_bounds [of n] show "n < (k + 1) * (k + 1)" by linarith
next
  assume n: "n < (k + 1) * (k + 1)"
  show "isqrt n \<le> k"
  proof (rule ccontr)
    assume "\<not> isqrt n \<le> k"
    then have "(k + 1) * (k + 1) \<le> isqrt n * isqrt n" by (intro mult_le_mono) simp_all
    with isqrt_bounds [of n] n show False by linarith
  qed
qed

lemma RatIntQuo_floor: "0 \<le> r \<Longrightarrow> RatIntQuo r = \<lfloor>r\<rfloor>"
proof -
  assume r: "0 \<le> r"
  obtain p q where pq: "quotient_of r = (p, q)" by (cases "quotient_of r")
  from quotient_of_denom_pos [OF pq] have q: "0 < q" .
  from quotient_of_div [OF pq] have eq: "r = of_int p / of_int q" .
  from r q have p: "0 \<le> p" by (simp add: eq zero_le_divide_iff)
  have "RatIntQuo r = p div q" using p q by (simp add: RatIntQuo_def pq tquo_nonneg)
  also have "\<dots> = \<lfloor>r\<rfloor>" by (simp add: eq floor_divide_of_int_eq)
  finally show ?thesis .
qed

lemma RatIntQuo_nonneg: "0 \<le> r \<Longrightarrow> 0 \<le> RatIntQuo r"
  by (simp add: RatIntQuo_floor)

lemma RatIntQuo_numeral:
  "RatIntQuo (numeral a / numeral b) = numeral a div numeral b"
  "RatIntQuo (1 / numeral b) = 1 div numeral b"
  "RatIntQuo (numeral a) = numeral a" "RatIntQuo 0 = 0" "RatIntQuo 1 = 1"
proof -
  have frac: "RatIntQuo (of_int x / of_int y) = x div y" if "0 \<le> x" "0 \<le> y" for x y
    using that by (simp add: RatIntQuo_floor floor_divide_of_int_eq)
  show "RatIntQuo (numeral a / numeral b) = numeral a div numeral b"
    using frac [of "numeral a" "numeral b"] by simp
  show "RatIntQuo (1 / numeral b) = 1 div numeral b"
    using frac [of 1 "numeral b"] by simp
qed (simp_all add: RatIntQuo_floor)

lemma RatIntQuo_of_int [simp]: "RatIntQuo (of_int n) = n"
  by (simp add: RatIntQuo_def tquo_def quotient_of_int sgn_mult_abs)

lemma DecToRat_nonneg: "0 \<le> d \<Longrightarrow> 0 \<le> DecToRat d"
  by (simp add: DecToRat_def)

lemma DecToRat_le_1: "d \<le> dec_one \<Longrightarrow> DecToRat d \<le> 1"
proof -
  assume "d \<le> dec_one"
  then have "(of_int d :: rat) \<le> of_int dec_one" by (simp only: of_int_le_iff)
  then show ?thesis by (simp add: DecToRat_def)
qed

text \<open>A rational that came from a decimal goes back to it.\<close>

lemma RatToDec_DecToRat: "\<bar>d\<bar> < 2 ^ 315 \<Longrightarrow> RatToDec (DecToRat d) = Ok d"
proof -
  assume d: "\<bar>d\<bar> < 2 ^ 315"
  obtain p q where pq: "quotient_of (DecToRat d) = (p, q)" by (cases "quotient_of (DecToRat d)")
  from quotient_of_denom_pos [OF pq] have q: "0 < q" .
  from quotient_of_div [OF pq] have "of_int d / 10 ^ 18 = (of_int p / of_int q :: rat)"
    by (simp add: DecToRat_def)
  then have "of_int (d * q) = (of_int (p * 10 ^ 18) :: rat)"
    using q by (simp add: field_simps)
  then have "p * 10 ^ 18 = d * q" by (simp only: of_int_eq_iff)
  then have "tquo (p * 10 ^ 18) q = sgn (d * q) * sgn q * (\<bar>d * q\<bar> div \<bar>q\<bar>)" by (simp add: tquo_def)
  also have "\<dots> = d" using q by (simp add: abs_mult sgn_mult sgn_mult_abs)
  finally show ?thesis using d by (simp add: RatToDec_def pq maxDecBitLen_def)
qed

lemma Int64ToUint8Safe_Ok: "Int64ToUint8Safe x = Ok n \<longleftrightarrow> 0 \<le> x \<and> x < 256 \<and> n = nat x"
  by (auto simp: Int64ToUint8Safe_def Let_def)

section \<open>Property\<close>

text \<open>A decimal survives the way to a rational number and back.\<close>

theorem decimal_roundtrip:
  assumes "\<bar>d\<bar> < 2 ^ 315"
  shows "RatToDec (DecToRat d) = Ok d"
  by (rule RatToDec_DecToRat [OF assms])

theorem decimal_roundtrip_witness: "RatToDec (DecToRat 3000000000000000) = Ok 3000000000000000"
  by (rule decimal_roundtrip) simp

end
