(* ===== verification/ClpTypes.thy ===== *)
theory ClpTypes
  imports PureCalculation
begin

text \<open>
  \<open>x/clp/types\<close>: assets, pools, liquidity providers and the store keys. A \<open>Pool\<close> has every field
  of the protobuf message; an unset \<open>sdk.Uint\<close> reads 0 and an unset \<open>*sdk.Dec\<close> is \<open>None\<close>.
\<close>

section \<open>Constants (keys.go)\<close>

abbreviation ModuleName :: string where "ModuleName \<equiv> ''clp''"
abbreviation NativeSymbol :: string where "NativeSymbol \<equiv> ''fury''"
abbreviation PoolThrehold :: nat where "PoolThrehold \<equiv> 1000000000000000000"
abbreviation NativeAssetDecimals :: nat where "NativeAssetDecimals \<equiv> 18"
abbreviation MaxSymbolLength :: nat where "MaxSymbolLength \<equiv> 71"
abbreviation MaxWbasis :: int where "MaxWbasis \<equiv> 10000"

section \<open>Assets (asset.go)\<close>

datatype Asset = Asset (Symbol: string)

definition VerifyRange :: "int \<Rightarrow> int \<Rightarrow> int \<Rightarrow> bool" where
  "VerifyRange num low high = (if num \<ge> high then False else if num \<le> low then False else True)"

definition GetSettlementAsset :: Asset where
  "GetSettlementAsset = Asset NativeSymbol"

definition IsSettlementAsset :: "Asset \<Rightarrow> bool" where
  "IsSettlementAsset a \<longleftrightarrow> a = GetSettlementAsset"

definition Asset_Equals :: "Asset \<Rightarrow> Asset \<Rightarrow> bool" where
  "Asset_Equals a b \<longleftrightarrow> Symbol a = Symbol b"

text \<open>\<open>sdk.NewCoin\<close> panics for a denomination it does not accept.\<close>

definition Asset_Validate :: "sdk \<Rightarrow> Asset \<Rightarrow> bool result" where
  "Asset_Validate S a =
     (if \<not> VerifyRange (int (length (TrimSpace (Symbol a)))) 0 (int MaxSymbolLength) then Ok False
      else rbind (new_coin S (Symbol a) 1) (\<lambda>coin. Ok (valid_denom S (fst coin))))"

definition GetCLPModuleAddress :: "sdk \<Rightarrow> string" where
  "GetCLPModuleAddress S = module_address S ModuleName"

section \<open>Pools and liquidity providers (types.go)\<close>

record Pool =
  externalAsset :: Asset
  nativeAssetBalance :: nat
  externalAssetBalance :: nat
  poolUnits :: nat
  swapPriceNative :: "int option"
  swapPriceExternal :: "int option"
  rewardPeriodNativeDistributed :: nat
  externalLiabilities :: nat
  externalCustody :: nat
  nativeLiabilities :: nat
  nativeCustody :: nat
  health :: "int option"
  interestRate :: int
  lastHeightInterestRateComputed :: int
  unsettledExternalLiabilities :: nat
  unsettledNativeLiabilities :: nat
  blockInterestNative :: nat
  blockInterestExternal :: nat

record LiquidityUnlock =
  requestHeight :: int
  units :: nat

record LiquidityProvider =
  lp_asset :: Asset
  liquidityProviderUnits :: nat
  liquidityProviderAddress :: string
  unlocks :: "LiquidityUnlock list"

text \<open>
  The numbers a literal leaves out are stored as zero. The health of a pool is a decimal that is nil in an entry of the store
  without the field.
\<close>

definition NewPool :: "Asset \<Rightarrow> nat \<Rightarrow> nat \<Rightarrow> nat \<Rightarrow> Pool" where
  "NewPool asset native external pool_units = \<lparr>
     externalAsset = asset, nativeAssetBalance = native, externalAssetBalance = external,
     poolUnits = pool_units, swapPriceNative = None, swapPriceExternal = None,
     rewardPeriodNativeDistributed = 0, externalLiabilities = 0, externalCustody = 0,
     nativeLiabilities = 0, nativeCustody = 0, health = Some 0, interestRate = 0,
     lastHeightInterestRateComputed = 0, unsettledExternalLiabilities = 0,
     unsettledNativeLiabilities = 0, blockInterestNative = 0, blockInterestExternal = 0\<rparr>"

definition Pool_Validate :: "sdk \<Rightarrow> Pool \<Rightarrow> bool result" where
  "Pool_Validate S p = Asset_Validate S (externalAsset p)"

definition ExtractValues :: "Pool \<Rightarrow> Asset \<Rightarrow> nat \<times> nat \<times> bool \<times> Asset" where
  "ExtractValues p to =
     (if IsSettlementAsset to
      then (externalAssetBalance p, nativeAssetBalance p, True, externalAsset p)
      else (nativeAssetBalance p, externalAssetBalance p, False, GetSettlementAsset))"

definition UpdateBalances :: "sdk \<Rightarrow> Pool \<Rightarrow> bool \<Rightarrow> nat \<Rightarrow> nat \<Rightarrow> nat \<Rightarrow> nat \<Rightarrow> Pool result" where
  "UpdateBalances S p toFury X x Y swapResult =
     (if toFury
      then rbind (uint_add S X x) (\<lambda>ext.
           rbind (uint_sub S Y swapResult) (\<lambda>nat'.
           Ok (p\<lparr>externalAssetBalance := ext, nativeAssetBalance := nat'\<rparr>)))
      else rbind (uint_add S X x) (\<lambda>nat'.
           rbind (uint_sub S Y swapResult) (\<lambda>ext.
           Ok (p\<lparr>nativeAssetBalance := nat', externalAssetBalance := ext\<rparr>))))"

definition ExtractDebt :: "sdk \<Rightarrow> Pool \<Rightarrow> nat \<Rightarrow> nat \<Rightarrow> bool \<Rightarrow> (nat \<times> nat) result" where
  "ExtractDebt S p X Y toFury =
     (if toFury
      then rbind (uint_add S Y (nativeLiabilities p)) (\<lambda>Y'.
           rbind (uint_add S X (externalLiabilities p)) (\<lambda>X'. Ok (X', Y')))
      else rbind (uint_add S X (nativeLiabilities p)) (\<lambda>X'.
           rbind (uint_add S Y (externalLiabilities p)) (\<lambda>Y'. Ok (X', Y'))))"

definition LiquidityProvider_Validate :: "sdk \<Rightarrow> LiquidityProvider \<Rightarrow> bool result" where
  "LiquidityProvider_Validate S l =
     rbind (Asset_Validate S (lp_asset l)) (\<lambda>ok. Ok (if \<not> ok then False else True))"

definition NewLiquidityProvider :: "Asset \<Rightarrow> nat \<Rightarrow> string \<Rightarrow> LiquidityProvider" where
  "NewLiquidityProvider asset lp_units addr =
     \<lparr>lp_asset = asset, liquidityProviderUnits = lp_units, liquidityProviderAddress = addr, unlocks = []\<rparr>"

definition StringCompare :: "string \<Rightarrow> string \<Rightarrow> bool" where
  "StringCompare a b \<longleftrightarrow> a = b"

section \<open>Store keys (keys.go)\<close>

text \<open>Each key prefix has a store of its own in the model, so the keys are without their prefix byte.\<close>

definition GetPoolKey :: "string \<Rightarrow> string \<Rightarrow> string" where
  "GetPoolKey externalTicker nativeTicker = externalTicker @ ''_'' @ nativeTicker"

definition GetLiquidityProviderKey :: "string \<Rightarrow> string \<Rightarrow> string" where
  "GetLiquidityProviderKey externalTicker lp = externalTicker @ ''_'' @ lp"

definition GetRemovalRequestLPPrefix :: "string \<Rightarrow> string" where
  "GetRemovalRequestLPPrefix lpaddress = lpaddress"

definition GetRemovalQueueKey :: "string \<Rightarrow> string" where
  "GetRemovalQueueKey symbol = ''_'' @ symbol"

section \<open>Facts\<close>

lemma GetPoolKey_inj: "GetPoolKey a n = GetPoolKey b n \<longleftrightarrow> a = b"
  by (simp add: GetPoolKey_def)

text \<open>
  The key of a provider is unambiguous because the address has no underscore; a symbol may have one.
\<close>

lemma GetLiquidityProviderKey_inj:
  assumes "CHR ''_'' \<notin> set x" and "CHR ''_'' \<notin> set y"
  shows "GetLiquidityProviderKey a x = GetLiquidityProviderKey b y \<longleftrightarrow> a = b \<and> x = y"
proof -
  have "a @ CHR ''_'' # x = b @ CHR ''_'' # y \<longleftrightarrow>
      rev x @ CHR ''_'' # rev a = rev y @ CHR ''_'' # rev b"
    by (metis rev.simps(2) rev_append rev_rev_ident append_assoc append_Cons append_Nil)
  then show ?thesis
    using sep_key_inj [of "CHR ''_''" "rev x" "rev y" "rev a" "rev b"] assms
    by (auto simp: GetLiquidityProviderKey_def)
qed

lemma Symbol_settlement [simp]: "Symbol GetSettlementAsset = NativeSymbol"
  by (simp add: GetSettlementAsset_def)

context sdk_laws
begin

lemma ExtractDebt_Ok:
  "ExtractDebt S p X Y toFury = Ok (X', Y') \<Longrightarrow>
     X' = X + (if toFury then externalLiabilities p else nativeLiabilities p) \<and>
     Y' = Y + (if toFury then nativeLiabilities p else externalLiabilities p)"
  by (auto simp: ExtractDebt_def rbind_Ok_iff uint_Ok split: if_splits)

lemma UpdateBalances_Ok:
  "UpdateBalances S p toFury X x Y y = Ok q \<Longrightarrow> y \<le> Y \<and>
     q = (if toFury then p\<lparr>externalAssetBalance := X + x, nativeAssetBalance := Y - y\<rparr>
          else p\<lparr>nativeAssetBalance := X + x, externalAssetBalance := Y - y\<rparr>)"
  by (auto simp: UpdateBalances_def rbind_Ok_iff uint_Ok split: if_splits)

lemma ExtractDebt_not_Err: "ExtractDebt S p X Y toFury \<noteq> Err e"
  by (simp add: ExtractDebt_def uint_add)

lemma Asset_Validate_total: "valid_denom S (Symbol a) \<Longrightarrow> \<exists>b. Asset_Validate S a = Ok b"
  by (auto simp: Asset_Validate_def new_coin_total)

end

section \<open>Property\<close>

text \<open>
  C30. The keys of the stores tell pools and providers apart: two pools against Fury share a key only
  if they are of the same asset, two providers only if asset and address agree, as long as an
  address has no underscore, as Bech32 has none.
\<close>

theorem keys_distinct:
  assumes "CHR ''_'' \<notin> set x" and "CHR ''_'' \<notin> set y"
  shows "(GetPoolKey a NativeSymbol = GetPoolKey b NativeSymbol \<longleftrightarrow> a = b) \<and>
    (GetLiquidityProviderKey a x = GetLiquidityProviderKey b y \<longleftrightarrow> a = b \<and> x = y)"
  using GetPoolKey_inj GetLiquidityProviderKey_inj [OF assms] by blast

theorem keys_distinct_witness: "GetLiquidityProviderKey ''a_b'' ''c'' \<noteq> GetLiquidityProviderKey ''a'' ''c''"
  using keys_distinct [of "''c''" "''c''" "''a_b''" "''a''"] by simp

end
