(* ===== verification/ClpCalc.thy ===== *)
theory ClpCalc
  imports ClpTypes
begin

text \<open>
  \<open>x/clp/keeper/calculations.go\<close>: the pricing of swaps, the units of a liquidity provider and the
  amounts of a withdrawal. Every function delivers a \<open>result\<close>: \<open>Panic\<close> where an SDK or
  \<open>math/big\<close> operation panics, \<open>Err\<close> where the code returns an error. An argument that the code
  passes as the decimal digits of an integer is the integer itself.
\<close>

section \<open>Withdrawals\<close>

definition CalcSwapPmtp :: "sdk \<Rightarrow> bool \<Rightarrow> int \<Rightarrow> int \<Rightarrow> int result" where
  "CalcSwapPmtp S toFury y rate =
     (if toFury then rbind (dec_add S (new_dec 1) rate) (\<lambda>f. dec_quo S y f)
      else rbind (dec_add S (new_dec 1) rate) (\<lambda>f. dec_mul S y f))"

text \<open>\<open>sdk.NewUintFromBigInt(d.TruncateInt().BigInt())\<close> and its rounding twin.\<close>

definition uint_truncate :: "sdk \<Rightarrow> int \<Rightarrow> nat result" where
  "uint_truncate S d = rbind (dec_truncate S d) (uint_of_big S)"

definition uint_round :: "sdk \<Rightarrow> int \<Rightarrow> nat result" where
  "uint_round S d = rbind (dec_round S d) (uint_of_big S)"

definition CalculateWithdrawal ::
  "sdk \<Rightarrow> nat \<Rightarrow> nat \<Rightarrow> nat \<Rightarrow> nat \<Rightarrow> int \<Rightarrow> int \<Rightarrow> (nat \<times> nat \<times> nat \<times> nat) result" where
  "CalculateWithdrawal S pool_units nativeAssetDepth externalAssetDepth lpUnits wBasisPoints asymmetry =
     (let poolUnitsF = new_dec (int pool_units) in
      rbind (must (dec_of_digits S (int nativeAssetDepth))) (\<lambda>nativeAssetDepthF.
      rbind (must (dec_of_digits S (int externalAssetDepth))) (\<lambda>externalAssetDepthF.
      rbind (must (dec_of_digits S (int lpUnits))) (\<lambda>lpUnitsF.
      rbind (must (dec_of_digits S wBasisPoints)) (\<lambda>wBasisPointsF.
      rbind (must (dec_of_digits S asymmetry)) (\<lambda>asymmetryF.
      rbind (dec_quo S (new_dec 10000) wBasisPointsF) (\<lambda>denominator.
      rbind (dec_quo S lpUnitsF denominator) (\<lambda>unitsToClaim.
      rbind (rbind (dec_quo S poolUnitsF unitsToClaim) (dec_quo S externalAssetDepthF)) (\<lambda>withdrawExternal.
      rbind (rbind (dec_quo S poolUnitsF unitsToClaim) (dec_quo S nativeAssetDepthF)) (\<lambda>withdrawNative.
      rbind (if 0 < asymmetry
             then rbind (rbind (dec_quo S (new_dec 10000) \<bar>asymmetryF\<bar>) (dec_quo S unitsToClaim)) (\<lambda>unitsToSwap.
                  rbind (dec_quo S poolUnitsF unitsToSwap) (dec_quo S nativeAssetDepthF))
             else if asymmetry < 0
             then rbind (rbind (dec_quo S (new_dec 10000) \<bar>asymmetryF\<bar>) (dec_quo S unitsToClaim)) (\<lambda>unitsToSwap.
                  rbind (dec_quo S poolUnitsF unitsToSwap) (dec_quo S externalAssetDepthF))
             else Ok (new_dec 0)) (\<lambda>swapAmount.
      rbind (dec_sub S lpUnitsF unitsToClaim) (\<lambda>lpUnitsLeft.
      rbind (uint_truncate S withdrawNative) (\<lambda>wn.
      rbind (uint_truncate S withdrawExternal) (\<lambda>we.
      rbind (uint_truncate S lpUnitsLeft) (\<lambda>left.
      rbind (uint_truncate S swapAmount) (\<lambda>sw.
      Ok (wn, we, left, sw)))))))))))))))))"

definition CalculateWithdrawalFromUnits ::
  "sdk \<Rightarrow> nat \<Rightarrow> nat \<Rightarrow> nat \<Rightarrow> nat \<Rightarrow> nat \<Rightarrow> (nat \<times> nat \<times> nat) result" where
  "CalculateWithdrawalFromUnits S pool_units nativeAssetDepth externalAssetDepth lpUnits withdrawUnits =
     (let poolUnitsF = new_dec (int pool_units) in
      rbind (must (dec_of_digits S (int nativeAssetDepth))) (\<lambda>nativeAssetDepthF.
      rbind (must (dec_of_digits S (int externalAssetDepth))) (\<lambda>externalAssetDepthF.
      rbind (must (dec_of_digits S (int lpUnits))) (\<lambda>lpUnitsF.
      rbind (must (dec_of_digits S (int withdrawUnits))) (\<lambda>withdrawUnitsF.
      rbind (rbind (dec_quo S poolUnitsF withdrawUnitsF) (dec_quo S externalAssetDepthF)) (\<lambda>withdrawExternal.
      rbind (rbind (dec_quo S poolUnitsF withdrawUnitsF) (dec_quo S nativeAssetDepthF)) (\<lambda>withdrawNative.
      rbind (dec_sub S lpUnitsF withdrawUnitsF) (\<lambda>lpUnitsLeft.
      rbind (uint_round S withdrawNative) (\<lambda>wn.
      rbind (uint_round S withdrawExternal) (\<lambda>we.
      rbind (uint_round S lpUnitsLeft) (\<lambda>left.
      Ok (wn, we, left))))))))))))"

section \<open>Swaps\<close>

definition calcRawXYK :: "int \<Rightarrow> int \<Rightarrow> int \<Rightarrow> rat result" where
  "calcRawXYK x X Y =
     (let numerator = of_int x * of_int Y; denominator = of_int X + of_int x
      in rat_quo numerator denominator)"

definition calcPmtpFactor :: "int \<Rightarrow> rat" where
  "calcPmtpFactor r = 1 + DecToRat r"

definition CalcSwapResult ::
  "sdk \<Rightarrow> bool \<Rightarrow> nat \<Rightarrow> nat \<Rightarrow> nat \<Rightarrow> int \<Rightarrow> int \<Rightarrow> (nat \<times> nat) result" where
  "CalcSwapResult S toFury X x Y pmtpCurrentRunningRate swapFeeRate =
     (if IsAnyZero [X, x, Y] then Ok (0, 0)
      else
      rbind (calcRawXYK (int x) (int X) (int Y)) (\<lambda>rawXYK.
      let pmtpFac = calcPmtpFactor pmtpCurrentRunningRate in
      rbind (if toFury then rat_quo rawXYK pmtpFac else Ok (rawXYK * pmtpFac)) (\<lambda>adjustedR.
      let percentFeeR = adjustedR * DecToRat swapFeeRate in
      rbind (uint_of_big S (RatIntQuo percentFeeR)) (\<lambda>percentFee.
      rbind (uint_of_big S (RatIntQuo adjustedR)) (\<lambda>adjusted.
      rbind (uint_sub S adjusted percentFee) (\<lambda>y.
      Ok (y, percentFee)))))))"

definition calcPriceImpact :: "sdk \<Rightarrow> nat \<Rightarrow> nat \<Rightarrow> nat result" where
  "calcPriceImpact S X x =
     (if x = 0 then Ok 0 else rbind (big_quo (int x) (int x + int X)) (uint_of_big S))"

definition SwapOne ::
  "sdk \<Rightarrow> nat \<Rightarrow> Asset \<Rightarrow> Pool \<Rightarrow> int \<Rightarrow> int \<Rightarrow> (nat \<times> nat \<times> nat \<times> Pool) result" where
  "SwapOne S sentAmount to pool pmtpCurrentRunningRate swapFeeRate =
     (let (X, Y, toFury, _) = ExtractValues pool to in
      rbind (ExtractDebt S pool X Y toFury) (\<lambda>(Xincl, Yincl).
      rbind (calcPriceImpact S Xincl sentAmount) (\<lambda>priceImpact.
      rbind (CalcSwapResult S toFury Xincl sentAmount Yincl pmtpCurrentRunningRate swapFeeRate)
        (\<lambda>(swapResult, liquidityFee).
      if Y \<le> swapResult then Err ErrNotEnoughAssetTokens
      else rbind (UpdateBalances S pool toFury X sentAmount Y swapResult) (\<lambda>pool'.
           Ok (swapResult, liquidityFee, priceImpact, pool'))))))"

definition GetSwapFee :: "sdk \<Rightarrow> nat \<Rightarrow> Asset \<Rightarrow> Pool \<Rightarrow> int \<Rightarrow> int \<Rightarrow> nat result" where
  "GetSwapFee S sentAmount to pool pmtpCurrentRunningRate swapFeeRate =
     (let (X, Y, toFury, _) = ExtractValues pool to in
      rbind (ExtractDebt S pool X Y toFury) (\<lambda>(X', Y').
      rbind (CalcSwapResult S toFury X' sentAmount Y' pmtpCurrentRunningRate swapFeeRate) (\<lambda>(swapResult, _).
      Ok (if Y' \<le> swapResult then 0 else swapResult))))"

definition CalculateWithdrawalFuryValue ::
  "sdk \<Rightarrow> nat \<Rightarrow> Asset \<Rightarrow> Pool \<Rightarrow> int \<Rightarrow> int \<Rightarrow> nat result" where
  "CalculateWithdrawalFuryValue S sentAmount to pool pmtpCurrentRunningRate swapFeeRate =
     (let (X, Y, toFury, _) = ExtractValues pool to in
      rbind (ExtractDebt S pool X Y toFury) (\<lambda>(X', Y').
      rbind (CalcSwapResult S toFury X' sentAmount Y' pmtpCurrentRunningRate swapFeeRate) (\<lambda>(value, _).
      Ok value)))"

text \<open>\<open>sdk.Uint.Sub\<close> on the big integers: the fee is converted without a check.\<close>

definition CalculateDiscountedSentAmount :: "sdk \<Rightarrow> nat \<Rightarrow> int \<Rightarrow> nat result" where
  "CalculateDiscountedSentAmount S sentAmount swapFeeRate =
     rbind (dec_mul S (new_dec (int sentAmount)) swapFeeRate) (\<lambda>fee.
     rbind (dec_round S fee) (\<lambda>feeInt.
     uint_of_big S (int sentAmount - feeInt)))"

section \<open>Prices\<close>

text \<open>\<open>10^decimalsX / 10^decimalsY\<close>.\<close>

definition CalcDenomChangeMultiplier :: "nat \<Rightarrow> nat \<Rightarrow> rat" where
  "CalcDenomChangeMultiplier decimalsX decimalsY =
     (let diff = Abs (int decimalsX - int decimalsY); dec = 10 ^ diff
      in if decimalsY < decimalsX then dec else 1 / dec)"

definition CalcSpotPriceX :: "nat \<Rightarrow> nat \<Rightarrow> nat \<Rightarrow> nat \<Rightarrow> int \<Rightarrow> bool \<Rightarrow> int result" where
  "CalcSpotPriceX X Y decimalsX decimalsY pmtpCurrentRunningRate isXNative =
     (if X = 0 then Err ErrInValidAmount
      else
      rbind (rat_frac (int Y) (int X)) (\<lambda>price.
      let pmtpFac = calcPmtpFactor pmtpCurrentRunningRate in
      rbind (if isXNative then Ok (price * pmtpFac) else rat_quo price pmtpFac) (\<lambda>pmtpPrice.
      RatToDec (pmtpPrice * CalcDenomChangeMultiplier decimalsX decimalsY))))"

definition CalcSpotPriceNative :: "sdk \<Rightarrow> Pool \<Rightarrow> nat \<Rightarrow> int \<Rightarrow> int result" where
  "CalcSpotPriceNative S pool decimalsExternal rate =
     rbind (ExtractDebt S pool (nativeAssetBalance pool) (externalAssetBalance pool) False) (\<lambda>(X, Y).
     CalcSpotPriceX X Y NativeAssetDecimals decimalsExternal rate True)"

definition CalcSpotPriceExternal :: "sdk \<Rightarrow> Pool \<Rightarrow> nat \<Rightarrow> int \<Rightarrow> int result" where
  "CalcSpotPriceExternal S pool decimalsExternal rate =
     rbind (ExtractDebt S pool (externalAssetBalance pool) (nativeAssetBalance pool) True) (\<lambda>(X, Y).
     CalcSpotPriceX X Y decimalsExternal NativeAssetDecimals rate False)"

definition CalcFuryValue :: "sdk \<Rightarrow> nat \<Rightarrow> int \<Rightarrow> nat result" where
  "CalcFuryValue S furyAmount price =
     rbind (dec_mul S price (new_dec (int furyAmount))) (\<lambda>value. uint_round S value)"

definition CalcFurySpotPrice :: "sdk \<Rightarrow> Pool \<Rightarrow> int \<Rightarrow> int result" where
  "CalcFurySpotPrice S pool rate =
     rbind (ExtractDebt S pool (nativeAssetBalance pool) (externalAssetBalance pool) False)
       (\<lambda>(furyBal, externalAssetBal).
     let furyBalance = new_dec (int furyBal) in
     if furyBalance = 0 then Err ErrInValidAmount
     else
     let externalBalance = new_dec (int externalAssetBal) in
     rbind (dec_quo S externalBalance furyBalance) (\<lambda>unadjusted.
     rbind (dec_add S rate (new_dec 1)) (\<lambda>f.
     dec_mul S unadjusted f)))"

section \<open>Pool units\<close>

datatype swap_status = SellNative | BuyNative | NoSwap

datatype symmetry_state = ErrorEmptyPool | ErrorNothingAdded | NeedMoreY | Symmetric | NeedMoreX

definition GetLiquidityAddSymmetryState :: "nat \<Rightarrow> nat \<Rightarrow> nat \<Rightarrow> nat \<Rightarrow> symmetry_state" where
  "GetLiquidityAddSymmetryState X x Y y =
     (if X = 0 \<or> Y = 0 then ErrorEmptyPool
      else if x = 0 \<and> y = 0 then ErrorNothingAdded
      else if x = 0 then NeedMoreX
      else
      let YoverX = (of_nat Y / of_nat X :: rat); yOverx = of_nat y / of_nat x
      in if YoverX < yOverx then NeedMoreX else if YoverX = yOverx then Symmetric else NeedMoreY)"

definition CalculatePoolUnitsSymmetric :: "sdk \<Rightarrow> nat \<Rightarrow> nat \<Rightarrow> nat \<Rightarrow> (nat \<times> nat) result" where
  "CalculatePoolUnitsSymmetric S X x P =
     rbind (big_quo (int x * int P) (int X)) (\<lambda>providerUnitsB.
     rbind (uint_of_big S providerUnitsB) (\<lambda>providerUnits.
     rbind (uint_add S P providerUnits) (\<lambda>tot. Ok (tot, providerUnits))))"

definition CalculateExternalSwapAmountAsymmetricRat ::
  "rat \<Rightarrow> rat \<Rightarrow> rat \<Rightarrow> rat \<Rightarrow> rat \<Rightarrow> rat \<Rightarrow> rat result" where
  "CalculateExternalSwapAmountAsymmetricRat Y X y x f r =
     (let r1 = r + 1;
          a' = x + X;
          b' = a' * (- 1);
          c' = Y * b';
          d' = f * f * x * Y;
          e' = f * f * X * Y;
          f' = 2 * f * r * x * Y;
          g' = 4 * f * r * X * y;
          h' = 2 * f * r * X * Y;
          i' = 4 * f * X * y;
          j' = 4 * f * X * Y;
          k' = r * r * x * Y;
          l' = r * r * X * Y;
          m' = 4 * r * X * y;
          n' = 4 * r * X * Y;
          o' = 4 * X * y;
          p' = 4 * X * Y;
          q' = f * x * Y;
          r' = f * X * Y;
          s' = r * x * Y;
          t' = 2 * r * X * y;
          u' = r * X * Y;
          v' = 2 * X * y;
          w' = 2 * X * Y;
          x' = y + Y;
          y' = g' + h' + i' + j' - d' - e' - f' - k' - l' - m' - n' - o' - p';
          z' = c' * y'
      in rbind (ApproxRatSquareRoot z') (\<lambda>root.
         let aa' = of_int root;
             ab' = aa' + q' + r' + s' - t' - u' - v' - w';
             ac' = 2 * r1 * x'
         in rbind (rat_quo ab' ac') (\<lambda>ad'. Ok \<bar>ad'\<bar>)))"

definition CalculateNativeSwapAmountAsymmetricRat ::
  "rat \<Rightarrow> rat \<Rightarrow> rat \<Rightarrow> rat \<Rightarrow> rat \<Rightarrow> rat \<Rightarrow> rat result" where
  "CalculateNativeSwapAmountAsymmetricRat Y X y x f r =
     (let a' = f * r * X * y;
          b' = f * r * X * Y;
          c' = f * X * y;
          d' = f * X * Y;
          e' = r * X * y;
          f' = r * X * Y;
          g' = 2 * x * Y;
          h' = 2 * X * Y;
          i' = x + X;
          j' = x * Y * Y;
          k' = X * y * Y;
          l' = j' - k';
          m' = 4 * i' * l';
          n' = f * r * X * y;
          o' = f * r * X * Y;
          p' = f * X * y;
          q' = f * X * Y;
          r' = r * X * y;
          s' = r * X * Y;
          t' = 2 * x * Y;
          u' = 2 * X * Y;
          v' = (x + X) * 2;
          w' = e' + f' + g' + h' - a' - b' - c' - d';
          x' = w' * w';
          y' = x' - m'
      in rbind (ApproxRatSquareRoot y') (\<lambda>root.
         let z' = of_int root;
             aa' = z' + n' + o' + p' + q' - r' - s' - t' - u'
         in rbind (rat_quo aa' v') (\<lambda>ab'. Ok \<bar>ab'\<bar>)))"

definition CalculateExternalSwapAmountAsymmetric ::
  "sdk \<Rightarrow> nat \<Rightarrow> nat \<Rightarrow> nat \<Rightarrow> nat \<Rightarrow> rat \<Rightarrow> rat \<Rightarrow> nat result" where
  "CalculateExternalSwapAmountAsymmetric S R A r a f p =
     rbind (CalculateExternalSwapAmountAsymmetricRat (of_nat R) (of_nat A) (of_nat r) (of_nat a) f p)
       (\<lambda>s. uint_of_big S (RatIntQuo s))"

definition CalculateNativeSwapAmountAsymmetric ::
  "sdk \<Rightarrow> nat \<Rightarrow> nat \<Rightarrow> nat \<Rightarrow> nat \<Rightarrow> rat \<Rightarrow> rat \<Rightarrow> nat result" where
  "CalculateNativeSwapAmountAsymmetric S R A r a f p =
     rbind (CalculateNativeSwapAmountAsymmetricRat (of_nat R) (of_nat A) (of_nat r) (of_nat a) f p)
       (\<lambda>s. uint_of_big S (RatIntQuo s))"

definition CalculatePoolUnits ::
  "sdk \<Rightarrow> nat \<Rightarrow> nat \<Rightarrow> nat \<Rightarrow> nat \<Rightarrow> nat \<Rightarrow> int \<Rightarrow> int \<Rightarrow> int \<Rightarrow> (nat \<times> nat \<times> swap_status \<times> nat) result" where
  "CalculatePoolUnits S P R A r a sellNativeSwapFeeRate buyNativeSwapFeeRate pmtpCurrentRunningRate =
     (let pmtpR = DecToRat pmtpCurrentRunningRate;
          sellR = DecToRat sellNativeSwapFeeRate;
          buyR = DecToRat buyNativeSwapFeeRate
      in case GetLiquidityAddSymmetryState A a R r of
        ErrorEmptyPool \<Rightarrow> if a = 0 \<or> r = 0 then Err ErrInValidAmount else Ok (r, r, NoSwap, 0)
      | ErrorNothingAdded \<Rightarrow> Ok (P, 0, NoSwap, 0)
      | NeedMoreY \<Rightarrow>
          rbind (CalculateExternalSwapAmountAsymmetric S R A r a buyR pmtpR) (\<lambda>swapAmount.
          rbind (uint_sub S a swapAmount) (\<lambda>aCorrected.
          rbind (uint_add S A swapAmount) (\<lambda>AProjected.
          rbind (CalculatePoolUnitsSymmetric S AProjected aCorrected P) (\<lambda>(pool_units, lpUnits).
          Ok (pool_units, lpUnits, BuyNative, swapAmount)))))
      | Symmetric \<Rightarrow>
          rbind (CalculatePoolUnitsSymmetric S R r P) (\<lambda>(pool_units, lpUnits).
          Ok (pool_units, lpUnits, NoSwap, 0))
      | NeedMoreX \<Rightarrow>
          rbind (CalculateNativeSwapAmountAsymmetric S R A r a sellR pmtpR) (\<lambda>swapAmount.
          rbind (uint_sub S r swapAmount) (\<lambda>rCorrected.
          rbind (uint_add S R swapAmount) (\<lambda>RProjected.
          rbind (CalculatePoolUnitsSymmetric S RProjected rCorrected P) (\<lambda>(pool_units, lpUnits).
          Ok (pool_units, lpUnits, SellNative, swapAmount))))))"

section \<open>Basis points\<close>

definition CalculateAllAssetsForLP :: "sdk \<Rightarrow> Pool \<Rightarrow> LiquidityProvider \<Rightarrow> (nat \<times> nat \<times> nat \<times> nat) result" where
  "CalculateAllAssetsForLP S pool lp =
     rbind (ExtractDebt S pool (nativeAssetBalance pool) (externalAssetBalance pool) False)
       (\<lambda>(nativeAssetDepth, externalAssetDepth).
     CalculateWithdrawal S (poolUnits pool) nativeAssetDepth externalAssetDepth
       (liquidityProviderUnits lp) MaxWbasis 0)"

definition ConvUnitsToWBasisPoints :: "sdk \<Rightarrow> nat \<Rightarrow> nat \<Rightarrow> int result" where
  "ConvUnitsToWBasisPoints S totalUnits lp_units =
     rbind (must (dec_of_digits S (int totalUnits))) (\<lambda>totalDec.
     rbind (must (dec_of_digits S (int lp_units))) (\<lambda>unitsDec.
     rbind (dec_quo S totalDec unitsDec) (\<lambda>q.
     rbind (dec_quo S (new_dec 10000) q) (\<lambda>wbasis.
     dec_truncate S wbasis))))"

text \<open>\<open>sdk.NewUintFromString\<close> of the digits of an \<open>sdk.Int\<close> panics below zero.\<close>

definition ConvWBasisPointsToUnits :: "sdk \<Rightarrow> nat \<Rightarrow> int \<Rightarrow> nat result" where
  "ConvWBasisPointsToUnits S totalUnits wbasis =
     rbind (uint_of_big S wbasis) (\<lambda>wbasisUint.
     rbind (uint_quo S 10000 wbasisUint) (\<lambda>d.
     uint_quo S totalUnits d))"

end
