(* ===== verification/ClpPricing.thy ===== *)
theory ClpPricing
  imports Complex_Main ClpCalc
begin

text \<open>
  What the pricing functions of \<open>ClpCalc\<close> promise. The square root in the swap amount of an
  asymmetric deposit never sees a negative argument and the amount is exact up to one unit below
  (\<open>external_swap_amount\<close>, \<open>native_swap_amount\<close>); a deposit into a pool with both sides filled
  always gets its units (\<open>CalculatePoolUnits_total\<close>); a swap returns the floor of the constant
  product price less the fee, takes less than the pool holds and never lowers the product of the
  depths when Fury is bought (\<open>CalcSwapResult_Ok\<close>, \<open>SwapOne_product\<close>); a withdrawal never takes
  more than the depth of the pool.
\<close>

section \<open>Asymmetric deposits\<close>

subsection \<open>The integer square root of a rational\<close>

lemma isqrt_floor:
  fixes z :: rat
  assumes "0 \<le> z"
  defines "t \<equiv> int (isqrt (nat \<lfloor>z\<rfloor>))"
  shows "(of_int t) ^ 2 \<le> z" and "z < (of_int t + 1) ^ 2"
proof -
  let ?n = "nat \<lfloor>z\<rfloor>"
  have n: "int ?n = \<lfloor>z\<rfloor>" using assms by simp
  have "int (isqrt ?n * isqrt ?n) \<le> int ?n"
    using isqrt_bounds [of ?n] by (simp only: of_nat_le_iff)
  then have "t * t \<le> \<lfloor>z\<rfloor>" using assms by (simp add: t_def)
  then have "of_int (t * t) \<le> z" by (simp only: le_floor_iff)
  then show "(of_int t) ^ 2 \<le> z" by (simp add: power2_eq_square)
  have "int ?n < int ((isqrt ?n + 1) * (isqrt ?n + 1))"
    using isqrt_bounds [of ?n] by (simp only: of_nat_less_iff)
  then have "\<lfloor>z\<rfloor> < (t + 1) * (t + 1)" using assms by (simp add: t_def algebra_simps)
  then have "z < of_int ((t + 1) * (t + 1))" by (simp only: floor_less_iff)
  then show "z < (of_int t + 1) ^ 2" by (simp add: power2_eq_square)
qed

subsection \<open>Quadratic equations\<close>

lemma quad_disc:
  fixes \<alpha> \<beta> \<gamma> s :: rat
  shows "(2 * \<alpha> * s + \<beta>) ^ 2 - (\<beta> ^ 2 - 4 * \<alpha> * \<gamma>) = 4 * \<alpha> * (\<alpha> * s ^ 2 + \<beta> * s + \<gamma>)"
  by (simp add: power2_eq_square algebra_simps)

lemma quad_sign:
  fixes \<alpha> \<beta> \<gamma> s :: rat
  assumes "0 < \<alpha>"
  shows "(2 * \<alpha> * s + \<beta>) ^ 2 \<le> \<beta> ^ 2 - 4 * \<alpha> * \<gamma> \<longleftrightarrow> \<alpha> * s ^ 2 + \<beta> * s + \<gamma> \<le> 0"
proof -
  have "(2 * \<alpha> * s + \<beta>) ^ 2 \<le> \<beta> ^ 2 - 4 * \<alpha> * \<gamma> \<longleftrightarrow> 4 * \<alpha> * (\<alpha> * s ^ 2 + \<beta> * s + \<gamma>) \<le> 0"
    using quad_disc [of \<alpha> s \<beta> \<gamma>] by linarith
  also have "\<dots> \<longleftrightarrow> \<alpha> * s ^ 2 + \<beta> * s + \<gamma> \<le> 0"
    using assms by (simp add: mult_le_0_iff)
  finally show ?thesis .
qed

lemma approx_root:
  fixes \<alpha> \<beta> \<gamma> z :: rat
  assumes \<alpha>: "1 \<le> \<alpha>" and \<gamma>: "\<gamma> \<le> 0" and z: "z = \<beta> ^ 2 - 4 * \<alpha> * \<gamma>"
  defines "t \<equiv> of_int (int (isqrt (nat \<lfloor>z\<rfloor>)))"
  defines "n \<equiv> \<lfloor>\<bar>(t - \<beta>) / (2 * \<alpha>)\<bar>\<rfloor>"
  shows "\<alpha> * (of_int n) ^ 2 + \<beta> * of_int n + \<gamma> \<le> 0"
    and "0 < \<alpha> * (of_int n + 2) ^ 2 + \<beta> * (of_int n + 2) + \<gamma>"
    and "0 \<le> n"
proof -
  have "4 * \<alpha> * \<gamma> \<le> 0" using \<alpha> \<gamma> by (simp add: mult_nonneg_nonpos)
  then have bz: "\<beta> ^ 2 \<le> z" using z by simp
  then have z0: "0 \<le> z" using zero_le_power2 [of \<beta>] by linarith
  have t0: "0 \<le> t" by (simp add: t_def)
  have lo: "t ^ 2 \<le> z" and hi: "z < (t + 1) ^ 2"
    using isqrt_floor [OF z0] by (simp_all add: t_def)
  have "\<bar>\<beta>\<bar> < t + 1"
    using bz hi t0 by (metis abs_le_square_iff abs_of_nonneg add_nonneg_nonneg linorder_not_le order.strict_trans1 order_le_less_trans zero_le_one)
  then have b: "\<beta> < t + 1" "- (t + 1) < \<beta>" by linarith+
  show n0: "0 \<le> n" by (simp add: n_def)
  let ?s = "\<bar>(t - \<beta>) / (2 * \<alpha>)\<bar>"
  have ns: "of_int n \<le> ?s" "?s < of_int n + 1" unfolding n_def by linarith+
  have le: "2 * \<alpha> * of_int n \<le> max 0 (t - \<beta>)"
  proof (cases "\<beta> \<le> t")
    case True
    then have "?s = (t - \<beta>) / (2 * \<alpha>)" using \<alpha> by simp
    with ns(1) \<alpha> have "of_int n * (2 * \<alpha>) \<le> t - \<beta>" by (simp add: pos_le_divide_eq)
    then show ?thesis by (simp add: mult.commute)
  next
    case False
    then have "?s = (\<beta> - t) / (2 * \<alpha>)" using \<alpha> by (simp add: abs_if field_simps)
    also have "\<dots> < 1" using b \<alpha> by (simp add: pos_divide_less_eq)
    finally have "n = 0" using n0 ns(1) by linarith
    then show ?thesis by simp
  qed
  show "\<alpha> * (of_int n) ^ 2 + \<beta> * of_int n + \<gamma> \<le> 0"
  proof -
    have "\<bar>2 * \<alpha> * of_int n + \<beta>\<bar> \<le> max t \<bar>\<beta>\<bar>"
    proof -
      define k where "k = 2 * \<alpha> * of_int n"
      have "0 \<le> k" using \<alpha> n0 by (simp add: k_def)
      then show ?thesis
        using le unfolding k_def [symmetric] by (auto simp: max_def abs_if split: if_splits)
    qed
    then have "(2 * \<alpha> * of_int n + \<beta>) ^ 2 \<le> (max t \<bar>\<beta>\<bar>) ^ 2"
      by (metis abs_le_square_iff abs_of_nonneg abs_ge_zero max.coboundedI2)
    also have "\<dots> \<le> z" using lo bz by (simp add: max_def)
    finally show ?thesis using \<alpha> by (simp add: z quad_sign)
  qed
  show "0 < \<alpha> * (of_int n + 2) ^ 2 + \<beta> * (of_int n + 2) + \<gamma>"
  proof -
    have "t - \<beta> < 2 * \<alpha> * (of_int n + 1)"
    proof -
      have "(t - \<beta>) / (2 * \<alpha>) < of_int n + 1" using ns(2) by linarith
      then show ?thesis using \<alpha> by (simp add: pos_divide_less_eq mult.commute)
    qed
    then have "t + 1 < 2 * \<alpha> * (of_int n + 2) + \<beta>" using \<alpha> by (simp add: algebra_simps)
    then have "(t + 1) ^ 2 < (2 * \<alpha> * (of_int n + 2) + \<beta>) ^ 2"
      using t0 by (intro power_strict_mono) auto
    with hi have "\<not> (2 * \<alpha> * (of_int n + 2) + \<beta>) ^ 2 \<le> z" by linarith
    then show ?thesis using \<alpha> quad_sign [of \<alpha> "of_int n + 2" \<beta> \<gamma>] by (simp add: z)
  qed
qed


subsection \<open>The two swap amounts\<close>

lemma ApproxRatSquareRoot_nonneg:
  "0 \<le> z \<Longrightarrow> ApproxRatSquareRoot z = Ok (int (isqrt (nat \<lfloor>z\<rfloor>)))"
  by (simp add: ApproxRatSquareRoot_def big_sqrt_def RatIntQuo_floor)

text \<open>
  The equations the two comments of the source solve for \<open>s\<close>, cleared of denominators:
  \<open>(a + A) / (r + R) = (a - s) / (r + s * R / (s + A) * (1 - f) / (1 + p))\<close> and
  \<open>(r + R) / (a + A) = (r - s) / (a + s * A / (s + R) * (1 + p) * (1 - f))\<close>.
  Left of the exact root the polynomial is not positive, right of it it is positive.
\<close>

definition ext_quad :: "rat \<Rightarrow> rat \<Rightarrow> rat \<Rightarrow> rat \<Rightarrow> rat \<Rightarrow> rat \<Rightarrow> rat \<Rightarrow> rat" where
  "ext_quad R A r a f p s = (1 + p) * (r + R) * s ^ 2
     + (2 * (1 + p) * A * r + (2 + p) * A * R - f * a * R - f * A * R - p * a * R) * s
     + (1 + p) * A * (A * r - a * R)"

definition nat_quad :: "rat \<Rightarrow> rat \<Rightarrow> rat \<Rightarrow> rat \<Rightarrow> rat \<Rightarrow> rat \<Rightarrow> rat \<Rightarrow> rat" where
  "nat_quad R A r a f p s = (a + A) * s ^ 2
     + (2 * a * R + 2 * A * R + p * A * r + p * A * R - f * p * A * r - f * p * A * R - f * A * r - f * A * R) * s
     + R * (a * R - A * r)"

lemma ext_rat_eq:
  fixes R A r a f p :: rat
  defines "\<alpha> \<equiv> (1 + p) * (r + R)"
    and "\<beta> \<equiv> 2 * (1 + p) * A * r + (2 + p) * A * R - f * a * R - f * A * R - p * a * R"
    and "\<gamma> \<equiv> (1 + p) * A * (A * r - a * R)"
  assumes z: "0 \<le> \<beta> ^ 2 - 4 * \<alpha> * \<gamma>" and \<alpha>: "0 < \<alpha>"
  shows "CalculateExternalSwapAmountAsymmetricRat R A r a f p =
    Ok \<bar>(of_int (int (isqrt (nat \<lfloor>\<beta> ^ 2 - 4 * \<alpha> * \<gamma>\<rfloor>))) - \<beta>) / (2 * \<alpha>)\<bar>"
proof -
  let ?y = "4 * f * p * A * r + 2 * f * p * A * R + 4 * f * A * r + 4 * f * A * R - f * f * a * R - f * f * A * R -
    2 * f * p * a * R - p * p * a * R - p * p * A * R - 4 * p * A * r - 4 * p * A * R - 4 * A * r - 4 * A * R"
  have disc: "R * ((a + A) * (- 1)) * ?y = \<beta> ^ 2 - 4 * \<alpha> * \<gamma>"
    unfolding \<alpha>_def \<beta>_def \<gamma>_def by (simp add: power2_eq_square algebra_simps)
  have num: "t + f * a * R + f * A * R + p * a * R - 2 * p * A * r - p * A * R - 2 * A * r - 2 * A * R = t - \<beta>" for t
    unfolding \<beta>_def by (simp add: algebra_simps)
  have den: "2 * (p + 1) * (r + R) = 2 * \<alpha>"
    unfolding \<alpha>_def by (simp add: algebra_simps)
  show ?thesis
    unfolding CalculateExternalSwapAmountAsymmetricRat_def Let_def disc ApproxRatSquareRoot_nonneg [OF z]
    unfolding rbind.simps num den rat_quo_def
    using \<alpha> by simp
qed

lemma nat_rat_eq:
  fixes R A r a f p :: rat
  defines "\<alpha> \<equiv> a + A"
    and "\<beta> \<equiv> 2 * a * R + 2 * A * R + p * A * r + p * A * R - f * p * A * r - f * p * A * R - f * A * r - f * A * R"
    and "\<gamma> \<equiv> R * (a * R - A * r)"
  assumes z: "0 \<le> \<beta> ^ 2 - 4 * \<alpha> * \<gamma>" and \<alpha>: "0 < \<alpha>"
  shows "CalculateNativeSwapAmountAsymmetricRat R A r a f p =
    Ok \<bar>(of_int (int (isqrt (nat \<lfloor>\<beta> ^ 2 - 4 * \<alpha> * \<gamma>\<rfloor>))) - \<beta>) / (2 * \<alpha>)\<bar>"
proof -
  let ?w = "p * A * r + p * A * R + 2 * a * R + 2 * A * R - f * p * A * r - f * p * A * R - f * A * r - f * A * R"
  have disc: "?w * ?w - 4 * (a + A) * (a * R * R - A * r * R) = \<beta> ^ 2 - 4 * \<alpha> * \<gamma>"
    unfolding \<alpha>_def \<beta>_def \<gamma>_def by (simp add: power2_eq_square algebra_simps)
  have num: "t + f * p * A * r + f * p * A * R + f * A * r + f * A * R - p * A * r - p * A * R - 2 * a * R - 2 * A * R = t - \<beta>" for t
    unfolding \<beta>_def by (simp add: algebra_simps)
  have den: "(a + A) * 2 = 2 * \<alpha>"
    unfolding \<alpha>_def by simp
  show ?thesis
    unfolding CalculateNativeSwapAmountAsymmetricRat_def Let_def disc ApproxRatSquareRoot_nonneg [OF z]
    unfolding rbind.simps num den rat_quo_def
    using \<alpha> by simp
qed

lemma right_of_root:
  fixes \<alpha> \<beta> \<gamma> s m :: rat
  assumes "0 < \<alpha>" and "0 \<le> \<alpha> * m ^ 2 + \<beta> * m + \<gamma>" and "0 \<le> 2 * \<alpha> * m + \<beta>"
    and "\<alpha> * s ^ 2 + \<beta> * s + \<gamma> \<le> 0"
  shows "s \<le> m"
proof (rule ccontr)
  assume "\<not> s \<le> m"
  then have sm: "0 < s - m" by simp
  have "0 < \<alpha> * (s - m)" using assms(1) sm by simp
  then have "0 < \<alpha> * (s + m) + \<beta>" using assms(3) by (simp add: algebra_simps)
  with sm have "0 < (s - m) * (\<alpha> * (s + m) + \<beta>)" by simp
  also have "\<dots> = (\<alpha> * s ^ 2 + \<beta> * s + \<gamma>) - (\<alpha> * m ^ 2 + \<beta> * m + \<gamma>)"
    by (simp add: power2_eq_square algebra_simps)
  finally show False using assms(2,4) by linarith
qed

lemma ext_amount_rat:
  fixes R A r a f p :: rat
  assumes pos: "1 \<le> R" "0 < A" "0 \<le> r" "0 \<le> a" and f: "0 \<le> f" "f \<le> 1" and p: "0 \<le> p"
    and need: "A * r \<le> a * R"
  shows "\<exists>s. CalculateExternalSwapAmountAsymmetricRat R A r a f p = Ok s \<and> 0 \<le> s \<and>
    of_int \<lfloor>s\<rfloor> \<le> a \<and> ext_quad R A r a f p (of_int \<lfloor>s\<rfloor>) \<le> 0 \<and> 0 < ext_quad R A r a f p (of_int \<lfloor>s\<rfloor> + 2)"
proof -
  define \<alpha> where "\<alpha> = (1 + p) * (r + R)"
  define \<beta> where "\<beta> = 2 * (1 + p) * A * r + (2 + p) * A * R - f * a * R - f * A * R - p * a * R"
  define \<gamma> where "\<gamma> = (1 + p) * A * (A * r - a * R)"
  have \<alpha>: "1 \<le> \<alpha>"
    using mult_mono [of 1 "1 + p" 1 "r + R"] pos p by (simp add: \<alpha>_def)
  have \<gamma>: "\<gamma> \<le> 0"
    unfolding \<gamma>_def using pos p need by (intro mult_nonneg_nonpos) auto
  have z: "0 \<le> \<beta> ^ 2 - 4 * \<alpha> * \<gamma>"
    using mult_nonneg_nonpos [of "4 * \<alpha>" \<gamma>] \<alpha> \<gamma> zero_le_power2 [of \<beta>] by linarith
  define s where "s = \<bar>(of_int (int (isqrt (nat \<lfloor>\<beta> ^ 2 - 4 * \<alpha> * \<gamma>\<rfloor>))) - \<beta>) / (2 * \<alpha>)\<bar>"
  have eq: "CalculateExternalSwapAmountAsymmetricRat R A r a f p = Ok s"
    unfolding s_def \<alpha>_def \<beta>_def \<gamma>_def
    by (rule ext_rat_eq) (use z \<alpha> in \<open>simp_all add: \<alpha>_def \<beta>_def \<gamma>_def\<close>)
  have Q: "ext_quad R A r a f p x = \<alpha> * x ^ 2 + \<beta> * x + \<gamma>" for x
    by (simp add: ext_quad_def \<alpha>_def \<beta>_def \<gamma>_def)
  have root: "ext_quad R A r a f p (of_int \<lfloor>s\<rfloor>) \<le> 0" "0 < ext_quad R A r a f p (of_int \<lfloor>s\<rfloor> + 2)"
    unfolding Q s_def using approx_root [OF \<alpha> \<gamma> refl, of \<beta>] by simp_all
  have "\<alpha> * a ^ 2 + \<beta> * a + \<gamma> = (a + A) * ((1 + p) * r * (a + A) + a * R * (1 - f))"
    by (simp add: \<alpha>_def \<beta>_def \<gamma>_def power2_eq_square algebra_simps)
  then have Qa: "0 \<le> \<alpha> * a ^ 2 + \<beta> * a + \<gamma>" using pos f p by simp
  have "2 * \<alpha> * a + \<beta> = 2 * (1 + p) * r * (a + A) + a * R * (2 + p - f) + A * R * (2 + p - f)"
    by (simp add: \<alpha>_def \<beta>_def algebra_simps)
  then have Da: "0 \<le> 2 * \<alpha> * a + \<beta>" using pos f p by simp
  have "of_int \<lfloor>s\<rfloor> \<le> a"
    using right_of_root [OF _ Qa Da, of "of_int \<lfloor>s\<rfloor>"] \<alpha> root(1) by (simp add: Q)
  with eq root show ?thesis by (auto simp: s_def)
qed

lemma nat_amount_rat:
  fixes R A r a f p :: rat
  assumes pos: "0 < R" "1 \<le> A" "0 \<le> r" "0 \<le> a" and f: "0 \<le> f" "f \<le> 1" and p: "0 \<le> p"
    and need: "a * R \<le> A * r"
  shows "\<exists>s. CalculateNativeSwapAmountAsymmetricRat R A r a f p = Ok s \<and> 0 \<le> s \<and>
    of_int \<lfloor>s\<rfloor> \<le> r \<and> nat_quad R A r a f p (of_int \<lfloor>s\<rfloor>) \<le> 0 \<and> 0 < nat_quad R A r a f p (of_int \<lfloor>s\<rfloor> + 2)"
proof -
  define \<alpha> where "\<alpha> = a + A"
  define \<beta> where "\<beta> = 2 * a * R + 2 * A * R + p * A * r + p * A * R - f * p * A * r - f * p * A * R - f * A * r - f * A * R"
  define \<gamma> where "\<gamma> = R * (a * R - A * r)"
  have \<alpha>: "1 \<le> \<alpha>" using pos by (simp add: \<alpha>_def)
  have \<gamma>: "\<gamma> \<le> 0"
    unfolding \<gamma>_def using pos need by (intro mult_nonneg_nonpos) auto
  have z: "0 \<le> \<beta> ^ 2 - 4 * \<alpha> * \<gamma>"
    using mult_nonneg_nonpos [of "4 * \<alpha>" \<gamma>] \<alpha> \<gamma> zero_le_power2 [of \<beta>] by linarith
  define s where "s = \<bar>(of_int (int (isqrt (nat \<lfloor>\<beta> ^ 2 - 4 * \<alpha> * \<gamma>\<rfloor>))) - \<beta>) / (2 * \<alpha>)\<bar>"
  have eq: "CalculateNativeSwapAmountAsymmetricRat R A r a f p = Ok s"
    unfolding s_def \<alpha>_def \<beta>_def \<gamma>_def
    by (rule nat_rat_eq) (use z \<alpha> in \<open>simp_all add: \<alpha>_def \<beta>_def \<gamma>_def\<close>)
  have Q: "nat_quad R A r a f p x = \<alpha> * x ^ 2 + \<beta> * x + \<gamma>" for x
    by (simp add: nat_quad_def \<alpha>_def \<beta>_def \<gamma>_def)
  have root: "nat_quad R A r a f p (of_int \<lfloor>s\<rfloor>) \<le> 0" "0 < nat_quad R A r a f p (of_int \<lfloor>s\<rfloor> + 2)"
    unfolding Q s_def using approx_root [OF \<alpha> \<gamma> refl, of \<beta>] by simp_all
  have "\<alpha> * r ^ 2 + \<beta> * r + \<gamma> = (r + R) * (a * (r + R) + r * A * ((1 + p) * (1 - f)))"
    by (simp add: \<alpha>_def \<beta>_def \<gamma>_def power2_eq_square algebra_simps)
  then have Qr: "0 \<le> \<alpha> * r ^ 2 + \<beta> * r + \<gamma>" using pos f p by simp
  have "2 * \<alpha> * r + \<beta> = 2 * a * (r + R) + A * (r + R) * (2 - f + p * (1 - f))"
    by (simp add: \<alpha>_def \<beta>_def algebra_simps)
  then have Dr: "0 \<le> 2 * \<alpha> * r + \<beta>" using pos f p by simp
  have "of_int \<lfloor>s\<rfloor> \<le> r"
    using right_of_root [OF _ Qr Dr, of "of_int \<lfloor>s\<rfloor>"] \<alpha> root(1) by (simp add: Q)
  with eq root show ?thesis by (auto simp: s_def)
qed

context sdk_laws
begin

lemma uint_of_floor:
  assumes s: "0 \<le> s" and le: "of_int \<lfloor>s\<rfloor> \<le> (of_nat a :: rat)" and a: "a < 2 ^ 256"
  shows "uint_of_big S (RatIntQuo s) = Ok (nat \<lfloor>s\<rfloor>)" and "nat \<lfloor>s\<rfloor> \<le> a"
    and "of_nat (nat \<lfloor>s\<rfloor>) = (of_int \<lfloor>s\<rfloor> :: rat)"
proof -
  have "of_int \<lfloor>s\<rfloor> \<le> (of_int (int a) :: rat)" using le by simp
  then have le': "\<lfloor>s\<rfloor> \<le> int a" by (simp only: of_int_le_iff)
  then show "nat \<lfloor>s\<rfloor> \<le> a" by simp
  have "int a < 2 ^ 256" using a by simp
  then have "\<lfloor>s\<rfloor> < 2 ^ 256" using le' by linarith
  then show "uint_of_big S (RatIntQuo s) = Ok (nat \<lfloor>s\<rfloor>)"
    using s unfolding RatIntQuo_floor [OF s] uint_of_big by (simp only: zero_le_floor if_True simp_thms)
  show "of_nat (nat \<lfloor>s\<rfloor>) = (of_int \<lfloor>s\<rfloor> :: rat)" using s by simp
qed

lemma external_swap_amount:
  assumes "0 < R" "0 < A" and f: "0 \<le> f" "f \<le> 1" and p: "0 \<le> p"
    and need: "A * r \<le> a * R" and a: "a < 2 ^ 256"
  shows "\<exists>s. CalculateExternalSwapAmountAsymmetric S R A r a f p = Ok s \<and> s \<le> a \<and>
    ext_quad (of_nat R) (of_nat A) (of_nat r) (of_nat a) f p (of_nat s) \<le> 0 \<and>
    0 < ext_quad (of_nat R) (of_nat A) (of_nat r) (of_nat a) f p (of_nat s + 2)"
proof -
  have "of_nat (A * r) \<le> (of_nat (a * R) :: rat)" using need by (simp only: of_nat_le_iff)
  then obtain s where s:
    "CalculateExternalSwapAmountAsymmetricRat (of_nat R) (of_nat A) (of_nat r) (of_nat a) f p = Ok s"
    "0 \<le> s" "of_int \<lfloor>s\<rfloor> \<le> (of_nat a :: rat)"
    "ext_quad (of_nat R) (of_nat A) (of_nat r) (of_nat a) f p (of_int \<lfloor>s\<rfloor>) \<le> 0"
    "0 < ext_quad (of_nat R) (of_nat A) (of_nat r) (of_nat a) f p (of_int \<lfloor>s\<rfloor> + 2)"
    using ext_amount_rat [of "of_nat R" "of_nat A" "of_nat r" "of_nat a" f p] assms by auto
  then show ?thesis
    using uint_of_floor [OF s(2,3) a]
    by (intro exI [of _ "nat \<lfloor>s\<rfloor>"]) (simp add: CalculateExternalSwapAmountAsymmetric_def)
qed

lemma native_swap_amount:
  assumes "0 < R" "0 < A" and f: "0 \<le> f" "f \<le> 1" and p: "0 \<le> p"
    and need: "a * R \<le> A * r" and r: "r < 2 ^ 256"
  shows "\<exists>s. CalculateNativeSwapAmountAsymmetric S R A r a f p = Ok s \<and> s \<le> r \<and>
    nat_quad (of_nat R) (of_nat A) (of_nat r) (of_nat a) f p (of_nat s) \<le> 0 \<and>
    0 < nat_quad (of_nat R) (of_nat A) (of_nat r) (of_nat a) f p (of_nat s + 2)"
proof -
  have "of_nat (a * R) \<le> (of_nat (A * r) :: rat)" using need by (simp only: of_nat_le_iff)
  then obtain s where s:
    "CalculateNativeSwapAmountAsymmetricRat (of_nat R) (of_nat A) (of_nat r) (of_nat a) f p = Ok s"
    "0 \<le> s" "of_int \<lfloor>s\<rfloor> \<le> (of_nat r :: rat)"
    "nat_quad (of_nat R) (of_nat A) (of_nat r) (of_nat a) f p (of_int \<lfloor>s\<rfloor>) \<le> 0"
    "0 < nat_quad (of_nat R) (of_nat A) (of_nat r) (of_nat a) f p (of_int \<lfloor>s\<rfloor> + 2)"
    using nat_amount_rat [of "of_nat R" "of_nat A" "of_nat r" "of_nat a" f p] assms by auto
  then show ?thesis
    using uint_of_floor [OF s(2,3) r]
    by (intro exI [of _ "nat \<lfloor>s\<rfloor>"]) (simp add: CalculateNativeSwapAmountAsymmetric_def)
qed

subsection \<open>Units of a deposit\<close>

lemma units_symmetric:
  assumes "0 < X" and "x < 2 ^ 128" and "P < 2 ^ 127"
  shows "CalculatePoolUnitsSymmetric S X x P = Ok (P + x * P div X, x * P div X)"
proof -
  have "x * P < 2 ^ 128 * 2 ^ 127" using assms by (intro mult_strict_mono) auto
  moreover have "x * P div X \<le> x * P" by (rule div_le_dividend)
  ultimately have "x * P div X < 2 ^ 128 * 2 ^ 127" by (rule order.strict_trans1 [rotated])
  then have lt: "x * P div X < 2 ^ 255" by simp
  have "big_quo (int x * int P) (int X) = Ok (int (x * P div X))"
    using assms(1) by (simp add: big_quo_def tquo_nonneg of_nat_mult zdiv_int)
  then show ?thesis
    using lt assms by (simp add: CalculatePoolUnitsSymmetric_def uint_of_big uint_add)
qed

lemma symmetry_cases:
  "GetLiquidityAddSymmetryState X x Y y = NeedMoreY \<Longrightarrow> 0 < X \<and> 0 < Y \<and> 0 < x \<and> y * X \<le> x * Y"
  "GetLiquidityAddSymmetryState X x Y y = NeedMoreX \<Longrightarrow> 0 < X \<and> 0 < Y \<and> x * Y \<le> X * y"
proof -
  have frac: "of_nat y / of_nat x \<le> (of_nat Y / of_nat X :: rat) \<longleftrightarrow> y * X \<le> x * Y" if "0 < x" "0 < X"
  proof -
    have "of_nat y / of_nat x \<le> (of_nat Y / of_nat X :: rat) \<longleftrightarrow>
        of_nat (y * X) \<le> (of_nat (x * Y) :: rat)"
      using that by (simp add: divide_le_eq le_divide_eq field_simps)
    then show ?thesis by (simp only: of_nat_le_iff)
  qed
  show "GetLiquidityAddSymmetryState X x Y y = NeedMoreY \<Longrightarrow> 0 < X \<and> 0 < Y \<and> 0 < x \<and> y * X \<le> x * Y"
    using frac by (auto simp: GetLiquidityAddSymmetryState_def Let_def not_less split: if_splits)
  show "GetLiquidityAddSymmetryState X x Y y = NeedMoreX \<Longrightarrow> 0 < X \<and> 0 < Y \<and> x * Y \<le> X * y"
    using frac by (force simp: GetLiquidityAddSymmetryState_def Let_def not_le mult.commute split: if_splits)
qed


lemma symmetry_nonempty:
  "0 < X \<Longrightarrow> 0 < Y \<Longrightarrow> GetLiquidityAddSymmetryState X x Y y \<noteq> ErrorEmptyPool"
  by (simp add: GetLiquidityAddSymmetryState_def Let_def)

lemma pool_units_total:
  assumes pos: "0 < R" "0 < A"
    and fees: "0 \<le> sell" "sell \<le> dec_one" "0 \<le> buy" "buy \<le> dec_one" and rate: "0 \<le> rate"
    and small: "r < 2 ^ 127" "a < 2 ^ 127" "R < 2 ^ 127" "A < 2 ^ 127" "P < 2 ^ 127"
  shows "\<exists>pu lu st sw. CalculatePoolUnits S P R A r a sell buy rate = Ok (pu, lu, st, sw) \<and>
    pu = P + lu \<and> (st = NoSwap \<longrightarrow> sw = 0) \<and> (st = BuyNative \<longrightarrow> sw \<le> a) \<and> (st = SellNative \<longrightarrow> sw \<le> r)"
proof (cases "GetLiquidityAddSymmetryState A a R r")
  case ErrorEmptyPool
  then show ?thesis using symmetry_nonempty pos by blast
next
  case ErrorNothingAdded
  then show ?thesis by (simp add: CalculatePoolUnits_def)
next
  case Symmetric
  then show ?thesis
    using units_symmetric [of R r P] pos small by (simp add: CalculatePoolUnits_def)
next
  case NeedMoreY
  note need = symmetry_cases(1) [OF NeedMoreY]
  obtain s where s: "CalculateExternalSwapAmountAsymmetric S R A r a (DecToRat buy) (DecToRat rate) = Ok s" "s \<le> a"
    using external_swap_amount [of R A "DecToRat buy" "DecToRat rate" r a] pos fees rate small need
    by (auto simp: DecToRat_nonneg DecToRat_le_1 mult.commute)
  then show ?thesis
    using units_symmetric [of "A + s" "a - s" P] pos small
    by (simp add: CalculatePoolUnits_def NeedMoreY uint_sub uint_add)
next
  case NeedMoreX
  note need = symmetry_cases(2) [OF NeedMoreX]
  obtain s where s: "CalculateNativeSwapAmountAsymmetric S R A r a (DecToRat sell) (DecToRat rate) = Ok s" "s \<le> r"
    using native_swap_amount [of R A "DecToRat sell" "DecToRat rate" a r] pos fees rate small need
    by (auto simp: DecToRat_nonneg DecToRat_le_1)
  then show ?thesis
    using units_symmetric [of "R + s" "r - s" P] pos small
    by (simp add: CalculatePoolUnits_def NeedMoreX uint_sub uint_add)
qed

section \<open>Swaps\<close>

text \<open>The price before the fee: the constant product price, moved by the ratio shift.\<close>

end

definition swap_price :: "bool \<Rightarrow> nat \<Rightarrow> nat \<Rightarrow> nat \<Rightarrow> int \<Rightarrow> rat" where
  "swap_price toFury X x Y rate =
     (let raw = of_nat x * of_nat Y / (of_nat X + of_nat x) in
      if toFury then raw / (1 + DecToRat rate) else raw * (1 + DecToRat rate))"

context sdk_laws
begin

lemma swap_price_nonneg: "0 \<le> rate \<Longrightarrow> 0 \<le> swap_price toFury X x Y rate"
  by (simp add: swap_price_def Let_def DecToRat_nonneg)

lemma CalcSwapResult_nonzero:
  assumes nz: "0 < X" "0 < x" "0 < Y" and rate: "0 \<le> rate"
  shows "CalcSwapResult S toFury X x Y rate fee =
    (let adj = swap_price toFury X x Y rate in
     rbind (uint_of_big S (RatIntQuo (adj * DecToRat fee))) (\<lambda>f.
     rbind (uint_of_big S (RatIntQuo adj)) (\<lambda>n. rbind (uint_sub S n f) (\<lambda>y. Ok (y, f)))))"
proof -
  have "of_nat X + of_nat x \<noteq> (0 :: rat)" using nz by (simp add: add_nonneg_eq_0_iff)
  moreover have "1 + DecToRat rate \<noteq> 0" using DecToRat_nonneg [OF rate] by linarith
  ultimately show ?thesis
    using nz by (simp add: CalcSwapResult_def IsAnyZero_def calcRawXYK_def calcPmtpFactor_def rat_quo_def
        swap_price_def Let_def)
qed

lemma swap_result_total:
  assumes nz: "0 < X" "0 < x" "0 < Y" and rate: "0 \<le> rate" and fee: "0 \<le> fee" "fee \<le> dec_one"
    and fits: "swap_price toFury X x Y rate < 2 ^ 255"
  shows "CalcSwapResult S toFury X x Y rate fee =
    Ok (nat (\<lfloor>swap_price toFury X x Y rate\<rfloor> - \<lfloor>swap_price toFury X x Y rate * DecToRat fee\<rfloor>),
        nat \<lfloor>swap_price toFury X x Y rate * DecToRat fee\<rfloor>)"
proof -
  let ?p = "swap_price toFury X x Y rate"
  have p0: "0 \<le> ?p" by (rule swap_price_nonneg [OF rate])
  have f0: "0 \<le> ?p * DecToRat fee" using p0 fee by (simp add: DecToRat_nonneg)
  have fp: "?p * DecToRat fee \<le> ?p"
    using mult_left_mono [OF DecToRat_le_1 [OF fee(2)] p0] by simp
  then have le: "\<lfloor>?p * DecToRat fee\<rfloor> \<le> \<lfloor>?p\<rfloor>" by (rule floor_mono)
  have "\<lfloor>?p\<rfloor> < 2 ^ 255" using fits by (simp add: floor_less_iff)
  then have lt: "\<lfloor>?p\<rfloor> < 2 ^ 256" by simp
  have z: "0 \<le> \<lfloor>?p * DecToRat fee\<rfloor>" "0 \<le> \<lfloor>?p\<rfloor>" using f0 p0 by simp_all
  have "uint_of_big S (RatIntQuo ?p) = Ok (nat \<lfloor>?p\<rfloor>)"
    using z lt unfolding RatIntQuo_floor [OF p0] uint_of_big by (simp only: if_True simp_thms)
  moreover have "uint_of_big S (RatIntQuo (?p * DecToRat fee)) = Ok (nat \<lfloor>?p * DecToRat fee\<rfloor>)"
    using z le_less_trans [OF le lt] unfolding RatIntQuo_floor [OF f0] uint_of_big
    by (simp only: if_True simp_thms)
  ultimately show ?thesis
    using le z by (simp add: CalcSwapResult_nonzero [OF nz rate] Let_def uint_sub nat_mono nat_diff_distrib)
qed

lemma swap_result_le:
  assumes r: "CalcSwapResult S toFury X x Y rate fee = Ok (y, f)" and rate: "0 \<le> rate" and fee: "0 \<le> fee"
  shows "of_nat (y + f) \<le> swap_price toFury X x Y rate"
proof (cases "0 < X \<and> 0 < x \<and> 0 < Y")
  case True
  let ?p = "swap_price toFury X x Y rate"
  have p0: "0 \<le> ?p" by (rule swap_price_nonneg [OF rate])
  have "y + f = nat \<lfloor>?p\<rfloor>"
    using r True by (auto simp: CalcSwapResult_nonzero rate Let_def result_inv uint_Ok RatIntQuo_floor p0)
  then show ?thesis using p0 by simp
next
  case False
  then have "y = 0 \<and> f = 0" using r by (auto simp: CalcSwapResult_def IsAnyZero_def)
  then show ?thesis by (simp add: swap_price_nonneg rate)
qed

text \<open>What leaves the pool is at most the constant product price if the shift lowers the price.\<close>

lemma xyk_product:
  assumes "of_nat y \<le> of_nat x * of_nat Y / (of_nat X + of_nat x :: rat)"
  shows "X * Y \<le> (X + x) * (Y - y)"
proof (cases "x = 0")
  case False
  have "of_nat (y * (X + x)) \<le> (of_nat (x * Y) :: rat)"
    using assms False by (simp add: le_divide_eq add_nonneg_pos)
  then have "y * (X + x) \<le> x * Y" by (simp only: of_nat_le_iff)
  then have "(X + x) * Y - (X + x) * y \<ge> X * Y" by (simp add: algebra_simps)
  then show ?thesis by (simp add: diff_mult_distrib2)
qed (use assms in \<open>simp add: mult_le_mono2\<close>)

lemma swap_price_le_xyk:
  assumes "0 \<le> rate" and "toFury \<or> rate = 0"
  shows "swap_price toFury X x Y rate \<le> of_nat x * of_nat Y / (of_nat X + of_nat x)"
proof -
  have shift: "raw / (1 + DecToRat rate) \<le> raw" if "0 \<le> raw" for raw
    using that DecToRat_nonneg [OF assms(1)] by (simp add: divide_le_eq mult_le_cancel_left1)
  have "(of_nat x * of_nat Y / (of_nat X + of_nat x)) / (1 + DecToRat rate)
      \<le> of_nat x * of_nat Y / (of_nat X + of_nat x)"
    by (rule shift) simp
  moreover have "DecToRat 0 = 0" by (simp add: DecToRat_def)
  ultimately show ?thesis using assms by (auto simp: swap_price_def Let_def)
qed

lemma SwapOne_Ok:
  assumes "SwapOne S x to p rate fee = Ok (y, f, impact, q)"
  shows "\<exists>X Y toFury a. ExtractValues p to = (X, Y, toFury, a) \<and> y < Y \<and>
    CalcSwapResult S toFury (X + (if toFury then externalLiabilities p else nativeLiabilities p)) x
      (Y + (if toFury then nativeLiabilities p else externalLiabilities p)) rate fee = Ok (y, f) \<and>
    q = (if toFury then p\<lparr>externalAssetBalance := X + x, nativeAssetBalance := Y - y\<rparr>
         else p\<lparr>nativeAssetBalance := X + x, externalAssetBalance := Y - y\<rparr>)"
proof -
  obtain X Y toFury a where ev: "ExtractValues p to = (X, Y, toFury, a)" by (cases "ExtractValues p to")
  show ?thesis
    using assms
    by (auto simp: SwapOne_def ev result_inv not_le split: if_splits
        dest!: ExtractDebt_Ok UpdateBalances_Ok)
qed


text \<open>The product of the depths that the price is made of, debts included.\<close>

lemma SwapOne_product:
  assumes s: "SwapOne S x to p rate fee = Ok (y, f, impact, q)"
    and rate: "0 \<le> rate" "IsSettlementAsset to \<or> rate = 0" and fee: "0 \<le> fee"
  shows "(nativeAssetBalance p + nativeLiabilities p) * (externalAssetBalance p + externalLiabilities p)
    \<le> (nativeAssetBalance q + nativeLiabilities q) * (externalAssetBalance q + externalLiabilities q)"
proof -
  obtain X Y toFury a where ev: "ExtractValues p to = (X, Y, toFury, a)" and y: "y < Y"
    and r: "CalcSwapResult S toFury (X + (if toFury then externalLiabilities p else nativeLiabilities p)) x
      (Y + (if toFury then nativeLiabilities p else externalLiabilities p)) rate fee = Ok (y, f)"
    and q: "q = (if toFury then p\<lparr>externalAssetBalance := X + x, nativeAssetBalance := Y - y\<rparr>
         else p\<lparr>nativeAssetBalance := X + x, externalAssetBalance := Y - y\<rparr>)"
    using SwapOne_Ok [OF s] by blast
  define lx where "lx = (if toFury then externalLiabilities p else nativeLiabilities p)"
  define ly where "ly = (if toFury then nativeLiabilities p else externalLiabilities p)"
  have to: "toFury \<longleftrightarrow> IsSettlementAsset to" using ev by (auto simp: ExtractValues_def split: if_splits)
  have "of_nat y \<le> (of_nat (y + f) :: rat)" by simp
  also have "\<dots> \<le> swap_price toFury (X + lx) x (Y + ly) rate"
    using swap_result_le [OF r rate(1) fee] by (simp add: lx_def ly_def)
  also have "\<dots> \<le> of_nat x * of_nat (Y + ly) / (of_nat (X + lx) + of_nat x)"
    using rate to by (intro swap_price_le_xyk) auto
  finally have "(X + lx) * (Y + ly) \<le> (X + lx + x) * (Y + ly - y)" by (rule xyk_product)
  also have "\<dots> = (X + x + lx) * (Y - y + ly)" using y by (simp add: algebra_simps)
  finally show ?thesis
    using ev q to by (auto simp: ExtractValues_def lx_def ly_def mult.commute split: if_splits)
qed

end

section \<open>Withdrawals\<close>

lemma tquo_dec_mono: "x \<le> n * dec_one \<Longrightarrow> 0 \<le> x \<Longrightarrow> tquo x dec_one \<le> n"
  by (simp add: tquo_nonneg)

context sdk_laws
begin

text \<open>One quotient of a withdrawal: the share of a depth that units of a pool claim.\<close>

lemma claim_le:
  assumes "dec_quo S P u = Ok d" "dec_quo S D d = Ok w" and "0 < u" "u \<le> P" "0 \<le> D"
  shows "0 \<le> w" "w \<le> D"
proof -
  have d: "dec_one \<le> d" using dec_quo_ge_one [OF assms(1,3,4)] .
  then show "0 \<le> w" using dec_quo_nonneg [OF assms(2,5)] by simp
  show "w \<le> D" using dec_quo_le [OF assms(2) d assms(5)] .
qed

lemma claim_all:
  assumes "dec_quo S P P = Ok d" "dec_quo S D d = Ok w"
  shows "w = D"
proof -
  have "d = dec_one" using dec_quo_exact [OF assms(1)] by (simp add: mult.commute)
  then show ?thesis using dec_quo_exact [OF assms(2)] by simp
qed

lemma uint_round_Ok: "uint_round S x = Ok n \<longleftrightarrow> (\<exists>i. dec_round S x = Ok i \<and> 0 \<le> i \<and> i < 2 ^ 256 \<and> n = nat i)"
  by (simp add: uint_round_def rbind_Ok_iff uint_Ok)

lemma uint_truncate_Ok:
  "uint_truncate S x = Ok n \<longleftrightarrow> (\<exists>i. dec_truncate S x = Ok i \<and> 0 \<le> i \<and> i < 2 ^ 256 \<and> n = nat i)"
  by (simp add: uint_truncate_def rbind_Ok_iff uint_Ok)

lemma uint_round_le: "uint_round S x = Ok n \<Longrightarrow> x \<le> int k * dec_one \<Longrightarrow> n \<le> k"
  using dec_round_le [of x _ "int k"] by (auto simp: uint_round_Ok)

lemma uint_round_exact: "uint_round S (int k * dec_one) = Ok n \<Longrightarrow> n = k"
  using dec_round_exact [of "int k"] by (auto simp: uint_round_Ok)

lemma uint_truncate_le: "uint_truncate S x = Ok n \<Longrightarrow> 0 \<le> x \<Longrightarrow> x \<le> int k * dec_one \<Longrightarrow> n \<le> k"
  using tquo_dec_mono [of x "int k"] by (auto simp: uint_truncate_Ok dest!: dec_truncate)

lemma uint_truncate_exact: "uint_truncate S (int k * dec_one) = Ok n \<Longrightarrow> n = k"
  by (auto simp: uint_truncate_Ok tquo_nonneg dest!: dec_truncate)

lemma withdrawal_from_units_bounds:
  assumes w: "CalculateWithdrawalFromUnits S pu nd ed lu wu = Ok (wn, we, left)"
    and wu: "wu \<le> pu"
  shows "wn \<le> nd" "we \<le> ed" "left = lu - wu" "wu \<le> lu" "0 < wu" "wu = pu \<Longrightarrow> wn = nd \<and> we = ed"
proof -
  let ?u = "int wu * dec_one" and ?P = "int pu * dec_one"
  obtain d d' a b c where q:
    "dec_quo S ?P ?u = Ok d" "dec_quo S (int ed * dec_one) d = Ok b"
    "dec_quo S ?P ?u = Ok d'" "dec_quo S (int nd * dec_one) d' = Ok a"
    "dec_sub S (int lu * dec_one) ?u = Ok c"
    "uint_round S a = Ok wn" "uint_round S b = Ok we" "uint_round S c = Ok left"
    using w by (auto simp: CalculateWithdrawalFromUnits_def Let_def new_dec_def result_inv dest!: dec_of_digits)
  have "?u \<noteq> 0" using dec_quo [OF q(1)] by blast
  then show "0 < wu" by simp
  then have u: "0 < ?u" by simp
  have uP: "?u \<le> ?P" using wu by simp
  show "wn \<le> nd" using claim_le [OF q(3,4) u uP] q(6) uint_round_le by simp
  show "we \<le> ed" using claim_le [OF q(1,2) u uP] q(7) uint_round_le by simp
  have c: "c = (int lu - int wu) * dec_one"
    using dec_sub [OF q(5)] by (simp add: left_diff_distrib)
  then obtain i where i: "dec_round S ((int lu - int wu) * dec_one) = Ok i" "0 \<le> i" "left = nat i"
    using q(8) unfolding uint_round_Ok by blast
  have "i = int lu - int wu" by (rule dec_round_exact [OF i(1)])
  with i show "wu \<le> lu" "left = lu - wu" by simp_all
  show "wn = nd \<and> we = ed" if "wu = pu"
  proof -
    have "a = int nd * dec_one" "b = int ed * dec_one"
      using claim_all q(1-4) that by blast+
    then show ?thesis using q(6,7) uint_round_exact by blast
  qed
qed


lemma withdrawal_bounds:
  assumes w: "CalculateWithdrawal S pu nd ed lu wb asy = Ok (wn, we, left, sw)"
    and lu: "lu \<le> pu" and wb: "0 \<le> wb" "wb \<le> 10000"
  shows "wn \<le> nd" "we \<le> ed" "left \<le> lu" "0 < lu" "0 < wb"
    "wb = 10000 \<Longrightarrow> left = 0" "wb = 10000 \<Longrightarrow> lu = pu \<Longrightarrow> wn = nd \<and> we = ed"
proof -
  let ?P = "int pu * dec_one"
  obtain d u d1 d2 a b c where q:
    "dec_quo S (10000 * dec_one) (wb * dec_one) = Ok d"
    "dec_quo S (int lu * dec_one) d = Ok u"
    "dec_quo S ?P u = Ok d1" "dec_quo S (int ed * dec_one) d1 = Ok b"
    "dec_quo S ?P u = Ok d2" "dec_quo S (int nd * dec_one) d2 = Ok a"
    "dec_sub S (int lu * dec_one) u = Ok c"
    "uint_truncate S a = Ok wn" "uint_truncate S b = Ok we" "uint_truncate S c = Ok left"
    using w by (auto simp: CalculateWithdrawal_def Let_def new_dec_def result_inv dest!: dec_of_digits)
  have "wb * dec_one \<noteq> 0" using dec_quo [OF q(1)] by blast
  then show wb0: "0 < wb" using wb by simp
  then have d: "dec_one \<le> d" using dec_quo_ge_one [OF q(1)] wb by simp
  have u0: "0 \<le> u" using dec_quo_nonneg [OF q(2)] d by simp
  have "u \<noteq> 0" using dec_quo [OF q(3)] by blast
  with u0 have u: "0 < u" by simp
  have ul: "u \<le> int lu * dec_one" using dec_quo_le [OF q(2) d] by simp
  with u show "0 < lu" by (cases lu) auto
  have uP: "u \<le> ?P" using ul lu by simp
  show "wn \<le> nd" using claim_le [OF q(5,6) u uP] q(8) uint_truncate_le by simp
  show "we \<le> ed" using claim_le [OF q(3,4) u uP] q(9) uint_truncate_le by simp
  have c: "c = int lu * dec_one - u" using dec_sub [OF q(7)] .
  show "left \<le> lu" using uint_truncate_le [OF q(10)] c ul u by simp
  have all: "u = int lu * dec_one" if "wb = 10000"
  proof -
    have "d = dec_one" using dec_quo_exact [OF q(1)] that by (simp add: mult.commute)
    then show ?thesis using dec_quo_exact [OF q(2)] by simp
  qed
  show "left = 0" if "wb = 10000"
    using uint_truncate_exact [of 0 left] q(10) c all [OF that] by simp
  show "wn = nd \<and> we = ed" if "wb = 10000" "lu = pu"
  proof -
    have "u = ?P" using all that by simp
    then have "a = int nd * dec_one" "b = int ed * dec_one"
      using claim_all q(3-6) by blast+
    then show ?thesis using q(8,9) uint_truncate_exact by blast
  qed
qed

text \<open>
  The counterpart that counts queued units divides \<open>10000\<close> by the basis points first: from one half
  upwards the quotient is 1.
\<close>

lemma basis_points_over_half:
  assumes "5001 \<le> wb" and "wb \<le> 10000"
  shows "ConvWBasisPointsToUnits S tot wb = Ok tot"
proof -
  have "10000 div nat wb = 1"
    using assms by (intro div_nat_eqI) auto
  then show ?thesis
    using assms by (simp add: ConvWBasisPointsToUnits_def uint_of_big uint_quo)
qed

end

section \<open>Properties\<close>

text \<open>
  What a provider who adds \<open>r\<close> Fury and \<open>a\<close> of the other asset to depths \<open>R\<close> and \<open>A\<close> gets for
  swapping \<open>s\<close> first: \<open>ext_out\<close> Fury for the other asset, \<open>nat_out\<close> of the other asset for Fury.
\<close>

definition ext_out :: "rat \<Rightarrow> rat \<Rightarrow> rat \<Rightarrow> rat \<Rightarrow> rat \<Rightarrow> rat" where
  "ext_out R A f p s = s * R / (s + A) * (1 - f) / (1 + p)"

definition nat_out :: "rat \<Rightarrow> rat \<Rightarrow> rat \<Rightarrow> rat \<Rightarrow> rat \<Rightarrow> rat" where
  "nat_out R A f p s = s * A / (s + R) * (1 + p) * (1 - f)"

lemma ext_quad_ratio:
  assumes "0 \<le> s" "0 < A" "0 \<le> p"
  shows "ext_quad R A r a f p s \<le> 0 \<longleftrightarrow> (a + A) * (r + ext_out R A f p s) \<le> (a - s) * (r + R)"
proof -
  let ?k = "(s + A) * (1 + p)"
  have k: "0 < ?k" using assms by simp
  have "ext_out R A f p s = s * R * (1 - f) / ?k" by (simp add: ext_out_def)
  then have o: "?k * ext_out R A f p s = s * R * (1 - f)" using assms by simp
  have "ext_quad R A r a f p s = (a + A) * (r * ?k + s * R * (1 - f)) - (a - s) * (r + R) * ?k"
    unfolding ext_quad_def by (simp add: algebra_simps power2_eq_square)
  also have "\<dots> = ?k * ((a + A) * (r + ext_out R A f p s) - (a - s) * (r + R))"
    unfolding o [symmetric] by (simp add: algebra_simps)
  finally show ?thesis using mult_le_0_iff [of ?k] k by auto
qed

lemma nat_quad_ratio:
  assumes "0 \<le> s" "0 < R"
  shows "nat_quad R A r a f p s \<le> 0 \<longleftrightarrow> (r + R) * (a + nat_out R A f p s) \<le> (r - s) * (a + A)"
proof -
  let ?k = "s + R"
  have k: "0 < ?k" using assms by simp
  have "nat_out R A f p s = s * A * (1 + p) * (1 - f) / ?k" by (simp add: nat_out_def)
  then have o: "?k * nat_out R A f p s = s * A * (1 + p) * (1 - f)" using k by simp
  have "nat_quad R A r a f p s = (r + R) * (a * ?k + s * A * (1 + p) * (1 - f)) - (r - s) * (a + A) * ?k"
    unfolding nat_quad_def by (simp add: algebra_simps power2_eq_square)
  also have "\<dots> = ?k * ((r + R) * (a + nat_out R A f p s) - (r - s) * (a + A))"
    unfolding o [symmetric] by (simp add: algebra_simps)
  finally show ?thesis using mult_le_0_iff [of ?k] k by auto
qed

text \<open>
  C7. A swap never lowers the product of the two depths of the pool, its debts included, as long as
  the ratio shift does not favour the swapper (the swap pays out Fury, or no shift is running).
\<close>

theorem swap_keeps_product:
  assumes "sdk_laws S" and "SwapOne S x to p rate fee = Ok (y, f, impact, q)"
    and "0 \<le> rate" and "IsSettlementAsset to \<or> rate = 0" and "0 \<le> fee"
  shows "(nativeAssetBalance p + nativeLiabilities p) * (externalAssetBalance p + externalLiabilities p)
    \<le> (nativeAssetBalance q + nativeLiabilities q) * (externalAssetBalance q + externalLiabilities q)"
  by (rule sdk_laws.SwapOne_product [OF assms])

lemmas swap_eval = SwapOne_def ExtractValues_def ExtractDebt_def calcPriceImpact_def CalcSwapResult_def IsAnyZero_def
  calcRawXYK_def rat_quo_def calcPmtpFactor_def DecToRat_def big_quo_def RatIntQuo_numeral UpdateBalances_def
  IsSettlementAsset_def GetSettlementAsset_def StringCompare_def NewPool_def sdk_ref_sel fits_def tquo_def

theorem swap_keeps_product_witness:
  "\<exists>q f im. SwapOne sdk_ref 1000 (Asset ''fury'') (NewPool (Asset ''ceth'') 2000000 1000000 2000000) 0 3000000000000000 =
     Ok (1993, f, im, q) \<and> 2000000 * 1000000 \<le> nativeAssetBalance q * externalAssetBalance q"
proof -
  let ?p = "NewPool (Asset ''ceth'') 2000000 1000000 2000000"
  obtain q f im where q: "SwapOne sdk_ref 1000 (Asset ''fury'') ?p 0 3000000000000000 = Ok (1993, f, im, q)"
    "nativeLiabilities q = 0" "externalLiabilities q = 0"
    by (simp add: swap_eval cong: eval_cong)
  with swap_keeps_product [OF ref.sdk_laws_axioms q(1)] show ?thesis
    by (simp add: IsSettlementAsset_def GetSettlementAsset_def StringCompare_def NewPool_def)
qed

text \<open>
  C8. With depth on both sides, a running rate of at least zero and a fee of at most one, the swap
  calculation returns: it pays the floor of the shifted constant product price less the fee, which
  is the floor of that share of the price.
\<close>

theorem swap_result_exact:
  assumes "sdk_laws S" and "0 < X" and "0 < x" and "0 < Y" and "0 \<le> rate" and "0 \<le> fee" and "fee \<le> dec_one"
    and "swap_price toFury X x Y rate < 2 ^ 255"
  shows "CalcSwapResult S toFury X x Y rate fee =
    Ok (nat (\<lfloor>swap_price toFury X x Y rate\<rfloor> - \<lfloor>swap_price toFury X x Y rate * DecToRat fee\<rfloor>),
        nat \<lfloor>swap_price toFury X x Y rate * DecToRat fee\<rfloor>)"
  by (rule sdk_laws.swap_result_total [OF assms])

theorem swap_result_exact_witness: "CalcSwapResult sdk_ref True 1000000 1000 2000000 0 3000000000000000 = Ok (1993, 5)"
proof -
  have p: "swap_price True 1000000 1000 2000000 0 = 2000000000 / 1001000" by (simp add: swap_price_def DecToRat_def)
  have "swap_price True 1000000 1000 2000000 0 < 2 ^ 255" by (simp add: p)
  moreover have "\<lfloor>2000000 / 1001 :: rat\<rfloor> = 1998" "\<lfloor>6000 / 1001 :: rat\<rfloor> = 5" by (rule floor_unique; simp)+
  ultimately show ?thesis
    using swap_result_exact [OF ref.sdk_laws_axioms, of 1000000 1000 2000000 0 3000000000000000 True]
    by (simp add: p DecToRat_def)
qed

text \<open>
  C9. Of the other asset the calculation swaps almost exactly what makes a deposit symmetric: after
  the swap the rest does not fall short of the pool's ratio, and two units more would. The root that
  is taken is never of a negative number, and no more than the deposit is swapped.
\<close>

theorem external_amount_balances:
  assumes "sdk_laws S" and "0 < R" and "0 < A" and "0 \<le> f" and "f \<le> 1" and "0 \<le> p" and "A * r \<le> a * R" and "a < 2 ^ 256"
  shows "\<exists>s. CalculateExternalSwapAmountAsymmetric S R A r a f p = Ok s \<and> s \<le> a \<and>
    of_nat (a + A) * (of_nat r + ext_out (of_nat R) (of_nat A) f p (of_nat s)) \<le> (of_nat a - of_nat s) * of_nat (r + R) \<and>
    (of_nat a - of_nat (s + 2)) * of_nat (r + R) <
      of_nat (a + A) * (of_nat r + ext_out (of_nat R) (of_nat A) f p (of_nat (s + 2)))"
proof -
  obtain s where s: "CalculateExternalSwapAmountAsymmetric S R A r a f p = Ok s" "s \<le> a"
    "ext_quad (of_nat R) (of_nat A) (of_nat r) (of_nat a) f p (of_nat s) \<le> 0"
    "\<not> ext_quad (of_nat R) (of_nat A) (of_nat r) (of_nat a) f p (of_nat (s + 2)) \<le> 0"
    using sdk_laws.external_swap_amount [OF assms] by (auto simp: not_le add.commute)
  moreover have "(0::rat) \<le> of_nat s" "(0::rat) \<le> of_nat (s + 2)" "(0::rat) < of_nat A" using assms(3) by simp_all
  ultimately show ?thesis
    using assms(6) by (intro exI [of _ s]) (simp add: ext_quad_ratio not_le del: of_nat_add add: of_nat_add [of a] of_nat_add [of r])
qed

theorem external_amount_balances_witness:
  "\<exists>s. CalculateExternalSwapAmountAsymmetric sdk_ref 2000000 1000000 0 1000 0 0 = Ok s \<and> s \<le> 1000 \<and>
    of_nat (1000 + 1000000) * (of_nat 0 + ext_out (of_nat 2000000) (of_nat 1000000) 0 0 (of_nat s))
      \<le> (of_nat 1000 - of_nat s) * of_nat (0 + 2000000)"
  using external_amount_balances [OF ref.sdk_laws_axioms, of 2000000 1000000 0 0 0 1000] by fastforce

text \<open>The same for a deposit with too much Fury.\<close>

theorem native_amount_balances:
  assumes "sdk_laws S" and "0 < R" and "0 < A" and "0 \<le> f" and "f \<le> 1" and "0 \<le> p" and "a * R \<le> A * r" and "r < 2 ^ 256"
  shows "\<exists>s. CalculateNativeSwapAmountAsymmetric S R A r a f p = Ok s \<and> s \<le> r \<and>
    of_nat (r + R) * (of_nat a + nat_out (of_nat R) (of_nat A) f p (of_nat s)) \<le> (of_nat r - of_nat s) * of_nat (a + A) \<and>
    (of_nat r - of_nat (s + 2)) * of_nat (a + A) <
      of_nat (r + R) * (of_nat a + nat_out (of_nat R) (of_nat A) f p (of_nat (s + 2)))"
proof -
  obtain s where s: "CalculateNativeSwapAmountAsymmetric S R A r a f p = Ok s" "s \<le> r"
    "nat_quad (of_nat R) (of_nat A) (of_nat r) (of_nat a) f p (of_nat s) \<le> 0"
    "\<not> nat_quad (of_nat R) (of_nat A) (of_nat r) (of_nat a) f p (of_nat (s + 2)) \<le> 0"
    using sdk_laws.native_swap_amount [OF assms] by (auto simp: not_le add.commute)
  moreover have "(0::rat) \<le> of_nat s" "(0::rat) \<le> of_nat (s + 2)" "(0::rat) < of_nat R" using assms(2) by simp_all
  ultimately show ?thesis
    by (intro exI [of _ s]) (simp add: nat_quad_ratio not_le del: of_nat_add add: of_nat_add [of a] of_nat_add [of r])
qed

theorem native_amount_balances_witness:
  "\<exists>s. CalculateNativeSwapAmountAsymmetric sdk_ref 2000000 1000000 1000 0 0 0 = Ok s \<and> s \<le> 1000 \<and>
    of_nat (1000 + 2000000) * (of_nat 0 + nat_out (of_nat 2000000) (of_nat 1000000) 0 0 (of_nat s))
      \<le> (of_nat 1000 - of_nat s) * of_nat (0 + 1000000)"
  using native_amount_balances [OF ref.sdk_laws_axioms, of 2000000 1000000 0 0 0 1000] by fastforce

text \<open>
  C11. With depth on both sides and amounts below \<open>2 ^ 127\<close> every addition of liquidity gets its
  units: the calculation returns, the pool's units grow by exactly what the provider gets, and the
  swap it implies stays within the deposit.
\<close>

theorem pool_units_exact:
  assumes "sdk_laws S" and "0 < R" and "0 < A" and "0 \<le> sell" and "sell \<le> dec_one" and "0 \<le> buy" and "buy \<le> dec_one"
    and "0 \<le> rate" and "r < 2 ^ 127" and "a < 2 ^ 127" and "R < 2 ^ 127" and "A < 2 ^ 127" and "P < 2 ^ 127"
  shows "\<exists>pu lu st sw. CalculatePoolUnits S P R A r a sell buy rate = Ok (pu, lu, st, sw) \<and>
    pu = P + lu \<and> (st = NoSwap \<longrightarrow> sw = 0) \<and> (st = BuyNative \<longrightarrow> sw \<le> a) \<and> (st = SellNative \<longrightarrow> sw \<le> r)"
  by (rule sdk_laws.pool_units_total [OF assms])

theorem pool_units_exact_witness:
  "\<exists>pu lu st sw. CalculatePoolUnits sdk_ref 2000000 2000000 1000000 0 1000 3000000000000000 3000000000000000 0 =
     Ok (pu, lu, st, sw) \<and> pu = 2000000 + lu \<and> (st = BuyNative \<longrightarrow> sw \<le> 1000)"
  using pool_units_exact [OF ref.sdk_laws_axioms, of 2000000 1000000 3000000000000000 3000000000000000 0 0 1000 2000000]
  by auto

text \<open>
  C12. A withdrawal of units takes from each side of the pool at most its depth, uses up exactly the
  units named, which the provider must have, and the last units take all that is left.
\<close>

theorem units_withdrawal_covered:
  assumes "sdk_laws S" and "CalculateWithdrawalFromUnits S pu nd ed lu wu = Ok (wn, we, left)" and "wu \<le> pu"
  shows "wn \<le> nd \<and> we \<le> ed \<and> left = lu - wu \<and> wu \<le> lu \<and> 0 < wu \<and> (wu = pu \<longrightarrow> wn = nd \<and> we = ed)"
  using sdk_laws.withdrawal_from_units_bounds [OF assms] by blast

lemmas withdrawal_eval = CalculateWithdrawalFromUnits_def CalculateWithdrawal_def uint_round_def uint_truncate_def
  sdk_ref_sel fits_def quo_ref_def round_div_def new_dec_def tquo_def trem_def

theorem units_withdrawal_covered_witness:
  "CalculateWithdrawalFromUnits sdk_ref 2000000 2000000 1000000 2000000 500000 = Ok (500000, 250000, 1500000) \<and>
   500000 \<le> (2000000::nat) \<and> 1500000 = 2000000 - (500000::nat)"
proof
  show w: "CalculateWithdrawalFromUnits sdk_ref 2000000 2000000 1000000 2000000 500000 = Ok (500000, 250000, 1500000)"
    by (simp add: withdrawal_eval cong: eval_cong)
  show "500000 \<le> (2000000::nat) \<and> 1500000 = 2000000 - (500000::nat)"
    using units_withdrawal_covered [OF ref.sdk_laws_axioms w] by simp
qed

text \<open>
  A withdrawal of basis points takes from each side at most its depth; ten thousand of them
  leave the provider nothing, and pay out the whole pool to a provider who owns all of it.
\<close>

theorem points_withdrawal_covered:
  assumes "sdk_laws S" and "CalculateWithdrawal S pu nd ed lu wb asy = Ok (wn, we, left, sw)"
    and "lu \<le> pu" and "0 \<le> wb" and "wb \<le> 10000"
  shows "wn \<le> nd \<and> we \<le> ed \<and> left \<le> lu \<and> (wb = 10000 \<longrightarrow> left = 0) \<and>
    (wb = 10000 \<longrightarrow> lu = pu \<longrightarrow> wn = nd \<and> we = ed)"
  using sdk_laws.withdrawal_bounds [OF assms] by blast

theorem points_withdrawal_covered_witness:
  "\<exists>sw. CalculateWithdrawal sdk_ref 2000000 2000000 1000000 2000000 10000 0 = Ok (2000000, 1000000, 0, sw) \<and>
     2000000 \<le> (2000000::nat)"
proof -
  obtain sw where w: "CalculateWithdrawal sdk_ref 2000000 2000000 1000000 2000000 10000 0 = Ok (2000000, 1000000, 0, sw)"
    by (simp add: withdrawal_eval cong: eval_cong)
  with points_withdrawal_covered [OF ref.sdk_laws_axioms w] show ?thesis by simp
qed

text \<open>
  The conversion of basis points into units divides ten thousand by the points first, so that
  every share above one half counts as all units.
\<close>

theorem basis_points_coarse:
  assumes "sdk_laws S" and "5001 \<le> wb" and "wb \<le> 10000"
  shows "ConvWBasisPointsToUnits S tot wb = Ok tot"
  by (rule sdk_laws.basis_points_over_half [OF assms])

theorem basis_points_coarse_witness: "ConvWBasisPointsToUnits sdk_ref 1000000 5001 = Ok 1000000"
  by (rule basis_points_coarse [OF ref.sdk_laws_axioms]) simp_all

text \<open>
  C28. The square root that the asymmetric deposits take is the integer part of the real square
  root, for every rational number that is not negative; from minus one on downwards it panics.
\<close>

theorem square_root_floor:
  "(0 \<le> r \<longrightarrow> ApproxRatSquareRoot r = Ok \<lfloor>sqrt (of_rat r)\<rfloor>) \<and> (r \<le> - 1 \<longrightarrow> ApproxRatSquareRoot r = Panic)"
proof (intro conjI impI)
  assume r: "0 \<le> r"
  let ?t = "int (isqrt (nat \<lfloor>r\<rfloor>))"
  have "of_rat ((of_int ?t) ^ 2) \<le> (of_rat r :: real)" "(of_rat r :: real) < of_rat ((of_int ?t + 1) ^ 2)"
    using isqrt_floor [OF r] by (simp_all only: of_rat_less_eq of_rat_less)
  then have "(of_int ?t) ^ 2 \<le> (of_rat r :: real)" "(of_rat r :: real) < (of_int ?t + 1) ^ 2"
    by (simp_all only: of_rat_power of_rat_add of_rat_of_int_eq of_rat_1)
  then have "\<lfloor>sqrt (of_rat r)\<rfloor> = ?t"
    by (intro floor_unique) (auto intro: real_le_rsqrt real_less_lsqrt simp: r)
  then show "ApproxRatSquareRoot r = Ok \<lfloor>sqrt (of_rat r)\<rfloor>" using ApproxRatSquareRoot_nonneg [OF r] by simp
next
  assume r: "r \<le> - 1"
  obtain n d where q: "quotient_of r = (n, d)" by force
  have d: "0 < d" and e: "r = of_int n / of_int d" using quotient_of_denom_pos [OF q] quotient_of_div [OF q] by auto
  have "r * of_int d \<le> - 1 * of_int d" using r d by (intro mult_right_mono) simp_all
  then have "of_int n \<le> (- of_int d :: rat)" using d e by simp
  then have "n \<le> - d" by (metis of_int_le_iff of_int_minus)
  then have "1 \<le> \<bar>n\<bar> div d" "n < 0" using d pos_imp_zdiv_pos_iff [of d "\<bar>n\<bar>"] by auto
  then show "ApproxRatSquareRoot r = Panic"
    using d q by (simp add: ApproxRatSquareRoot_def RatIntQuo_def big_sqrt_def tquo_def)
qed

theorem square_root_floor_witness: "ApproxRatSquareRoot (7 / 2) = Ok 1"
proof -
  have "\<lfloor>sqrt (7 / 2)\<rfloor> = 1" by (intro floor_unique) (auto intro: real_le_rsqrt real_less_lsqrt simp: power2_eq_square)
  then show ?thesis using square_root_floor [of "7 / 2"] by (simp add: of_rat_divide)
qed

end
