(* ===== verification/Admin.thy ===== *)
theory Admin
  imports Sdk
begin

text \<open>
  Module \<open>x/admin\<close>: who may administer which part of the chain. The store maps the key
  \<open><type>_<address>\<close> to the account (\<open>types/keys.go\<close>), the keeper answers \<open>IsAdminAccount\<close> by a
  scan of all accounts, and the message server adds and removes accounts on behalf of an \<open>ADMIN\<close>.
  The invariant \<open>admin_wf\<close> says that every account is stored under its own key; with it the scan
  is a lookup (\<open>IsAdminAccount_iff\<close>). \<open>admin_gate\<close> is the check that opens every administrative
  handler of the chain, and \<open>admin_gate_denied\<close> the fact all of them share.
\<close>

section \<open>State\<close>

text \<open>The part of the chain every module sees: balances, block height and block time.\<close>

record chain_state =
  bank :: bank
  height :: int
  block_time :: string

datatype AdminType = CLPDEX | PMTPREWARDS | TOKENREGISTRY | ETHBRIDGE | ADMIN | MARGIN

fun AdminType_String :: "AdminType \<Rightarrow> string" where
  "AdminType_String CLPDEX = ''CLPDEX''"
| "AdminType_String PMTPREWARDS = ''PMTPREWARDS''"
| "AdminType_String TOKENREGISTRY = ''TOKENREGISTRY''"
| "AdminType_String ETHBRIDGE = ''ETHBRIDGE''"
| "AdminType_String ADMIN = ''ADMIN''"
| "AdminType_String MARGIN = ''MARGIN''"

record AdminAccount =
  adminType :: AdminType
  adminAddress :: string

record admin_state = chain_state +
  adminAccounts :: "AdminAccount kv"
  submitProposalFee :: "nat option"

definition GetAdminAccountKey :: "AdminAccount \<Rightarrow> string" where
  "GetAdminAccountKey acc = AdminType_String (adminType acc) @ ''_'' @ adminAddress acc"

section \<open>Keeper\<close>

definition SetAdminAccount :: "AdminAccount \<Rightarrow> ('s admin_state_scheme, unit) M" where
  "SetAdminAccount acc =
     modify (\<lambda>s. s\<lparr>adminAccounts := kv_put (GetAdminAccountKey acc) acc (adminAccounts s)\<rparr>)"

definition RemoveAdminAccount :: "AdminAccount \<Rightarrow> ('s admin_state_scheme, unit) M" where
  "RemoveAdminAccount acc =
     modify (\<lambda>s. s\<lparr>adminAccounts := kv_del (GetAdminAccountKey acc) (adminAccounts s)\<rparr>)"

definition GetAdminAccounts :: "'s admin_state_scheme \<Rightarrow> AdminAccount list" where
  "GetAdminAccounts s = kv_values (adminAccounts s)"

definition GetAdminAccountsForType :: "AdminType \<Rightarrow> 's admin_state_scheme \<Rightarrow> AdminAccount list" where
  "GetAdminAccountsForType t s = filter (\<lambda>al. adminType al = t) (kv_values (adminAccounts s))"

definition IsAdminAccount :: "AdminType \<Rightarrow> string \<Rightarrow> 's admin_state_scheme \<Rightarrow> bool" where
  "IsAdminAccount t addr s = list_ex (\<lambda>al. adminAddress al = addr) (GetAdminAccountsForType t s)"

definition admin_InitGenesis :: "AdminAccount list \<Rightarrow> ('s admin_state_scheme, unit) M" where
  "admin_InitGenesis accs = eachM SetAdminAccount accs"

definition admin_SetParams :: "nat \<Rightarrow> ('s admin_state_scheme, unit) M" where
  "admin_SetParams fee = modify (\<lambda>s. s\<lparr>submitProposalFee := Some fee\<rparr>)"

definition admin_GetParams :: "'s admin_state_scheme \<Rightarrow> nat" where
  "admin_GetParams s = (case submitProposalFee s of None \<Rightarrow> 5000000000000000000000 | Some fee \<Rightarrow> fee)"

section \<open>Message server\<close>

text \<open>
  The check that opens an administrative handler: the signer has to parse and to be an admin of
  the given type; \<open>e\<close> is the sentinel the module answers otherwise.
\<close>

definition admin_gate ::
  "sdk \<Rightarrow> err \<Rightarrow> AdminType \<Rightarrow> string \<Rightarrow> ('s admin_state_scheme, 'a) M \<Rightarrow> ('s admin_state_scheme, 'a) M" where
  "admin_gate S e t signer k =
     (case acc_from_bech32 S signer of
        None \<Rightarrow> throw (ErrSdk ''bech32'')
      | Some addr \<Rightarrow>
          bindM (gets (IsAdminAccount t addr)) (\<lambda>ok. if \<not> ok then throw e else k))"

definition msg_SetParams :: "sdk \<Rightarrow> string \<Rightarrow> nat \<Rightarrow> ('s admin_state_scheme, unit) M" where
  "msg_SetParams S signer fee = admin_gate S ErrInvalidAddress ADMIN signer (admin_SetParams fee)"

definition msg_AddAccount :: "sdk \<Rightarrow> string \<Rightarrow> AdminAccount \<Rightarrow> ('s admin_state_scheme, unit) M" where
  "msg_AddAccount S signer acc = admin_gate S ErrInvalidAddress ADMIN signer (SetAdminAccount acc)"

definition msg_RemoveAccount :: "sdk \<Rightarrow> string \<Rightarrow> AdminAccount \<Rightarrow> ('s admin_state_scheme, unit) M" where
  "msg_RemoveAccount S signer acc = admin_gate S ErrInvalidAddress ADMIN signer (RemoveAdminAccount acc)"

section \<open>Keys\<close>

lemma AdminType_String_no_sep: "CHR ''_'' \<notin> set (AdminType_String t)"
  by (cases t) simp_all

lemma AdminType_String_inj: "AdminType_String t = AdminType_String u \<longleftrightarrow> t = u"
  by (cases t; cases u) simp_all

lemma GetAdminAccountKey_inj: "GetAdminAccountKey a = GetAdminAccountKey b \<longleftrightarrow>
    adminType a = adminType b \<and> adminAddress a = adminAddress b"
  using sep_key_inj [OF AdminType_String_no_sep AdminType_String_no_sep]
  by (auto simp: GetAdminAccountKey_def AdminType_String_inj)

section \<open>Invariant\<close>

definition admin_wf :: "'s admin_state_scheme \<Rightarrow> bool" where
  "admin_wf s \<longleftrightarrow> kv_wf (adminAccounts s) \<and>
     (\<forall>k al. kv_get (adminAccounts s) k = Some al \<longrightarrow> GetAdminAccountKey al = k)"

lemma admin_wf_kv: "admin_wf s \<Longrightarrow> kv_wf (adminAccounts s)"
  by (simp add: admin_wf_def)

lemma admin_wf_key: "admin_wf s \<Longrightarrow> kv_get (adminAccounts s) k = Some al \<Longrightarrow> GetAdminAccountKey al = k"
  unfolding admin_wf_def by blast

lemma IsAdminAccount_scan: "kv_wf (adminAccounts s) \<Longrightarrow> IsAdminAccount t addr s \<longleftrightarrow>
    (\<exists>k al. kv_get (adminAccounts s) k = Some al \<and> adminType al = t \<and> adminAddress al = addr)"
  by (auto simp: IsAdminAccount_def GetAdminAccountsForType_def list_ex_iff kv_values_set)

lemma IsAdminAccount_iff:
  assumes "admin_wf s"
  shows "IsAdminAccount t addr s \<longleftrightarrow>
    (\<exists>al. kv_get (adminAccounts s) (GetAdminAccountKey \<lparr>adminType = t, adminAddress = addr\<rparr>) = Some al)"
    (is "_ \<longleftrightarrow> (\<exists>al. kv_get _ ?key = Some al)")
proof
  assume "IsAdminAccount t addr s"
  then obtain k al where *: "kv_get (adminAccounts s) k = Some al" "adminType al = t" "adminAddress al = addr"
    using IsAdminAccount_scan [OF admin_wf_kv [OF assms]] by blast
  then have "k = ?key"
    using admin_wf_key [OF assms, of k al] by (simp add: GetAdminAccountKey_def)
  with * show "\<exists>al. kv_get (adminAccounts s) ?key = Some al" by blast
next
  assume "\<exists>al. kv_get (adminAccounts s) ?key = Some al"
  then obtain al where al: "kv_get (adminAccounts s) ?key = Some al" ..
  then have "GetAdminAccountKey al = ?key"
    by (rule admin_wf_key [OF assms])
  then have "adminType al = t \<and> adminAddress al = addr"
    by (simp add: GetAdminAccountKey_inj)
  with al show "IsAdminAccount t addr s"
    unfolding IsAdminAccount_scan [OF admin_wf_kv [OF assms]] by blast
qed

lemma SetAdminAccount_keeps [keeps_intros]: "keeps admin_wf (SetAdminAccount acc)"
  by (auto simp: keeps_def admin_wf_def SetAdminAccount_def modify_def)

lemma RemoveAdminAccount_keeps [keeps_intros]: "keeps admin_wf (RemoveAdminAccount acc)"
  by (auto simp: keeps_def admin_wf_def RemoveAdminAccount_def modify_def)

lemma admin_SetParams_keeps [keeps_intros]: "keeps admin_wf (admin_SetParams fee)"
  by (auto simp: keeps_def admin_wf_def admin_SetParams_def modify_def)

lemma admin_gate_keeps [keeps_intros]: "keeps I k \<Longrightarrow> keeps I (admin_gate S e t signer k)"
  by (simp add: admin_gate_def keeps_prim keeps_bindM split: option.split)

lemma admin_gate_preserves [frame_intros]: "preserves f k \<Longrightarrow> preserves f (admin_gate S e t signer k)"
  unfolding admin_gate_def by (intro frame_intros) auto

text \<open>A caller without the role changes nothing and gets an error, whatever the handler.\<close>

lemma admin_gate_denied:
  assumes "\<And>addr. acc_from_bech32 S signer = Some addr \<Longrightarrow> \<not> IsAdminAccount t addr s"
  shows "\<exists>x. admin_gate S e t signer k s = (Err x, s)"
  using assms by (cases "acc_from_bech32 S signer") (auto simp: admin_gate_def throw_def bindM_def gets_def)

lemma admin_gate_allowed:
  "acc_from_bech32 S signer = Some addr \<Longrightarrow> IsAdminAccount t addr s \<Longrightarrow> admin_gate S e t signer k s = k s"
  by (simp add: admin_gate_def run)

lemma admin_gate_Ok_iff [result_inv]:
  "admin_gate S e t signer k s = (Ok x, u) \<longleftrightarrow>
     (\<exists>addr. acc_from_bech32 S signer = Some addr \<and> IsAdminAccount t addr s \<and> k s = (Ok x, u))"
  by (cases "acc_from_bech32 S signer") (auto simp: admin_gate_def result_inv)

section \<open>What the keeper promises\<close>

lemma IsAdminAccount_SetAdminAccount:
  assumes wf: "admin_wf s"
  shows "IsAdminAccount t addr (snd (SetAdminAccount acc s)) \<longleftrightarrow>
    IsAdminAccount t addr s \<or> adminType acc = t \<and> adminAddress acc = addr"
proof -
  have "admin_wf (snd (SetAdminAccount acc s))"
    by (rule keeps_snd [OF SetAdminAccount_keeps wf])
  from IsAdminAccount_iff [OF this] show ?thesis
    using admin_wf_kv [OF wf]
    by (auto simp: IsAdminAccount_iff [OF wf] SetAdminAccount_def modify_def GetAdminAccountKey_inj)
qed

lemma IsAdminAccount_RemoveAdminAccount:
  assumes wf: "admin_wf s"
  shows "IsAdminAccount t addr (snd (RemoveAdminAccount acc s)) \<longleftrightarrow>
    IsAdminAccount t addr s \<and> \<not> (adminType acc = t \<and> adminAddress acc = addr)"
proof -
  have "admin_wf (snd (RemoveAdminAccount acc s))"
    by (rule keeps_snd [OF RemoveAdminAccount_keeps wf])
  from IsAdminAccount_iff [OF this] show ?thesis
    using admin_wf_kv [OF wf]
    by (auto simp: IsAdminAccount_iff [OF wf] RemoveAdminAccount_def modify_def GetAdminAccountKey_inj)
qed

section \<open>Property\<close>

text \<open>
  C27. The administrators are a set of pairs of a role and an address: an administrator adds exactly
  the named pair or removes exactly it, and the store stays well-formed.
\<close>

theorem admins_refine:
  assumes "admin_wf s" and "acc_from_bech32 S signer = Some addr" and "IsAdminAccount ADMIN addr s"
  shows "\<exists>t u. msg_AddAccount S signer acc s = (Ok (), t) \<and> msg_RemoveAccount S signer acc s = (Ok (), u) \<and>
    admin_wf t \<and> admin_wf u \<and>
    {(r, a). IsAdminAccount r a t} = insert (adminType acc, adminAddress acc) {(r, a). IsAdminAccount r a s} \<and>
    {(r, a). IsAdminAccount r a u} = {(r, a). IsAdminAccount r a s} - {(adminType acc, adminAddress acc)}"
proof -
  let ?t = "snd (SetAdminAccount acc s)" and ?u = "snd (RemoveAdminAccount acc s)"
  have "msg_AddAccount S signer acc s = (Ok (), ?t)" "msg_RemoveAccount S signer acc s = (Ok (), ?u)"
    by (simp_all add: msg_AddAccount_def msg_RemoveAccount_def admin_gate_allowed [OF assms(2,3)]
        SetAdminAccount_def RemoveAdminAccount_def modify_def)
  moreover have "admin_wf ?t" "admin_wf ?u"
    using keeps_snd [OF SetAdminAccount_keeps assms(1)] keeps_snd [OF RemoveAdminAccount_keeps assms(1)] by blast+
  moreover note IsAdminAccount_SetAdminAccount [OF assms(1), of _ _ acc] IsAdminAccount_RemoveAdminAccount [OF assms(1), of _ _ acc]
  ultimately show ?thesis by (intro exI [of _ ?t] exI [of _ ?u]) auto
qed

definition demo_admins :: admin_state where
  "demo_admins = \<lparr>bank = (\<lambda>_ _. 0), height = 1, block_time = [],
     adminAccounts = [(''ADMIN_carol'', \<lparr>adminType = ADMIN, adminAddress = ''carol''\<rparr>)], submitProposalFee = None\<rparr>"

theorem admins_refine_witness:
  "\<exists>t. msg_AddAccount sdk_ref ''carol'' \<lparr>adminType = CLPDEX, adminAddress = ''dave''\<rparr> demo_admins = (Ok (), t) \<and>
     IsAdminAccount CLPDEX ''dave'' t"
proof -
  have "admin_wf demo_admins" "IsAdminAccount ADMIN ''carol'' demo_admins"
    by (auto simp: demo_admins_def admin_wf_def kv_wf_def kv_get_def GetAdminAccountKey_def IsAdminAccount_def
        GetAdminAccountsForType_def kv_values_def split: if_splits)
  from admins_refine [OF this(1) _ this(2), of sdk_ref "''carol''" "\<lparr>adminType = CLPDEX, adminAddress = ''dave''\<rparr>"]
  show ?thesis by (auto simp: sdk_ref_sel)
qed

end
