(* ===== verification/TokenRegistry.thy ===== *)
theory TokenRegistry
  imports Admin
begin

text \<open>
  Module \<open>x/tokenregistry\<close>: the list of denominations the chain knows, with the permissions of
  each. The registry is one stored value, a list of entry pointers; the keeper finds an entry by
  a scan from the front, replaces the first entry of a denomination or appends, and removes all
  entries of a denomination. The lemmas show that the list behaves as a map from denominations
  to entries (\<open>GetEntry_SetToken\<close>, \<open>GetEntry_RemoveToken\<close>), which the locale \<open>registry\<close> states
  as the contract the liquidity module relies on.
\<close>

section \<open>State\<close>

datatype Permission = UNSPECIFIED | CLP | IBCEXPORT | IBCIMPORT | DISABLE_BUY | DISABLE_SELL

record RegistryEntry =
  decimals :: int
  denom :: string
  base_denom :: string
  path :: string
  ibc_channel_id :: string
  ibc_counterparty_channel_id :: string
  display_name :: string
  display_symbol :: string
  network :: string
  reg_address :: string
  external_symbol :: string
  transfer_limit :: string
  permissions :: "Permission list"
  unit_denom :: string
  ibc_counterparty_denom :: string
  ibc_counterparty_chain_id :: string

type_synonym Registry = "RegistryEntry option list"

record registry_state = admin_state +
  whitelist :: "Registry option"

section \<open>Keeper\<close>

definition GetRegistry :: "'s registry_state_scheme \<Rightarrow> Registry" where
  "GetRegistry s = (case whitelist s of None \<Rightarrow> [] | Some wl \<Rightarrow> wl)"

definition SetRegistry :: "Registry \<Rightarrow> ('s registry_state_scheme, unit) M" where
  "SetRegistry wl = modify (\<lambda>s. s\<lparr>whitelist := Some wl\<rparr>)"

definition CheckEntryPermissions :: "RegistryEntry \<Rightarrow> Permission list \<Rightarrow> bool" where
  "CheckEntryPermissions entry required =
     list_all (\<lambda>p. list_ex (\<lambda>q. q = p) (permissions entry)) required"

fun GetEntry :: "Registry \<Rightarrow> string \<Rightarrow> RegistryEntry result" where
  "GetEntry [] d = Err ErrKeyNotFound"
| "GetEntry (None # wl) d = GetEntry wl d"
| "GetEntry (Some e # wl) d = (if denom e = d then Ok e else GetEntry wl d)"

text \<open>The loop of \<open>SetToken\<close>: the first entry of the denomination is replaced; \<open>None\<close> if there is none.\<close>

fun replace_entry :: "RegistryEntry \<Rightarrow> Registry \<Rightarrow> Registry option" where
  "replace_entry e [] = None"
| "replace_entry e (None # wl) = map_option (Cons None) (replace_entry e wl)"
| "replace_entry e (Some x # wl) =
     (if denom x = denom e then Some (Some e # wl) else map_option (Cons (Some x)) (replace_entry e wl))"

definition SetToken :: "RegistryEntry \<Rightarrow> ('s registry_state_scheme, unit) M" where
  "SetToken entry =
     bindM (gets GetRegistry) (\<lambda>wl.
       case replace_entry entry wl of
         Some wl' \<Rightarrow> SetRegistry wl'
       | None \<Rightarrow> SetRegistry (wl @ [Some entry]))"

definition RemoveToken :: "string \<Rightarrow> ('s registry_state_scheme, unit) M" where
  "RemoveToken d =
     bindM (gets GetRegistry) (\<lambda>wl.
       SetRegistry (filter (\<lambda>t. case t of None \<Rightarrow> False | Some e \<Rightarrow> denom e \<noteq> d) wl))"

section \<open>Message server\<close>

definition msg_Register :: "sdk \<Rightarrow> string \<Rightarrow> RegistryEntry \<Rightarrow> ('s registry_state_scheme, unit) M" where
  "msg_Register S from entry = admin_gate S ErrInvalidAddress TOKENREGISTRY from (SetToken entry)"

definition msg_SetRegistry :: "sdk \<Rightarrow> string \<Rightarrow> Registry \<Rightarrow> ('s registry_state_scheme, unit) M" where
  "msg_SetRegistry S from wl = admin_gate S ErrInvalidAddress TOKENREGISTRY from (SetRegistry wl)"

definition msg_Deregister :: "sdk \<Rightarrow> string \<Rightarrow> string \<Rightarrow> ('s registry_state_scheme, unit) M" where
  "msg_Deregister S from d = admin_gate S ErrInvalidAddress TOKENREGISTRY from (RemoveToken d)"

section \<open>The contract\<close>

text \<open>What a client of the registry relies on: lookups after updates, as for a map.\<close>

locale registry =
  fixes find :: "'r \<Rightarrow> 'd \<Rightarrow> 'e option"
    and set_entry :: "'e \<Rightarrow> 'r \<Rightarrow> 'r"
    and remove :: "'d \<Rightarrow> 'r \<Rightarrow> 'r"
    and key :: "'e \<Rightarrow> 'd"
  assumes find_set: "find (set_entry e r) d = (if key e = d then Some e else find r d)"
    and find_remove: "find (remove d r) d' = (if d' = d then None else find r d')"
    and find_key: "find r d = Some e \<Longrightarrow> key e = d"
begin

lemma set_idem: "find (set_entry e (set_entry e' r)) d =
    (if key e = d then Some e else if key e' = d then Some e' else find r d)"
  by (simp add: find_set)

lemma remove_set: "find (remove (key e) (set_entry e r)) = find (remove (key e) r)"
  by (rule ext) (simp add: find_set find_remove)

lemma set_find: "find r d = Some e \<Longrightarrow> find (set_entry e r) = find r"
  by (rule ext) (metis find_set find_key)

end

section \<open>The list is a map\<close>

lemma GetEntry_append:
  "GetEntry (xs @ ys) d = (case GetEntry xs d of Ok e \<Rightarrow> Ok e | _ \<Rightarrow> GetEntry ys d)"
  by (induction xs d rule: GetEntry.induct) auto

lemma GetEntry_not_Panic: "GetEntry wl d \<noteq> Panic"
  by (induction wl d rule: GetEntry.induct) auto

lemma GetEntry_denom: "GetEntry wl d = Ok e \<Longrightarrow> denom e = d"
  by (induction wl d rule: GetEntry.induct) (auto split: if_splits)

lemma GetEntry_Err: "GetEntry wl d = Err x \<Longrightarrow> x = ErrKeyNotFound"
  by (induction wl d rule: GetEntry.induct) (auto split: if_splits)

lemma replace_entry_None: "replace_entry e wl = None \<Longrightarrow> GetEntry wl (denom e) = Err ErrKeyNotFound"
  by (induction e wl rule: replace_entry.induct) (auto split: if_splits)

lemma replace_entry_Some:
  "replace_entry e wl = Some wl' \<Longrightarrow> GetEntry wl' d = (if denom e = d then Ok e else GetEntry wl d)"
  by (induction e wl arbitrary: wl' rule: replace_entry.induct) (auto split: if_splits)

definition set_entry_list :: "RegistryEntry \<Rightarrow> Registry \<Rightarrow> Registry" where
  "set_entry_list e wl = (case replace_entry e wl of Some wl' \<Rightarrow> wl' | None \<Rightarrow> wl @ [Some e])"

definition remove_entry_list :: "string \<Rightarrow> Registry \<Rightarrow> Registry" where
  "remove_entry_list d wl = filter (\<lambda>t. case t of None \<Rightarrow> False | Some e \<Rightarrow> denom e \<noteq> d) wl"

definition find_entry :: "Registry \<Rightarrow> string \<Rightarrow> RegistryEntry option" where
  "find_entry wl d = (case GetEntry wl d of Ok e \<Rightarrow> Some e | _ \<Rightarrow> None)"

lemma GetEntry_set: "GetEntry (set_entry_list e wl) d = (if denom e = d then Ok e else GetEntry wl d)"
proof (cases "replace_entry e wl")
  case None
  then show ?thesis
    using replace_entry_None [OF None] GetEntry_not_Panic [of wl d] GetEntry_Err [of wl d]
    by (auto simp: set_entry_list_def GetEntry_append split: result.split)
next
  case (Some wl')
  then show ?thesis by (simp add: set_entry_list_def replace_entry_Some)
qed

lemma GetEntry_remove:
  "GetEntry (remove_entry_list d wl) d' = (if d' = d then Err ErrKeyNotFound else GetEntry wl d')"
  unfolding remove_entry_list_def by (induction wl) (auto split: option.split)

interpretation reg: registry find_entry set_entry_list remove_entry_list denom
  by unfold_locales
    (auto simp: find_entry_def GetEntry_set GetEntry_remove dest: GetEntry_denom split: result.splits)

lemma SetToken_run: "SetToken e s = (Ok (), s\<lparr>whitelist := Some (set_entry_list e (GetRegistry s))\<rparr>)"
  by (simp add: SetToken_def run set_entry_list_def SetRegistry_def modify_def split: option.split)

lemma RemoveToken_run:
  "RemoveToken d s = (Ok (), s\<lparr>whitelist := Some (remove_entry_list d (GetRegistry s))\<rparr>)"
  by (simp add: RemoveToken_def run remove_entry_list_def SetRegistry_def modify_def)

lemma GetRegistry_upd [simp]: "GetRegistry (s\<lparr>whitelist := Some wl\<rparr>) = wl"
  by (simp add: GetRegistry_def)

lemma CheckEntryPermissions_iff: "CheckEntryPermissions e ps \<longleftrightarrow> set ps \<subseteq> set (permissions e)"
  by (auto simp: CheckEntryPermissions_def list_all_iff list_ex_iff)

section \<open>Property\<close>

text \<open>
  C26. The registry is a finite map from denominations to entries: registering a token updates the map
  at its denomination, deregistering removes the denomination, whatever the list order and its nil entries.
\<close>

theorem registry_refines:
  "find_entry (GetRegistry (snd (SetToken e s))) = (find_entry (GetRegistry s))(denom e \<mapsto> e) \<and>
   find_entry (GetRegistry (snd (RemoveToken d s))) = (find_entry (GetRegistry s))(d := None)"
  by (auto simp: SetToken_run RemoveToken_run find_entry_def GetEntry_set GetEntry_remove)

end
