(* ===== verification/MarginParams.thy ===== *)
theory MarginParams
  imports ClpPricing TokenRegistry
begin

text \<open>
  The part of \<open>x/margin\<close> that the liquidity module calls: the parameters
  (\<open>x/margin/keeper/params.go\<close>) with their validation, and the health of a pool.
\<close>

section \<open>State\<close>

record MarginParams =
  leverageMax :: int
  interestRateMax :: int
  interestRateMin :: int
  interestRateIncrease :: int
  interestRateDecrease :: int
  healthGainFactor :: int
  epochLength :: int
  enabledPools :: "string list"
  removalQueueThreshold :: int
  maxOpenPositions :: int
  poolOpenThreshold :: int
  forceCloseFundPercentage :: int
  forceCloseFundAddress :: string
  incrementalInterestPaymentFundPercentage :: int
  incrementalInterestPaymentFundAddress :: string
  sqModifier :: int
  safetyFactor :: int
  closedPools :: "string list"
  incrementalInterestPaymentEnabled :: bool
  whitelistingEnabled :: bool
  furyCollateralEnabled :: bool

record margin_params_state = registry_state +
  marginParams :: "MarginParams option"

section \<open>Parameters\<close>

definition margin_DefaultParams :: MarginParams where
  "margin_DefaultParams = \<lparr>
     leverageMax = new_dec 2,
     interestRateMax = new_dec 3,
     interestRateMin = 5 * 10 ^ 15,
     interestRateIncrease = 10 ^ 17,
     interestRateDecrease = 10 ^ 17,
     healthGainFactor = new_dec 1,
     epochLength = 1,
     enabledPools = [],
     removalQueueThreshold = 10 ^ 17,
     maxOpenPositions = 10000,
     poolOpenThreshold = 10 ^ 17,
     forceCloseFundPercentage = 10 ^ 17,
     forceCloseFundAddress = ''fury1syavy2npfyt9tcncdtsdzf7kny9lh777yqc2nd'',
     incrementalInterestPaymentFundPercentage = 10 ^ 17,
     incrementalInterestPaymentFundAddress = ''fury1syavy2npfyt9tcncdtsdzf7kny9lh777yqc2nd'',
     sqModifier = new_dec (10 ^ 25),
     safetyFactor = 105 * 10 ^ 16,
     closedPools = [],
     incrementalInterestPaymentEnabled = True,
     whitelistingEnabled = False,
     furyCollateralEnabled = True\<rparr>"

definition margin_GetParams :: "'s margin_params_state_scheme \<Rightarrow> MarginParams" where
  "margin_GetParams s = (case marginParams s of None \<Rightarrow> margin_DefaultParams | Some p \<Rightarrow> p)"

definition margin_ValidateParams :: "MarginParams \<Rightarrow> unit result" where
  "margin_ValidateParams p =
     (if sqModifier p = 0 then Err (ErrSdk ''sq modifier must be > 0'')
      else if leverageMax p < 0 then Err (ErrSdk ''leverage max must be >= 0'')
      else Ok ())"

definition margin_SetParams :: "MarginParams \<Rightarrow> ('s margin_params_state_scheme, unit) M" where
  "margin_SetParams p =
     bindM (liftR (must (margin_ValidateParams p))) (\<lambda>_. modify (\<lambda>s. s\<lparr>marginParams := Some p\<rparr>))"

definition GetEnabledPools :: "'s margin_params_state_scheme \<Rightarrow> string list" where
  "GetEnabledPools s = enabledPools (margin_GetParams s)"

definition SetEnabledPools :: "string list \<Rightarrow> ('s margin_params_state_scheme, unit) M" where
  "SetEnabledPools ps = bindM (gets margin_GetParams) (\<lambda>p. margin_SetParams (p\<lparr>enabledPools := ps\<rparr>))"

definition IsPoolEnabled :: "string \<Rightarrow> 's margin_params_state_scheme \<Rightarrow> bool" where
  "IsPoolEnabled asset s = list_ex (\<lambda>p. StringCompare p asset) (GetEnabledPools s)"

definition IsPoolClosed :: "string \<Rightarrow> 's margin_params_state_scheme \<Rightarrow> bool" where
  "IsPoolClosed asset s = list_ex (\<lambda>p. StringCompare p asset) (closedPools (margin_GetParams s))"

definition GetRemovalQueueThreshold :: "'s margin_params_state_scheme \<Rightarrow> int" where
  "GetRemovalQueueThreshold s = removalQueueThreshold (margin_GetParams s)"

section \<open>Pool health\<close>

definition CalculatePoolHealth :: "sdk \<Rightarrow> Pool \<Rightarrow> int result" where
  "CalculatePoolHealth S pool =
     (let eb = new_dec (int (externalAssetBalance pool)); el = new_dec (int (externalLiabilities pool));
          nb = new_dec (int (nativeAssetBalance pool)); nl = new_dec (int (nativeLiabilities pool)) in
      rbind (dec_add S eb el) (\<lambda>ext.
      rbind (if ext = 0 then Ok True else rbind (dec_add S nb nl) (\<lambda>nat'. Ok (nat' = 0))) (\<lambda>empty.
      if empty then Ok (new_dec 0)
      else
      rbind (rbind (dec_add S eb el) (dec_quo S eb)) (\<lambda>mul1.
      rbind (rbind (dec_add S nb nl) (dec_quo S nb)) (\<lambda>mul2.
      dec_mul S mul1 mul2)))))"

section \<open>Facts\<close>

lemma IsPoolEnabled_iff: "IsPoolEnabled a s \<longleftrightarrow> a \<in> set (GetEnabledPools s)"
  by (auto simp: IsPoolEnabled_def StringCompare_def list_ex_iff)

lemma SetEnabledPools_run:
  assumes "margin_ValidateParams (margin_GetParams s) = Ok ()"
  shows "\<exists>t. SetEnabledPools ps s = (Ok (), t) \<and> GetEnabledPools t = ps"
  using assms
  by (auto simp: SetEnabledPools_def margin_SetParams_def margin_ValidateParams_def GetEnabledPools_def
      margin_GetParams_def run modify_def split: if_splits)

context sdk_laws
begin

text \<open>The health of a pool lies between zero and one.\<close>

lemma pool_health_range:
  assumes h: "CalculatePoolHealth S p = Ok h"
  shows "0 \<le> h \<and> h \<le> dec_one"
proof (cases "h = 0")
  case False
  let ?eb = "new_dec (int (externalAssetBalance p))" and ?nb = "new_dec (int (nativeAssetBalance p))"
  let ?el = "new_dec (int (externalLiabilities p))" and ?nl = "new_dec (int (nativeLiabilities p))"
  have pos: "0 \<le> ?eb" "0 \<le> ?nb" "0 \<le> ?el" "0 \<le> ?nl" by (simp_all add: new_dec_def)
  obtain a b m1 m2 where *: "dec_add S ?eb ?el = Ok a" "dec_quo S ?eb a = Ok m1"
    "dec_add S ?nb ?nl = Ok b" "dec_quo S ?nb b = Ok m2" "dec_mul S m1 m2 = Ok h"
    using h False by (auto simp: CalculatePoolHealth_def Let_def result_inv new_dec_def split: if_splits)
  have ab: "a = ?eb + ?el" "b = ?nb + ?nl" using *(1,3) dec_add by blast+
  have nz: "a \<noteq> 0" "b \<noteq> 0" using dec_quo [OF *(2)] dec_quo [OF *(4)] by blast+
  have unit: "0 \<le> m \<and> m \<le> dec_one" if "dec_quo S x y = Ok m" "0 \<le> x" "x \<le> y" "y \<noteq> 0" for x y m
  proof -
    have y: "0 < y" using that by linarith
    have "\<bar>m * y - x * dec_one\<bar> < y" using dec_quo [OF that(1)] y by simp
    then have "m * y < x * dec_one + y" by linarith
    also have "\<dots> \<le> y * dec_one + y" using that(3) by simp
    finally have "m * y < (dec_one + 1) * y" by (simp add: algebra_simps)
    then have "m < dec_one + 1" using y by (simp only: mult_less_cancel_right_pos)
    then show ?thesis using dec_quo_nonneg [OF that(1,2) y] by simp
  qed
  have m: "0 \<le> m1 \<and> m1 \<le> dec_one" "0 \<le> m2 \<and> m2 \<le> dec_one"
    using unit [OF *(2)] unit [OF *(4)] pos ab nz by simp_all
  then have "m1 * m2 \<le> dec_one * dec_one" by (intro mult_mono) auto
  moreover have "2 * \<bar>h * dec_one - m1 * m2\<bar> \<le> dec_one" by (rule dec_mul [OF *(5)])
  ultimately have "h \<le> dec_one" by (simp add: abs_if split: if_splits)
  with dec_mul_nonneg [OF *(5)] m show ?thesis by simp
qed simp

end

section \<open>Property\<close>

text \<open>The health of a pool, which gates removals and margin positions, lies between zero and one.\<close>

theorem pool_health_unit:
  assumes "sdk_laws S" and "CalculatePoolHealth S p = Ok h"
  shows "0 \<le> h \<and> h \<le> dec_one"
  by (rule sdk_laws.pool_health_range [OF assms])

theorem pool_health_unit_witness:
  "CalculatePoolHealth sdk_ref (NewPool (Asset ''ceth'') 300 300 300\<lparr>externalLiabilities := 100\<rparr>) = Ok 750000000000000000 \<and>
   750000000000000000 \<le> dec_one"
proof
  show h: "CalculatePoolHealth sdk_ref (NewPool (Asset ''ceth'') 300 300 300\<lparr>externalLiabilities := 100\<rparr>) =
      Ok 750000000000000000"
    by (simp add: CalculatePoolHealth_def NewPool_def sdk_ref_sel fits_def quo_ref_def round_div_def tquo_def new_dec_def
        cong: eval_cong)
  show "750000000000000000 \<le> dec_one" using pool_health_unit [OF ref.sdk_laws_axioms h] by simp
qed

end
