(* ===== verification/Triples.thy ===== *)
theory Triples
  imports Prelude
begin

text \<open>
  Weakest preconditions for handlers. \<open>triple P m Q E\<close>: from a state that satisfies \<open>P\<close>, handler \<open>m\<close>
  returns \<open>x\<close> in a state that satisfies \<open>Q x\<close>, or returns an error in a state that satisfies \<open>E\<close>, or
  panics. The postcondition on errors matters where the code goes on after an error. There is one rule
  per combinator in \<open>wp\<close>; applied from the last statement backwards they compute a precondition, and
  \<open>triple_pre\<close> leaves the implication from the given one.
\<close>

definition triple :: "('s \<Rightarrow> bool) \<Rightarrow> ('s, 'a) M \<Rightarrow> ('a \<Rightarrow> 's \<Rightarrow> bool) \<Rightarrow> ('s \<Rightarrow> bool) \<Rightarrow> bool" where
  "triple P m Q E \<longleftrightarrow>
     (\<forall>s. P s \<longrightarrow> (case m s of (Ok x, t) \<Rightarrow> Q x t | (Err e, t) \<Rightarrow> E t | (Panic, t) \<Rightarrow> True))"

named_theorems wp \<open>rules that compute a precondition\<close>

lemma tripleD: "triple P m Q E \<Longrightarrow> P s \<Longrightarrow> m s = (Ok x, t) \<Longrightarrow> Q x t"
  unfolding triple_def by fastforce

lemma tripleE: "triple P m Q E \<Longrightarrow> P s \<Longrightarrow> m s = (Err e, t) \<Longrightarrow> E t"
  unfolding triple_def by fastforce

lemma tripleI:
  "(\<And>s x t. P s \<Longrightarrow> m s = (Ok x, t) \<Longrightarrow> Q x t) \<Longrightarrow> (\<And>s e t. P s \<Longrightarrow> m s = (Err e, t) \<Longrightarrow> E t) \<Longrightarrow>
   triple P m Q E"
  unfolding triple_def by (auto split: prod.split result.split)

lemma triple_pre: "triple P' m Q E \<Longrightarrow> (\<And>s. P s \<Longrightarrow> P' s) \<Longrightarrow> triple P m Q E"
  by (auto simp: triple_def)

lemma triple_post:
  "triple P m Q' E' \<Longrightarrow> (\<And>x s. Q' x s \<Longrightarrow> Q x s) \<Longrightarrow> (\<And>s. E' s \<Longrightarrow> E s) \<Longrightarrow> triple P m Q E"
  by (fastforce simp: triple_def split: prod.splits result.splits)

text \<open>A handler that keeps an invariant, whatever it is followed by.\<close>

lemma triple_keeps:
  "triple I m (\<lambda>_. I) I \<Longrightarrow> triple (\<lambda>s. I s \<and> (\<forall>x t. I t \<longrightarrow> Q x t) \<and> (\<forall>t. I t \<longrightarrow> E t)) m Q E"
  by (rule tripleI) (auto dest: tripleD tripleE)

lemma triple_final:
  "triple P m R (\<lambda>_. True) \<Longrightarrow> triple (\<lambda>s. P s \<and> (\<forall>x t. R x t \<longrightarrow> Q x t)) m Q (\<lambda>_. True)"
  by (rule tripleI) (auto dest: tripleD)

lemma triple_ret [wp]: "triple (Q x) (ret x) Q E"
  by (simp add: triple_def ret_def)

lemma triple_throw [wp]: "triple E (throw e) Q E"
  by (simp add: triple_def throw_def)

lemma triple_panic [wp]: "triple (\<lambda>_. True) panic Q E"
  by (simp add: triple_def panic_def)

lemma triple_liftR [wp]:
  "triple (\<lambda>s. (\<forall>x. r = Ok x \<longrightarrow> Q x s) \<and> (\<forall>e. r = Err e \<longrightarrow> E s)) (liftR r) Q E"
  by (auto simp: triple_def liftR_def split: result.split)

lemma triple_gets [wp]: "triple (\<lambda>s. Q (f s) s) (gets f) Q E"
  by (simp add: triple_def gets_def)

lemma triple_getsR [wp]:
  "triple (\<lambda>s. (\<forall>x. f s = Ok x \<longrightarrow> Q x s) \<and> (\<forall>e. f s = Err e \<longrightarrow> E s)) (getsR f) Q E"
  by (auto simp: triple_def getsR_def split: result.split)

lemma triple_modify [wp]: "triple (\<lambda>s. Q () (f s)) (modify f) Q E"
  by (simp add: triple_def modify_def)

lemma triple_bindM [wp]:
  "(\<And>x. triple (R x) (k x) Q E) \<Longrightarrow> triple P m R E \<Longrightarrow> triple P (bindM m k) Q E"
  unfolding triple_def bindM_def by (fastforce split: prod.splits result.splits)

lemma triple_thenM [wp]: "triple R k Q E \<Longrightarrow> triple P m (\<lambda>_. R) E \<Longrightarrow> triple P (thenM m k) Q E"
  unfolding thenM_def by (rule triple_bindM)

lemma triple_wrapM [wp]: "triple P m Q E \<Longrightarrow> triple P (wrapM e m) Q E"
  unfolding triple_def wrapM_def by (fastforce simp: Let_def split: prod.splits result.splits)

lemma triple_catchM [wp]:
  "(\<And>e. triple R (h e) Q E) \<Longrightarrow> triple P m Q R \<Longrightarrow> triple P (catchM m h) Q E"
  unfolding triple_def catchM_def by (fastforce split: prod.splits result.splits)

lemma triple_ignoreM [wp]: "triple P m Q (Q ()) \<Longrightarrow> triple P (ignoreM m) Q E"
  unfolding ignoreM_def by (rule triple_catchM) (rule triple_ret)

lemma triple_if [wp]:
  "triple P m Q E \<Longrightarrow> triple P' k Q E \<Longrightarrow>
   triple (\<lambda>s. (b \<longrightarrow> P s) \<and> (\<not> b \<longrightarrow> P' s)) (if b then m else k) Q E"
  by (auto simp: triple_def)

lemma triple_let [wp]: "triple P (k v) Q E \<Longrightarrow> triple P (let x = v in k x) Q E"
  by simp

lemma triple_case_prod [wp]:
  "(\<And>a b. triple (P a b) (k a b) Q E) \<Longrightarrow> triple (\<lambda>s. P (fst p) (snd p) s) (case p of (a, b) \<Rightarrow> k a b) Q E"
  by (cases p) simp

lemma triple_case_option [wp]:
  "triple P m Q E \<Longrightarrow> (\<And>x. triple (P' x) (k x) Q E) \<Longrightarrow>
   triple (\<lambda>s. (v = None \<longrightarrow> P s) \<and> (\<forall>x. v = Some x \<longrightarrow> P' x s)) (case v of None \<Rightarrow> m | Some x \<Rightarrow> k x) Q E"
  by (cases v) (auto simp: triple_def)

lemma triple_eachM:
  "(\<And>x. x \<in> set xs \<Longrightarrow> triple I (f x) (\<lambda>_. I) E) \<Longrightarrow> triple I (eachM f xs) (\<lambda>_. I) E"
proof (induction xs)
  case (Cons x xs)
  then have "triple I (thenM (f x) (eachM f xs)) (\<lambda>_. I) E" by (intro triple_thenM) auto
  then show ?case by simp
qed (auto intro: triple_pre [OF triple_ret])

end
