(* ===== verification/Bank.thy ===== *)
theory Bank
  imports Admin Triples
begin

text \<open>
  The calls of the SDK's bank keeper as the modules make them, over the balances in the state.
  What a call does is the matching law of \<open>sdk_laws\<close>.
\<close>

section \<open>Calls\<close>

text \<open>A transfer that fails leaves the balances as they were.\<close>

definition bank_call :: "(bank \<Rightarrow> bank result) \<Rightarrow> ('s chain_state_scheme, unit) M" where
  "bank_call f =
     bindM (gets bank) (\<lambda>b. bindM (liftR (f b)) (\<lambda>b'. modify (\<lambda>s. s\<lparr>bank := b'\<rparr>)))"

definition SendCoinsFromAccountToModule ::
  "sdk \<Rightarrow> string \<Rightarrow> string \<Rightarrow> coin list \<Rightarrow> ('s chain_state_scheme, unit) M" where
  "SendCoinsFromAccountToModule S addr md coins = bank_call (send_acc_to_mod S addr md coins)"

definition SendCoinsFromModuleToAccount ::
  "sdk \<Rightarrow> string \<Rightarrow> string \<Rightarrow> coin list \<Rightarrow> ('s chain_state_scheme, unit) M" where
  "SendCoinsFromModuleToAccount S md addr coins = bank_call (send_mod_to_acc S md addr coins)"

definition SendCoins :: "sdk \<Rightarrow> string \<Rightarrow> string \<Rightarrow> coin list \<Rightarrow> ('s chain_state_scheme, unit) M" where
  "SendCoins S from to coins = bank_call (send_coins S from to coins)"

definition MintCoins :: "sdk \<Rightarrow> string \<Rightarrow> coin list \<Rightarrow> ('s chain_state_scheme, unit) M" where
  "MintCoins S md coins = bank_call (mint_coins S md coins)"

definition BurnCoins :: "sdk \<Rightarrow> string \<Rightarrow> coin list \<Rightarrow> ('s chain_state_scheme, unit) M" where
  "BurnCoins S md coins = bank_call (burn_coins S md coins)"

definition HasBalance :: "string \<Rightarrow> coin \<Rightarrow> 's chain_state_scheme \<Rightarrow> bool" where
  "HasBalance addr c s = has_balance (bank s) addr c"

text \<open>\<open>sdk.NewCoins\<close> of one and of two fresh coins.\<close>

definition one_coin_list :: "sdk \<Rightarrow> string \<Rightarrow> int \<Rightarrow> coin list result" where
  "one_coin_list S d n = rbind (new_coin S d n) (\<lambda>c. new_coins S [c])"

definition two_coin_list :: "sdk \<Rightarrow> string \<Rightarrow> int \<Rightarrow> string \<Rightarrow> int \<Rightarrow> coin list result" where
  "two_coin_list S d n d' n' = rbind (new_coin S d n) (\<lambda>c. rbind (new_coin S d' n') (\<lambda>c'. new_coins S [c, c']))"

section \<open>Rules\<close>

lemma bank_call_Ok [op_inv]:
  "bank_call f s = (Ok (), t) \<longleftrightarrow> (\<exists>b. f (bank s) = Ok b \<and> t = s\<lparr>bank := b\<rparr>)"
  by (auto simp: bank_call_def result_inv)

lemmas send_defs = SendCoins_def SendCoinsFromAccountToModule_def SendCoinsFromModuleToAccount_def MintCoins_def BurnCoins_def

text \<open>A transfer whose error is tested, and one whose error is dropped.\<close>

lemma bank_try:
  "catchM (thenM (bank_call f) (ret True)) (\<lambda>_. ret False) s = (Ok x, u) \<longleftrightarrow>
    (if x then \<exists>b. f (bank s) = Ok b \<and> u = s\<lparr>bank := b\<rparr> else u = s \<and> (\<exists>e. f (bank s) = Err e))"
  by (cases "f (bank s)") (auto simp: bank_call_def bindM_def thenM_def monad_defs)

lemma bank_ignore:
  "ignoreM (bank_call f) s = (Ok (), u) \<longleftrightarrow> (\<exists>b. f (bank s) = Ok b \<and> u = s\<lparr>bank := b\<rparr>) \<or> (u = s \<and> (\<exists>e. f (bank s) = Err e))"
  by (cases "f (bank s)") (auto simp: bank_call_def bindM_def thenM_def monad_defs)

lemma bank_call_wp:
  "triple (\<lambda>s. (\<forall>b. f (bank s) = Ok b \<longrightarrow> Q () (s\<lparr>bank := b\<rparr>)) \<and> E s) (bank_call f) Q E"
  unfolding bank_call_def by (rule triple_pre, (rule wp)+) auto

context sdk_laws
begin

lemma one_coin_list_Ok: "one_coin_list S d n = Ok cs \<Longrightarrow> 0 \<le> n \<and> amount_of cs e = (if e = d then nat n else 0)"
  by (auto simp: one_coin_list_def result_inv dest!: new_coin new_coins [of _ _ e])

lemma two_coin_list_Ok: "two_coin_list S d n d' n' = Ok cs \<Longrightarrow> 0 \<le> n \<and> 0 \<le> n' \<and>
    amount_of cs e = (if e = d then nat n else 0) + (if e = d' then nat n' else 0)"
  by (auto simp: two_coin_list_def result_inv dest!: new_coin new_coins [of _ _ e])

lemma payout_bank:
  assumes "mint_coins S md cs bk = Ok b1" "send_mod_to_acc S md r cs b1 = Ok b2"
  shows "b2 = bk(r := (\<lambda>d. bk r d + amount_of cs d))"
  using mint_coins [OF assms(1)] send_mod_to_acc [OF assms(2)] by (auto simp: move_coins_def fun_eq_iff)

end

end
