(* ===== verification/ClpState.thy ===== *)
theory ClpState
  imports MarginParams Bank
begin

text \<open>
  The state of \<open>x/clp\<close> and the keeper methods that read and write one value of it: pools
  (\<open>pool.go\<close>), liquidity providers (\<open>liquidityprovider.go\<close>), and the parameters of rewards,
  ratio shifting, liquidity protection, swap fees and symmetry. Every key prefix of
  \<open>types/keys.go\<close> is a field of \<open>clp_state\<close>. A parameter that \<open>InitGenesis\<close> always writes is
  there without an option. The \<open>uint64\<close> and \<open>int64\<close> fields are integers.
\<close>

section \<open>Data (params.proto, types.proto)\<close>

record PmtpParams =
  pmtpPeriodGovernanceRate :: int
  pmtpPeriodEpochLength :: int
  pmtpPeriodStartBlock :: int
  pmtpPeriodEndBlock :: int

record PmtpRateParams =
  pmtpPeriodBlockRate :: int
  pmtpCurrentRunningRate :: int
  pmtpInterPolicyRate :: int

record PmtpEpoch =
  epochCounter :: int
  blockCounter :: int

record PoolMultiplier =
  poolMultiplierAsset :: string
  multiplier :: "int option"

record RewardPeriod =
  rewardPeriodId :: string
  rewardPeriodStartBlock :: int
  rewardPeriodEndBlock :: int
  rewardPeriodAllocation :: "nat option"
  rewardPeriodPoolMultipliers :: "PoolMultiplier list"
  rewardPeriodDefaultMultiplier :: "int option"
  rewardPeriodDistribute :: bool
  rewardPeriodMod :: int

record RewardParams =
  liquidityRemovalLockPeriod :: int
  liquidityRemovalCancelPeriod :: int
  rewardPeriods :: "RewardPeriod list"
  rewardPeriodStartTime :: string

record LiquidityProtectionParams =
  maxFuryLiquidityThreshold :: nat
  maxFuryLiquidityThresholdAsset :: string
  protectionEpochLength :: int
  isActive :: bool

record ProviderDistributionPeriod =
  distributionPeriodBlockRate :: int
  distributionPeriodStartBlock :: int
  distributionPeriodEndBlock :: int
  distributionPeriodMod :: int

record SwapFeeTokenParams =
  feeAsset :: string
  swapFeeRate :: int

record SwapFeeParams =
  defaultSwapFeeRate :: int
  tokenParams :: "SwapFeeTokenParams list"

record MsgRemoveLiquidity =
  removeSigner :: string
  removeExternalAsset :: Asset
  wBasisPoints :: int
  asymmetry :: int

record RemovalRequest =
  requestId :: int
  requestValue :: nat
  requestMsg :: MsgRemoveLiquidity

record RemovalQueue =
  queueCount :: int
  queueId :: int
  startHeight :: int
  totalValue :: nat

record Minter =
  inflation :: int
  annualProvisions :: int

record clp_state = margin_params_state +
  pools :: "Pool kv"
  providers :: "LiquidityProvider kv"
  clpWhiteList :: "string list option"
  pmtpRateParams :: PmtpRateParams
  pmtpEpoch :: PmtpEpoch
  pmtpParams :: PmtpParams
  rewardParams :: RewardParams
  symmetryThreshold :: "(int \<times> int) option"   \<comment> \<open>threshold and ratio\<close>
  protectionParams :: LiquidityProtectionParams
  currentFuryLiquidityThreshold :: nat
  distributionPeriods :: "ProviderDistributionPeriod list"
  blockDistributionAccu :: "nat option"
  swapFeeParams :: "SwapFeeParams option"
  removalRequests :: "RemovalRequest kv"
  removalQueues :: "RemovalQueue kv"
  minCreatePoolThreshold :: int
  enableRemovalQueue :: bool
  minter :: Minter
  mintParams :: string   \<comment> \<open>parameters of the SDK's mint module, encoded\<close>

section \<open>Pools (pool.go)\<close>

definition SetPool :: "sdk \<Rightarrow> Pool \<Rightarrow> ('s clp_state_scheme, unit) M" where
  "SetPool S pool =
     bindM (liftR (Pool_Validate S pool)) (\<lambda>ok.
     if \<not> ok then throw ErrUnableToSetPool
     else modify (\<lambda>s. s\<lparr>pools := kv_put (GetPoolKey (Symbol (externalAsset pool)) (Symbol GetSettlementAsset)) pool (pools s)\<rparr>))"

definition ValidatePool :: "sdk \<Rightarrow> Pool \<Rightarrow> bool result" where
  "ValidatePool S pool = rbind (Pool_Validate S pool) (\<lambda>ok. Ok (if \<not> ok then False else True))"

definition GetPool :: "string \<Rightarrow> 's clp_state_scheme \<Rightarrow> Pool result" where
  "GetPool symbol s =
     (case kv_get (pools s) (GetPoolKey symbol (Symbol GetSettlementAsset)) of
        None \<Rightarrow> Err ErrPoolDoesNotExist
      | Some p \<Rightarrow> Ok p)"

definition ExistsPool :: "string \<Rightarrow> 's clp_state_scheme \<Rightarrow> bool" where
  "ExistsPool symbol s \<longleftrightarrow> kv_get (pools s) (GetPoolKey symbol (Symbol GetSettlementAsset)) \<noteq> None"

definition GetPools :: "'s clp_state_scheme \<Rightarrow> Pool list" where
  "GetPools s = kv_values (pools s)"

definition DestroyPool :: "string \<Rightarrow> ('s clp_state_scheme, unit) M" where
  "DestroyPool symbol =
     bindM (gets (ExistsPool symbol)) (\<lambda>e.
     if \<not> e then throw ErrPoolDoesNotExist
     else modify (\<lambda>s. s\<lparr>pools := kv_del (GetPoolKey symbol (Symbol GetSettlementAsset)) (pools s)\<rparr>))"

text \<open>Both return the pool, which the code updates through its pointer.\<close>

definition SendFuryFromPoolNoPoolUpdate ::
  "sdk \<Rightarrow> Pool \<Rightarrow> nat \<Rightarrow> string \<Rightarrow> ('s clp_state_scheme, Pool) M" where
  "SendFuryFromPoolNoPoolUpdate S pool amount recipient =
     (if nativeAssetBalance pool < amount then throw (ErrSdk ''pool balance too low for transfer'')
      else
      bindM (liftR (new_coin S NativeSymbol (int amount))) (\<lambda>coin.
      bindM (liftR (new_coins S [coin])) (\<lambda>coins.
      thenM (SendCoinsFromModuleToAccount S ModuleName recipient coins) (
      bindM (liftR (uint_sub S (nativeAssetBalance pool) amount)) (\<lambda>left.
      ret (pool\<lparr>nativeAssetBalance := left\<rparr>))))))"

definition SendFuryFromPool :: "sdk \<Rightarrow> Pool \<Rightarrow> nat \<Rightarrow> string \<Rightarrow> ('s clp_state_scheme, Pool) M" where
  "SendFuryFromPool S pool amount recipient =
     bindM (SendFuryFromPoolNoPoolUpdate S pool amount recipient) (\<lambda>pool'.
     thenM (SetPool S pool') (ret pool'))"

definition RemoveFuryFromPool :: "sdk \<Rightarrow> Pool \<Rightarrow> nat \<Rightarrow> ('s clp_state_scheme, unit) M" where
  "RemoveFuryFromPool S pool amount =
     (if nativeAssetBalance pool < amount then throw (ErrSdk ''pool balance too low for transfer'')
      else
      bindM (liftR (uint_sub S (nativeAssetBalance pool) amount)) (\<lambda>left.
      SetPool S (pool\<lparr>nativeAssetBalance := left\<rparr>)))"

section \<open>Liquidity providers (liquidityprovider.go)\<close>

definition SetLiquidityProvider :: "sdk \<Rightarrow> LiquidityProvider \<Rightarrow> ('s clp_state_scheme, unit) M" where
  "SetLiquidityProvider S lp =
     bindM (liftR (LiquidityProvider_Validate S lp)) (\<lambda>ok.
     if \<not> ok then ret ()
     else modify (\<lambda>s. s\<lparr>providers :=
       kv_put (GetLiquidityProviderKey (Symbol (lp_asset lp)) (liquidityProviderAddress lp)) lp (providers s)\<rparr>))"

definition GetLiquidityProvider :: "string \<Rightarrow> string \<Rightarrow> 's clp_state_scheme \<Rightarrow> LiquidityProvider result" where
  "GetLiquidityProvider symbol lpAddress s =
     (case kv_get (providers s) (GetLiquidityProviderKey symbol lpAddress) of
        None \<Rightarrow> Err ErrLiquidityProviderDoesNotExist
      | Some lp \<Rightarrow> Ok lp)"

definition DestroyLiquidityProvider :: "string \<Rightarrow> string \<Rightarrow> ('s clp_state_scheme, unit) M" where
  "DestroyLiquidityProvider symbol lpAddress =
     bindM (gets (\<lambda>s. kv_get (providers s) (GetLiquidityProviderKey symbol lpAddress))) (\<lambda>v.
     if v = None then ret ()
     else modify (\<lambda>s. s\<lparr>providers := kv_del (GetLiquidityProviderKey symbol lpAddress) (providers s)\<rparr>))"

text \<open>
  The entries of one page. \<open>GetAllLiquidityProviders\<close> and \<open>GetAllLiquidityProvidersForAsset\<close> ask
  for \<open>math.MaxUint64 - 1\<close> of them, \<open>minus one because of SDK bug\<close>. An entry is never empty and
  always decodes, so the filter is the test on the asset.
\<close>

definition paginate_providers ::
  "sdk \<Rightarrow> nat \<Rightarrow> (LiquidityProvider \<Rightarrow> bool) \<Rightarrow> 's clp_state_scheme \<Rightarrow> LiquidityProvider list" where
  "paginate_providers S limit hit s =
     (let lps = kv_values (providers s)
      in map (\<lambda>i. lps ! i) (filtered_paginate S limit (map hit lps)))"

definition GetAllLiquidityProviders :: "sdk \<Rightarrow> 's clp_state_scheme \<Rightarrow> LiquidityProvider list" where
  "GetAllLiquidityProviders S s = paginate_providers S (2 ^ 64 - 2) (\<lambda>_. True) s"

definition GetLiquidityProvidersForAssetPaginated ::
  "sdk \<Rightarrow> nat \<Rightarrow> Asset \<Rightarrow> 's clp_state_scheme \<Rightarrow> LiquidityProvider list" where
  "GetLiquidityProvidersForAssetPaginated S limit asset s =
     paginate_providers S limit (\<lambda>lp. Asset_Equals (lp_asset lp) asset) s"

definition GetAllLiquidityProvidersForAsset :: "sdk \<Rightarrow> Asset \<Rightarrow> 's clp_state_scheme \<Rightarrow> LiquidityProvider list" where
  "GetAllLiquidityProvidersForAsset S asset s = GetLiquidityProvidersForAssetPaginated S (2 ^ 64 - 2) asset s"

text \<open>A Go map is an association list in the order of the first insertions.\<close>

fun map_append :: "'k \<Rightarrow> 'v \<Rightarrow> ('k \<times> 'v list) list \<Rightarrow> ('k \<times> 'v list) list" where
  "map_append k v [] = [(k, [v])]"
| "map_append k v ((j, vs) # m) = (if j = k then (j, vs @ [v]) # m else (j, vs) # map_append k v m)"

definition partitionLPsbyAsset :: "LiquidityProvider list \<Rightarrow> (Asset \<times> LiquidityProvider list) list" where
  "partitionLPsbyAsset lps = foldl (\<lambda>m lp. map_append (lp_asset lp) lp m) [] lps"

definition GetAllLiquidityProvidersPartitions ::
  "sdk \<Rightarrow> 's clp_state_scheme \<Rightarrow> (Asset \<times> LiquidityProvider list) list" where
  "GetAllLiquidityProvidersPartitions S s = partitionLPsbyAsset (GetAllLiquidityProviders S s)"

section \<open>Parameters\<close>

definition GetSwapFeeParams :: "'s clp_state_scheme \<Rightarrow> SwapFeeParams" where
  "GetSwapFeeParams s =
     (case swapFeeParams s of
        None \<Rightarrow> \<lparr>defaultSwapFeeRate = 3 * 10 ^ 15, tokenParams = []\<rparr>
      | Some p \<Rightarrow> p)"

definition SetSwapFeeParams :: "SwapFeeParams \<Rightarrow> ('s clp_state_scheme, unit) M" where
  "SetSwapFeeParams p = modify (\<lambda>s. s\<lparr>swapFeeParams := Some p\<rparr>)"

fun find_fee :: "string \<Rightarrow> SwapFeeTokenParams list \<Rightarrow> int option" where
  "find_fee symbol [] = None"
| "find_fee symbol (p # ps) =
     (if StringCompare symbol (feeAsset p) then Some (swapFeeRate p) else find_fee symbol ps)"

definition GetSwapFeeRate :: "Asset \<Rightarrow> bool \<Rightarrow> 's clp_state_scheme \<Rightarrow> int" where
  "GetSwapFeeRate asset marginEnabled s =
     (let params = GetSwapFeeParams s in
      case (if \<not> marginEnabled then find_fee (Symbol asset) (tokenParams params) else None) of
        Some r \<Rightarrow> r
      | None \<Rightarrow> defaultSwapFeeRate params)"

definition SetPmtpRateParams :: "PmtpRateParams \<Rightarrow> ('s clp_state_scheme, unit) M" where
  "SetPmtpRateParams p = modify (\<lambda>s. s\<lparr>pmtpRateParams := p\<rparr>)"

definition GetPmtpRateParams :: "'s clp_state_scheme \<Rightarrow> PmtpRateParams" where
  "GetPmtpRateParams s = pmtpRateParams s"

definition SetPmtpBlockRate :: "int \<Rightarrow> ('s clp_state_scheme, unit) M" where
  "SetPmtpBlockRate r =
     bindM (gets GetPmtpRateParams) (\<lambda>p. SetPmtpRateParams (p\<lparr>pmtpPeriodBlockRate := r\<rparr>))"

definition SetPmtpCurrentRunningRate :: "int \<Rightarrow> ('s clp_state_scheme, unit) M" where
  "SetPmtpCurrentRunningRate r =
     bindM (gets GetPmtpRateParams) (\<lambda>p. SetPmtpRateParams (p\<lparr>pmtpCurrentRunningRate := r\<rparr>))"

definition SetPmtpInterPolicyRate :: "int \<Rightarrow> ('s clp_state_scheme, unit) M" where
  "SetPmtpInterPolicyRate r =
     bindM (gets GetPmtpRateParams) (\<lambda>p. SetPmtpRateParams (p\<lparr>pmtpInterPolicyRate := r\<rparr>))"

definition SetPmtpEpoch :: "PmtpEpoch \<Rightarrow> ('s clp_state_scheme, unit) M" where
  "SetPmtpEpoch e = modify (\<lambda>s. s\<lparr>pmtpEpoch := e\<rparr>)"

definition GetPmtpEpoch :: "'s clp_state_scheme \<Rightarrow> PmtpEpoch" where
  "GetPmtpEpoch s = pmtpEpoch s"

definition DecrementPmtpEpochCounter :: "('s clp_state_scheme, unit) M" where
  "DecrementPmtpEpochCounter =
     bindM (gets GetPmtpEpoch) (\<lambda>e. SetPmtpEpoch (e\<lparr>epochCounter := to_i64 (epochCounter e - 1)\<rparr>))"

definition DecrementPmtpBlockCounter :: "('s clp_state_scheme, unit) M" where
  "DecrementPmtpBlockCounter =
     bindM (gets GetPmtpEpoch) (\<lambda>e. SetPmtpEpoch (e\<lparr>blockCounter := to_i64 (blockCounter e - 1)\<rparr>))"

definition SetPmtpBlockCounter :: "int \<Rightarrow> ('s clp_state_scheme, unit) M" where
  "SetPmtpBlockCounter n = bindM (gets GetPmtpEpoch) (\<lambda>e. SetPmtpEpoch (e\<lparr>blockCounter := n\<rparr>))"

definition SetPmtpParams :: "PmtpParams \<Rightarrow> ('s clp_state_scheme, unit) M" where
  "SetPmtpParams p = modify (\<lambda>s. s\<lparr>pmtpParams := p\<rparr>)"

definition GetPmtpParams :: "'s clp_state_scheme \<Rightarrow> PmtpParams" where
  "GetPmtpParams s = pmtpParams s"

definition SetRewardParams :: "RewardParams \<Rightarrow> ('s clp_state_scheme, unit) M" where
  "SetRewardParams p = modify (\<lambda>s. s\<lparr>rewardParams := p\<rparr>)"

definition GetRewardsParams :: "'s clp_state_scheme \<Rightarrow> RewardParams" where
  "GetRewardsParams s = rewardParams s"

definition SetBlockDistributionAccu :: "nat \<Rightarrow> ('s clp_state_scheme, unit) M" where
  "SetBlockDistributionAccu n = modify (\<lambda>s. s\<lparr>blockDistributionAccu := Some n\<rparr>)"

definition GetBlockDistributionAccu :: "'s clp_state_scheme \<Rightarrow> nat" where
  "GetBlockDistributionAccu s = (case blockDistributionAccu s of None \<Rightarrow> 0 | Some n \<Rightarrow> n)"

definition SetProviderDistributionParams :: "ProviderDistributionPeriod list \<Rightarrow> ('s clp_state_scheme, unit) M" where
  "SetProviderDistributionParams ps = modify (\<lambda>s. s\<lparr>distributionPeriods := ps\<rparr>)"

definition SetLiquidityProtectionParams :: "LiquidityProtectionParams \<Rightarrow> ('s clp_state_scheme, unit) M" where
  "SetLiquidityProtectionParams p = modify (\<lambda>s. s\<lparr>protectionParams := p\<rparr>)"

definition GetLiquidityProtectionParams :: "'s clp_state_scheme \<Rightarrow> LiquidityProtectionParams" where
  "GetLiquidityProtectionParams s = protectionParams s"

definition SetLiquidityProtectionRateParams :: "nat \<Rightarrow> ('s clp_state_scheme, unit) M" where
  "SetLiquidityProtectionRateParams n = modify (\<lambda>s. s\<lparr>currentFuryLiquidityThreshold := n\<rparr>)"

definition SetLiquidityProtectionCurrentFuryLiquidityThreshold :: "nat \<Rightarrow> ('s clp_state_scheme, unit) M" where
  "SetLiquidityProtectionCurrentFuryLiquidityThreshold n = SetLiquidityProtectionRateParams n"

definition GetSymmetryThreshold :: "'s clp_state_scheme \<Rightarrow> int" where
  "GetSymmetryThreshold s = (case symmetryThreshold s of None \<Rightarrow> 5 * 10 ^ 13 | Some (t, _) \<Rightarrow> t)"

definition GetSymmetryRatio :: "'s clp_state_scheme \<Rightarrow> int" where
  "GetSymmetryRatio s = (case symmetryThreshold s of None \<Rightarrow> 5 * 10 ^ 15 | Some (_, r) \<Rightarrow> r)"

definition SetSymmetryThreshold :: "int \<Rightarrow> int \<Rightarrow> ('s clp_state_scheme, unit) M" where
  "SetSymmetryThreshold threshold ratio = modify (\<lambda>s. s\<lparr>symmetryThreshold := Some (threshold, ratio)\<rparr>)"

definition GetAssetDecimals :: "Asset \<Rightarrow> 's clp_state_scheme \<Rightarrow> nat result" where
  "GetAssetDecimals asset s =
     rbind (GetEntry (GetRegistry s) (Symbol asset)) (\<lambda>entry. Int64ToUint8Safe (decimals entry))"

text \<open>The white list of the accounts that may decommission pools (validatorWhitelist.go).\<close>

definition SetClpWhiteList :: "string list \<Rightarrow> ('s clp_state_scheme, unit) M" where
  "SetClpWhiteList validatorList = modify (\<lambda>s. s\<lparr>clpWhiteList := Some validatorList\<rparr>)"

definition GetClpWhiteList :: "sdk \<Rightarrow> 's clp_state_scheme \<Rightarrow> string list result" where
  "GetClpWhiteList S s =
     rfold (\<lambda>entry vl. case acc_from_bech32 S entry of None \<Rightarrow> Panic | Some addr \<Rightarrow> Ok (vl @ [addr]))
       (case clpWhiteList s of None \<Rightarrow> [] | Some l \<Rightarrow> l) []"

definition ValidateAddress :: "sdk \<Rightarrow> string \<Rightarrow> 's clp_state_scheme \<Rightarrow> bool result" where
  "ValidateAddress S address s =
     (if clpWhiteList s = None then Ok False
      else rbind (GetClpWhiteList S s) (\<lambda>valList. Ok (list_ex (\<lambda>v. v = address) valList)))"

section \<open>A query swap (swap.go)\<close>

definition CLPCalcSwap :: "sdk \<Rightarrow> nat \<Rightarrow> Asset \<Rightarrow> Pool \<Rightarrow> bool \<Rightarrow> 's clp_state_scheme \<Rightarrow> nat result" where
  "CLPCalcSwap S sentAmount to pool marginEnabled s =
     (let (X, Y, toFury, from) = ExtractValues pool to in
      rbind (ExtractDebt S pool X Y toFury) (\<lambda>(Xincl, Yincl).
      let rate = pmtpCurrentRunningRate (GetPmtpRateParams s);
          fee = GetSwapFeeRate from marginEnabled s in
      rbind (CalcSwapResult S toFury Xincl sentAmount Yincl rate fee) (\<lambda>(swapResult, _).
      if Y \<le> swapResult then Err ErrNotEnoughAssetTokens else Ok swapResult)))"

section \<open>What the keeper operations leave behind\<close>

abbreviation pool_key :: "Asset \<Rightarrow> string" where
  "pool_key a \<equiv> GetPoolKey (Symbol a) NativeSymbol"

abbreviation lp_key :: "LiquidityProvider \<Rightarrow> string" where
  "lp_key l \<equiv> GetLiquidityProviderKey (Symbol (lp_asset l)) (liquidityProviderAddress l)"

lemma SetPool_Ok [op_inv]:
  "SetPool S p s = (Ok (), t) \<longleftrightarrow>
     Asset_Validate S (externalAsset p) = Ok True \<and>
     t = s\<lparr>pools := kv_put (pool_key (externalAsset p)) p (pools s)\<rparr>"
  by (auto simp: SetPool_def Pool_Validate_def result_inv split: if_splits)

lemma SetLiquidityProvider_Ok [op_inv]:
  "SetLiquidityProvider S l s = (Ok (), t) \<longleftrightarrow>
     Asset_Validate S (lp_asset l) = Ok True \<and> t = s\<lparr>providers := kv_put (lp_key l) l (providers s)\<rparr> \<or>
     Asset_Validate S (lp_asset l) = Ok False \<and> t = s"
  by (auto simp: SetLiquidityProvider_def LiquidityProvider_Validate_def result_inv split: if_splits)

lemma DestroyLiquidityProvider_run:
  "DestroyLiquidityProvider d a s = (Ok (), s\<lparr>providers := kv_del (GetLiquidityProviderKey d a) (providers s)\<rparr>)"
  by (auto simp: DestroyLiquidityProvider_def run ret_def modify_def kv_del_absent)

lemma DestroyLiquidityProvider_Ok [op_inv]:
  "DestroyLiquidityProvider d a s = (Ok (), t) \<longleftrightarrow>
     t = s\<lparr>providers := kv_del (GetLiquidityProviderKey d a) (providers s)\<rparr>"
  by (auto simp: DestroyLiquidityProvider_run)

lemma GetPool_Ok: "GetPool d s = Ok p \<longleftrightarrow> kv_get (pools s) (GetPoolKey d NativeSymbol) = Some p"
  by (simp add: GetPool_def split: option.split)

lemma GetLiquidityProvider_Ok:
  "GetLiquidityProvider d a s = Ok l \<longleftrightarrow> kv_get (providers s) (GetLiquidityProviderKey d a) = Some l"
  by (simp add: GetLiquidityProvider_def split: option.split)

lemma GetLiquidityProvider_not:
  "GetLiquidityProvider d a s = Err e \<Longrightarrow> kv_get (providers s) (GetLiquidityProviderKey d a) = None"
  "GetLiquidityProvider d a s \<noteq> Panic"
  by (auto simp: GetLiquidityProvider_def split: option.splits)

lemma SetLiquidityProvider_preserves [frame_intros]:
  "(\<And>s m. f (s\<lparr>providers := m\<rparr>) = f s) \<Longrightarrow> preserves f (SetLiquidityProvider S l)"
  unfolding SetLiquidityProvider_def by (intro frame_intros) auto

end
