(* ===== verification/ClpExecutors.thy ===== *)
theory ClpExecutors
  imports ClpState
begin

text \<open>
  The operations on pools that move coins (\<open>x/clp/keeper/executors.go\<close>), the liquidity
  protection (\<open>liquidityprotection.go\<close>), the unlock records of providers (\<open>rewards.go\<close>) and the
  queue of removals that wait for the health of a pool (\<open>removalqueue.go\<close>). Events and log lines
  are left out; they read the state and write nothing to it.
\<close>

section \<open>Creating pools and adding liquidity\<close>

definition ParseToInt :: "sdk \<Rightarrow> nat \<Rightarrow> ('s, int) M" where
  "ParseToInt S n = liftR (of_option ErrUnableToParseInt (int_of_uint S n))"

definition parse_address :: "sdk \<Rightarrow> string \<Rightarrow> ('s, string) M" where
  "parse_address S s = liftR (of_option (ErrSdk ''bech32'') (acc_from_bech32 S s))"

definition CreatePool ::
  "sdk \<Rightarrow> nat \<Rightarrow> string \<Rightarrow> Asset \<Rightarrow> nat \<Rightarrow> nat \<Rightarrow> ('s clp_state_scheme, Pool) M" where
  "CreatePool S pool_units signer asset nativeAmount externalAmount =
     bindM (ParseToInt S externalAmount) (\<lambda>extInt.
     bindM (ParseToInt S nativeAmount) (\<lambda>nativeInt.
     bindM (parse_address S signer) (\<lambda>addr.
     bindM (liftR (new_coin S (Symbol asset) extInt)) (\<lambda>externalAssetCoin.
     bindM (liftR (new_coin S (Symbol GetSettlementAsset) nativeInt)) (\<lambda>nativeAssetCoin.
     bindM (gets (\<lambda>s. \<not> HasBalance addr externalAssetCoin s \<and> \<not> HasBalance addr nativeAssetCoin s)) (\<lambda>missing.
     if missing then throw ErrBalanceNotAvailable
     else
     let pool = NewPool asset nativeAmount externalAmount pool_units in
     bindM (liftR (new_coins S [externalAssetCoin, nativeAssetCoin])) (\<lambda>coins.
     thenM (SendCoinsFromAccountToModule S addr ModuleName coins) (
     thenM (wrapM ErrUnableToSetPool (SetPool S pool)) (ret pool)))))))))"

definition CreateLiquidityProvider ::
  "sdk \<Rightarrow> Asset \<Rightarrow> nat \<Rightarrow> string \<Rightarrow> ('s clp_state_scheme, LiquidityProvider) M" where
  "CreateLiquidityProvider S asset lpunits lpaddress =
     (let lp = NewLiquidityProvider asset lpunits lpaddress in
      thenM (SetLiquidityProvider S lp) (ret lp))"

text \<open>
  \<open>!HasBalance(coins[0]) && !HasBalance(coins[1])\<close>: \<open>coins.Add\<close> drops zero coins, so either index
  may be out of range.
\<close>

definition lacks_both :: "string \<Rightarrow> coin list \<Rightarrow> ('s chain_state_scheme, bool) M" where
  "lacks_both addr coins =
     (case coins of
        [] \<Rightarrow> panic
      | c # cs \<Rightarrow>
          bindM (gets (HasBalance addr c)) (\<lambda>ok.
          if ok then ret False
          else case cs of
            [] \<Rightarrow> panic
          | c' # _ \<Rightarrow> bindM (gets (HasBalance addr c')) (\<lambda>ok'. ret (\<not> ok'))))"

text \<open>\<open>extInt != sdk.ZeroInt()\<close> compares structs with different pointers and is always true.\<close>

definition AddLiquidity ::
  "sdk \<Rightarrow> string \<Rightarrow> Asset \<Rightarrow> nat \<Rightarrow> nat \<Rightarrow> Pool \<Rightarrow> nat \<Rightarrow> nat \<Rightarrow> ('s clp_state_scheme, LiquidityProvider) M" where
  "AddLiquidity S signer asset nativeAmount externalAmount pool newPoolUnits lpUnits =
     bindM (ParseToInt S externalAmount) (\<lambda>extInt.
     bindM (ParseToInt S nativeAmount) (\<lambda>nativeInt.
     bindM (liftR (new_coin S (Symbol asset) extInt)) (\<lambda>externalAssetCoin.
     bindM (liftR (coins_add S [] externalAssetCoin)) (\<lambda>coins1.
     bindM (liftR (new_coin S (Symbol GetSettlementAsset) nativeInt)) (\<lambda>nativeAssetCoin.
     bindM (liftR (coins_add S coins1 nativeAssetCoin)) (\<lambda>coins.
     bindM (parse_address S signer) (\<lambda>addr.
     bindM (lacks_both addr coins) (\<lambda>missing.
     if missing then throw ErrBalanceNotAvailable
     else
     thenM (SendCoinsFromAccountToModule S addr ModuleName coins) (
     bindM (liftR (uint_add S (nativeAssetBalance pool) nativeAmount)) (\<lambda>nb.
     bindM (liftR (uint_add S (externalAssetBalance pool) externalAmount)) (\<lambda>eb.
     let pool' = pool\<lparr>poolUnits := newPoolUnits, nativeAssetBalance := nb, externalAssetBalance := eb\<rparr> in
     bindM (gets (GetLiquidityProvider (Symbol asset) signer)) (\<lambda>found.
     bindM (case found of
              Ok lp \<Rightarrow> ret (lp, lpUnits)
            | _ \<Rightarrow> bindM (CreateLiquidityProvider S asset lpUnits addr) (\<lambda>lp. ret (lp, 0))) (\<lambda>(lp, added).
     bindM (liftR (uint_add S (liquidityProviderUnits lp) added)) (\<lambda>lu.
     let lp' = lp\<lparr>liquidityProviderUnits := lu\<rparr> in
     thenM (wrapM ErrUnableToSetPool (SetPool S pool')) (
     thenM (SetLiquidityProvider S lp') (ret lp'))))))))))))))))"

section \<open>Removing liquidity\<close>

definition RemoveLiquidityProvider ::
  "sdk \<Rightarrow> coin list \<Rightarrow> LiquidityProvider \<Rightarrow> ('s clp_state_scheme, unit) M" where
  "RemoveLiquidityProvider S coins lp =
     bindM (parse_address S (liquidityProviderAddress lp)) (\<lambda>lpaddr.
     thenM (wrapM ErrUnableToAddBalance (SendCoinsFromModuleToAccount S ModuleName lpaddr coins)) (
     DestroyLiquidityProvider (Symbol (lp_asset lp)) (liquidityProviderAddress lp)))"

definition DecommissionPool :: "Pool \<Rightarrow> ('s clp_state_scheme, unit) M" where
  "DecommissionPool pool = wrapM ErrUnableToDestroyPool (DestroyPool (Symbol (externalAsset pool)))"

definition RemoveLiquidity ::
  "sdk \<Rightarrow> Pool \<Rightarrow> coin \<Rightarrow> coin \<Rightarrow> LiquidityProvider \<Rightarrow> nat \<Rightarrow> nat \<Rightarrow> nat \<Rightarrow> ('s clp_state_scheme, unit) M" where
  "RemoveLiquidity S pool externalAssetCoin nativeAssetCoin lp lpUnitsLeft poolOriginalEB poolOriginalNB =
     bindM (parse_address S (liquidityProviderAddress lp)) (\<lambda>lpAddr.
     bindM (liftR (if snd externalAssetCoin \<noteq> 0 then coins_add S [] externalAssetCoin else Ok [])) (\<lambda>send1.
     bindM (liftR (if snd nativeAssetCoin \<noteq> 0 then coins_add S send1 nativeAssetCoin else Ok send1)) (\<lambda>sendCoins.
     if poolOriginalEB \<le> snd externalAssetCoin \<or> poolOriginalNB \<le> snd nativeAssetCoin
     then throw ErrPoolTooShallow
     else
     thenM (wrapM ErrUnableToSetPool (SetPool S pool)) (
     thenM (if sendCoins \<noteq> []
            then bindM (gets (\<lambda>s. list_all (\<lambda>c. HasBalance (GetCLPModuleAddress S) c s) sendCoins)) (\<lambda>ok.
                 if \<not> ok then throw ErrNotEnoughLiquidity
                 else SendCoinsFromModuleToAccount S ModuleName lpAddr sendCoins)
            else ret ()) (
     if lpUnitsLeft = 0 then DestroyLiquidityProvider (Symbol (lp_asset lp)) (liquidityProviderAddress lp)
     else SetLiquidityProvider S (lp\<lparr>liquidityProviderUnits := lpUnitsLeft\<rparr>))))))"

section \<open>Swaps\<close>

definition InitiateSwap :: "sdk \<Rightarrow> coin \<Rightarrow> string \<Rightarrow> ('s clp_state_scheme, unit) M" where
  "InitiateSwap S sentCoin swapper =
     bindM (gets (HasBalance swapper sentCoin)) (\<lambda>ok.
     if \<not> ok then throw ErrBalanceNotAvailable
     else
     bindM (liftR (new_coins S [sentCoin])) (\<lambda>coins.
     SendCoinsFromAccountToModule S swapper ModuleName coins))"

definition FinalizeSwap :: "sdk \<Rightarrow> nat \<Rightarrow> Pool \<Rightarrow> string \<Rightarrow> Asset \<Rightarrow> ('s clp_state_scheme, unit) M" where
  "FinalizeSwap S sentAmount finalPool signer receivedAsset =
     thenM (wrapM ErrUnableToSetPool (SetPool S finalPool)) (
     bindM (ParseToInt S sentAmount) (\<lambda>sentAmountInt.
     bindM (parse_address S signer) (\<lambda>addr.
     bindM (liftR (new_coin S (Symbol receivedAsset) sentAmountInt)) (\<lambda>sentCoin.
     bindM (liftR (new_coins S [sentCoin])) (\<lambda>coins.
     SendCoinsFromModuleToAccount S ModuleName addr coins)))))"

section \<open>Removals by basis points\<close>

text \<open>The swap that turns a symmetric withdrawal into the asymmetric one of the message.\<close>

definition adjust_asymmetry ::
  "sdk \<Rightarrow> Asset \<Rightarrow> int \<Rightarrow> nat \<Rightarrow> Pool \<Rightarrow> coin \<Rightarrow> coin \<Rightarrow> int \<Rightarrow> int \<Rightarrow> int \<Rightarrow> (Pool \<times> coin \<times> coin) result" where
  "adjust_asymmetry S asset asymm swapAmount pool externalAssetCoin nativeAssetCoin rate externalFee nativeFee =
     (let parse = (\<lambda>n. of_option ErrUnableToParseInt (int_of_uint S n)) in
      if 0 < asymm
      then rbind (rwrap ErrUnableToSwap (SwapOne S swapAmount asset pool rate nativeFee))
             (\<lambda>(swapResult, _, _, swappedPool).
           if swapResult = 0 then Ok (swappedPool, externalAssetCoin, nativeAssetCoin)
           else
           rbind (parse swapResult) (\<lambda>swapResultInt.
           rbind (parse swapAmount) (\<lambda>swapAmountInt.
           rbind (new_coin S (Symbol asset) swapResultInt) (\<lambda>swapCoin.
           rbind (new_coin S (Symbol GetSettlementAsset) swapAmountInt) (\<lambda>swapAmountInCoin.
           rbind (coin_add S externalAssetCoin swapCoin) (\<lambda>e.
           rbind (coin_sub S nativeAssetCoin swapAmountInCoin) (\<lambda>n.
           Ok (swappedPool, e, n))))))))
      else if asymm < 0
      then rbind (rwrap ErrUnableToSwap (SwapOne S swapAmount GetSettlementAsset pool rate externalFee))
             (\<lambda>(swapResult, _, _, swappedPool).
           if swapResult = 0 then Ok (swappedPool, externalAssetCoin, nativeAssetCoin)
           else
           rbind (parse swapResult) (\<lambda>swapInt.
           rbind (parse swapAmount) (\<lambda>swapAmountInt.
           rbind (new_coin S (Symbol GetSettlementAsset) swapInt) (\<lambda>swapCoin.
           rbind (new_coin S (Symbol asset) swapAmountInt) (\<lambda>swapAmountInCoin.
           rbind (coin_add S nativeAssetCoin swapCoin) (\<lambda>n.
           rbind (coin_sub S externalAssetCoin swapAmountInCoin) (\<lambda>e.
           Ok (swappedPool, e, n))))))))
      else Ok (pool, externalAssetCoin, nativeAssetCoin))"

text \<open>What a withdrawal leaves of the pool: \<open>// Subtract Value from pool\<close>.\<close>

definition subtract_withdrawal :: "sdk \<Rightarrow> Pool \<Rightarrow> nat \<Rightarrow> nat \<Rightarrow> nat \<Rightarrow> nat \<Rightarrow> Pool result" where
  "subtract_withdrawal S pool lpUnits lpUnitsLeft native external =
     rbind (uint_sub S (poolUnits pool) lpUnits) (\<lambda>u.
     rbind (uint_add S u lpUnitsLeft) (\<lambda>pu.
     rbind (uint_sub S (nativeAssetBalance pool) native) (\<lambda>nb.
     rbind (uint_sub S (externalAssetBalance pool) external) (\<lambda>eb.
     Ok (pool\<lparr>poolUnits := pu, nativeAssetBalance := nb, externalAssetBalance := eb\<rparr>)))))"

definition ProcessRemoveLiquidityMsg ::
  "sdk \<Rightarrow> MsgRemoveLiquidity \<Rightarrow> ('s clp_state_scheme, nat \<times> nat \<times> nat) M" where
  "ProcessRemoveLiquidityMsg S msg =
     (let asset = removeExternalAsset msg in
      bindM (getsR (\<lambda>s. rwrap ErrTokenNotSupported (GetEntry (GetRegistry s) (Symbol asset)))) (\<lambda>_.
      bindM (getsR (\<lambda>s. rwrap ErrPoolDoesNotExist (GetPool (Symbol asset) s))) (\<lambda>pool.
      bindM (getsR (\<lambda>s. rwrap ErrLiquidityProviderDoesNotExist (GetLiquidityProvider (Symbol asset) (removeSigner msg) s))) (\<lambda>lp.
      let poolOriginalEB = externalAssetBalance pool; poolOriginalNB = nativeAssetBalance pool in
      bindM (gets (\<lambda>s. (pmtpCurrentRunningRate (GetPmtpRateParams s), GetSwapFeeRate asset False s,
                        GetSwapFeeRate GetSettlementAsset False s))) (\<lambda>(rate, externalFee, nativeFee).
      bindM (liftR (ExtractDebt S pool (nativeAssetBalance pool) (externalAssetBalance pool) False)) (\<lambda>(nativeDepth, externalDepth).
      bindM (liftR (CalculateWithdrawal S (poolUnits pool) nativeDepth externalDepth (liquidityProviderUnits lp)
               (wBasisPoints msg) (asymmetry msg))) (\<lambda>(native, external, lpUnitsLeft, swapAmount).
      bindM (liftR (CalculateWithdrawalFuryValue S external GetSettlementAsset pool rate externalFee)) (\<lambda>extFuryValue.
      bindM (ParseToInt S external) (\<lambda>extInt.
      bindM (ParseToInt S native) (\<lambda>nativeInt.
      bindM (liftR (new_coin S (Symbol asset) extInt)) (\<lambda>externalAssetCoin.
      bindM (liftR (new_coin S (Symbol GetSettlementAsset) nativeInt)) (\<lambda>nativeAssetCoin.
      bindM (liftR (subtract_withdrawal S pool (liquidityProviderUnits lp) lpUnitsLeft native external)) (\<lambda>pool1.
      if asymmetry msg \<noteq> 0 \<and> (externalAssetBalance pool1 = 0 \<or> nativeAssetBalance pool1 = 0) then throw ErrPoolTooShallow
      else
      bindM (liftR (adjust_asymmetry S asset (asymmetry msg) swapAmount pool1 externalAssetCoin nativeAssetCoin
               rate externalFee nativeFee)) (\<lambda>(pool2, extCoin, natCoin).
      thenM (wrapM ErrUnableToRemoveLiquidity
               (RemoveLiquidity S pool2 extCoin natCoin lp lpUnitsLeft poolOriginalEB poolOriginalNB)) (
      bindM (liftR (uint_add S extFuryValue native)) (\<lambda>v.
      ret (snd natCoin, snd extCoin, v)))))))))))))))))"

section \<open>Liquidity protection (liquidityprotection.go)\<close>

definition MustUpdateLiquidityProtectionThreshold ::
  "sdk \<Rightarrow> bool \<Rightarrow> nat \<Rightarrow> int \<Rightarrow> ('s clp_state_scheme, unit) M" where
  "MustUpdateLiquidityProtectionThreshold S sellNative nativeAmount nativePrice =
     bindM (gets GetLiquidityProtectionParams) (\<lambda>params.
     bindM (gets currentFuryLiquidityThreshold) (\<lambda>current.
     if isActive params
     then bindM (liftR (CalcFuryValue S nativeAmount nativePrice)) (\<lambda>nativeValue.
          bindM (liftR (if sellNative
                 then if current < nativeValue then Panic else uint_sub S current nativeValue
                 else rbind (uint_sub S (maxFuryLiquidityThreshold params) current) (\<lambda>room.
                      if room < nativeValue then Ok (maxFuryLiquidityThreshold params)
                      else uint_add S current nativeValue))) (\<lambda>updated.
          SetLiquidityProtectionCurrentFuryLiquidityThreshold updated))
     else ret ()))"

definition GetNativePrice :: "sdk \<Rightarrow> 's clp_state_scheme \<Rightarrow> int result" where
  "GetNativePrice S s =
     (let asset = maxFuryLiquidityThresholdAsset (GetLiquidityProtectionParams s) in
      if StringCompare asset NativeSymbol then Ok dec_one
      else
      rbind (rwrap ErrMaxFuryLiquidityThresholdAssetPoolDoesNotExist (GetPool asset s)) (\<lambda>pool.
      CalcFurySpotPrice S pool (pmtpCurrentRunningRate (GetPmtpRateParams s))))"

definition IsBlockedByLiquidityProtection :: "sdk \<Rightarrow> nat \<Rightarrow> int \<Rightarrow> 's clp_state_scheme \<Rightarrow> bool result" where
  "IsBlockedByLiquidityProtection S nativeAmount nativePrice s =
     rbind (CalcFuryValue S nativeAmount nativePrice) (\<lambda>value.
     Ok (currentFuryLiquidityThreshold s < value))"

section \<open>Unlock records (rewards.go)\<close>

text \<open>
  The loop of \<open>UseUnlockedLiquidity\<close>: the units still to use and the records after it. The records
  are shared pointers, so the caller sees the reduced units too: the list is part of the result.
\<close>

fun use_records :: "bool \<Rightarrow> int \<Rightarrow> int \<Rightarrow> nat \<Rightarrow> LiquidityUnlock list \<Rightarrow> nat \<times> LiquidityUnlock list" where
  "use_records anyway lockPeriod now left [] = (left, [])"
| "use_records anyway lockPeriod now left (r # rs) =
     (if anyway \<or> to_i64 (requestHeight r + to_i64 lockPeriod) \<le> now
      then if units r < left
           then let (left', rs') = use_records anyway lockPeriod now (left - units r) rs
                in (left', r\<lparr>units := 0\<rparr> # rs')
           else (0, r\<lparr>units := units r - left\<rparr> # rs)
      else let (left', rs') = use_records anyway lockPeriod now left rs in (left', r # rs'))"

definition UseUnlockedLiquidity ::
  "sdk \<Rightarrow> LiquidityProvider \<Rightarrow> nat \<Rightarrow> bool \<Rightarrow> ('s clp_state_scheme, LiquidityUnlock list) M" where
  "UseUnlockedLiquidity S lp wanted anyway =
     bindM (gets GetRewardsParams) (\<lambda>params.
     bindM (gets height) (\<lambda>currentHeight.
     let lockPeriod = liquidityRemovalLockPeriod params;
         (left, records) = use_records anyway lockPeriod currentHeight wanted (unlocks lp) in
     if lockPeriod \<noteq> 0 \<and> left \<noteq> 0 then throw ErrBalanceNotAvailable
     else
     thenM (SetLiquidityProvider S (lp\<lparr>unlocks := filter (\<lambda>r. units r \<noteq> 0) records\<rparr>)) (ret records)))"

definition unlock_expired :: "int \<Rightarrow> int \<Rightarrow> int \<Rightarrow> LiquidityUnlock \<Rightarrow> bool" where
  "unlock_expired lockPeriod cancelPeriod now r \<longleftrightarrow>
     to_i64 (to_i64 (requestHeight r + to_i64 lockPeriod) + to_i64 cancelPeriod) \<le> now"

text \<open>The provider is passed by reference: the result is the provider the caller goes on with.\<close>

definition PruneUnlockRecords ::
  "sdk \<Rightarrow> LiquidityProvider \<Rightarrow> int \<Rightarrow> int \<Rightarrow> ('s clp_state_scheme, LiquidityProvider) M" where
  "PruneUnlockRecords S lp lockPeriod cancelPeriod =
     bindM (gets height) (\<lambda>currentHeight.
     let keep = (\<lambda>r. \<not> unlock_expired lockPeriod cancelPeriod currentHeight r \<and> units r \<noteq> 0) in
     if list_all keep (unlocks lp) then ret lp
     else
     let lp' = lp\<lparr>unlocks := filter keep (unlocks lp)\<rparr> in
     thenM (SetLiquidityProvider S lp') (ret lp'))"

section \<open>Removal queue (removalqueue.go)\<close>

definition GetRemovalRequestKey :: "RemovalRequest \<Rightarrow> string" where
  "GetRemovalRequestKey r = removeSigner (requestMsg r) @ ''_'' @ show_int (requestId r)"

definition GetRemovalQueue :: "string \<Rightarrow> 's clp_state_scheme \<Rightarrow> RemovalQueue" where
  "GetRemovalQueue symbol s =
     (case kv_get (removalQueues s) (GetRemovalQueueKey symbol) of
        None \<Rightarrow> \<lparr>queueCount = 0, queueId = 0, startHeight = 0, totalValue = 0\<rparr>
      | Some q \<Rightarrow> q)"

definition SetRemovalQueue :: "RemovalQueue \<Rightarrow> string \<Rightarrow> ('s clp_state_scheme, unit) M" where
  "SetRemovalQueue q symbol =
     modify (\<lambda>s. s\<lparr>removalQueues := kv_put (GetRemovalQueueKey symbol) q (removalQueues s)\<rparr>)"

definition set_request :: "RemovalRequest \<Rightarrow> ('s clp_state_scheme, unit) M" where
  "set_request r = modify (\<lambda>s. s\<lparr>removalRequests := kv_put (GetRemovalRequestKey r) r (removalRequests s)\<rparr>)"

definition QueueRemoval :: "sdk \<Rightarrow> MsgRemoveLiquidity \<Rightarrow> nat \<Rightarrow> ('s clp_state_scheme, unit) M" where
  "QueueRemoval S msg furyValue =
     (let symbol = Symbol (removeExternalAsset msg) in
      bindM (gets (GetRemovalQueue symbol)) (\<lambda>queue.
      let request = \<lparr>requestId = to_i64 (queueId queue + 1), requestValue = furyValue, requestMsg = msg\<rparr> in
      thenM (set_request request) (
      bindM (liftR (uint_add S (totalValue queue) furyValue)) (\<lambda>tv.
      bindM (gets height) (\<lambda>h.
      let count = to_i64 (queueCount queue + 1) in
      SetRemovalQueue (queue\<lparr>queueCount := count, queueId := to_i64 (queueId queue + 1), totalValue := tv,
        startHeight := (if count = 1 then h else startHeight queue)\<rparr>) symbol)))))"

definition DequeueRemovalRequest :: "RemovalRequest \<Rightarrow> ('s clp_state_scheme, unit) M" where
  "DequeueRemovalRequest request =
     thenM (modify (\<lambda>s. s\<lparr>removalRequests := kv_del (GetRemovalRequestKey request) (removalRequests s)\<rparr>)) (
     let symbol = Symbol (removeExternalAsset (requestMsg request)) in
     bindM (gets (GetRemovalQueue symbol)) (\<lambda>queue.
     SetRemovalQueue (queue\<lparr>queueCount := to_i64 (queueCount queue - 1)\<rparr>) symbol))"

definition SetProcessedRemovalRequest ::
  "sdk \<Rightarrow> RemovalRequest \<Rightarrow> int \<Rightarrow> nat \<Rightarrow> ('s clp_state_scheme, unit) M" where
  "SetProcessedRemovalRequest S request pointsProcessed furyRemoved =
     bindM (liftR (int_sub S (wBasisPoints (requestMsg request)) pointsProcessed)) (\<lambda>left.
     let msg = (requestMsg request)\<lparr>wBasisPoints := left\<rparr>; request' = request\<lparr>requestMsg := msg\<rparr>;
         symbol = Symbol (removeExternalAsset msg) in
     thenM (set_request request') (
     bindM (gets (GetRemovalQueue symbol)) (\<lambda>queue.
     bindM (liftR (uint_sub S (totalValue queue) furyRemoved)) (\<lambda>tv.
     thenM (SetRemovalQueue (queue\<lparr>totalValue := tv\<rparr>) symbol) (
     if left \<le> 0 then DequeueRemovalRequest request' else ret ())))))"

text \<open>
  One round of the loop of \<open>ProcessRemovalQueue\<close>; an error of the removal is logged and the loop
  goes on, a panic stops the whole message.
\<close>

definition process_request ::
  "sdk \<Rightarrow> Asset \<Rightarrow> nat \<Rightarrow> RemovalRequest \<Rightarrow> ('s clp_state_scheme, unit) M" where
  "process_request S asset perRequestUnits request =
     (let msg = requestMsg request in
      if \<not> Asset_Equals asset (removeExternalAsset msg) then ret ()
      else
      bindM (gets (GetLiquidityProvider (Symbol (removeExternalAsset msg)) (removeSigner msg))) (\<lambda>found.
      case found of
        Ok lp \<Rightarrow>
          bindM (liftR (ConvWBasisPointsToUnits S (liquidityProviderUnits lp) (wBasisPoints msg))) (\<lambda>requestUnits.
          let withdrawUnits = min requestUnits perRequestUnits in
          bindM (liftR (ConvUnitsToWBasisPoints S (liquidityProviderUnits lp) withdrawUnits)) (\<lambda>points.
          bindM (catchM
                   (bindM (ProcessRemoveLiquidityMsg S \<lparr>removeSigner = removeSigner msg, removeExternalAsset = asset,
                             wBasisPoints = points, asymmetry = asymmetry msg\<rparr>) (\<lambda>(_, _, v). ret (Some v)))
                   (\<lambda>_. ret None)) (\<lambda>processed.
          case processed of
            None \<Rightarrow> ret ()
          | Some totalFuryValue \<Rightarrow> SetProcessedRemovalRequest S request points totalFuryValue)))
      | _ \<Rightarrow> ret ()))"

definition ProcessRemovalQueue :: "sdk \<Rightarrow> Asset \<Rightarrow> nat \<Rightarrow> ('s clp_state_scheme, unit) M" where
  "ProcessRemovalQueue S asset unitsToDistribute =
     bindM (gets (GetRemovalQueue (Symbol asset))) (\<lambda>queue.
     bindM (liftR (uint_quo S unitsToDistribute (nat (to_u64 (queueCount queue))))) (\<lambda>perRequestUnits.
     bindM (gets (\<lambda>s. kv_values (removalRequests s))) (\<lambda>requests.
     eachM (process_request S asset perRequestUnits) requests)))"

definition GetRemovalQueueUnitsForLP :: "sdk \<Rightarrow> LiquidityProvider \<Rightarrow> 's clp_state_scheme \<Rightarrow> nat result" where
  "GetRemovalQueueUnitsForLP S lp s =
     rfold (\<lambda>request acc.
       if Asset_Equals (lp_asset lp) (removeExternalAsset (requestMsg request))
       then rbind (ConvWBasisPointsToUnits S (liquidityProviderUnits lp) (wBasisPoints (requestMsg request))) (\<lambda>u.
            uint_add S acc u)
       else Ok acc)
       (kv_prefix (GetRemovalRequestLPPrefix (liquidityProviderAddress lp)) (removalRequests s)) 0"

section \<open>Facts\<close>

lemma ParseToInt_Ok [result_inv]: "ParseToInt S n s = (Ok i, t) \<longleftrightarrow> int_of_uint S n = Some i \<and> t = s"
  by (auto simp: ParseToInt_def result_inv)

lemma parse_address_Ok [result_inv]: "parse_address S x s = (Ok a, t) \<longleftrightarrow> acc_from_bech32 S x = Some a \<and> t = s"
  by (auto simp: parse_address_def result_inv)

lemma lacks_both_Ok [result_inv]: "lacks_both a cs s = (Ok b, t) \<longleftrightarrow>
    t = s \<and> (case cs of [] \<Rightarrow> False | c # ds \<Rightarrow> if HasBalance a c s then \<not> b
       else (case ds of [] \<Rightarrow> False | c' # _ \<Rightarrow> b = (\<not> HasBalance a c' s)))"
  by (auto simp: lacks_both_def result_inv split: list.splits)

lemma CreateLiquidityProvider_Ok [op_inv]:
  "CreateLiquidityProvider S a n addr s = (Ok l, t) \<longleftrightarrow>
     l = NewLiquidityProvider a n addr \<and> SetLiquidityProvider S l s = (Ok (), t)"
  by (auto simp: CreateLiquidityProvider_def Let_def result_inv)

end
