(* ===== verification/ClpPmtp.thy ===== *)
theory ClpPmtp
  imports ClpExecutors
begin

text \<open>
  Ratio shifting (\<open>x/clp/keeper/pmtp.go\<close>): the block rate of a policy, the running rate of a
  block, and the spot prices written to every pool. The \<open>float64\<close> expression of \<open>PolicyStart\<close>
  (\<open>math.Pow\<close> and its decimal rendering) is the parameter \<open>float_block_rate\<close> of the SDK record.
\<close>

definition PolicyStart :: "sdk \<Rightarrow> ('s clp_state_scheme, unit) M" where
  "PolicyStart S =
     bindM (gets GetPmtpParams) (\<lambda>params.
     let numBlocks = to_i64 (to_i64 (pmtpPeriodEndBlock params - pmtpPeriodStartBlock params) + 1) in
     bindM (if pmtpPeriodEpochLength params = 0 then panic
            else ret (to_i64 (tquo numBlocks (pmtpPeriodEpochLength params)))) (\<lambda>numEpochs.
     bindM (liftR (must (float_block_rate S (pmtpPeriodGovernanceRate params) numEpochs numBlocks))) (\<lambda>blockRate.
     thenM (SetPmtpBlockRate blockRate) (
     SetPmtpEpoch \<lparr>epochCounter = numEpochs, blockCounter = pmtpPeriodEpochLength params\<rparr>))))"

definition PolicyCalculations :: "sdk \<Rightarrow> ('s clp_state_scheme, int) M" where
  "PolicyCalculations S =
     bindM (gets height) (\<lambda>currentHeight.
     bindM (gets GetPmtpParams) (\<lambda>params.
     bindM (gets GetPmtpRateParams) (\<lambda>rates.
     bindM (liftR (dec_add S (new_dec 1) (pmtpPeriodBlockRate rates))) (\<lambda>base.
     bindM (liftR (dec_power S base
              (to_u64 (to_i64 (to_i64 (currentHeight - pmtpPeriodStartBlock params) + 1))))) (\<lambda>pow.
     bindM (liftR (dec_sub S pow (new_dec 1))) (\<lambda>running.
     bindM (liftR (dec_add S running (pmtpInterPolicyRate rates))) (\<lambda>rate.
     thenM (SetPmtpCurrentRunningRate rate) (ret rate))))))))"

text \<open>A price that could not be computed is stored as zero.\<close>

fun price_or_zero :: "int result \<Rightarrow> int result" where
  "price_or_zero (Err e) = Ok 0"
| "price_or_zero r = r"

definition update_price :: "sdk \<Rightarrow> int \<Rightarrow> Pool \<Rightarrow> ('s clp_state_scheme, unit) M" where
  "update_price S rate pool =
     bindM (gets (GetAssetDecimals (externalAsset pool))) (\<lambda>found.
     case found of
       Ok decimalsExternal \<Rightarrow>
         bindM (liftR (price_or_zero (CalcSpotPriceNative S pool decimalsExternal rate))) (\<lambda>native.
         bindM (liftR (price_or_zero (CalcSpotPriceExternal S pool decimalsExternal rate))) (\<lambda>external.
         ignoreM (SetPool S (pool\<lparr>swapPriceNative := Some native, swapPriceExternal := Some external\<rparr>))))
     | Err e \<Rightarrow> ret ()
     | Panic \<Rightarrow> panic)"

definition PolicyRun :: "sdk \<Rightarrow> int \<Rightarrow> ('s clp_state_scheme, unit) M" where
  "PolicyRun S rate = bindM (gets GetPools) (\<lambda>ps. eachM (update_price S rate) ps)"

definition IsInsidePmtpWindow :: "'s clp_state_scheme \<Rightarrow> bool" where
  "IsInsidePmtpWindow s \<longleftrightarrow>
     height s \<le> pmtpPeriodEndBlock (GetPmtpParams s) \<and> pmtpPeriodStartBlock (GetPmtpParams s) \<le> height s"

end
