(* ===== verification/ClpMsgServer.thy ===== *)
theory ClpMsgServer
  imports ClpPmtp
begin

text \<open>
  The message server of \<open>x/clp\<close> (\<open>msg_server.go\<close>) and the stateless checks of its messages
  (\<open>types/msgs.go\<close>). A handler \<open>msg_X\<close> takes the fields of the message as arguments; pointers
  of a message that the decoder leaves nil are not modelled. Handlers emit events, which are left
  out, except that \<open>msg_Swap\<close> returns the three amounts its event carries.
\<close>

section \<open>Administration\<close>

definition msg_SetSymmetryThreshold :: "sdk \<Rightarrow> string \<Rightarrow> int \<Rightarrow> int \<Rightarrow> ('s clp_state_scheme, unit) M" where
  "msg_SetSymmetryThreshold S signer threshold ratio =
     admin_gate S ErrNotEnoughPermissions CLPDEX signer (SetSymmetryThreshold threshold ratio)"

definition msg_UpdateStakingRewardParams ::
  "sdk \<Rightarrow> string \<Rightarrow> Minter \<Rightarrow> string \<Rightarrow> ('s clp_state_scheme, unit) M" where
  "msg_UpdateStakingRewardParams S signer mnt params =
     admin_gate S ErrNotEnoughPermissions PMTPREWARDS signer (
     thenM (if \<not> (annualProvisions mnt = 0 \<and> inflation mnt = 0)
            then modify (\<lambda>s. s\<lparr>minter := mnt\<rparr>) else ret ()) (
     modify (\<lambda>s. s\<lparr>mintParams := params\<rparr>)))"

definition msg_UpdateRewardsParams :: "sdk \<Rightarrow> string \<Rightarrow> int \<Rightarrow> int \<Rightarrow> ('s clp_state_scheme, unit) M" where
  "msg_UpdateRewardsParams S signer lockPeriod cancelPeriod =
     admin_gate S ErrNotEnoughPermissions PMTPREWARDS signer (
     bindM (gets GetRewardsParams) (\<lambda>params.
     SetRewardParams (params\<lparr>liquidityRemovalLockPeriod := lockPeriod,
       liquidityRemovalCancelPeriod := cancelPeriod\<rparr>)))"

definition msg_AddRewardPeriod :: "sdk \<Rightarrow> string \<Rightarrow> RewardPeriod list \<Rightarrow> ('s clp_state_scheme, unit) M" where
  "msg_AddRewardPeriod S signer periods =
     admin_gate S ErrNotEnoughPermissions PMTPREWARDS signer (
     bindM (gets GetRewardsParams) (\<lambda>params. SetRewardParams (params\<lparr>rewardPeriods := periods\<rparr>)))"

definition ProviderDistribution_ValidateBasic :: "string \<Rightarrow> ProviderDistributionPeriod list \<Rightarrow> unit result" where
  "ProviderDistribution_ValidateBasic signer periods =
     (if signer = '''' then Err ErrInvalidAddress
      else rfold (\<lambda>period _.
        if distributionPeriodEndBlock period < distributionPeriodStartBlock period
        then Err (ErrSdk ''start block must be < end block'')
        else if distributionPeriodBlockRate period < 0 \<or> new_dec 1 < distributionPeriodBlockRate period
        then Err (ErrSdk ''block rate must be >= 0 and <= 1'')
        else if distributionPeriodMod period = 0
        then Err (ErrSdk ''modulo must be > 0'')
        else Ok ()) periods ())"

definition msg_AddProviderDistributionPeriod ::
  "sdk \<Rightarrow> string \<Rightarrow> ProviderDistributionPeriod list \<Rightarrow> ('s clp_state_scheme, unit) M" where
  "msg_AddProviderDistributionPeriod S signer periods =
     bindM (liftR (ProviderDistribution_ValidateBasic signer periods)) (\<lambda>_.
     admin_gate S ErrNotEnoughPermissions PMTPREWARDS signer (SetProviderDistributionParams periods))"

definition msg_UpdatePmtpParams ::
  "sdk \<Rightarrow> string \<Rightarrow> string \<Rightarrow> int \<Rightarrow> int \<Rightarrow> int \<Rightarrow> ('s clp_state_scheme, unit) M" where
  "msg_UpdatePmtpParams S signer governanceRate epochLen startBlock endBlock =
     admin_gate S ErrNotEnoughPermissions PMTPREWARDS signer (
     bindM (gets GetPmtpParams) (\<lambda>params.
     bindM (gets IsInsidePmtpWindow) (\<lambda>inside.
     if inside then throw ErrCannotStartPolicy
     else
     bindM (gets height) (\<lambda>now.
     if startBlock \<le> now then throw (ErrSdk ''Start block cannot be in the past/current block'')
     else
     let params1 = params\<lparr>pmtpPeriodStartBlock := startBlock, pmtpPeriodEndBlock := endBlock,
                          pmtpPeriodEpochLength := epochLen\<rparr> in
     bindM (if \<not> StringCompare governanceRate ''''
            then bindM (liftR (dec_of_str S governanceRate)) (\<lambda>rGov.
                 ret (params1\<lparr>pmtpPeriodGovernanceRate := rGov\<rparr>))
            else ret params1) (\<lambda>params2.
     SetPmtpParams params2)))))"

definition msg_ModifyPmtpRates ::
  "sdk \<Rightarrow> string \<Rightarrow> string \<Rightarrow> string \<Rightarrow> bool \<Rightarrow> ('s clp_state_scheme, unit) M" where
  "msg_ModifyPmtpRates S signer blockRate runningRate endPolicy =
     admin_gate S ErrNotEnoughPermissions PMTPREWARDS signer (
     bindM (gets GetPmtpParams) (\<lambda>params.
     bindM (gets GetPmtpRateParams) (\<lambda>rates.
     bindM (gets IsInsidePmtpWindow) (\<lambda>inside.
     bindM (if \<not> StringCompare blockRate '''' \<and> \<not> inside
            then bindM (liftR (dec_of_str S blockRate)) (\<lambda>r. ret (rates\<lparr>pmtpPeriodBlockRate := r\<rparr>))
            else ret rates) (\<lambda>rates1.
     bindM (if \<not> StringCompare runningRate '''' \<and> \<not> inside
            then bindM (liftR (dec_of_str S runningRate)) (\<lambda>r.
                 ret (rates1\<lparr>pmtpCurrentRunningRate := r, pmtpInterPolicyRate := r\<rparr>))
            else ret rates1) (\<lambda>rates2.
     thenM (SetPmtpRateParams rates2) (
     if endPolicy \<and> inside
     then bindM (gets height) (\<lambda>now.
          thenM (SetPmtpParams (params\<lparr>pmtpPeriodEndBlock := now\<rparr>)) (
          thenM (SetPmtpEpoch \<lparr>epochCounter = 0, blockCounter = 0\<rparr>) (
          SetPmtpInterPolicyRate (pmtpCurrentRunningRate rates2))))
     else ret ())))))))"

definition msg_UpdateLiquidityProtectionParams ::
  "sdk \<Rightarrow> string \<Rightarrow> nat \<Rightarrow> string \<Rightarrow> int \<Rightarrow> bool \<Rightarrow> ('s clp_state_scheme, unit) M" where
  "msg_UpdateLiquidityProtectionParams S signer threshold asset epochLen active =
     admin_gate S ErrNotEnoughPermissions CLPDEX signer (
     thenM (SetLiquidityProtectionParams \<lparr>maxFuryLiquidityThreshold = threshold,
              maxFuryLiquidityThresholdAsset = asset, protectionEpochLength = epochLen, isActive = active\<rparr>) (
     SetLiquidityProtectionCurrentFuryLiquidityThreshold threshold))"

definition msg_ModifyLiquidityProtectionRates :: "sdk \<Rightarrow> string \<Rightarrow> nat \<Rightarrow> ('s clp_state_scheme, unit) M" where
  "msg_ModifyLiquidityProtectionRates S signer threshold =
     admin_gate S ErrNotEnoughPermissions CLPDEX signer (SetLiquidityProtectionRateParams threshold)"

definition msg_UpdateSwapFeeParams ::
  "sdk \<Rightarrow> string \<Rightarrow> int \<Rightarrow> SwapFeeTokenParams list \<Rightarrow> ('s clp_state_scheme, unit) M" where
  "msg_UpdateSwapFeeParams S signer rate tokens =
     admin_gate S ErrNotEnoughPermissions PMTPREWARDS signer (
     SetSwapFeeParams \<lparr>defaultSwapFeeRate = rate, tokenParams = tokens\<rparr>)"

section \<open>Unlocking\<close>

text \<open>Look up the provider and prune its expired unlock records.\<close>

definition prune_provider :: "sdk \<Rightarrow> LiquidityProvider \<Rightarrow> ('s clp_state_scheme, LiquidityProvider) M" where
  "prune_provider S lp =
     bindM (gets GetRewardsParams) (\<lambda>params.
     PruneUnlockRecords S lp (liquidityRemovalLockPeriod params) (liquidityRemovalCancelPeriod params))"

definition get_provider :: "string \<Rightarrow> string \<Rightarrow> ('s clp_state_scheme, LiquidityProvider) M" where
  "get_provider symbol addr =
     getsR (\<lambda>s. rwrap ErrLiquidityProviderDoesNotExist (GetLiquidityProvider symbol addr s))"

definition msg_CancelUnlockLiquidity :: "sdk \<Rightarrow> string \<Rightarrow> Asset \<Rightarrow> nat \<Rightarrow> ('s clp_state_scheme, unit) M" where
  "msg_CancelUnlockLiquidity S signer asset wanted =
     bindM (get_provider (Symbol asset) signer) (\<lambda>lp.
     bindM (prune_provider S lp) (\<lambda>lp1.
     bindM (UseUnlockedLiquidity S lp1 wanted True) (\<lambda>_.
     ret ())))"

definition msg_UnlockLiquidity :: "sdk \<Rightarrow> string \<Rightarrow> Asset \<Rightarrow> nat \<Rightarrow> ('s clp_state_scheme, unit) M" where
  "msg_UnlockLiquidity S signer asset wanted =
     bindM (get_provider (Symbol asset) signer) (\<lambda>lp.
     bindM (prune_provider S lp) (\<lambda>lp1.
     bindM (liftR (rfold (\<lambda>r acc. uint_add S acc (units r)) (unlocks lp1) 0)) (\<lambda>totalUnlocks.
     bindM (liftR (uint_add S totalUnlocks wanted)) (\<lambda>sum.
     if liquidityProviderUnits lp1 < sum then throw ErrBalanceNotAvailable
     else
     bindM (gets height) (\<lambda>now.
     SetLiquidityProvider S (lp1\<lparr>unlocks := unlocks lp1 @ [\<lparr>requestHeight = now, units = wanted\<rparr>]\<rparr>))))))"

section \<open>Pools\<close>

definition get_entry :: "string \<Rightarrow> ('s clp_state_scheme, RegistryEntry) M" where
  "get_entry d = getsR (\<lambda>s. rwrap ErrTokenNotSupported (GetEntry (GetRegistry s) d))"

definition get_pool :: "string \<Rightarrow> ('s clp_state_scheme, Pool) M" where
  "get_pool symbol = getsR (\<lambda>s. rwrap ErrPoolDoesNotExist (GetPool symbol s))"

text \<open>\<open>if !CheckEntryPermissions(e, {p}) { return err }\<close> and its negation.\<close>

definition require :: "bool \<Rightarrow> err \<Rightarrow> ('s, unit) M" where
  "require b e = (if b then ret () else throw e)"

definition msg_CreatePool ::
  "sdk \<Rightarrow> string \<Rightarrow> Asset \<Rightarrow> nat \<Rightarrow> nat \<Rightarrow> ('s clp_state_scheme, unit) M" where
  "msg_CreatePool S signer asset nativeAmount externalAmount =
     (if nativeAmount < PoolThrehold then throw ErrTotalAmountTooLow
      else
      bindM (get_entry (Symbol asset)) (\<lambda>eAsset.
      thenM (require (CheckEntryPermissions eAsset [CLP]) ErrPermissionDenied) (
      bindM (gets (ExistsPool (Symbol asset))) (\<lambda>e.
      if e then throw ErrUnableToCreatePool
      else
      bindM (gets (\<lambda>s. (pmtpCurrentRunningRate (GetPmtpRateParams s), GetSwapFeeRate GetSettlementAsset False s,
                        GetSwapFeeRate asset False s))) (\<lambda>(rate, sellFee, buyFee).
      bindM (liftR (rwrap ErrUnableToCreatePool
               (CalculatePoolUnits S 0 0 0 nativeAmount externalAmount sellFee buyFee rate))) (\<lambda>(pool_units, lpunits, _, _).
      bindM (wrapM ErrUnableToSetPool (CreatePool S pool_units signer asset nativeAmount externalAmount)) (\<lambda>_.
      bindM (parse_address S signer) (\<lambda>accAddr.
      bindM (CreateLiquidityProvider S asset lpunits accAddr) (\<lambda>_.
      ret ())))))))))"

text \<open>One provider of a pool that is closed; the accumulators are the units and balances left.\<close>

definition refund_provider ::
  "sdk \<Rightarrow> Pool \<Rightarrow> string \<Rightarrow> LiquidityProvider \<Rightarrow> nat \<times> nat \<times> nat \<Rightarrow> ('s clp_state_scheme, nat \<times> nat \<times> nat) M" where
  "refund_provider S pool symbol lp acc =
     (case acc of (pu, nb, eb) \<Rightarrow>
      bindM (liftR (CalculateAllAssetsForLP S pool lp)) (\<lambda>(withdrawNative, withdrawExternal, _, _).
      bindM (liftR (uint_sub S pu (liquidityProviderUnits lp))) (\<lambda>pu'.
      bindM (liftR (uint_sub S nb withdrawNative)) (\<lambda>nb'.
      bindM (liftR (uint_sub S eb withdrawExternal)) (\<lambda>eb'.
      bindM (ParseToInt S withdrawNative) (\<lambda>nInt.
      bindM (ParseToInt S withdrawExternal) (\<lambda>eInt.
      bindM (liftR (new_coin S (Symbol GetSettlementAsset) nInt)) (\<lambda>nCoin.
      bindM (liftR (new_coin S symbol eInt)) (\<lambda>eCoin.
      bindM (liftR (new_coins S [eCoin, nCoin])) (\<lambda>coins.
      thenM (wrapM ErrUnableToRemoveLiquidityProvider (RemoveLiquidityProvider S coins lp)) (
      ret (pu', nb', eb'))))))))))))"

definition msg_DecommissionPool :: "sdk \<Rightarrow> string \<Rightarrow> string \<Rightarrow> ('s clp_state_scheme, unit) M" where
  "msg_DecommissionPool S signer symbol =
     bindM (get_pool symbol) (\<lambda>pool.
     bindM (parse_address S signer) (\<lambda>addAddr.
     bindM (getsR (ValidateAddress S addAddr)) (\<lambda>ok.
     if \<not> ok then throw ErrInvalid
     else if PoolThrehold \<le> nativeAssetBalance pool then throw ErrBalanceTooHigh
     else
     bindM (gets (GetLiquidityProvidersForAssetPaginated S (2 ^ 64 - 1) (externalAsset pool))) (\<lambda>lpList.
     bindM (foldM (refund_provider S pool symbol) lpList
              (poolUnits pool, nativeAssetBalance pool, externalAssetBalance pool)) (\<lambda>_.
     wrapM ErrUnableToDecommissionPool (DecommissionPool pool))))))"

section \<open>Swap\<close>

text \<open>The price of the native asset is needed only while liquidity protection is active.\<close>

definition protection_price :: "sdk \<Rightarrow> ('s clp_state_scheme, int) M" where
  "protection_price S =
     bindM (gets (\<lambda>s. isActive (GetLiquidityProtectionParams s))) (\<lambda>active.
     if active then getsR (GetNativePrice S) else ret 0)"

definition check_protection :: "sdk \<Rightarrow> bool \<Rightarrow> RegistryEntry \<Rightarrow> nat \<Rightarrow> int \<Rightarrow> ('s clp_state_scheme, unit) M" where
  "check_protection S active sAsset sentAmount price =
     (if active \<and> StringCompare (denom sAsset) NativeSymbol
      then bindM (getsR (IsBlockedByLiquidityProtection S sentAmount price)) (\<lambda>blocked.
           require (\<not> blocked) ErrReachedMaxFuryLiquidityThreshold)
      else ret ())"

text \<open>Fury that is sent needs no pool of its own; Fury that is received comes from the pool of the asset sent.\<close>

definition in_pool :: "Asset \<Rightarrow> ('s clp_state_scheme, Pool option) M" where
  "in_pool sentAsset =
     (if \<not> Asset_Equals sentAsset GetSettlementAsset
      then bindM (get_pool (Symbol sentAsset)) (\<lambda>p. ret (Some p)) else ret None)"

definition out_pool :: "Asset \<Rightarrow> Asset \<Rightarrow> ('s clp_state_scheme, Pool) M" where
  "out_pool sentAsset receivedAsset =
     (if Asset_Equals receivedAsset GetSettlementAsset then get_pool (Symbol sentAsset)
      else get_pool (Symbol receivedAsset))"

text \<open>Between two external assets the first leg buys Fury in the pool of the asset sent.\<close>

definition first_leg ::
  "sdk \<Rightarrow> Pool option \<Rightarrow> Asset \<Rightarrow> nat \<Rightarrow> int \<Rightarrow> int \<Rightarrow> ('s clp_state_scheme, nat \<times> nat \<times> nat) M" where
  "first_leg S inPool receivedAsset sentAmount rate fee =
     (case inPool of
        Some p \<Rightarrow>
          if \<not> Asset_Equals receivedAsset GetSettlementAsset
          then bindM (liftR (SwapOne S sentAmount GetSettlementAsset p rate fee)) (\<lambda>(emit, lp, ts, finalPool).
               thenM (wrapM ErrUnableToSetPool (SetPool S finalPool)) (ret (emit, lp, ts)))
          else ret (sentAmount, 0, 0)
      | None \<Rightarrow> ret (sentAmount, 0, 0))"

text \<open>The updates of the liquidity protection after a swap that sells or buys Fury.\<close>

definition protect_swap ::
  "sdk \<Rightarrow> bool \<Rightarrow> RegistryEntry \<Rightarrow> RegistryEntry \<Rightarrow> nat \<Rightarrow> int \<Rightarrow> nat \<Rightarrow> int \<Rightarrow> ('s clp_state_scheme, unit) M" where
  "protect_swap S active sAsset rAsset sentAmount fee emitAmount price =
     thenM (if active \<and> StringCompare (denom sAsset) NativeSymbol
            then bindM (liftR (CalculateDiscountedSentAmount S sentAmount fee)) (\<lambda>discounted.
                 MustUpdateLiquidityProtectionThreshold S True discounted price)
            else ret ()) (
     if active \<and> StringCompare (denom rAsset) NativeSymbol
     then MustUpdateLiquidityProtectionThreshold S False emitAmount price
     else ret ())"

definition msg_Swap ::
  "sdk \<Rightarrow> string \<Rightarrow> Asset \<Rightarrow> Asset \<Rightarrow> nat \<Rightarrow> nat \<Rightarrow> ('s clp_state_scheme, nat \<times> nat \<times> nat) M" where
  "msg_Swap S signer sentAsset receivedAsset sentAmount minReceivingAmount =
     bindM (get_entry (Symbol sentAsset)) (\<lambda>sAsset.
     bindM (get_entry (Symbol receivedAsset)) (\<lambda>rAsset.
     thenM (require (CheckEntryPermissions sAsset [CLP]) ErrPermissionDenied) (
     thenM (require (CheckEntryPermissions rAsset [CLP]) ErrPermissionDenied) (
     thenM (require (\<not> CheckEntryPermissions sAsset [DISABLE_SELL]) ErrNotAllowedToSellAsset) (
     thenM (require (\<not> CheckEntryPermissions rAsset [DISABLE_BUY]) ErrNotAllowedToBuyAsset) (
     bindM (gets (\<lambda>s. (pmtpCurrentRunningRate (GetPmtpRateParams s), GetSwapFeeRate sentAsset False s))) (\<lambda>(rate, fee).
     bindM (gets (\<lambda>s. isActive (GetLiquidityProtectionParams s))) (\<lambda>active.
     bindM (protection_price S) (\<lambda>price.
     thenM (check_protection S active sAsset sentAmount price) (
     bindM (in_pool sentAsset) (\<lambda>inPool.
     bindM (ParseToInt S sentAmount) (\<lambda>sentAmountInt.
     bindM (parse_address S signer) (\<lambda>accAddr.
     bindM (liftR (new_coin S (Symbol sentAsset) sentAmountInt)) (\<lambda>sentCoin.
     thenM (wrapM ErrUnableToSwap (InitiateSwap S sentCoin accAddr)) (
     bindM (first_leg S inPool receivedAsset sentAmount rate fee) (\<lambda>(sentAmount2, liquidityFeeNative, impact1).
     bindM (out_pool sentAsset receivedAsset) (\<lambda>outPool.
     bindM (liftR (SwapOne S sentAmount2 receivedAsset outPool rate fee)) (\<lambda>(emitAmount, lp, ts, finalPool).
     if emitAmount < minReceivingAmount then throw ErrReceivedAmountBelowExpected
     else
     thenM (wrapM ErrUnableToSwap (FinalizeSwap S emitAmount finalPool signer receivedAsset)) (
     bindM (liftR (if 0 < liquidityFeeNative
                   then rbind (GetSwapFee S liquidityFeeNative receivedAsset outPool rate fee) (\<lambda>first. uint_add S lp first)
                   else uint_add S liquidityFeeNative lp)) (\<lambda>totalLiquidityFee.
     bindM (liftR (uint_add S impact1 ts)) (\<lambda>priceImpact.
     thenM (protect_swap S active sAsset rAsset sentAmount fee emitAmount price) (
     ret (emitAmount, totalLiquidityFee, priceImpact)))))))))))))))))))))))"

section \<open>Adding and removing liquidity\<close>

text \<open>The checks and the liquidity protection for the swap inside an asymmetric deposit.\<close>

definition check_swap_status ::
  "sdk \<Rightarrow> swap_status \<Rightarrow> nat \<Rightarrow> RegistryEntry \<Rightarrow> RegistryEntry \<Rightarrow> nat \<Rightarrow> nat \<Rightarrow> int \<Rightarrow> int \<Rightarrow> int
    \<Rightarrow> ('s clp_state_scheme, unit) M" where
  "check_swap_status S status swapAmount nAsset eAsset nativeDepth externalDepth sellFee buyFee rate =
     bindM (gets (\<lambda>s. isActive (GetLiquidityProtectionParams s))) (\<lambda>active.
     case status of
       NoSwap \<Rightarrow> ret ()
     | SellNative \<Rightarrow>
         thenM (require (\<not> CheckEntryPermissions nAsset [DISABLE_SELL]) ErrNotAllowedToSellAsset) (
         thenM (require (\<not> CheckEntryPermissions eAsset [DISABLE_BUY]) ErrNotAllowedToBuyAsset) (
         if active
         then bindM (getsR (GetNativePrice S)) (\<lambda>price.
              bindM (getsR (IsBlockedByLiquidityProtection S swapAmount price)) (\<lambda>blocked.
              thenM (require (\<not> blocked) ErrReachedMaxFuryLiquidityThreshold) (
              bindM (liftR (CalculateDiscountedSentAmount S swapAmount sellFee)) (\<lambda>discounted.
              MustUpdateLiquidityProtectionThreshold S True discounted price))))
         else ret ()))
     | BuyNative \<Rightarrow>
         thenM (require (\<not> CheckEntryPermissions eAsset [DISABLE_SELL]) ErrNotAllowedToSellAsset) (
         thenM (require (\<not> CheckEntryPermissions nAsset [DISABLE_BUY]) ErrNotAllowedToBuyAsset) (
         if active
         then bindM (liftR (CalcSwapResult S True externalDepth swapAmount nativeDepth rate buyFee)) (\<lambda>(nativeAmount, _).
              bindM (getsR (GetNativePrice S)) (\<lambda>price.
              MustUpdateLiquidityProtectionThreshold S False nativeAmount price))
         else ret ())))"

definition msg_AddLiquidity ::
  "sdk \<Rightarrow> string \<Rightarrow> Asset \<Rightarrow> nat \<Rightarrow> nat \<Rightarrow> ('s clp_state_scheme, unit) M" where
  "msg_AddLiquidity S signer asset nativeAmount externalAmount =
     bindM (get_entry NativeSymbol) (\<lambda>nAsset.
     bindM (get_entry (Symbol asset)) (\<lambda>eAsset.
     thenM (require (CheckEntryPermissions eAsset [CLP]) ErrPermissionDenied) (
     bindM (get_pool (Symbol asset)) (\<lambda>pool.
     bindM (gets (\<lambda>s. (pmtpCurrentRunningRate (GetPmtpRateParams s), GetSwapFeeRate GetSettlementAsset False s,
                       GetSwapFeeRate asset False s))) (\<lambda>(rate, sellFee, buyFee).
     bindM (liftR (ExtractDebt S pool (nativeAssetBalance pool) (externalAssetBalance pool) False)) (\<lambda>(nativeDepth, externalDepth).
     bindM (liftR (CalculatePoolUnits S (poolUnits pool) nativeDepth externalDepth nativeAmount externalAmount
              sellFee buyFee rate)) (\<lambda>(newPoolUnits, lpUnits, status, swapAmount).
     thenM (check_swap_status S status swapAmount nAsset eAsset nativeDepth externalDepth sellFee buyFee rate) (
     bindM (wrapM ErrUnableToAddLiquidity
              (AddLiquidity S signer asset nativeAmount externalAmount pool newPoolUnits lpUnits)) (\<lambda>_.
     bindM (gets (\<lambda>s. \<not> IsPoolEnabled (Symbol asset) s \<or> \<not> enableRemovalQueue s)) (\<lambda>skip.
     if skip then ret ()
     else
     bindM (gets (GetRemovalQueue (Symbol asset))) (\<lambda>queue.
     if 0 < queueCount queue then ProcessRemovalQueue S asset newPoolUnits else ret ())))))))))))"

text \<open>
  The health check of the two removals: below the threshold of the margin module the removal is
  queued, or refused while queueing is off. Either way the handler ends with an error.
\<close>

definition check_health ::
  "sdk \<Rightarrow> RegistryEntry \<Rightarrow> Pool \<Rightarrow> nat \<Rightarrow> nat \<Rightarrow> int \<Rightarrow> int \<Rightarrow> (nat \<Rightarrow> ('s clp_state_scheme, unit) M)
    \<Rightarrow> ('s clp_state_scheme, unit) M" where
  "check_health S eAsset pool native external rate fee queue =
     bindM (gets (IsPoolEnabled (denom eAsset))) (\<lambda>enabled.
     if enabled
     then bindM (liftR (CalculateWithdrawalFuryValue S external GetSettlementAsset pool rate fee)) (\<lambda>extFuryValue.
          bindM (liftR (uint_sub S (nativeAssetBalance pool) native)) (\<lambda>nb.
          bindM (liftR (uint_sub S (externalAssetBalance pool) external)) (\<lambda>eb.
          bindM (liftR (CalculatePoolHealth S (pool\<lparr>nativeAssetBalance := nb, externalAssetBalance := eb\<rparr>))) (\<lambda>h.
          bindM (gets GetRemovalQueueThreshold) (\<lambda>threshold.
          if h < threshold
          then bindM (gets enableRemovalQueue) (\<lambda>q.
               if q then thenM (queue extFuryValue) (throw ErrQueued) else throw ErrRemovalsBlockedByHealth)
          else ret ())))))
     else ret ())"

definition msg_RemoveLiquidityUnits :: "sdk \<Rightarrow> string \<Rightarrow> Asset \<Rightarrow> nat \<Rightarrow> ('s clp_state_scheme, unit) M" where
  "msg_RemoveLiquidityUnits S signer asset withdrawUnits =
     bindM (get_entry (Symbol asset)) (\<lambda>eAsset.
     thenM (require (CheckEntryPermissions eAsset [CLP]) ErrPermissionDenied) (
     bindM (get_pool (Symbol asset)) (\<lambda>pool.
     bindM (get_provider (Symbol asset) signer) (\<lambda>lp.
     bindM (getsR (GetRemovalQueueUnitsForLP S lp)) (\<lambda>queued.
     bindM (liftR (uint_sub S (liquidityProviderUnits lp) queued)) (\<lambda>free.
     if free < withdrawUnits then throw ErrUnableToRemoveLiquidity
     else
     bindM (gets (\<lambda>s. (pmtpCurrentRunningRate (GetPmtpRateParams s), GetSwapFeeRate asset False s))) (\<lambda>(rate, fee).
     bindM (prune_provider S lp) (\<lambda>lp1.
     bindM (liftR (ExtractDebt S pool (nativeAssetBalance pool) (externalAssetBalance pool) False)) (\<lambda>(nativeDepth, externalDepth).
     bindM (liftR (CalculateWithdrawalFromUnits S (poolUnits pool) nativeDepth externalDepth
              (liquidityProviderUnits lp1) withdrawUnits)) (\<lambda>(native, external, lpUnitsLeft).
     bindM (liftR (uint_sub S (liquidityProviderUnits lp1) lpUnitsLeft)) (\<lambda>used.
     bindM (UseUnlockedLiquidity S lp1 used False) (\<lambda>records.
     thenM (check_health S eAsset pool native external rate fee (\<lambda>extFuryValue.
              bindM (liftR (ConvUnitsToWBasisPoints S (liquidityProviderUnits lp1) withdrawUnits)) (\<lambda>points.
              bindM (liftR (uint_add S extFuryValue native)) (\<lambda>v.
              QueueRemoval S \<lparr>removeSigner = signer, removeExternalAsset = asset, wBasisPoints = points, asymmetry = 0\<rparr> v)))) (
     bindM (ParseToInt S external) (\<lambda>extInt.
     bindM (ParseToInt S native) (\<lambda>nativeInt.
     bindM (liftR (new_coin S (Symbol asset) extInt)) (\<lambda>externalAssetCoin.
     bindM (liftR (new_coin S (Symbol GetSettlementAsset) nativeInt)) (\<lambda>nativeAssetCoin.
     bindM (liftR (subtract_withdrawal S pool (liquidityProviderUnits lp1) lpUnitsLeft native external)) (\<lambda>pool1.
     wrapM ErrUnableToRemoveLiquidity
       (RemoveLiquidity S pool1 externalAssetCoin nativeAssetCoin (lp1\<lparr>unlocks := records\<rparr>) lpUnitsLeft
          externalDepth nativeDepth)))))))))))))))))))"

definition msg_RemoveLiquidity :: "sdk \<Rightarrow> MsgRemoveLiquidity \<Rightarrow> ('s clp_state_scheme, unit) M" where
  "msg_RemoveLiquidity S msg =
     (let asset = removeExternalAsset msg in
     bindM (get_entry (Symbol asset)) (\<lambda>eAsset.
     thenM (require (CheckEntryPermissions eAsset [CLP]) ErrPermissionDenied) (
     bindM (get_pool (Symbol asset)) (\<lambda>pool.
     bindM (get_provider (Symbol asset) (removeSigner msg)) (\<lambda>lp.
     bindM (gets (\<lambda>s. (pmtpCurrentRunningRate (GetPmtpRateParams s), GetSwapFeeRate asset False s,
                       GetSwapFeeRate GetSettlementAsset False s))) (\<lambda>(rate, externalFee, nativeFee).
     bindM (prune_provider S lp) (\<lambda>lp1.
     thenM (require (asymmetry msg = 0) ErrAsymmetricRemove) (
     bindM (getsR (GetRemovalQueueUnitsForLP S lp1)) (\<lambda>queued.
     bindM (liftR (ConvWBasisPointsToUnits S (liquidityProviderUnits lp1) (wBasisPoints msg))) (\<lambda>msgUnits.
     bindM (liftR (uint_sub S (liquidityProviderUnits lp1) queued)) (\<lambda>free.
     if free < msgUnits then throw ErrUnableToRemoveLiquidity
     else
     bindM (liftR (ExtractDebt S pool (nativeAssetBalance pool) (externalAssetBalance pool) False)) (\<lambda>(nativeDepth, externalDepth).
     bindM (liftR (CalculateWithdrawal S (poolUnits pool) nativeDepth externalDepth
              (liquidityProviderUnits lp1) (wBasisPoints msg) (asymmetry msg))) (\<lambda>(native, external, lpUnitsLeft, swapAmount).
     bindM (liftR (uint_sub S (liquidityProviderUnits lp1) lpUnitsLeft)) (\<lambda>used.
     bindM (UseUnlockedLiquidity S lp1 used False) (\<lambda>records.
     thenM (check_health S eAsset pool native external rate externalFee (\<lambda>extFuryValue.
              bindM (liftR (uint_add S extFuryValue external)) (\<lambda>v. QueueRemoval S msg v))) (
     bindM (ParseToInt S external) (\<lambda>extInt.
     bindM (ParseToInt S native) (\<lambda>nativeInt.
     bindM (liftR (new_coin S (Symbol asset) extInt)) (\<lambda>externalAssetCoin.
     bindM (liftR (new_coin S (Symbol GetSettlementAsset) nativeInt)) (\<lambda>nativeAssetCoin.
     bindM (liftR (subtract_withdrawal S pool (liquidityProviderUnits lp1) lpUnitsLeft native external)) (\<lambda>pool1.
     if asymmetry msg \<noteq> 0 \<and> (externalAssetBalance pool1 = 0 \<or> nativeAssetBalance pool1 = 0) then throw ErrPoolTooShallow
     else
     bindM (liftR (adjust_asymmetry S asset (asymmetry msg) swapAmount pool1 externalAssetCoin nativeAssetCoin
              rate externalFee nativeFee)) (\<lambda>(pool2, extCoin, natCoin).
     wrapM ErrUnableToRemoveLiquidity
       (RemoveLiquidity S pool2 extCoin natCoin (lp1\<lparr>unlocks := records\<rparr>) lpUnitsLeft
          externalDepth nativeDepth)))))))))))))))))))))))"

section \<open>Facts\<close>

lemma require_Ok [result_inv]: "require b e s = (Ok (), t) \<longleftrightarrow> b \<and> t = s"
  by (auto simp: require_def result_inv)

lemma get_entry_Ok [result_inv]: "get_entry d s = (Ok e, t) \<longleftrightarrow> GetEntry (GetRegistry s) d = Ok e \<and> t = s"
  by (auto simp: get_entry_def result_inv)

lemma get_pool_Ok [result_inv]:
  "get_pool d s = (Ok p, t) \<longleftrightarrow> kv_get (pools s) (GetPoolKey d NativeSymbol) = Some p \<and> t = s"
  by (auto simp: get_pool_def result_inv GetPool_Ok)

lemma get_provider_Ok [result_inv]:
  "get_provider d a s = (Ok l, t) \<longleftrightarrow> kv_get (providers s) (GetLiquidityProviderKey d a) = Some l \<and> t = s"
  by (auto simp: get_provider_def result_inv GetLiquidityProvider_Ok)

lemma check_health_Ok: "check_health S e p n x r f q s = (Ok (), t) \<Longrightarrow> t = s"
  by (auto simp: check_health_def result_inv)

lemma MustUpdate_preserves [frame_intros]:
  "(\<And>s n. f (s\<lparr>currentFuryLiquidityThreshold := n\<rparr>) = f s) \<Longrightarrow>
     preserves f (MustUpdateLiquidityProtectionThreshold S b n price)"
  unfolding MustUpdateLiquidityProtectionThreshold_def SetLiquidityProtectionCurrentFuryLiquidityThreshold_def
    SetLiquidityProtectionRateParams_def
  by (intro frame_intros) auto

lemma preserves_case_swap_status [frame_intros]:
  "preserves f m \<Longrightarrow> preserves f k \<Longrightarrow> preserves f n \<Longrightarrow>
     preserves f (case st of SellNative \<Rightarrow> m | BuyNative \<Rightarrow> k | NoSwap \<Rightarrow> n)"
  by (cases st) simp_all

lemma require_preserves [frame_intros]: "preserves f (require b e)"
  by (simp add: require_def preserves_prim)

lemma check_swap_status_preserves [frame_intros]:
  "(\<And>s n. f (s\<lparr>currentFuryLiquidityThreshold := n\<rparr>) = f s) \<Longrightarrow>
     preserves f (check_swap_status S st sw n e nd ed sell buy rate)"
  unfolding check_swap_status_def by (intro frame_intros) auto

lemma protection_price_Ok [result_inv]: "protection_price S s = (Ok x, t) \<longleftrightarrow> t = s \<and>
    (if isActive (GetLiquidityProtectionParams s) then GetNativePrice S s = Ok x else x = 0)"
  by (auto simp: protection_price_def result_inv)

lemma check_protection_Ok [result_inv]: "check_protection S active e n price s = (Ok (), t) \<longleftrightarrow> t = s \<and>
    (active \<and> StringCompare (denom e) NativeSymbol \<longrightarrow> IsBlockedByLiquidityProtection S n price s = Ok False)"
  by (auto simp: check_protection_def result_inv)

lemma Asset_Equals_iff [simp]: "Asset_Equals a b \<longleftrightarrow> a = b"
  by (cases a; cases b) (simp add: Asset_Equals_def)

lemma in_pool_Ok [result_inv]: "in_pool a s = (Ok v, t) \<longleftrightarrow> t = s \<and>
    v = (if a = GetSettlementAsset then None else kv_get (pools s) (pool_key a)) \<and>
    (a \<noteq> GetSettlementAsset \<longrightarrow> v \<noteq> None)"
  by (auto simp: in_pool_def result_inv)

lemma out_pool_Ok [result_inv]: "out_pool a b s = (Ok p, t) \<longleftrightarrow> t = s \<and>
    kv_get (pools s) (pool_key (if b = GetSettlementAsset then a else b)) = Some p"
  by (auto simp: out_pool_def result_inv)

lemma first_leg_Ok [op_inv]:
  "first_leg S inPool recv x rate fee s = (Ok (x2, lf, im), t) \<longleftrightarrow>
     (inPool = None \<or> recv = GetSettlementAsset) \<and> x2 = x \<and> lf = 0 \<and> im = 0 \<and> t = s \<or>
     (\<exists>p q. inPool = Some p \<and> recv \<noteq> GetSettlementAsset \<and>
        SwapOne S x GetSettlementAsset p rate fee = Ok (x2, lf, im, q) \<and> SetPool S q s = (Ok (), t))"
  unfolding first_leg_def
  by (cases inPool) (auto simp: result_inv)

lemma MustUpdate_Ok:
  assumes "MustUpdateLiquidityProtectionThreshold S b n price s = (Ok (), t)"
  shows "\<exists>c. t = s\<lparr>currentFuryLiquidityThreshold := c\<rparr>"
  using assms
  unfolding MustUpdateLiquidityProtectionThreshold_def SetLiquidityProtectionCurrentFuryLiquidityThreshold_def
    SetLiquidityProtectionRateParams_def
  by (simp only: result_inv) (auto intro!: exI [of _ "currentFuryLiquidityThreshold t"])

lemma protect_swap_Ok:
  assumes "protect_swap S active sa ra n fee y price s = (Ok (), t)"
  shows "\<exists>c. t = s\<lparr>currentFuryLiquidityThreshold := c\<rparr>"
proof -
  obtain u where u: "(\<exists>m. MustUpdateLiquidityProtectionThreshold S True m price s = (Ok (), u)) \<or> u = s"
    and t: "MustUpdateLiquidityProtectionThreshold S False y price u = (Ok (), t) \<or> t = u"
    using assms unfolding protect_swap_def by (simp only: result_inv) blast
  have "\<exists>c. u = s\<lparr>currentFuryLiquidityThreshold := c\<rparr>"
    using u
  proof (elim disjE exE)
    assume "u = s"
    then show ?thesis by (intro exI [of _ "currentFuryLiquidityThreshold s"]) simp
  qed (rule MustUpdate_Ok)
  moreover have "\<exists>c. t = u\<lparr>currentFuryLiquidityThreshold := c\<rparr>"
    using t
  proof (elim disjE)
    assume "t = u"
    then show ?thesis by (intro exI [of _ "currentFuryLiquidityThreshold u"]) simp
  qed (rule MustUpdate_Ok)
  ultimately show ?thesis by auto
qed

end
