(* ===== verification/ClpRewards.thy ===== *)
theory ClpRewards
  imports ClpPmtp
begin

text \<open>
  The payouts at the end of a block: the distribution of Fury from the pools to their providers
  (\<open>provider_distribution.go\<close>) and the depth rewards (\<open>rewards.go\<close>).

  A \<open>*types.Pool\<close> is an index into the list of pools that \<open>GetPools\<close> returned; the list holds
  what the pointers point to. A Go map is an association list in the order of the first
  insertions; a loop over a map runs in the order that the argument \<open>ord\<close> gives, a
  permutation of \<open>[0..<n]\<close> for a map of \<open>n\<close> entries (hypothesis \<open>any_order\<close>), because Go
  leaves that order open.
\<close>

section \<open>Maps\<close>

fun map_set :: "'k \<Rightarrow> 'v \<Rightarrow> ('k \<times> 'v) list \<Rightarrow> ('k \<times> 'v) list" where
  "map_set k v [] = [(k, v)]"
| "map_set k v ((j, w) # m) = (if j = k then (j, v) # m else (j, w) # map_set k v m)"

type_synonym PoolFuryMap = "(nat \<times> nat) list"
type_synonym LpFuryMap = "(string \<times> nat) list"
type_synonym LpPoolMap = "(string \<times> (nat \<times> int) list) list"

section \<open>Provider distribution (provider\_distribution.go)\<close>

definition isActivePeriod :: "int \<Rightarrow> int \<Rightarrow> int \<Rightarrow> bool" where
  "isActivePeriod current start end' \<longleftrightarrow> to_i64 start \<le> current \<and> current \<le> to_i64 end'"

fun FindProviderDistributionPeriod ::
  "int \<Rightarrow> ProviderDistributionPeriod list \<Rightarrow> ProviderDistributionPeriod option" where
  "FindProviderDistributionPeriod h [] = None"
| "FindProviderDistributionPeriod h (p # ps) =
     (if isActivePeriod h (distributionPeriodStartBlock p) (distributionPeriodEndBlock p) then Some p
      else FindProviderDistributionPeriod h ps)"

text \<open>The remainder panics for a zero divisor.\<close>

definition IsDistributionBlockPure :: "int \<Rightarrow> int \<Rightarrow> int \<Rightarrow> bool result" where
  "IsDistributionBlockPure h start md =
     (if to_i64 md = 0 then Panic
      else Ok (trem (to_i64 (h - to_i64 start)) (to_i64 md) = 0))"

definition IsDistributionBlock :: "'s clp_state_scheme \<Rightarrow> bool result" where
  "IsDistributionBlock s =
     (case FindProviderDistributionPeriod (height s) (distributionPeriods s) of
        None \<Rightarrow> Ok False
      | Some p \<Rightarrow> IsDistributionBlockPure (height s) (distributionPeriodStartBlock p) (distributionPeriodMod p))"

definition FilterValidLiquidityProviders ::
  "sdk \<Rightarrow> LiquidityProvider list \<Rightarrow> (string \<times> LiquidityProvider) list" where
  "FilterValidLiquidityProviders S lps =
     concat (map (\<lambda>lp. case acc_from_bech32 S (liquidityProviderAddress lp) of
                          None \<Rightarrow> [] | Some addr \<Rightarrow> [(addr, lp)]) lps)"

text \<open>
  The last line of \<open>CalcProviderDistributionAmount\<close> converts an \<open>sdk.Int\<close> into an \<open>sdk.Uint\<close> without the check of its
  constructors: the amount is an integer here, and the additions and subtractions that use it check their results.
\<close>

definition CalcProviderDistributionAmount :: "sdk \<Rightarrow> int \<Rightarrow> nat \<Rightarrow> nat \<Rightarrow> int result" where
  "CalcProviderDistributionAmount S furyProviderDistribution totalPoolUnits providerPoolUnits =
     rbind (dec_quo S (new_dec (int providerPoolUnits)) (new_dec (int totalPoolUnits))) (\<lambda>percentage.
     rbind (dec_mul S percentage furyProviderDistribution) (\<lambda>providerFury.
     dec_round S providerFury))"

text \<open>One round of the loop of \<open>CollectProviderDistribution\<close>.\<close>

definition collect_share ::
  "sdk \<Rightarrow> nat \<Rightarrow> int \<Rightarrow> nat \<Rightarrow> nat \<Rightarrow> string \<times> LiquidityProvider
    \<Rightarrow> nat \<times> LpFuryMap \<times> LpPoolMap \<Rightarrow> (nat \<times> LpFuryMap \<times> LpPoolMap) result" where
  "collect_share S ptr furyPd furyPdUint pool_units lp acc =
     (case (lp, acc) of ((addr, l), (tot, lpFury, lpPools)) \<Rightarrow>
      rbind (CalcProviderDistributionAmount S furyPd pool_units (liquidityProviderUnits l)) (\<lambda>share.
      rbind (uint_of_big S (int tot + share)) (\<lambda>tot1.
      rbind (if furyPdUint < tot1
             then rbind (rbind (uint_of_big S (int tot1 - share)) (uint_sub S furyPdUint)) (\<lambda>rest. Ok (int rest, furyPdUint))
             else Ok (share, tot1)) (\<lambda>(share2, tot2).
      rbind (uint_of_big S (int (case map_of lpFury addr of None \<Rightarrow> 0 | Some n \<Rightarrow> n) + share2)) (\<lambda>sum.
      Ok (tot2, map_set addr sum lpFury, map_append addr (ptr, share2) lpPools))))))"

definition CollectProviderDistribution ::
  "sdk \<Rightarrow> nat \<Rightarrow> int \<Rightarrow> int \<Rightarrow> nat \<Rightarrow> (string \<times> LiquidityProvider) list \<Rightarrow> LpFuryMap \<Rightarrow> LpPoolMap
    \<Rightarrow> (nat \<times> LpFuryMap \<times> LpPoolMap) result" where
  "CollectProviderDistribution S ptr poolDepthFury blockRate pool_units lps lpFury lpPools =
     rbind (dec_mul S blockRate poolDepthFury) (\<lambda>furyPd.
     rbind (uint_round S furyPd) (\<lambda>furyPdUint.
     rfold (collect_share S ptr furyPd furyPdUint pool_units) lps (0, lpFury, lpPools)))"

definition collect_pool ::
  "sdk \<Rightarrow> (Asset \<times> LiquidityProvider list) list \<Rightarrow> int \<Rightarrow> nat \<times> Pool
    \<Rightarrow> PoolFuryMap \<times> LpFuryMap \<times> LpPoolMap \<Rightarrow> (PoolFuryMap \<times> LpFuryMap \<times> LpPoolMap) result" where
  "collect_pool S partitions blockRate ip acc =
     (case (ip, acc) of ((ptr, pool), (poolFury, lpFury, lpPools)) \<Rightarrow>
      case map_of partitions (externalAsset pool) of
        None \<Rightarrow> Ok (poolFury, lpFury, lpPools)
      | Some lps \<Rightarrow>
          rbind (CollectProviderDistribution S ptr (new_dec (int (nativeAssetBalance pool))) blockRate
                   (poolUnits pool) (FilterValidLiquidityProviders S lps) lpFury lpPools) (\<lambda>(tot, lpFury', lpPools').
          Ok (map_set ptr tot poolFury, lpFury', lpPools')))"

definition CollectProviderDistributions ::
  "sdk \<Rightarrow> Pool list \<Rightarrow> int \<Rightarrow> 's clp_state_scheme \<Rightarrow> (PoolFuryMap \<times> LpFuryMap \<times> LpPoolMap) result" where
  "CollectProviderDistributions S ps blockRate s =
     rfold (collect_pool S (GetAllLiquidityProvidersPartitions S s) blockRate) (enumerate 0 ps) ([], [], [])"

definition doProviderDistribution ::
  "sdk \<Rightarrow> 's clp_state_scheme \<Rightarrow> (Pool list \<times> PoolFuryMap \<times> LpFuryMap \<times> LpPoolMap) result" where
  "doProviderDistribution S s =
     (case FindProviderDistributionPeriod (height s) (distributionPeriods s) of
        None \<Rightarrow> Ok ([], [], [], [])
      | Some period \<Rightarrow>
          let allPools = GetPools s in
          rbind (CollectProviderDistributions S allPools (distributionPeriodBlockRate period) s) (\<lambda>maps.
          Ok (allPools, maps)))"

text \<open>
  One payout: if it fails, the shares of the provider are taken off the amounts of the pools.
  An address that does not parse is the empty address.
\<close>

definition sub_share :: "sdk \<Rightarrow> nat \<times> int \<Rightarrow> PoolFuryMap \<Rightarrow> PoolFuryMap result" where
  "sub_share S e m =
     (case map_of m (fst e) of
        None \<Rightarrow> Panic
      | Some n \<Rightarrow> rbind (uint_of_big S (int n - snd e)) (\<lambda>n'. Ok (map_set (fst e) n' m)))"

definition pay_provider ::
  "sdk \<Rightarrow> LpPoolMap \<Rightarrow> string \<times> nat \<Rightarrow> PoolFuryMap \<Rightarrow> ('s clp_state_scheme, PoolFuryMap) M" where
  "pay_provider S lpPools entry poolFury =
     (case entry of (lpAddress, totalFury) \<Rightarrow>
      let addr = (case acc_from_bech32 S lpAddress of None \<Rightarrow> [] | Some a \<Rightarrow> a) in
      bindM (liftR (new_coin S NativeSymbol (int totalFury))) (\<lambda>coin.
      bindM (liftR (new_coins S [coin])) (\<lambda>coins.
      bindM (catchM (thenM (SendCoinsFromModuleToAccount S ModuleName addr coins) (ret True)) (\<lambda>_. ret False)) (\<lambda>sent.
      if sent then ret poolFury
      else liftR (rfold (sub_share S) (case map_of lpPools lpAddress of None \<Rightarrow> [] | Some l \<Rightarrow> l) poolFury)))))"

definition TransferProviderDistributionGeneric ::
  "sdk \<Rightarrow> (nat \<Rightarrow> nat list) \<Rightarrow> PoolFuryMap \<Rightarrow> LpFuryMap \<Rightarrow> LpPoolMap \<Rightarrow> ('s clp_state_scheme, PoolFuryMap) M" where
  "TransferProviderDistributionGeneric S ord poolFury lpFury lpPools =
     foldM (pay_provider S lpPools) (in_order ord lpFury) poolFury"

definition TransferProviderDistribution ::
  "sdk \<Rightarrow> (nat \<Rightarrow> nat list) \<Rightarrow> (nat \<Rightarrow> nat list) \<Rightarrow> Pool list \<Rightarrow> PoolFuryMap \<Rightarrow> LpFuryMap \<Rightarrow> LpPoolMap
    \<Rightarrow> ('s clp_state_scheme, unit) M" where
  "TransferProviderDistribution S ord ord' ps poolFury lpFury lpPools =
     bindM (TransferProviderDistributionGeneric S ord poolFury lpFury lpPools) (\<lambda>poolFury'.
     eachM (\<lambda>(ptr, sub). ignoreM (RemoveFuryFromPool S (ps ! ptr) sub)) (in_order ord' poolFury'))"

definition ProviderDistributionPolicyRun ::
  "sdk \<Rightarrow> (nat \<Rightarrow> nat list) \<Rightarrow> (nat \<Rightarrow> nat list) \<Rightarrow> ('s clp_state_scheme, unit) M" where
  "ProviderDistributionPolicyRun S ord ord' =
     bindM (getsR (doProviderDistribution S)) (\<lambda>(ps, a, b, c).
     TransferProviderDistribution S ord ord' ps a b c)"

section \<open>Depth rewards (rewards.go)\<close>

fun find_period :: "int \<Rightarrow> RewardPeriod list \<Rightarrow> RewardPeriod option" where
  "find_period h [] = None"
| "find_period h (p # ps) =
     (if rewardPeriodStartBlock p \<le> h \<and> h \<le> rewardPeriodEndBlock p
      then Some (if rewardPeriodMod p = 0 then p\<lparr>rewardPeriodMod := 1\<rparr> else p)
      else find_period h ps)"

definition GetCurrentRewardPeriod :: "int \<Rightarrow> RewardParams \<Rightarrow> RewardPeriod option" where
  "GetCurrentRewardPeriod blockHeight params = find_period (to_u64 blockHeight) (rewardPeriods params)"

text \<open>An allocation that is not set is a nil pointer.\<close>

definition CalcBlockDistribution :: "sdk \<Rightarrow> RewardPeriod \<Rightarrow> nat result" where
  "CalcBlockDistribution S period =
     (let periodLength = to_u64 (to_u64 (rewardPeriodEndBlock period - rewardPeriodStartBlock period) + 1) in
      case rewardPeriodAllocation period of
        None \<Rightarrow> Panic
      | Some a \<Rightarrow> uint_quo S a (nat periodLength))"

fun find_multiplier :: "string \<Rightarrow> PoolMultiplier list \<Rightarrow> int option" where
  "find_multiplier asset [] = None"
| "find_multiplier asset (m # ms) =
     (if StringCompare asset (poolMultiplierAsset m) \<and> multiplier m \<noteq> None then multiplier m
      else find_multiplier asset ms)"

definition GetPoolMultiplier :: "string \<Rightarrow> RewardPeriod \<Rightarrow> int result" where
  "GetPoolMultiplier asset period =
     (case find_multiplier asset (rewardPeriodPoolMultipliers period) of
        Some m \<Rightarrow> Ok m
      | None \<Rightarrow> (case rewardPeriodDefaultMultiplier period of None \<Rightarrow> Panic | Some m \<Rightarrow> Ok m))"

definition calcPoolDistribution :: "sdk \<Rightarrow> int \<Rightarrow> nat \<Rightarrow> int \<Rightarrow> nat \<Rightarrow> nat result" where
  "calcPoolDistribution S mult poolNativeBalance totalDepth blockDistributionAmount =
     rbind (dec_mul S (new_dec (int poolNativeBalance)) mult) (\<lambda>w.
     rbind (dec_quo S w totalDepth) (\<lambda>weight.
     rbind (dec_mul S weight (new_dec (int blockDistributionAmount))) (\<lambda>d.
     uint_truncate S d)))"

text \<open>The pools come back with what the loop wrote through their pointers.\<close>

definition add_depth ::
  "sdk \<Rightarrow> RewardPeriod \<Rightarrow> int \<Rightarrow> Pool \<Rightarrow> int \<times> Pool list \<Rightarrow> ('s clp_state_scheme, int \<times> Pool list) M" where
  "add_depth S period h pool acc =
     (case acc of (depth, ps) \<Rightarrow>
      bindM (liftR (GetPoolMultiplier (Symbol (externalAsset pool)) period)) (\<lambda>m.
      bindM (liftR (dec_mul S (new_dec (int (nativeAssetBalance pool))) m)) (\<lambda>w.
      bindM (liftR (dec_add S depth w)) (\<lambda>depth'.
      if h = rewardPeriodStartBlock period
      then let pool' = pool\<lparr>rewardPeriodNativeDistributed := 0\<rparr> in
           thenM (SetPool S pool') (ret (depth', ps @ [pool']))
      else ret (depth', ps @ [pool])))))"

definition calcTotalDepth ::
  "sdk \<Rightarrow> Pool list \<Rightarrow> RewardPeriod \<Rightarrow> int \<Rightarrow> ('s clp_state_scheme, int \<times> Pool list) M" where
  "calcTotalDepth S ps period h = foldM (add_depth S period h) ps (new_dec 0, [])"

fun collect_tuples ::
  "sdk \<Rightarrow> nat \<Rightarrow> int \<Rightarrow> RewardPeriod \<Rightarrow> nat \<Rightarrow> nat \<Rightarrow> (nat \<times> Pool) list \<Rightarrow> ((nat \<times> nat) list \<times> nat) result" where
  "collect_tuples S bd totalDepth period remaining coins [] = Ok ([], coins)"
| "collect_tuples S bd totalDepth period remaining coins ((ptr, pool) # ps) =
     (if remaining = 0 then Ok ([], coins)
      else
      rbind (GetPoolMultiplier (Symbol (externalAsset pool)) period) (\<lambda>m.
      rbind (calcPoolDistribution S m (nativeAssetBalance pool) totalDepth bd) (\<lambda>d.
      if d = 0 then collect_tuples S bd totalDepth period remaining coins ps
      else
      let d' = (if remaining < d then remaining else d) in
      rbind (uint_add S coins d') (\<lambda>coins'.
      rbind (uint_sub S remaining d') (\<lambda>remaining'.
      rbind (collect_tuples S bd totalDepth period remaining' coins' ps) (\<lambda>(ts, minted).
      Ok ((ptr, d') # ts, minted)))))))"

definition CollectPoolRewardTuples ::
  "sdk \<Rightarrow> Pool list \<Rightarrow> nat \<Rightarrow> int \<Rightarrow> RewardPeriod \<Rightarrow> ((nat \<times> nat) list \<times> nat) result" where
  "CollectPoolRewardTuples S ps blockDistribution totalDepth period =
     collect_tuples S blockDistribution totalDepth period blockDistribution 0 (enumerate 0 ps)"

definition addRewardsToPool :: "sdk \<Rightarrow> Pool list \<Rightarrow> nat \<Rightarrow> nat \<Rightarrow> ('s clp_state_scheme, Pool list) M" where
  "addRewardsToPool S ps ptr reward =
     (let pool = ps ! ptr in
      bindM (liftR (uint_add S (nativeAssetBalance pool) reward)) (\<lambda>nb.
      bindM (liftR (uint_add S (rewardPeriodNativeDistributed pool) reward)) (\<lambda>rd.
      let pool' = pool\<lparr>nativeAssetBalance := nb, rewardPeriodNativeDistributed := rd\<rparr> in
      thenM (ignoreM (SetPool S pool')) (ret (ps[ptr := pool'])))))"

definition CollectRewards ::
  "sdk \<Rightarrow> nat \<Rightarrow> nat \<Rightarrow> nat \<Rightarrow> (string \<times> LiquidityProvider) list \<Rightarrow> PoolFuryMap \<times> LpFuryMap \<times> LpPoolMap
    \<Rightarrow> (PoolFuryMap \<times> LpFuryMap \<times> LpPoolMap) result" where
  "CollectRewards S ptr poolDistribution pool_units lps maps =
     (case maps of (poolFury, lpFury, lpPools) \<Rightarrow>
      rbind (CollectProviderDistribution S ptr (new_dec (int poolDistribution)) (new_dec 1) pool_units lps lpFury lpPools)
        (\<lambda>(tot, lpFury', lpPools').
      Ok (map_set ptr tot poolFury, lpFury', lpPools')))"

text \<open>One tuple of the loop of \<open>DistributeDepthRewards\<close>.\<close>

definition reward_pool ::
  "sdk \<Rightarrow> bool \<Rightarrow> (Asset \<times> LiquidityProvider list) list \<Rightarrow> nat \<times> nat
    \<Rightarrow> Pool list \<times> PoolFuryMap \<times> LpFuryMap \<times> LpPoolMap
    \<Rightarrow> ('s clp_state_scheme, Pool list \<times> PoolFuryMap \<times> LpFuryMap \<times> LpPoolMap) M" where
  "reward_pool S distribute partitions e acc =
     (case (e, acc) of ((ptr, reward), (ps, maps)) \<Rightarrow>
      if distribute
      then case map_of partitions (externalAsset (ps ! ptr)) of
             None \<Rightarrow> bindM (addRewardsToPool S ps ptr reward) (\<lambda>ps'. ret (ps', maps))
           | Some lps \<Rightarrow>
               bindM (liftR (CollectRewards S ptr reward (poolUnits (ps ! ptr)) (FilterValidLiquidityProviders S lps) maps))
                 (\<lambda>maps'. ret (ps, maps'))
      else bindM (addRewardsToPool S ps ptr reward) (\<lambda>ps'. ret (ps', maps)))"

definition GetModuleFury :: "sdk \<Rightarrow> 's clp_state_scheme \<Rightarrow> coin" where
  "GetModuleFury S s = (NativeSymbol, bank s (GetCLPModuleAddress S) NativeSymbol)"

definition BurnFury :: "sdk \<Rightarrow> nat \<Rightarrow> ('s clp_state_scheme, unit) M" where
  "BurnFury S amount =
     bindM (liftR (new_coin S NativeSymbol (int amount))) (\<lambda>coin.
     bindM (liftR (new_coins S [coin])) (\<lambda>coins.
     BurnCoins S ModuleName coins))"

definition add_distributed :: "sdk \<Rightarrow> Pool list \<Rightarrow> nat \<times> nat \<Rightarrow> ('s clp_state_scheme, unit) M" where
  "add_distributed S ps e =
     (case e of (ptr, fury) \<Rightarrow>
      if fury = 0 then ret ()
      else
      bindM (liftR (uint_add S (rewardPeriodNativeDistributed (ps ! ptr)) fury)) (\<lambda>rd.
      ignoreM (SetPool S ((ps ! ptr)\<lparr>rewardPeriodNativeDistributed := rd\<rparr>))))"

text \<open>What was minted and could not be paid out is burnt.\<close>

definition settle_rewards ::
  "sdk \<Rightarrow> (nat \<Rightarrow> nat list) \<Rightarrow> (nat \<Rightarrow> nat list) \<Rightarrow> nat \<Rightarrow> coin \<Rightarrow> Pool list \<Rightarrow> PoolFuryMap \<Rightarrow> LpFuryMap \<Rightarrow> LpPoolMap
    \<Rightarrow> ('s clp_state_scheme, unit) M" where
  "settle_rewards S ord ord' coinsToMint before ps poolFury lpFury lpPools =
     bindM (liftR (rfold (\<lambda>(_, fury) acc. uint_add S acc fury) poolFury 0)) (\<lambda>_.
     bindM (TransferProviderDistributionGeneric S ord poolFury lpFury lpPools) (\<lambda>poolFury'.
     thenM (eachM (add_distributed S ps) (in_order ord' poolFury')) (
     bindM (gets (GetModuleFury S)) (\<lambda>after.
     bindM (liftR (coin_sub S after before)) (\<lambda>diff.
     thenM (if snd diff \<noteq> 0 then ignoreM (BurnFury S (snd diff)) else ret ()) (
     bindM (liftR (int_sub S (int coinsToMint) (int (snd diff)))) (\<lambda>_. ret ())))))))"

definition DistributeDepthRewards ::
  "sdk \<Rightarrow> (nat \<Rightarrow> nat list) \<Rightarrow> (nat \<Rightarrow> nat list) \<Rightarrow> nat \<Rightarrow> RewardPeriod \<Rightarrow> Pool list \<Rightarrow> ('s clp_state_scheme, unit) M" where
  "DistributeDepthRewards S ord ord' blockDistribution period ps =
     bindM (gets (\<lambda>s. to_u64 (height s))) (\<lambda>h.
     thenM (if h = rewardPeriodStartBlock period
            then bindM (gets GetRewardsParams) (\<lambda>params.
                 bindM (gets block_time) (\<lambda>t. SetRewardParams (params\<lparr>rewardPeriodStartTime := t\<rparr>)))
            else ret ()) (
     if blockDistribution = 0 then ret ()
     else
     bindM (calcTotalDepth S ps period h) (\<lambda>(totalDepth, ps1).
     if totalDepth \<le> 0 then ret ()
     else
     bindM (liftR (CollectPoolRewardTuples S ps1 blockDistribution totalDepth period)) (\<lambda>(tuples, coinsToMint).
     bindM (gets (GetModuleFury S)) (\<lambda>before.
     bindM (liftR (new_coin S NativeSymbol (int coinsToMint))) (\<lambda>coin.
     bindM (liftR (new_coins S [coin])) (\<lambda>rewardCoins.
     thenM (MintCoins S ModuleName rewardCoins) (
     bindM (gets (\<lambda>s. if rewardPeriodDistribute period then GetAllLiquidityProvidersPartitions S s else [])) (\<lambda>partitions.
     bindM (foldM (reward_pool S (rewardPeriodDistribute period) partitions) tuples (ps1, [], [], []))
       (\<lambda>(ps2, poolFury, lpFury, lpPools).
     if rewardPeriodDistribute period
     then settle_rewards S ord ord' coinsToMint before ps2 poolFury lpFury lpPools
     else ret ()))))))))))"

end
