(* ===== verification/ClpBlocks.thy ===== *)
theory ClpBlocks
  imports ClpRewards
begin

text \<open>
  What the chain runs around the messages: \<open>BeginBlocker\<close> and \<open>EndBlocker\<close> (\<open>x/clp/abci.go\<close>),
  genesis (\<open>x/clp/genesis.go\<close>) and the invariants of the module
  (\<open>x/clp/keeper/invariants.go\<close>). Telemetry and the measurement of the block time are left out.
\<close>

section \<open>Blocks (abci.go)\<close>

definition EndBlocker ::
  "sdk \<Rightarrow> (nat \<Rightarrow> nat list) \<Rightarrow> (nat \<Rightarrow> nat list) \<Rightarrow> (nat \<Rightarrow> nat list) \<Rightarrow> (nat \<Rightarrow> nat list)
    \<Rightarrow> ('s clp_state_scheme, unit) M" where
  "EndBlocker S ord1 ord2 ord3 ord4 =
     bindM (getsR IsDistributionBlock) (\<lambda>b.
     thenM (if b then ProviderDistributionPolicyRun S ord1 ord2 else ret ()) (
     bindM (gets GetRewardsParams) (\<lambda>params.
     bindM (gets GetPools) (\<lambda>ps.
     bindM (gets (\<lambda>s. GetCurrentRewardPeriod (height s) params)) (\<lambda>current.
     case current of
       None \<Rightarrow> ret ()
     | Some period \<Rightarrow>
         (case rewardPeriodAllocation period of
            None \<Rightarrow> panic
          | Some alloc \<Rightarrow>
              if alloc = 0 then ret ()
              else
              bindM (getsR (\<lambda>s. IsDistributionBlockPure (height s) (rewardPeriodStartBlock period) (rewardPeriodMod period)))
                (\<lambda>isDistributionBlock.
              bindM (liftR (CalcBlockDistribution S period)) (\<lambda>currentDistribution.
              bindM (gets GetBlockDistributionAccu) (\<lambda>accu.
              bindM (liftR (uint_add S accu currentDistribution)) (\<lambda>blockDistribution.
              if isDistributionBlock
              then thenM (ignoreM (DistributeDepthRewards S ord3 ord4 blockDistribution period ps)) (
                   SetBlockDistributionAccu 0)
              else SetBlockDistributionAccu blockDistribution))))))))))"

definition replenish_threshold :: "sdk \<Rightarrow> ('s clp_state_scheme, unit) M" where
  "replenish_threshold S =
     bindM (gets GetLiquidityProtectionParams) (\<lambda>params.
     if isActive params
     then bindM (gets currentFuryLiquidityThreshold) (\<lambda>current.
          let mx = maxFuryLiquidityThreshold params in
          bindM (liftR (uint_quo S mx (nat (protectionEpochLength params)))) (\<lambda>replenishmentAmount.
          bindM (liftR (uint_sub S mx current)) (\<lambda>room.
          bindM (liftR (if room < replenishmentAmount then Ok mx else uint_add S current replenishmentAmount)) (\<lambda>updated.
          SetLiquidityProtectionCurrentFuryLiquidityThreshold updated))))
     else ret ())"

definition BeginBlocker :: "sdk \<Rightarrow> ('s clp_state_scheme, unit) M" where
  "BeginBlocker S =
     bindM (gets height) (\<lambda>currentHeight.
     thenM (replenish_threshold S) (
     bindM (gets GetPmtpParams) (\<lambda>params.
     let startBlock = pmtpPeriodStartBlock params; endBlock = pmtpPeriodEndBlock params in
     bindM (gets GetPmtpEpoch) (\<lambda>epoch0.
     thenM (if currentHeight = startBlock \<and> epochCounter epoch0 = 0 \<and> blockCounter epoch0 = 0
            then PolicyStart S else ret ()) (
     bindM (gets (\<lambda>s. pmtpCurrentRunningRate (GetPmtpRateParams s))) (\<lambda>rate0.
     bindM (gets GetPmtpEpoch) (\<lambda>epoch1.
     bindM (if startBlock \<le> currentHeight \<and> currentHeight \<le> endBlock \<and> 0 < epochCounter epoch1
            then bindM (PolicyCalculations S) (\<lambda>r. thenM DecrementPmtpBlockCounter (ret r))
            else ret rate0) (\<lambda>rate.
     bindM (gets GetPmtpEpoch) (\<lambda>epoch2.
     thenM (if blockCounter epoch2 = 0 \<and> currentHeight < endBlock \<and> startBlock \<le> currentHeight
            then thenM DecrementPmtpEpochCounter (SetPmtpBlockCounter (pmtpPeriodEpochLength params))
            else ret ()) (
     thenM (if currentHeight = endBlock
            then thenM (SetPmtpEpoch \<lparr>epochCounter = 0, blockCounter = 0\<rparr>) (SetPmtpInterPolicyRate rate)
            else ret ()) (
     PolicyRun S rate)))))))))))"

section \<open>Genesis (genesis.go)\<close>

record GenesisState =
  genMinCreatePoolThreshold :: int
  genEnableRemovalQueue :: bool
  addressWhitelist :: "string list"
  poolList :: "Pool list"
  liquidityProviders :: "LiquidityProvider list"

definition GetDefaultRewardParams :: RewardParams where
  "GetDefaultRewardParams = \<lparr>liquidityRemovalLockPeriod = 0, liquidityRemovalCancelPeriod = 12 * 60 * 24 * 30,
     rewardPeriods = [], rewardPeriodStartTime = ''''\<rparr>"

definition GetDefaultPmtpParams :: PmtpParams where
  "GetDefaultPmtpParams = \<lparr>pmtpPeriodGovernanceRate = 0, pmtpPeriodEpochLength = 1,
     pmtpPeriodStartBlock = 0, pmtpPeriodEndBlock = 0\<rparr>"

definition GetDefaultLiquidityProtectionParams :: LiquidityProtectionParams where
  "GetDefaultLiquidityProtectionParams = \<lparr>maxFuryLiquidityThreshold = 1000000000000,
     maxFuryLiquidityThresholdAsset = ''cusdc'', protectionEpochLength = 14400, isActive = False\<rparr>"

text \<open>\<open>SetParamSet\<close> panics for a value that does not pass the validation of its pair.\<close>

definition clp_SetParams :: "int \<Rightarrow> bool \<Rightarrow> ('s clp_state_scheme, unit) M" where
  "clp_SetParams threshold queue =
     (if threshold = 0 then panic
      else modify (\<lambda>s. s\<lparr>minCreatePoolThreshold := threshold, enableRemovalQueue := queue\<rparr>))"

definition InitGenesis :: "sdk \<Rightarrow> GenesisState \<Rightarrow> ('s clp_state_scheme, unit) M" where
  "InitGenesis S data =
     thenM (clp_SetParams (genMinCreatePoolThreshold data) (genEnableRemovalQueue data)) (
     thenM (SetRewardParams GetDefaultRewardParams) (
     thenM (SetPmtpRateParams \<lparr>pmtpPeriodBlockRate = 0, pmtpCurrentRunningRate = 0, pmtpInterPolicyRate = 0\<rparr>) (
     thenM (SetPmtpEpoch \<lparr>epochCounter = 0, blockCounter = 0\<rparr>) (
     thenM (SetPmtpParams GetDefaultPmtpParams) (
     thenM (SetPmtpInterPolicyRate (new_dec 0)) (
     if addressWhitelist data = [] then panic
     else
     thenM (SetLiquidityProtectionParams GetDefaultLiquidityProtectionParams) (
     thenM (SetLiquidityProtectionRateParams (maxFuryLiquidityThreshold GetDefaultLiquidityProtectionParams)) (
     bindM (liftR (rfold (\<lambda>entry wl. case acc_from_bech32 S entry of None \<Rightarrow> Panic | Some a \<Rightarrow> Ok (wl @ [a]))
                     (addressWhitelist data) [])) (\<lambda>wl.
     thenM (SetClpWhiteList wl) (
     thenM (eachM (\<lambda>p. catchM (SetPool S p) (\<lambda>_. panic)) (poolList data)) (
     eachM (SetLiquidityProvider S) (liquidityProviders data))))))))))))"

text \<open>The two \<open>query.Paginate\<close> calls, each for one page of \<open>math.MaxUint64\<close> entries, return everything.\<close>

definition ExportGenesis :: "sdk \<Rightarrow> 's clp_state_scheme \<Rightarrow> GenesisState result" where
  "ExportGenesis S s =
     rbind (GetClpWhiteList S s) (\<lambda>wl.
     Ok \<lparr>genMinCreatePoolThreshold = minCreatePoolThreshold s, genEnableRemovalQueue = enableRemovalQueue s,
         addressWhitelist = wl, poolList = GetPools s, liquidityProviders = kv_values (providers s)\<rparr>)"

section \<open>Invariants of the module (invariants.go)\<close>

text \<open>
  An invariant is broken when it returns true. \<open>RegisterInvariants\<close> registers none of them, and \<open>EndBlocker\<close> has
  their calls commented out.
\<close>

fun check_pools :: "sdk \<Rightarrow> Pool list \<Rightarrow> nat \<Rightarrow> nat \<Rightarrow> 's clp_state_scheme \<Rightarrow> bool result" where
  "check_pools S [] nb nc s =
     rbind (uint_add S nb nc) (\<lambda>n. Ok (n \<noteq> snd (GetModuleFury S s)))"
| "check_pools S (p # ps) nb nc s =
     rbind (uint_add S nb (nativeAssetBalance p)) (\<lambda>nb'.
     rbind (uint_add S nc (nativeCustody p)) (\<lambda>nc'.
     rbind (uint_add S (externalAssetBalance p) (externalCustody p)) (\<lambda>e.
     if e \<noteq> bank s (GetCLPModuleAddress S) (Symbol (externalAsset p)) then Ok True
     else check_pools S ps nb' nc' s)))"

definition BalanceModuleAccountCheck :: "sdk \<Rightarrow> 's clp_state_scheme \<Rightarrow> bool result" where
  "BalanceModuleAccountCheck S s = check_pools S (GetPools s) 0 0 s"

fun check_units :: "sdk \<Rightarrow> Pool list \<Rightarrow> 's clp_state_scheme \<Rightarrow> bool result" where
  "check_units S [] s = Ok False"
| "check_units S (p # ps) s =
     rbind (rfold (\<lambda>lp acc. uint_add S acc (liquidityProviderUnits lp))
              (GetAllLiquidityProvidersForAsset S (externalAsset p) s) 0) (\<lambda>tot.
     if poolUnits p \<noteq> tot then Ok True else check_units S ps s)"

definition UnitsCheck :: "sdk \<Rightarrow> 's clp_state_scheme \<Rightarrow> bool result" where
  "UnitsCheck S s = check_units S (GetPools s) s"

end
