(* ===== verification/ClpUnits.thy ===== *)
theory ClpUnits
  imports ClpMsgServer ClpBlocks
begin

text \<open>
  The unit accounting of the pools. \<open>issued s a\<close> is what the pool of asset \<open>a\<close> records as its
  units, \<open>held s a\<close> the sum of the units of its providers, and \<open>units_inv\<close> says that the stores
  are well formed and both agree for every asset: the property that \<open>UnitsCheck\<close> of
  \<open>x/clp/keeper/invariants.go\<close> tests. The lemmas show that every message that succeeds keeps it.
\<close>

section \<open>Units\<close>

definition pools_wf :: "'s clp_state_scheme \<Rightarrow> bool" where
  "pools_wf s \<longleftrightarrow> kv_wf (pools s) \<and>
     (\<forall>k p. kv_get (pools s) k = Some p \<longrightarrow> k = pool_key (externalAsset p))"

definition providers_wf :: "'s clp_state_scheme \<Rightarrow> bool" where
  "providers_wf s \<longleftrightarrow> kv_wf (providers s) \<and>
     (\<forall>k l. kv_get (providers s) k = Some l \<longrightarrow>
        k = lp_key l \<and> CHR ''_'' \<notin> set (liquidityProviderAddress l))"

text \<open>The units a pool says it has issued, and the units its providers hold.\<close>

definition issued :: "'s clp_state_scheme \<Rightarrow> Asset \<Rightarrow> nat" where
  "issued s a = (case kv_get (pools s) (pool_key a) of None \<Rightarrow> 0 | Some p \<Rightarrow> poolUnits p)"

definition held_in :: "LiquidityProvider kv \<Rightarrow> Asset \<Rightarrow> nat" where
  "held_in m a = kv.total (\<lambda>_ l. if lp_asset l = a then liquidityProviderUnits l else 0) m"

definition held :: "'s clp_state_scheme \<Rightarrow> Asset \<Rightarrow> nat" where
  "held s = held_in (providers s)"

definition units_inv :: "'s clp_state_scheme \<Rightarrow> bool" where
  "units_inv s \<longleftrightarrow> pools_wf s \<and> providers_wf s \<and> issued s = held s"

lemma Asset_eqI: "Symbol a = Symbol b \<Longrightarrow> a = b"
  by (cases a; cases b) simp

lemma pool_key_inj: "pool_key a = pool_key b \<longleftrightarrow> a = b"
  using Asset_eqI by (auto simp: GetPoolKey_inj)

lemma pools_wf_put: "pools_wf s \<Longrightarrow>
    pools_wf (s\<lparr>pools := kv_put (pool_key (externalAsset p)) p (pools s)\<rparr>)"
  by (auto simp: pools_wf_def)

lemma issued_put: "pools_wf s \<Longrightarrow>
    issued (s\<lparr>pools := kv_put (pool_key (externalAsset p)) p (pools s)\<rparr>) = (issued s)(externalAsset p := poolUnits p)"
  by (rule ext) (auto simp: pools_wf_def issued_def pool_key_inj)

lemma pools_wf_del: "pools_wf s \<Longrightarrow> pools_wf (s\<lparr>pools := kv_del k (pools s)\<rparr>)"
  by (auto simp: pools_wf_def)

lemma issued_del: "pools_wf s \<Longrightarrow> issued (s\<lparr>pools := kv_del (pool_key a) (pools s)\<rparr>) = (issued s)(a := 0)"
  by (rule ext) (auto simp: pools_wf_def issued_def pool_key_inj)

lemma pool_at: "pools_wf s \<Longrightarrow> kv_get (pools s) (GetPoolKey d n) = Some p \<Longrightarrow> n = NativeSymbol \<Longrightarrow>
    externalAsset p = Asset d"
  unfolding pools_wf_def by (metis Asset.sel Asset_eqI GetPoolKey_inj)

lemma provider_at:
  assumes "providers_wf s" "kv_get (providers s) (GetLiquidityProviderKey d a) = Some l" "CHR ''_'' \<notin> set a"
  shows "lp_asset l = Asset d" "liquidityProviderAddress l = a"
proof -
  have "GetLiquidityProviderKey d a = lp_key l" "CHR ''_'' \<notin> set (liquidityProviderAddress l)"
    using assms(1,2) by (auto simp: providers_wf_def)
  then have "d = Symbol (lp_asset l)" "a = liquidityProviderAddress l"
    using GetLiquidityProviderKey_inj [OF assms(3)] by blast+
  then show "lp_asset l = Asset d" "liquidityProviderAddress l = a" by (auto intro: Asset_eqI)
qed

lemma providers_wf_put: "providers_wf s \<Longrightarrow> CHR ''_'' \<notin> set (liquidityProviderAddress l) \<Longrightarrow>
    providers_wf (s\<lparr>providers := kv_put (lp_key l) l (providers s)\<rparr>)"
  by (auto simp: providers_wf_def)

lemma providers_wf_del: "providers_wf s \<Longrightarrow> providers_wf (s\<lparr>providers := kv_del k (providers s)\<rparr>)"
  by (auto simp: providers_wf_def)

text \<open>The holdings before and after one record changes.\<close>

definition holding :: "'s clp_state_scheme \<Rightarrow> string \<Rightarrow> nat" where
  "holding s k = (case kv_get (providers s) k of None \<Rightarrow> 0 | Some l \<Rightarrow> liquidityProviderUnits l)"

lemma held_split:
  assumes "providers_wf s"
  shows "held s a = held_in (kv_del k (providers s)) a +
    (case kv_get (providers s) k of None \<Rightarrow> 0 | Some l \<Rightarrow> if lp_asset l = a then liquidityProviderUnits l else 0)"
  using assms kv.total_del [of "providers s" "\<lambda>_ l. if lp_asset l = a then liquidityProviderUnits l else 0" k]
  by (simp add: held_def held_in_def providers_wf_def)

lemma held_put:
  assumes wf: "providers_wf s" and l: "CHR ''_'' \<notin> set (liquidityProviderAddress l)"
  shows "held (s\<lparr>providers := kv_put (lp_key l) l (providers s)\<rparr>) =
    (held s)(lp_asset l := held s (lp_asset l) - holding s (lp_key l) + liquidityProviderUnits l)"
proof (rule ext)
  fix a
  have put: "held (s\<lparr>providers := kv_put (lp_key l) l (providers s)\<rparr>) a =
      held_in (kv_del (lp_key l) (providers s)) a + (if lp_asset l = a then liquidityProviderUnits l else 0)"
    using wf kv.total_put [of "providers s" "\<lambda>_ l. if lp_asset l = a then liquidityProviderUnits l else 0"]
    by (simp add: held_def held_in_def providers_wf_def)
  show "held (s\<lparr>providers := kv_put (lp_key l) l (providers s)\<rparr>) a =
      ((held s)(lp_asset l := held s (lp_asset l) - holding s (lp_key l) + liquidityProviderUnits l)) a"
  proof (cases "kv_get (providers s) (lp_key l)")
    case None
    then show ?thesis using put held_split [OF wf, of _ "lp_key l"] by (simp add: holding_def)
  next
    case (Some l0)
    then have "lp_asset l0 = lp_asset l"
      using provider_at(1) [OF wf Some l] by (auto intro: Asset_eqI)
    then show ?thesis using put held_split [OF wf, of _ "lp_key l"] Some by (simp add: holding_def)
  qed
qed

lemma held_del:
  assumes wf: "providers_wf s" and a: "CHR ''_'' \<notin> set addr"
  shows "held (s\<lparr>providers := kv_del (GetLiquidityProviderKey d addr) (providers s)\<rparr>) =
    (held s)(Asset d := held s (Asset d) - holding s (GetLiquidityProviderKey d addr))"
proof (rule ext)
  fix b
  let ?k = "GetLiquidityProviderKey d addr"
  have del: "held (s\<lparr>providers := kv_del ?k (providers s)\<rparr>) b = held_in (kv_del ?k (providers s)) b"
    by (simp add: held_def)
  show "held (s\<lparr>providers := kv_del ?k (providers s)\<rparr>) b =
      ((held s)(Asset d := held s (Asset d) - holding s ?k)) b"
  proof (cases "kv_get (providers s) ?k")
    case None
    then show ?thesis using del held_split [OF wf, of _ ?k] by (simp add: holding_def)
  next
    case (Some l0)
    then have "lp_asset l0 = Asset d" using provider_at(1) [OF wf Some a] by simp
    then show ?thesis using del held_split [OF wf, of _ ?k] Some by (simp add: holding_def)
  qed
qed

lemma holding_le:
  assumes wf: "providers_wf s" and a: "CHR ''_'' \<notin> set addr"
  shows "holding s (GetLiquidityProviderKey d addr) \<le> held s (Asset d)"
proof (cases "kv_get (providers s) (GetLiquidityProviderKey d addr)")
  case (Some l)
  then show ?thesis
    using held_split [OF wf, of "Asset d" "GetLiquidityProviderKey d addr"] provider_at(1) [OF wf Some a]
    by (simp add: holding_def)
qed (simp add: holding_def)


section \<open>Handlers\<close>

text \<open>The amounts of two coins, which may have the same denomination.\<close>

definition payout :: "sdk \<Rightarrow> string \<Rightarrow> coin list \<Rightarrow> bank \<Rightarrow> bank \<Rightarrow> bool" where
  "payout S addr cs b b' \<longleftrightarrow> (if cs = [] then b' = b else send_mod_to_acc S ModuleName addr cs b = Ok b')"

definition with_stake :: "LiquidityProvider \<Rightarrow> nat \<Rightarrow> LiquidityProvider kv \<Rightarrow> LiquidityProvider kv" where
  "with_stake l n m = (if n = 0 then kv_del (lp_key l) m else kv_put (lp_key l) (l\<lparr>liquidityProviderUnits := n\<rparr>) m)"

definition two_amounts :: "string \<Rightarrow> nat \<Rightarrow> string \<Rightarrow> nat \<Rightarrow> string \<Rightarrow> nat" where
  "two_amounts d n d' n' x = (if x = d then n else 0) + (if x = d' then n' else 0)"

context sdk_laws
begin

lemma deposit_coins:
  assumes "new_coin S d i = Ok c" "coins_add S [] c = Ok cs" "new_coin S d' j = Ok c'" "coins_add S cs c' = Ok ds"
    and "int_of_uint S e = Some i" "int_of_uint S n = Some j"
  shows "amount_of ds = two_amounts d e d' n"
proof (rule ext)
  fix x
  have "c = (d, e)" "c' = (d', n)"
    using new_coin [OF assms(1)] new_coin [OF assms(3)] int_of_uint [OF assms(5)] int_of_uint [OF assms(6)] by auto
  then show "amount_of ds x = two_amounts d e d' n x"
    using coins_add [OF assms(2), of x] coins_add [OF assms(4), of x] by (auto simp: two_amounts_def)
qed

lemma AddLiquidity_Ok:
  fixes pool :: Pool
  defines "a \<equiv> externalAsset pool"
  assumes add: "AddLiquidity S signer a n e pool pu lu s = (Ok l, t)"
    and canon: "acc_from_bech32 S signer = Some signer" and wf: "providers_wf s"
  shows "\<exists>b cs. send_acc_to_mod S signer ModuleName cs (bank s) = Ok b \<and>
    amount_of cs = two_amounts (Symbol a) e NativeSymbol n \<and>
    lp_asset l = a \<and> liquidityProviderAddress l = signer \<and>
    liquidityProviderUnits l = holding s (lp_key l) + lu \<and>
    t = s\<lparr>bank := b,
      pools := kv_put (pool_key a) (pool\<lparr>poolUnits := pu, nativeAssetBalance := nativeAssetBalance pool + n,
        externalAssetBalance := externalAssetBalance pool + e\<rparr>) (pools s),
      providers := kv_put (lp_key l) l (providers s)\<rparr>"
proof -
  have sg: "CHR ''_'' \<notin> set signer" using bech32_chars [OF canon] .
  have kw: "kv_wf (providers s)" using wf by (simp add: providers_wf_def)
  note inv = result_inv op_inv canon uint_Ok
  show ?thesis
  proof (cases "kv_get (providers s) (GetLiquidityProviderKey (Symbol a) signer)")
    case (Some l0)
    note l0 = provider_at [OF wf Some sg]
    have g: "GetLiquidityProvider (Symbol a) signer (s\<lparr>bank := b\<rparr>) = Ok l0" for b
      using Some by (simp add: GetLiquidityProvider_def)
    show ?thesis
      using add Some unfolding AddLiquidity_def Let_def send_defs a_def [symmetric]
      by (simp only: inv) (clarsimp simp: l0 g holding_def a_def [symmetric], blast dest: deposit_coins)
  next
    case None
    have g: "GetLiquidityProvider (Symbol a) signer (s\<lparr>bank := b\<rparr>) = Err ErrLiquidityProviderDoesNotExist" for b
      using None by (simp add: GetLiquidityProvider_def)
    show ?thesis
      using add None unfolding AddLiquidity_def Let_def send_defs a_def [symmetric]
      by (simp only: inv)
        (clarsimp simp: NewLiquidityProvider_def g holding_def kv_put_twice [OF kw] a_def [symmetric],
         blast dest: deposit_coins)
  qed
qed


text \<open>A removal: the coins that leave, the pool written, and the record of the provider.\<close>

lemma RemoveLiquidity_Ok:
  assumes rm: "RemoveLiquidity S pool ec nc l left eb nb s = (Ok (), t)"
    and canon: "acc_from_bech32 S (liquidityProviderAddress l) = Some addr"
    and a: "lp_asset l = externalAsset pool"
  shows "\<exists>b cs. payout S addr cs (bank s) b \<and>
    amount_of cs = two_amounts (fst ec) (snd ec) (fst nc) (snd nc) \<and> snd ec < eb \<and> snd nc < nb \<and>
    t = s\<lparr>bank := b, pools := kv_put (pool_key (externalAsset pool)) pool (pools s),
      providers := with_stake l left (providers s)\<rparr>"
proof -
  have coins: "amount_of cs' = two_amounts (fst ec) (snd ec) (fst nc) (snd nc)"
    if "(if snd ec \<noteq> 0 then coins_add S [] ec else Ok []) = Ok cs"
      "(if snd nc \<noteq> 0 then coins_add S cs nc else Ok cs) = Ok cs'" for cs cs'
  proof (rule ext)
    fix x
    have "amount_of cs x = (if x = fst ec then snd ec else 0)"
      using that(1) coins_add [of "[]" ec cs x] by (cases ec) (auto split: if_splits)
    then show "amount_of cs' x = two_amounts (fst ec) (snd ec) (fst nc) (snd nc) x"
      using that(2) coins_add [of cs nc cs' x] by (cases nc) (auto simp: two_amounts_def split: if_splits)
  qed
  from rm canon obtain cs cs' u b where c: "(if snd ec \<noteq> 0 then coins_add S [] ec else Ok []) = Ok cs"
      "(if snd nc \<noteq> 0 then coins_add S cs nc else Ok cs) = Ok cs'" and lt: "snd ec < eb" "snd nc < nb"
    and ok: "Asset_Validate S (externalAsset pool) = Ok True" and b: "payout S addr cs' (bank s) b"
    and u: "u = s\<lparr>bank := b, pools := kv_put (pool_key (externalAsset pool)) pool (pools s)\<rparr>"
    and t: "(if left = 0 then DestroyLiquidityProvider (Symbol (lp_asset l)) (liquidityProviderAddress l)
      else SetLiquidityProvider S (l\<lparr>liquidityProviderUnits := left\<rparr>)) u = (Ok (), t)"
    unfolding RemoveLiquidity_def send_defs
    by (simp only: result_inv op_inv payout_def) (force simp: a not_le)
  have "t = u\<lparr>providers := with_stake l left (providers u)\<rparr>"
    using t ok by (auto simp: with_stake_def a op_inv split: if_splits)
  then show ?thesis using b coins [OF c] lt u by auto
qed


lemma CreatePool_Ok:
  assumes "CreatePool S pu signer a n e s = (Ok p, t)"
  shows "\<exists>b cs addr. acc_from_bech32 S signer = Some addr \<and> send_acc_to_mod S addr ModuleName cs (bank s) = Ok b \<and>
    amount_of cs = two_amounts (Symbol a) e NativeSymbol n \<and> p = NewPool a n e pu \<and>
    Asset_Validate S a = Ok True \<and> t = s\<lparr>bank := b, pools := kv_put (pool_key a) p (pools s)\<rparr>"
proof -
  have coins: "amount_of cs = two_amounts (Symbol a) e NativeSymbol n"
    if "new_coin S (Symbol a) i = Ok c" "new_coin S NativeSymbol j = Ok c'" "new_coins S [c, c'] = Ok cs"
      "int_of_uint S e = Some i" "int_of_uint S n = Some j" for c c' cs i j
  proof (rule ext)
    fix x
    have "c = (Symbol a, e)" "c' = (NativeSymbol, n)"
      using new_coin [OF that(1)] new_coin [OF that(2)] int_of_uint [OF that(4)] int_of_uint [OF that(5)] by auto
    then show "amount_of cs x = two_amounts (Symbol a) e NativeSymbol n x"
      using new_coins [OF that(3), of x] by (auto simp: two_amounts_def)
  qed
  show ?thesis
    using assms unfolding CreatePool_def Let_def send_defs
    by (simp only: result_inv op_inv) (clarsimp simp: NewPool_def, blast dest: coins)
qed

end

text \<open>A change of a provider's record that leaves its units alone.\<close>

definition same_stake :: "LiquidityProvider \<Rightarrow> LiquidityProvider \<Rightarrow> bool" where
  "same_stake l l' \<longleftrightarrow> lp_asset l' = lp_asset l \<and> liquidityProviderAddress l' = liquidityProviderAddress l \<and>
     liquidityProviderUnits l' = liquidityProviderUnits l"

definition relocks :: "LiquidityProvider \<Rightarrow> 's clp_state_scheme \<Rightarrow> 's clp_state_scheme \<Rightarrow> bool" where
  "relocks l s t \<longleftrightarrow> (\<exists>m. t = s\<lparr>providers := m\<rparr>) \<and> providers_wf t \<and> held t = held s \<and>
     (\<exists>l'. kv_get (providers t) (lp_key l) = Some l' \<and> same_stake l l')"

lemma relocks_refl: "providers_wf s \<Longrightarrow> kv_get (providers s) (lp_key l) = Some l0 \<Longrightarrow> same_stake l l0 \<Longrightarrow> relocks l s s"
  unfolding relocks_def by (auto intro!: exI [of _ "providers s"])

lemma relocks_set:
  assumes r: "relocks l s t" and l': "same_stake l l'" and set': "SetLiquidityProvider S l' t = (Ok (), u)"
  shows "relocks l s u"
proof -
  from r obtain m l0 where t: "t = s\<lparr>providers := m\<rparr>" "providers_wf t" "held t = held s"
    "kv_get (providers t) (lp_key l) = Some l0" "same_stake l l0"
    unfolding relocks_def by blast
  have key: "lp_key l' = lp_key l" using l' by (simp add: same_stake_def)
  consider "u = t" | "u = t\<lparr>providers := kv_put (lp_key l') l' (providers t)\<rparr>"
    using set' by (auto simp: op_inv)
  then show ?thesis
  proof cases
    case 1
    then show ?thesis using r by simp
  next
    case 2
    have sep: "CHR ''_'' \<notin> set (liquidityProviderAddress l')"
      using t(2,4,5) l' unfolding providers_wf_def same_stake_def by metis
    have "holding t (lp_key l') = liquidityProviderUnits l'"
      using t(4,5) l' key by (simp add: holding_def same_stake_def)
    moreover have "holding t (lp_key l') \<le> held t (lp_asset l')"
      using holding_le [OF t(2) sep, of "Symbol (lp_asset l')"] by simp
    ultimately have "held u = held t"
      using held_put [OF t(2) sep] 2 by auto
    moreover have "providers_wf u" using providers_wf_put [OF t(2) sep] 2 by simp
    moreover have "kv_get (providers u) (lp_key l) = Some l'"
      using 2 t(2) key by (simp add: providers_wf_def)
    moreover have "u = s\<lparr>providers := kv_put (lp_key l') l' (providers t)\<rparr>" using 2 t(1) by simp
    ultimately show ?thesis using t(3) l' unfolding relocks_def by auto
  qed
qed

lemma prune_provider_relocks:
  assumes "prune_provider S l s = (Ok l1, t)" and "relocks l s s"
  shows "same_stake l l1 \<and> relocks l s t"
proof -
  have "same_stake l (l\<lparr>unlocks := rs\<rparr>)" "same_stake l l" for rs by (simp_all add: same_stake_def)
  then show ?thesis
    using assms unfolding prune_provider_def PruneUnlockRecords_def Let_def
    by (simp only: result_inv) (auto intro: relocks_set)
qed

lemma UseUnlockedLiquidity_relocks:
  assumes "UseUnlockedLiquidity S l1 n any' t = (Ok rs, u)" and "relocks l s t" and "same_stake l l1"
  shows "relocks l s u"
proof -
  have "same_stake l (l1\<lparr>unlocks := qs\<rparr>)" for qs using assms(3) by (simp add: same_stake_def)
  then show ?thesis
    using assms unfolding UseUnlockedLiquidity_def Let_def
    by (simp only: result_inv) (auto intro: relocks_set)
qed


section \<open>Every message keeps the units\<close>

lemma adjust_symmetric: "adjust_asymmetry S a 0 sw p e n r f g = Ok (p', e', n') \<longleftrightarrow> p' = p \<and> e' = e \<and> n' = n"
  by (auto simp: adjust_asymmetry_def)

lemma bank_upd_simps [simp]:
  "pools_wf (s\<lparr>bank := b\<rparr>) = pools_wf s" "providers_wf (s\<lparr>bank := b\<rparr>) = providers_wf s"
  "issued (s\<lparr>bank := b\<rparr>) = issued s" "held (s\<lparr>bank := b\<rparr>) = held s"
  "pools_wf (s\<lparr>providers := m\<rparr>) = pools_wf s" "providers_wf (s\<lparr>pools := q\<rparr>) = providers_wf s"
  "issued (s\<lparr>providers := m\<rparr>) = issued s" "held (s\<lparr>pools := q\<rparr>) = held s"
  by (auto simp: pools_wf_def providers_wf_def held_def issued_def fun_eq_iff)

context sdk_laws
begin

lemma subtract_withdrawal_Ok: "subtract_withdrawal S p lu left n e = Ok q \<longleftrightarrow>
    lu \<le> poolUnits p \<and> n \<le> nativeAssetBalance p \<and> e \<le> externalAssetBalance p \<and>
    poolUnits p - lu + left < 2 ^ 256 \<and>
    q = p\<lparr>poolUnits := poolUnits p - lu + left, nativeAssetBalance := nativeAssetBalance p - n,
      externalAssetBalance := externalAssetBalance p - e\<rparr>"
  by (auto simp: subtract_withdrawal_def result_inv uint_Ok)

text \<open>What the two removals have in common: a stake \<open>lu\<close> in the pool becomes \<open>left\<close>.\<close>

lemma removal_units:
  assumes rm: "RemoveLiquidity S q ec nc l1 left eb nb s = (Ok (), t)"
    and inv: "units_inv s" and p: "kv_get (pools s) (pool_key a) = Some p"
    and q: "externalAsset q = externalAsset p" "poolUnits q = poolUnits p - liquidityProviderUnits l0 + left"
      "liquidityProviderUnits l0 \<le> poolUnits p"
    and l0: "kv_get (providers s) (lp_key l1) = Some l0" "same_stake l0 l1" "lp_asset l1 = a"
    and canon: "acc_from_bech32 S (liquidityProviderAddress l1) = Some addr"
  shows "units_inv t"
proof -
  have wf: "pools_wf s" "providers_wf s" "issued s = held s" using inv by (simp_all add: units_inv_def)
  have pa: "externalAsset p = a" using pool_at [OF wf(1) p] by (auto intro: Asset_eqI)
  have qa: "lp_asset l1 = externalAsset q" using pa q l0 by simp
  obtain b where t: "t = s\<lparr>bank := b, pools := kv_put (pool_key (externalAsset q)) q (pools s),
      providers := with_stake l1 left (providers s)\<rparr>"
    using RemoveLiquidity_Ok [OF rm canon qa] by blast
  have sep: "CHR ''_'' \<notin> set (liquidityProviderAddress l1)"
    using wf(2) l0 unfolding providers_wf_def same_stake_def by metis
  have h: "holding s (lp_key l1) = liquidityProviderUnits l0" using l0 by (simp add: holding_def)
  have "held (s\<lparr>providers := with_stake l1 left (providers s)\<rparr>) = (held s)(a := held s a - liquidityProviderUnits l0 + left)"
    using held_del [OF wf(2) sep, of "Symbol a"] held_put [OF wf(2), of "l1\<lparr>liquidityProviderUnits := left\<rparr>"] sep h l0
    by (auto simp: with_stake_def)
  moreover have "held t = held (s\<lparr>providers := with_stake l1 left (providers s)\<rparr>)"
    using t by (simp add: held_def)
  moreover have "issued t = (issued s)(a := poolUnits q)"
    using issued_put [OF wf(1), of q] t q pa by (simp add: issued_def fun_eq_iff)
  moreover have "issued s a = poolUnits p" using p pa by (simp add: issued_def)
  ultimately have "issued t = held t" using wf(3) q by (auto simp: fun_eq_iff)
  moreover have "pools_wf t" using pools_wf_put [OF wf(1), of q] t by (simp add: pools_wf_def)
  moreover have "providers_wf (s\<lparr>providers := with_stake l1 left (providers s)\<rparr>)"
    using providers_wf_del [OF wf(2)] providers_wf_put [OF wf(2), of "l1\<lparr>liquidityProviderUnits := left\<rparr>"] sep
    by (auto simp: with_stake_def)
  then have "providers_wf t" using t by (simp add: providers_wf_def)
  ultimately show ?thesis by (simp add: units_inv_def)
qed

end

context sdk_laws
begin

lemma stored_relocks:
  assumes "providers_wf s" "kv_get (providers s) (GetLiquidityProviderKey d signer) = Some l"
    "CHR ''_'' \<notin> set signer"
  shows "lp_asset l = Asset d" "liquidityProviderAddress l = signer" "relocks l s s"
proof -
  note l = provider_at [OF assms]
  show "lp_asset l = Asset d" "liquidityProviderAddress l = signer" by (fact l)+
  show "relocks l s s"
    by (rule relocks_refl [OF assms(1), of _ l]) (use assms(2) l in \<open>simp_all add: same_stake_def\<close>)
qed

lemma relocks_units: "relocks l s t \<Longrightarrow> units_inv s \<Longrightarrow> units_inv t \<and> pools t = pools s"
  by (auto simp: relocks_def units_inv_def)

lemma msg_RemoveLiquidityUnits_units:
  assumes h: "msg_RemoveLiquidityUnits S signer a wu s = (Ok (), t)" and inv: "units_inv s"
    and canon: "acc_from_bech32 S signer = Some signer"
  shows "units_inv t"
proof -
  from h obtain p l l1 t1 rs t2 n e left ec nc q nd ed where
    p: "kv_get (pools s) (pool_key a) = Some p"
    and l: "kv_get (providers s) (GetLiquidityProviderKey (Symbol a) signer) = Some l"
    and pr: "prune_provider S l s = (Ok l1, t1)"
    and w: "CalculateWithdrawalFromUnits S (poolUnits p) nd ed (liquidityProviderUnits l1) wu = Ok (n, e, left)"
    and use: "UseUnlockedLiquidity S l1 (liquidityProviderUnits l1 - left) False t1 = (Ok rs, t2)"
    and q: "subtract_withdrawal S p (liquidityProviderUnits l1) left n e = Ok q"
    and rm: "RemoveLiquidity S q ec nc (l1\<lparr>unlocks := rs\<rparr>) left ed nd t2 = (Ok (), t)"
    unfolding msg_RemoveLiquidityUnits_def Let_def
    by (simp only: result_inv uint_Ok) (auto dest!: check_health_Ok)
  have wf: "providers_wf s" using inv by (simp add: units_inv_def)
  note st = stored_relocks [OF wf l bech32_chars [OF canon]]
  note st1 = prune_provider_relocks [OF pr st(3)]
  have r2: "relocks l s t2" using UseUnlockedLiquidity_relocks [OF use] st1 by blast
  then obtain l0 where l0: "kv_get (providers t2) (lp_key l) = Some l0" "same_stake l l0"
    unfolding relocks_def by blast
  have inv2: "units_inv t2" "pools t2 = pools s" using relocks_units [OF r2 inv] by auto
  show ?thesis
    by (rule removal_units [OF rm inv2(1), of a p l0 signer])
      (use p inv2(2) q l0 st st1 canon in \<open>auto simp: subtract_withdrawal_Ok same_stake_def intro: Asset_eqI\<close>)
qed

lemma msg_RemoveLiquidity_units:
  assumes h: "msg_RemoveLiquidity S msg s = (Ok (), t)" and inv: "units_inv s"
    and canon: "acc_from_bech32 S (removeSigner msg) = Some (removeSigner msg)"
  shows "units_inv t"
proof -
  define a where "a = removeExternalAsset msg"
  define signer where "signer = removeSigner msg"
  from h obtain p l l1 t1 rs t2 n e left sw ec nc q nd ed where
    p: "kv_get (pools s) (pool_key a) = Some p"
    and l: "kv_get (providers s) (GetLiquidityProviderKey (Symbol a) signer) = Some l"
    and pr: "prune_provider S l s = (Ok l1, t1)"
    and w: "CalculateWithdrawal S (poolUnits p) nd ed (liquidityProviderUnits l1) (wBasisPoints msg) 0 = Ok (n, e, left, sw)"
    and use: "UseUnlockedLiquidity S l1 (liquidityProviderUnits l1 - left) False t1 = (Ok rs, t2)"
    and q: "subtract_withdrawal S p (liquidityProviderUnits l1) left n e = Ok q"
    and rm: "RemoveLiquidity S q ec nc (l1\<lparr>unlocks := rs\<rparr>) left ed nd t2 = (Ok (), t)"
    unfolding msg_RemoveLiquidity_def Let_def a_def signer_def
    by (simp only: result_inv uint_Ok) (auto simp: adjust_symmetric dest!: check_health_Ok)
  have wf: "providers_wf s" using inv by (simp add: units_inv_def)
  have c: "acc_from_bech32 S signer = Some signer" using canon by (simp add: signer_def)
  note st = stored_relocks [OF wf l bech32_chars [OF c]]
  note st1 = prune_provider_relocks [OF pr st(3)]
  have r2: "relocks l s t2" using UseUnlockedLiquidity_relocks [OF use] st1 by blast
  then obtain l0 where l0: "kv_get (providers t2) (lp_key l) = Some l0" "same_stake l l0"
    unfolding relocks_def by blast
  have inv2: "units_inv t2" "pools t2 = pools s" using relocks_units [OF r2 inv] by auto
  show ?thesis
    by (rule removal_units [OF rm inv2(1), of a p l0 signer])
      (use p inv2(2) q l0 st st1 c in \<open>auto simp: subtract_withdrawal_Ok same_stake_def intro: Asset_eqI\<close>)
qed

lemma AddLiquidity_units:
  assumes add: "AddLiquidity S signer a n e p (poolUnits p + lu) lu s = (Ok l, t)" and inv: "units_inv s"
    and p: "kv_get (pools s) (pool_key a) = Some p" and canon: "acc_from_bech32 S signer = Some signer"
  shows "units_inv t"
proof -
  have wf: "pools_wf s" "providers_wf s" "issued s = held s" using inv by (simp_all add: units_inv_def)
  have pa: "externalAsset p = a" using pool_at [OF wf(1) p] by (auto intro: Asset_eqI)
  let ?q = "p\<lparr>poolUnits := poolUnits p + lu, nativeAssetBalance := nativeAssetBalance p + n,
        externalAssetBalance := externalAssetBalance p + e\<rparr>"
  obtain b where l: "lp_asset l = a" "liquidityProviderAddress l = signer"
      "liquidityProviderUnits l = holding s (lp_key l) + lu"
    and t: "t = s\<lparr>bank := b, pools := kv_put (pool_key a) ?q (pools s), providers := kv_put (lp_key l) l (providers s)\<rparr>"
    using AddLiquidity_Ok [of signer p n e "poolUnits p + lu" lu s l t] add canon wf(2) pa by auto
  have sep: "CHR ''_'' \<notin> set (liquidityProviderAddress l)" using bech32_chars [OF canon] l by simp
  have "holding s (lp_key l) \<le> held s a"
    using holding_le [OF wf(2) sep, of "Symbol (lp_asset l)"] l by simp
  then have "held (s\<lparr>providers := kv_put (lp_key l) l (providers s)\<rparr>) = (held s)(a := held s a + lu)"
    using held_put [OF wf(2) sep] l by auto
  moreover have "issued (s\<lparr>pools := kv_put (pool_key a) ?q (pools s)\<rparr>) = (issued s)(a := issued s a + lu)"
    using issued_put [OF wf(1), of ?q] p pa by (simp add: issued_def)
  ultimately have "issued t = held t" using wf(3) t by (simp add: issued_def held_def fun_eq_iff)
  moreover have "pools_wf t" using pools_wf_put [OF wf(1), of ?q] pa t by (simp add: pools_wf_def)
  moreover have "providers_wf t" using providers_wf_put [OF wf(2) sep] t by (simp add: providers_wf_def)
  ultimately show ?thesis by (simp add: units_inv_def)
qed


text \<open>A deposit into a pool with depth on both sides adds the units it gives out.\<close>

lemma pool_units_sum:
  assumes "CalculatePoolUnits S P R A r a sell buy rate = Ok (pu, lu, st, sw)" and "0 < R" and "0 < A"
  shows "pu = P + lu"
proof -
  have sym: "x = P + y" if "CalculatePoolUnitsSymmetric S X n P = Ok (x, y)" for X n x y
    using that by (auto simp: CalculatePoolUnitsSymmetric_def result_inv uint_Ok)
  have "GetLiquidityAddSymmetryState A a R r \<noteq> ErrorEmptyPool"
    using assms(2,3) by (intro symmetry_nonempty) auto
  then show ?thesis
    using assms(1)
    by (cases "GetLiquidityAddSymmetryState A a R r")
      (auto simp: CalculatePoolUnits_def Let_def result_inv dest!: sym)
qed

lemma ExtractDebt_native:
  "ExtractDebt S p (nativeAssetBalance p) (externalAssetBalance p) False = Ok (nd, ed) \<Longrightarrow>
     nd = nativeAssetBalance p + nativeLiabilities p \<and> ed = externalAssetBalance p + externalLiabilities p"
  by (drule ExtractDebt_Ok) simp

end

lemma units_inv_cong: "pools t = pools s \<Longrightarrow> providers t = providers s \<Longrightarrow> units_inv t = units_inv s"
  by (simp add: units_inv_def pools_wf_def providers_wf_def issued_def held_def fun_eq_iff)

text \<open>Both sides of the pool of an asset have depth.\<close>

definition deep :: "Asset \<Rightarrow> 's clp_state_scheme \<Rightarrow> bool" where
  "deep a s \<longleftrightarrow> (case kv_get (pools s) (pool_key a) of None \<Rightarrow> True | Some p \<Rightarrow>
     0 < nativeAssetBalance p + nativeLiabilities p \<and> 0 < externalAssetBalance p + externalLiabilities p)"

context sdk_laws
begin

lemma msg_AddLiquidity_quote:
  assumes h: "msg_AddLiquidity S signer a n e s = (Ok (), t)" and q: "removalQueues s = []"
    and deep: "deep a s" and canon: "acc_from_bech32 S signer = Some signer"
    and wf: "pools_wf s" "providers_wf s"
  shows "\<exists>p nd ed lu st sw l s1. kv_get (pools s) (pool_key a) = Some p \<and>
    ExtractDebt S p (nativeAssetBalance p) (externalAssetBalance p) False = Ok (nd, ed) \<and>
    CalculatePoolUnits S (poolUnits p) nd ed n e (GetSwapFeeRate GetSettlementAsset False s) (GetSwapFeeRate a False s)
      (pmtpCurrentRunningRate (GetPmtpRateParams s)) = Ok (poolUnits p + lu, lu, st, sw) \<and>
    pools s1 = pools s \<and> providers s1 = providers s \<and>
    bank s1 = bank s \<and> removalQueues s1 = removalQueues s \<and> removalRequests s1 = removalRequests s \<and>
    AddLiquidity S signer a n e p (poolUnits p + lu) lu s1 = (Ok l, t)"
proof -
  let ?sell = "GetSwapFeeRate GetSettlementAsset False s" and ?buy = "GetSwapFeeRate a False s"
    and ?rate = "pmtpCurrentRunningRate (GetPmtpRateParams s)"
  from h obtain p nd ed pu lu st sw na ea s1 u l where
    p: "kv_get (pools s) (pool_key a) = Some p"
    and d: "ExtractDebt S p (nativeAssetBalance p) (externalAssetBalance p) False = Ok (nd, ed)"
    and cu: "CalculatePoolUnits S (poolUnits p) nd ed n e ?sell ?buy ?rate = Ok (pu, lu, st, sw)"
    and cs: "check_swap_status S st sw na ea nd ed ?sell ?buy ?rate s = (Ok (), s1)"
    and add: "AddLiquidity S signer a n e p pu lu s1 = (Ok l, u)"
    and tail: "(if \<not> IsPoolEnabled (Symbol a) u \<or> \<not> enableRemovalQueue u then ret ()
      else bindM (gets (GetRemovalQueue (Symbol a))) (\<lambda>queue.
        if 0 < queueCount queue then ProcessRemovalQueue S a pu else ret ())) u = (Ok (), t)"
    unfolding msg_AddLiquidity_def
    by (simp only: result_inv) (auto simp: if_Ok_iff)
  have fr: "pools s1 = pools s" "providers s1 = providers s" "bank s1 = bank s" "removalQueues s1 = removalQueues s"
    "removalRequests s1 = removalRequests s"
    by (rule preservesD [OF check_swap_status_preserves cs]; simp)+
  have pu: "pu = poolUnits p + lu"
    using pool_units_sum [OF cu] ExtractDebt_native [OF d] deep p by (simp add: deep_def)
  have "providers_wf s1" using wf fr by (simp add: providers_wf_def)
  moreover have "externalAsset p = a" using pool_at [OF wf(1) p] by (auto intro: Asset_eqI)
  ultimately have "removalQueues u = []"
    using AddLiquidity_Ok [of signer p n e pu lu s1 l u] add canon fr q by auto
  then have "u = t"
    using tail by (auto simp: result_inv GetRemovalQueue_def)
  then show ?thesis using p d cu fr add pu by blast
qed

lemma msg_AddLiquidity_Ok:
  assumes h: "msg_AddLiquidity S signer a n e s = (Ok (), t)" and q: "removalQueues s = []"
    and deep: "deep a s" and canon: "acc_from_bech32 S signer = Some signer"
    and wf: "pools_wf s" "providers_wf s"
  shows "\<exists>p lu l s1. kv_get (pools s) (pool_key a) = Some p \<and> pools s1 = pools s \<and> providers s1 = providers s \<and>
    bank s1 = bank s \<and> removalQueues s1 = removalQueues s \<and> removalRequests s1 = removalRequests s \<and>
    AddLiquidity S signer a n e p (poolUnits p + lu) lu s1 = (Ok l, t)"
  using msg_AddLiquidity_quote [OF assms] by blast

end

text \<open>What a swap moves: the coins sent come in, one or two pools are rewritten, the result goes out.\<close>

context sdk_laws
begin

lemma single_coin:
  assumes "new_coin S d i = Ok c" "new_coins S [c] = Ok cs" "int_of_uint S n = Some i"
  shows "amount_of cs = two_amounts d n d 0"
proof (rule ext)
  fix x
  have "c = (d, n)" using new_coin [OF assms(1)] int_of_uint [OF assms(3)] by auto
  then show "amount_of cs x = two_amounts d n d 0 x"
    using new_coins [OF assms(2), of x] by (auto simp: two_amounts_def)
qed

lemma InitiateSwap_Ok:
  assumes "InitiateSwap S c addr s = (Ok (), t)" "new_coin S d i = Ok c" "int_of_uint S n = Some i"
  shows "\<exists>b cs. send_acc_to_mod S addr ModuleName cs (bank s) = Ok b \<and> amount_of cs = two_amounts d n d 0 \<and>
    t = s\<lparr>bank := b\<rparr>"
  using assms unfolding InitiateSwap_def send_defs
  by (simp only: result_inv op_inv) (blast dest: single_coin)

lemma FinalizeSwap_Ok:
  assumes "FinalizeSwap S n q signer recv s = (Ok (), t)"
  shows "\<exists>b cs addr. acc_from_bech32 S signer = Some addr \<and>
    send_mod_to_acc S ModuleName addr cs (bank s) = Ok b \<and> amount_of cs = two_amounts (Symbol recv) n (Symbol recv) 0 \<and>
    Asset_Validate S (externalAsset q) = Ok True \<and>
    t = s\<lparr>pools := kv_put (pool_key (externalAsset q)) q (pools s), bank := b\<rparr>"
  using assms unfolding FinalizeSwap_def send_defs
  by (simp only: result_inv op_inv) (clarsimp, blast dest: single_coin)

lemma msg_Swap_Ok:
  assumes h: "msg_Swap S signer sent recv x mn s = (Ok (y, tf, imp), t)"
    and canon: "acc_from_bech32 S signer = Some addr"
  defines "rate \<equiv> pmtpCurrentRunningRate (pmtpRateParams s)" and "fee \<equiv> GetSwapFeeRate sent False s"
    and "inPool \<equiv> (if sent = GetSettlementAsset then None else kv_get (pools s) (pool_key sent))"
    and "outKey \<equiv> pool_key (if recv = GetSettlementAsset then sent else recv)"
  shows "\<exists>cs b1 x2 lf im u p q f ts b2 cs' c. (sent \<noteq> GetSettlementAsset \<longrightarrow> inPool \<noteq> None) \<and>
    send_acc_to_mod S addr ModuleName cs (bank s) = Ok b1 \<and> amount_of cs = two_amounts (Symbol sent) x (Symbol sent) 0 \<and>
    first_leg S inPool recv x rate fee (s\<lparr>bank := b1\<rparr>) = (Ok (x2, lf, im), u) \<and>
    kv_get (pools u) outKey = Some p \<and> SwapOne S x2 recv p rate fee = Ok (y, f, ts, q) \<and> mn \<le> y \<and>
    send_mod_to_acc S ModuleName addr cs' (bank u) = Ok b2 \<and> amount_of cs' = two_amounts (Symbol recv) y (Symbol recv) 0 \<and>
    t = u\<lparr>pools := kv_put (pool_key (externalAsset q)) q (pools u), bank := b2, currentFuryLiquidityThreshold := c\<rparr>"
proof -
  from h canon obtain sa ra price active i c s1 x2 lf im u p q f ts u2 where
    inp: "sent \<noteq> GetSettlementAsset \<longrightarrow> inPool \<noteq> None"
    and c: "int_of_uint S x = Some i" "new_coin S (Symbol sent) i = Ok c" "InitiateSwap S c addr s = (Ok (), s1)"
    and leg: "first_leg S inPool recv x rate fee s1 = (Ok (x2, lf, im), u)"
    and out: "kv_get (pools u) outKey = Some p"
    and sw: "SwapOne S x2 recv p rate fee = Ok (y, f, ts, q)"
    and mn: "mn \<le> y"
    and fin: "FinalizeSwap S y q signer recv u = (Ok (), u2)"
    and prot: "protect_swap S active sa ra x fee y price u2 = (Ok (), t)"
    unfolding msg_Swap_def rate_def fee_def inPool_def outKey_def
    by (simp only: result_inv) (clarsimp simp: GetPmtpRateParams_def not_less cong: if_cong)
  from InitiateSwap_Ok [OF c(3,2,1)] obtain b1 cs where i: "send_acc_to_mod S addr ModuleName cs (bank s) = Ok b1"
      "amount_of cs = two_amounts (Symbol sent) x (Symbol sent) 0" "s1 = s\<lparr>bank := b1\<rparr>" by blast
  from FinalizeSwap_Ok [OF fin] canon obtain b2 cs' where o: "send_mod_to_acc S ModuleName addr cs' (bank u) = Ok b2"
      "amount_of cs' = two_amounts (Symbol recv) y (Symbol recv) 0"
      "u2 = u\<lparr>pools := kv_put (pool_key (externalAsset q)) q (pools u), bank := b2\<rparr>" by auto
  from protect_swap_Ok [OF prot] obtain d where "t = u2\<lparr>currentFuryLiquidityThreshold := d\<rparr>" by blast
  then show ?thesis using i o leg out sw mn inp by blast
qed

end

section \<open>The other messages\<close>

lemma units_inv_put:
  assumes inv: "units_inv s" and p: "kv_get (pools s) (pool_key (externalAsset q)) = Some p"
    and q: "poolUnits q = poolUnits p"
  shows "units_inv (s\<lparr>pools := kv_put (pool_key (externalAsset q)) q (pools s)\<rparr>)"
proof -
  have wf: "pools_wf s" "providers_wf s" "issued s = held s" using inv by (simp_all add: units_inv_def)
  have "issued s (externalAsset q) = poolUnits q" using p q by (simp add: issued_def)
  then have "issued (s\<lparr>pools := kv_put (pool_key (externalAsset q)) q (pools s)\<rparr>) = issued s"
    using issued_put [OF wf(1), of q] by (simp add: fun_upd_idem)
  then show ?thesis using wf pools_wf_put [OF wf(1), of q] by (simp add: units_inv_def)
qed

lemma units_inv_frame [simp]:
  "units_inv (s\<lparr>bank := b\<rparr>) = units_inv s"
  "units_inv (s\<lparr>currentFuryLiquidityThreshold := c\<rparr>) = units_inv s"
  by (rule units_inv_cong; simp)+

context sdk_laws
begin

lemma SwapOne_frame:
  assumes "SwapOne S x to p rate fee = Ok (y, f, impact, q)"
  shows "externalAsset q = externalAsset p \<and> poolUnits q = poolUnits p"
  using SwapOne_Ok [OF assms] by auto

lemma stored_asset: "pools_wf s \<Longrightarrow> kv_get (pools s) (pool_key a) = Some p \<Longrightarrow> externalAsset p = a"
  using pool_at [of s "Symbol a" NativeSymbol p] by simp

lemma swap_put_units:
  assumes "SwapOne S x to p rate fee = Ok (y, f, impact, q)" "kv_get (pools s) (pool_key a) = Some p" "units_inv s"
  shows "units_inv (s\<lparr>pools := kv_put (pool_key (externalAsset q)) q (pools s)\<rparr>)"
proof -
  have "externalAsset p = a" using assms(2,3) by (auto simp: units_inv_def intro: stored_asset)
  then show ?thesis
    using assms(2,3) SwapOne_frame [OF assms(1)] by (intro units_inv_put [of s q p]) auto
qed

lemma msg_Swap_units:
  assumes h: "msg_Swap S signer sent recv x mn s = (Ok (y, tf, imp), t)" and inv: "units_inv s"
    and canon: "acc_from_bech32 S signer = Some addr"
  shows "units_inv t"
proof -
  let ?rate = "pmtpCurrentRunningRate (pmtpRateParams s)" and ?fee = "GetSwapFeeRate sent False s"
  obtain inPool b1 x2 lf im u p q f ts b2 c k where
    inp: "inPool = (if sent = GetSettlementAsset then None else kv_get (pools s) (pool_key sent))"
    and leg: "first_leg S inPool recv x ?rate ?fee (s\<lparr>bank := b1\<rparr>) = (Ok (x2, lf, im), u)"
    and k: "kv_get (pools u) (pool_key k) = Some p"
    and sw: "SwapOne S x2 recv p ?rate ?fee = Ok (y, f, ts, q)"
    and t: "t = u\<lparr>pools := kv_put (pool_key (externalAsset q)) q (pools u), bank := b2, currentFuryLiquidityThreshold := c\<rparr>"
    using msg_Swap_Ok [OF h canon] by blast
  have "units_inv u"
    using leg unfolding first_leg_Ok SetPool_Ok
  proof (elim disjE exE conjE)
    fix p1 q1
    assume *: "inPool = Some p1" "SwapOne S x GetSettlementAsset p1 ?rate ?fee = Ok (x2, lf, im, q1)"
      "u = s\<lparr>bank := b1\<rparr>\<lparr>pools := kv_put (pool_key (externalAsset q1)) q1 (pools (s\<lparr>bank := b1\<rparr>))\<rparr>"
    have "kv_get (pools (s\<lparr>bank := b1\<rparr>)) (pool_key sent) = Some p1"
      using *(1) inp by (simp split: if_splits)
    then show ?thesis using swap_put_units [OF *(2), of "s\<lparr>bank := b1\<rparr>"] inv *(3) by simp
  qed (simp_all add: inv)
  then show ?thesis using swap_put_units [OF sw k] t by simp
qed

lemma msg_AddLiquidity_units:
  assumes h: "msg_AddLiquidity S signer a n e s = (Ok (), t)" and q: "removalQueues s = []"
    and deep: "deep a s" and canon: "acc_from_bech32 S signer = Some signer" and inv: "units_inv s"
  shows "units_inv t"
proof -
  have wf: "pools_wf s" "providers_wf s" using inv by (simp_all add: units_inv_def)
  obtain p lu l s1 where p: "kv_get (pools s) (pool_key a) = Some p" and fr: "pools s1 = pools s" "providers s1 = providers s"
    and add: "AddLiquidity S signer a n e p (poolUnits p + lu) lu s1 = (Ok l, t)"
    using msg_AddLiquidity_Ok [OF h q deep canon wf] by blast
  have "units_inv s1" using inv units_inv_cong [OF fr] by simp
  then show ?thesis using AddLiquidity_units [OF add _ _ canon] p fr by simp
qed

lemma msg_CreatePool_Ok:
  assumes h: "msg_CreatePool S signer a n e s = (Ok (), t)" and canon: "acc_from_bech32 S signer = Some addr"
  shows "\<exists>b cs. kv_get (pools s) (pool_key a) = None \<and> PoolThrehold \<le> n \<and> 0 < e \<and>
    send_acc_to_mod S addr ModuleName cs (bank s) = Ok b \<and> amount_of cs = two_amounts (Symbol a) e NativeSymbol n \<and>
    t = s\<lparr>bank := b, pools := kv_put (pool_key a) (NewPool a n e n) (pools s),
      providers := kv_put (lp_key (NewLiquidityProvider a n addr)) (NewLiquidityProvider a n addr) (providers s)\<rparr>"
proof -
  let ?l = "NewLiquidityProvider a n addr"
  from h canon obtain sell buy rate pu lu st sw p u where
    new: "kv_get (pools s) (pool_key a) = None" "PoolThrehold \<le> n"
    and cu: "CalculatePoolUnits S 0 0 0 n e sell buy rate = Ok (pu, lu, st, sw)"
    and cp: "CreatePool S pu signer a n e s = (Ok p, u)"
    and lp: "SetLiquidityProvider S (NewLiquidityProvider a lu addr) u = (Ok (), t)"
    unfolding msg_CreatePool_def
    by (simp only: result_inv op_inv) (auto simp: ExistsPool_def not_less)
  have un: "pu = n" "lu = n" "0 < e"
    using cu by (auto simp: CalculatePoolUnits_def GetLiquidityAddSymmetryState_def split: if_splits)
  obtain b cs where b: "send_acc_to_mod S addr ModuleName cs (bank s) = Ok b"
      "amount_of cs = two_amounts (Symbol a) e NativeSymbol n" and v: "Asset_Validate S a = Ok True"
      and u: "u = s\<lparr>bank := b, pools := kv_put (pool_key a) (NewPool a n e n) (pools s)\<rparr>"
    using CreatePool_Ok [OF cp] canon un by auto
  have "t = u\<lparr>providers := kv_put (lp_key ?l) ?l (providers u)\<rparr>"
    using lp v un by (auto simp: SetLiquidityProvider_Ok NewLiquidityProvider_def)
  then show ?thesis using new b u un by auto
qed

lemma msg_CreatePool_units:
  assumes h: "msg_CreatePool S signer a n e s = (Ok (), t)" and inv: "units_inv s"
    and canon: "acc_from_bech32 S signer = Some addr"
  shows "units_inv t"
proof -
  let ?l = "NewLiquidityProvider a n addr" and ?p = "NewPool a n e n"
  have wf: "pools_wf s" "providers_wf s" "issued s = held s" using inv by (simp_all add: units_inv_def)
  obtain b where new: "kv_get (pools s) (pool_key a) = None"
    and t: "t = s\<lparr>bank := b, pools := kv_put (pool_key a) ?p (pools s), providers := kv_put (lp_key ?l) ?l (providers s)\<rparr>"
    using msg_CreatePool_Ok [OF h canon] by blast
  have l: "lp_asset ?l = a" "liquidityProviderAddress ?l = addr" "liquidityProviderUnits ?l = n"
    and p: "externalAsset ?p = a" "poolUnits ?p = n" by (simp_all add: NewLiquidityProvider_def NewPool_def)
  have sep: "CHR ''_'' \<notin> set (liquidityProviderAddress ?l)" using bech32_chars [OF canon] l by simp
  have zero: "held s a = 0" using wf(3) new by (metis issued_def option.case(1))
  have "holding s (lp_key ?l) \<le> held s a"
    using holding_le [OF wf(2) sep, of "Symbol (lp_asset ?l)"] l by simp
  then have "held (s\<lparr>providers := kv_put (lp_key ?l) ?l (providers s)\<rparr>) = (held s)(a := n)"
    using held_put [OF wf(2) sep] l zero by simp
  moreover have "issued (s\<lparr>pools := kv_put (pool_key a) ?p (pools s)\<rparr>) = (issued s)(a := n)"
    using issued_put [OF wf(1), of ?p] p by simp
  ultimately have "issued t = held t" using wf(3) t by (simp add: issued_def held_def fun_eq_iff)
  moreover have "pools_wf t" using pools_wf_put [OF wf(1), of ?p] p t by (simp add: pools_wf_def)
  moreover have "providers_wf t" using providers_wf_put [OF wf(2) sep] t by (simp add: providers_wf_def)
  ultimately show ?thesis by (simp add: units_inv_def)
qed

lemma unlock_units:
  assumes r: "relocks l s t" and inv: "units_inv s" and l': "same_stake l l'"
    and set': "SetLiquidityProvider S l' t = (Ok (), u)"
  shows "units_inv u"
  using relocks_units [OF relocks_set [OF r l' set'] inv] by simp

lemma msg_UnlockLiquidity_units:
  assumes h: "msg_UnlockLiquidity S signer a n s = (Ok (), t)" and inv: "units_inv s"
    and canon: "acc_from_bech32 S signer = Some signer"
  shows "units_inv t"
proof -
  have wf: "providers_wf s" using inv by (simp add: units_inv_def)
  from h obtain l l1 u r where l: "kv_get (providers s) (GetLiquidityProviderKey (Symbol a) signer) = Some l"
    and pr: "prune_provider S l s = (Ok l1, u)"
    and st: "SetLiquidityProvider S (l1\<lparr>unlocks := unlocks l1 @ [r]\<rparr>) u = (Ok (), t)"
    unfolding msg_UnlockLiquidity_def by (simp only: result_inv) blast
  note pr' = prune_provider_relocks [OF pr stored_relocks(3) [OF wf l bech32_chars [OF canon]]]
  show ?thesis
    by (rule unlock_units [OF conjunct2 [OF pr'] inv _ st]) (use pr' in \<open>simp add: same_stake_def\<close>)
qed

lemma msg_CancelUnlockLiquidity_units:
  assumes h: "msg_CancelUnlockLiquidity S signer a n s = (Ok (), t)" and inv: "units_inv s"
    and canon: "acc_from_bech32 S signer = Some signer"
  shows "units_inv t"
proof -
  have wf: "providers_wf s" using inv by (simp add: units_inv_def)
  from h obtain l l1 u rs where l: "kv_get (providers s) (GetLiquidityProviderKey (Symbol a) signer) = Some l"
    and pr: "prune_provider S l s = (Ok l1, u)" and us: "UseUnlockedLiquidity S l1 n True u = (Ok rs, t)"
    unfolding msg_CancelUnlockLiquidity_def by (simp only: result_inv) blast
  note pr' = prune_provider_relocks [OF pr stored_relocks(3) [OF wf l bech32_chars [OF canon]]]
  show ?thesis
    using relocks_units [OF UseUnlockedLiquidity_relocks [OF us] inv] pr' by blast
qed

end

text \<open>Closing a pool takes the record of every provider on the page out of the store.\<close>

definition drop_providers :: "LiquidityProvider list \<Rightarrow> LiquidityProvider kv \<Rightarrow> LiquidityProvider kv" where
  "drop_providers ls m = fold (\<lambda>l. kv_del (lp_key l)) ls m"

lemma drop_providers_wf: "kv_wf m \<Longrightarrow> kv_wf (drop_providers ls m)"
  by (induction ls arbitrary: m) (auto simp: drop_providers_def)

lemma drop_providers_get: "kv_wf m \<Longrightarrow>
    kv_get (drop_providers ls m) k = (if k \<in> lp_key ` set ls then None else kv_get m k)"
  by (induction ls arbitrary: m) (auto simp: drop_providers_def)

lemma drop_providers_held:
  assumes wf: "providers_wf s" and ls: "set ls = {l \<in> set (kv_values (providers s)). lp_asset l = a}"
  shows "held_in (drop_providers ls (providers s)) = (held s)(a := 0)"
proof (rule ext)
  fix b
  let ?m = "providers s" and ?f = "\<lambda>l. if lp_asset l = b then liquidityProviderUnits l else 0"
  let ?n = "drop_providers ls (providers s)"
  have kw: "kv_wf ?m" using wf by (simp add: providers_wf_def)
  have key: "k = lp_key l \<and> CHR ''_'' \<notin> set (liquidityProviderAddress l)" if "kv_get ?m k = Some l" for k l
    using wf that by (simp add: providers_wf_def)
  have mem: "l \<in> set ls \<longleftrightarrow> kv_get ?m (lp_key l) = Some l \<and> lp_asset l = a" for l
    using ls kv_values_set [OF kw] key by auto
  have gone: "k \<in> lp_key ` set ls \<longleftrightarrow> lp_asset l = a" if "kv_get ?m k = Some l" for k l
    using mem key [OF that] that by (metis (no_types, lifting) image_iff option.inject)
  have n: "kv_get ?n k = (case kv_get ?m k of None \<Rightarrow> None | Some l \<Rightarrow> if lp_asset l = a then None else Some l)" for k
  proof (cases "kv_get ?m k")
    case None
    then show ?thesis using drop_providers_get [OF kw, of ls k] by simp
  next
    case (Some l)
    then show ?thesis using drop_providers_get [OF kw, of ls k] gone [OF Some] by simp
  qed
  have dom: "dom (kv_get ?n) = {k \<in> dom (kv_get ?m). lp_asset (the (kv_get ?m k)) \<noteq> a}"
    using n by (auto split: option.splits if_splits)
  have fin: "finite (dom (kv_get ?m))" by (rule kv.finite_dom [OF kw])
  have "held_in ?n b = (\<Sum>k\<in>dom (kv_get ?n). ?f (the (kv_get ?n k)))"
    unfolding held_in_def by (rule kv.total_dom [OF drop_providers_wf [OF kw]])
  also have "\<dots> = (\<Sum>k\<in>dom (kv_get ?n). ?f (the (kv_get ?m k)))"
    by (rule sum.cong) (use n in \<open>auto split: option.splits if_splits\<close>)
  also have "\<dots> = (\<Sum>k\<in>dom (kv_get ?m). if b = a then 0 else ?f (the (kv_get ?m k)))"
    unfolding dom by (rule sum.mono_neutral_cong_left [OF fin]) auto
  also have "\<dots> = ((held s)(a := 0)) b"
    by (simp add: held_def held_in_def kv.total_dom [OF kw])
  finally show "held_in ?n b = ((held s)(a := 0)) b" .
qed

text \<open>
  A page of providers holds stored providers of the asset, whatever its limit. The page that
  \<open>DecommissionPool\<close> asks for has a limit of \<open>math.MaxUint64\<close>, for which the SDK promises nothing more;
  \<open>page_complete\<close> says that, in the state at hand, it has every provider of the asset.
\<close>

definition page_complete :: "sdk \<Rightarrow> Asset \<Rightarrow> 's clp_state_scheme \<Rightarrow> bool" where
  "page_complete S a s \<longleftrightarrow> (\<forall>l \<in> set (kv_values (providers s)). lp_asset l = a \<longrightarrow>
     l \<in> set (GetLiquidityProvidersForAssetPaginated S (2 ^ 64 - 1) a s))"

context sdk_laws
begin

lemma page_stored:
  "set (GetLiquidityProvidersForAssetPaginated S limit a s) \<subseteq> {l \<in> set (kv_values (providers s)). lp_asset l = a}"
  unfolding GetLiquidityProvidersForAssetPaginated_def paginate_providers_def Let_def
  using paginate_hits by (fastforce simp: nth_mem)

lemma refund_provider_Ok:
  assumes "refund_provider S p d l acc s = (Ok acc', t)"
  shows "\<exists>b. t = s\<lparr>bank := b, providers := kv_del (lp_key l) (providers s)\<rparr>"
  using assms unfolding refund_provider_def RemoveLiquidityProvider_def send_defs
  by (simp only: result_inv op_inv) auto

lemma refund_all_Ok:
  "foldM (refund_provider S p d) ls acc s = (Ok acc', t) \<Longrightarrow>
     \<exists>b. t = s\<lparr>bank := b, providers := drop_providers ls (providers s)\<rparr>"
proof (induction ls arbitrary: acc s)
  case Nil
  then show ?case by (auto simp: ret_def drop_providers_def intro!: exI [of _ "bank t"])
next
  case (Cons l ls)
  then obtain a u where "refund_provider S p d l acc s = (Ok a, u)" "foldM (refund_provider S p d) ls a u = (Ok acc', t)"
    by (auto simp: result_inv)
  with refund_provider_Ok [OF this(1)] Cons.IH [OF this(2)] show ?case by (auto simp: drop_providers_def)
qed

lemma msg_DecommissionPool_units:
  assumes h: "msg_DecommissionPool S signer d s = (Ok (), t)" and inv: "units_inv s" and page: "page_complete S (Asset d) s"
  shows "units_inv t"
proof -
  have wf: "pools_wf s" "providers_wf s" "issued s = held s" using inv by (simp_all add: units_inv_def)
  define ls where "ls = GetLiquidityProvidersForAssetPaginated S (2 ^ 64 - 1) (Asset d) s"
  from h obtain p ac u where p: "kv_get (pools s) (pool_key (Asset d)) = Some p"
    and f: "foldM (refund_provider S p d) (GetLiquidityProvidersForAssetPaginated S (2 ^ 64 - 1) (externalAsset p) s)
        (poolUnits p, nativeAssetBalance p, externalAssetBalance p) s = (Ok ac, u)"
    and t: "t = u\<lparr>pools := kv_del (GetPoolKey (Symbol (externalAsset p)) NativeSymbol) (pools u)\<rparr>"
    unfolding msg_DecommissionPool_def DecommissionPool_def DestroyPool_def
    by (simp only: result_inv) auto
  have pa: "externalAsset p = Asset d" by (rule stored_asset [OF wf(1) p])
  obtain b where u: "u = s\<lparr>bank := b, providers := drop_providers ls (providers s)\<rparr>"
    using refund_all_Ok [OF f] by (auto simp: pa ls_def)
  have kw: "kv_wf (providers s)" using wf by (simp add: providers_wf_def)
  have ls: "set ls = {l \<in> set (kv_values (providers s)). lp_asset l = Asset d}"
    using page page_stored [of "2 ^ 64 - 1" "Asset d" s] by (auto simp: page_complete_def ls_def)
  have "held t = (held s)(Asset d := 0)"
    using drop_providers_held [OF wf(2) ls] t u by (simp add: held_def)
  moreover have "issued t = (issued s)(Asset d := 0)"
    using issued_del [OF wf(1), of "Asset d"] t u pa by (simp add: issued_def fun_eq_iff)
  moreover have "pools_wf t" using pools_wf_del [OF wf(1)] t u by (simp add: pools_wf_def)
  moreover have "providers_wf t"
    using wf(2) t u drop_providers_wf [OF kw] drop_providers_get [OF kw, of ls]
    by (auto simp: providers_wf_def split: if_splits)
  ultimately show ?thesis using wf(3) by (simp add: units_inv_def)
qed

end

section \<open>The coins of a message\<close>

text \<open>
  What a message does to a pool and to the bank, apart from units: \<open>withdraws\<close> for the removals,
  \<open>deposits\<close> for \<open>AddLiquidity\<close>, each with the coins that move and the balances the pool is left with.
\<close>

definition same_queues :: "'s clp_state_scheme \<Rightarrow> 's clp_state_scheme \<Rightarrow> bool" where
  "same_queues s t \<longleftrightarrow> removalQueues t = removalQueues s \<and> removalRequests t = removalRequests s"

definition withdraws :: "sdk \<Rightarrow> string \<Rightarrow> Asset \<Rightarrow> nat \<Rightarrow> nat \<Rightarrow> 's clp_state_scheme \<Rightarrow> 's clp_state_scheme \<Rightarrow> bool" where
  "withdraws S addr a n e s t \<longleftrightarrow> (\<exists>p u cs. kv_get (pools s) (pool_key a) = Some p \<and>
     n \<le> nativeAssetBalance p \<and> e \<le> externalAssetBalance p \<and>
     n < nativeAssetBalance p + nativeLiabilities p \<and> e < externalAssetBalance p + externalLiabilities p \<and>
     payout S addr cs (bank s) (bank t) \<and> amount_of cs = two_amounts (Symbol a) e NativeSymbol n \<and>
     pools t = kv_put (pool_key a) (p\<lparr>poolUnits := u, nativeAssetBalance := nativeAssetBalance p - n,
       externalAssetBalance := externalAssetBalance p - e\<rparr>) (pools s) \<and> same_queues s t)"

definition deposits :: "sdk \<Rightarrow> string \<Rightarrow> Asset \<Rightarrow> nat \<Rightarrow> nat \<Rightarrow> 's clp_state_scheme \<Rightarrow> 's clp_state_scheme \<Rightarrow> bool" where
  "deposits S addr a n e s t \<longleftrightarrow> (\<exists>p u cs. kv_get (pools s) (pool_key a) = Some p \<and>
     send_acc_to_mod S addr ModuleName cs (bank s) = Ok (bank t) \<and>
     amount_of cs = two_amounts (Symbol a) e NativeSymbol n \<and>
     pools t = kv_put (pool_key a) (p\<lparr>poolUnits := u, nativeAssetBalance := nativeAssetBalance p + n,
       externalAssetBalance := externalAssetBalance p + e\<rparr>) (pools s) \<and> same_queues s t)"

context sdk_laws
begin

text \<open>The withdrawal of a stake: what the two removals do after the amounts are known.\<close>

lemma removal_withdraws:
  assumes rm: "RemoveLiquidity S q ec nc l1 left ed nd s2 = (Ok (), t)"
    and p: "kv_get (pools s) (pool_key a) = Some p" and pa: "externalAsset p = a"
    and d: "ExtractDebt S p (nativeAssetBalance p) (externalAssetBalance p) False = Ok (nd, ed)"
    and q: "subtract_withdrawal S p lu left n e = Ok q"
    and ec: "int_of_uint S e = Some i" "new_coin S (Symbol a) i = Ok ec"
    and nc: "int_of_uint S n = Some j" "new_coin S NativeSymbol j = Ok nc"
    and s2: "s2 = s\<lparr>providers := m\<rparr>"
    and l1: "lp_asset l1 = a" and canon: "acc_from_bech32 S (liquidityProviderAddress l1) = Some addr"
  shows "withdraws S addr a n e s t"
proof -
  have c: "ec = (Symbol a, e)" "nc = (NativeSymbol, n)"
    using new_coin [OF ec(2)] new_coin [OF nc(2)] int_of_uint [OF ec(1)] int_of_uint [OF nc(1)] by auto
  have q': "n \<le> nativeAssetBalance p" "e \<le> externalAssetBalance p"
    "q = p\<lparr>poolUnits := poolUnits p - lu + left, nativeAssetBalance := nativeAssetBalance p - n,
      externalAssetBalance := externalAssetBalance p - e\<rparr>"
    using q by (auto simp: subtract_withdrawal_Ok)
  have "lp_asset l1 = externalAsset q" using q' pa l1 by simp
  from RemoveLiquidity_Ok [OF rm canon this] obtain b cs where
    "payout S addr cs (bank s2) b" "amount_of cs = two_amounts (Symbol a) e NativeSymbol n" "e < ed" "n < nd"
    "t = s2\<lparr>bank := b, pools := kv_put (pool_key a) q (pools s2), providers := with_stake l1 left (providers s2)\<rparr>"
    using c q' pa by auto
  then show ?thesis
    unfolding withdraws_def same_queues_def
    using p q' s2 ExtractDebt_native [OF d] by (intro exI [of _ p] exI [of _ "poolUnits q"] exI [of _ cs]) auto
qed

lemma msg_RemoveLiquidityUnits_withdraws:
  assumes h: "msg_RemoveLiquidityUnits S signer a wu s = (Ok (), t)" and wf: "pools_wf s" "providers_wf s"
    and canon: "acc_from_bech32 S signer = Some signer"
  shows "\<exists>n e. withdraws S signer a n e s t"
proof -
  from h obtain p l l1 t1 rs t2 n e left ec nc q nd ed i j where
    p: "kv_get (pools s) (pool_key a) = Some p"
    and l: "kv_get (providers s) (GetLiquidityProviderKey (Symbol a) signer) = Some l"
    and pr: "prune_provider S l s = (Ok l1, t1)"
    and d: "ExtractDebt S p (nativeAssetBalance p) (externalAssetBalance p) False = Ok (nd, ed)"
    and use: "UseUnlockedLiquidity S l1 (liquidityProviderUnits l1 - left) False t1 = (Ok rs, t2)"
    and ec: "int_of_uint S e = Some i" "new_coin S (Symbol a) i = Ok ec"
    and nc: "int_of_uint S n = Some j" "new_coin S NativeSymbol j = Ok nc"
    and q: "subtract_withdrawal S p (liquidityProviderUnits l1) left n e = Ok q"
    and rm: "RemoveLiquidity S q ec nc (l1\<lparr>unlocks := rs\<rparr>) left ed nd t2 = (Ok (), t)"
    unfolding msg_RemoveLiquidityUnits_def Let_def
    by (simp only: result_inv uint_Ok) (auto dest!: check_health_Ok)
  note st = stored_relocks [OF wf(2) l bech32_chars [OF canon]]
  note st1 = prune_provider_relocks [OF pr st(3)]
  obtain m where m: "t2 = s\<lparr>providers := m\<rparr>" using UseUnlockedLiquidity_relocks [OF use] st1 by (auto simp: relocks_def)
  show ?thesis
    by (intro exI, rule removal_withdraws [OF rm p stored_asset [OF wf(1) p] d q ec nc m])
      (use st st1 canon in \<open>auto simp: same_stake_def intro: Asset_eqI\<close>)
qed

lemma msg_RemoveLiquidity_withdraws:
  assumes h: "msg_RemoveLiquidity S msg s = (Ok (), t)" and wf: "pools_wf s" "providers_wf s"
    and canon: "acc_from_bech32 S (removeSigner msg) = Some (removeSigner msg)"
  shows "\<exists>n e. withdraws S (removeSigner msg) (removeExternalAsset msg) n e s t"
proof -
  define a where "a = removeExternalAsset msg"
  define signer where "signer = removeSigner msg"
  from h obtain p l l1 t1 rs t2 n e left sw ec nc q nd ed i j where
    p: "kv_get (pools s) (pool_key a) = Some p"
    and l: "kv_get (providers s) (GetLiquidityProviderKey (Symbol a) signer) = Some l"
    and pr: "prune_provider S l s = (Ok l1, t1)"
    and d: "ExtractDebt S p (nativeAssetBalance p) (externalAssetBalance p) False = Ok (nd, ed)"
    and use: "UseUnlockedLiquidity S l1 (liquidityProviderUnits l1 - left) False t1 = (Ok rs, t2)"
    and ec: "int_of_uint S e = Some i" "new_coin S (Symbol a) i = Ok ec"
    and nc: "int_of_uint S n = Some j" "new_coin S NativeSymbol j = Ok nc"
    and q: "subtract_withdrawal S p (liquidityProviderUnits l1) left n e = Ok q"
    and rm: "RemoveLiquidity S q ec nc (l1\<lparr>unlocks := rs\<rparr>) left ed nd t2 = (Ok (), t)"
    unfolding msg_RemoveLiquidity_def Let_def a_def signer_def
    by (simp only: result_inv uint_Ok) (auto simp: adjust_symmetric dest!: check_health_Ok)
  have c: "acc_from_bech32 S signer = Some signer" using canon by (simp add: signer_def)
  note st = stored_relocks [OF wf(2) l bech32_chars [OF c]]
  note st1 = prune_provider_relocks [OF pr st(3)]
  obtain m where m: "t2 = s\<lparr>providers := m\<rparr>" using UseUnlockedLiquidity_relocks [OF use] st1 by (auto simp: relocks_def)
  have "withdraws S signer a n e s t"
    by (rule removal_withdraws [OF rm p stored_asset [OF wf(1) p] d q ec nc m])
      (use st st1 c in \<open>auto simp: same_stake_def intro: Asset_eqI\<close>)
  then show ?thesis unfolding a_def signer_def by blast
qed

lemma msg_AddLiquidity_deposits:
  assumes h: "msg_AddLiquidity S signer a n e s = (Ok (), t)" and q: "removalQueues s = []"
    and deep: "deep a s" and canon: "acc_from_bech32 S signer = Some signer"
    and wf: "pools_wf s" "providers_wf s"
  shows "deposits S signer a n e s t"
proof -
  obtain p lu l s1 where p: "kv_get (pools s) (pool_key a) = Some p"
    and fr: "pools s1 = pools s" "providers s1 = providers s" "bank s1 = bank s" "same_queues s s1"
    and add: "AddLiquidity S signer a n e p (poolUnits p + lu) lu s1 = (Ok l, t)"
    using msg_AddLiquidity_Ok [OF h q deep canon wf] unfolding same_queues_def by blast
  have pa: "externalAsset p = a" by (rule stored_asset [OF wf(1) p])
  have "providers_wf s1" using wf fr by (simp add: providers_wf_def)
  then obtain b cs where "send_acc_to_mod S signer ModuleName cs (bank s) = Ok b"
    "amount_of cs = two_amounts (Symbol a) e NativeSymbol n"
    "t = s1\<lparr>bank := b, pools := kv_put (pool_key a) (p\<lparr>poolUnits := poolUnits p + lu,
        nativeAssetBalance := nativeAssetBalance p + n, externalAssetBalance := externalAssetBalance p + e\<rparr>) (pools s),
      providers := kv_put (lp_key l) l (providers s)\<rparr>"
    using AddLiquidity_Ok [of signer p n e "poolUnits p + lu" lu s1 l t] add canon fr pa by auto
  then show ?thesis
    unfolding deposits_def using p fr(4)
    by (intro exI [of _ p] exI [of _ "poolUnits p + lu"] exI [of _ cs]) (auto simp: same_queues_def)
qed
end

end
