(* ===== verification/ClpBlockUnits.thy ===== *)
theory ClpBlockUnits
  imports ClpUnits
begin

text \<open>
  Blocks keep the units: \<open>BeginBlocker\<close>, which writes prices to every pool, and \<open>EndBlocker\<close>,
  which pays providers and adds rewards to pools, write pools back under the units they were read
  with and leave the records of the providers and the removal queues alone, whatever the order in
  which Go walks its maps and whether or not a payout fails. \<open>stock u k\<close> is the invariant, and
  the proofs go through the loops with \<open>yields\<close>.
\<close>

section \<open>Blocks keep the units\<close>

definition ledger :: "'s clp_state_scheme \<Rightarrow> Pool kv \<times> LiquidityProvider kv \<times> RemovalQueue kv \<times> RemovalRequest kv" where
  "ledger s = (pools s, providers s, removalQueues s, removalRequests s)"

definition stock :: "(Asset \<Rightarrow> nat) \<Rightarrow> LiquidityProvider kv \<times> RemovalQueue kv \<times> RemovalRequest kv
    \<Rightarrow> 's clp_state_scheme \<Rightarrow> bool" where
  "stock u m s \<longleftrightarrow> pools_wf s \<and> issued s = u \<and> (providers s, removalQueues s, removalRequests s) = m"

definition has_units :: "(Asset \<Rightarrow> nat) \<Rightarrow> Pool \<Rightarrow> bool" where
  "has_units u p \<longleftrightarrow> poolUnits p = u (externalAsset p)"

lemma has_units_upd [simp]:
  "has_units u (p\<lparr>nativeAssetBalance := n\<rparr>) = has_units u p"
  "has_units u (p\<lparr>rewardPeriodNativeDistributed := n\<rparr>) = has_units u p"
  "has_units u (p\<lparr>swapPriceNative := x\<rparr>) = has_units u p"
  "has_units u (p\<lparr>swapPriceExternal := x\<rparr>) = has_units u p"
  by (simp_all add: has_units_def)

lemma ledger_stock: "preserves ledger m \<Longrightarrow> keeps (stock u k) m"
proof -
  have c: "stock u k t = stock u k s" if "ledger t = ledger s" for s t :: "'a clp_state_scheme"
    using that by (simp add: stock_def ledger_def pools_wf_def issued_def fun_eq_iff)
  show "preserves ledger m \<Longrightarrow> keeps (stock u k) m"
    unfolding preserves_def keeps_def using c by blast
qed

lemma GetPools_units:
  assumes "stock u k s" and p: "p \<in> set (GetPools s)"
  shows "has_units u p"
proof -
  have wf: "pools_wf s" and u: "issued s (externalAsset p) = u (externalAsset p)" using assms(1) by (auto simp: stock_def)
  then obtain j where j: "kv_get (pools s) j = Some p"
    using p kv_values_set [of "pools s" p] by (auto simp: GetPools_def pools_wf_def)
  with wf have "j = pool_key (externalAsset p)" by (simp add: pools_wf_def)
  with j u show ?thesis by (simp add: issued_def has_units_def)
qed

lemma SetPool_stock [keeps_intros]: "has_units u p \<Longrightarrow> keeps (stock u k) (SetPool S p)"
proof -
  assume u: "has_units u p"
  have "stock u k (s\<lparr>pools := kv_put (pool_key (externalAsset p)) p (pools s)\<rparr>)" if "stock u k s" for s :: "'a clp_state_scheme"
    using that u pools_wf_put [of s p] issued_put [of s p] by (auto simp: stock_def has_units_def)
  then have "keeps (stock u k) (modify (\<lambda>s. s\<lparr>pools := kv_put (pool_key (externalAsset p)) p (pools s)\<rparr>)
      :: ('a clp_state_scheme, unit) M)"
    by (simp add: keeps_def modify_def)
  then show ?thesis
    unfolding SetPool_def by (intro keeps_intros) simp_all
qed

lemma update_price_stock: "has_units u p \<Longrightarrow> keeps (stock u k) (update_price S rate p)"
  unfolding update_price_def
  by (rule keeps_bindM) (auto intro!: keeps_intros split: result.split)

lemma PolicyRun_stock: "keeps (stock u k) (PolicyRun S rate)"
  unfolding PolicyRun_def
  by (rule keeps_bind [where R = "\<lambda>ps. \<forall>p \<in> set ps. has_units u p"])
    (auto intro!: yields_intros keeps_each update_price_stock dest: GetPools_units)

lemmas setters = SetPmtpRateParams_def SetPmtpBlockRate_def SetPmtpCurrentRunningRate_def SetPmtpInterPolicyRate_def
  SetPmtpEpoch_def DecrementPmtpEpochCounter_def DecrementPmtpBlockCounter_def SetPmtpBlockCounter_def SetPmtpParams_def
  SetRewardParams_def SetBlockDistributionAccu_def SetProviderDistributionParams_def SetLiquidityProtectionParams_def
  SetLiquidityProtectionRateParams_def SetLiquidityProtectionCurrentFuryLiquidityThreshold_def SetSymmetryThreshold_def
  SetSwapFeeParams_def

lemma bank_call_ledger [frame_intros]: "preserves ledger (bank_call f)"
  unfolding bank_call_def by (intro frame_intros) (simp add: ledger_def)

lemma policy_ledger:
  "preserves ledger (replenish_threshold S)" "preserves ledger (PolicyStart S)" "preserves ledger (PolicyCalculations S)"
  "preserves ledger DecrementPmtpBlockCounter" "preserves ledger DecrementPmtpEpochCounter"
  "preserves ledger (SetPmtpBlockCounter n)" "preserves ledger (SetPmtpEpoch e)" "preserves ledger (SetPmtpInterPolicyRate r)"
  unfolding replenish_threshold_def PolicyStart_def PolicyCalculations_def setters
  by (intro frame_intros; simp add: ledger_def)+

lemma BeginBlocker_stock: "keeps (stock u k) (BeginBlocker S)"
  unfolding BeginBlocker_def
  by (intro keeps_intros PolicyRun_stock ledger_stock policy_ledger)

text \<open>The pointers in the maps of the distributions point into the list of pools.\<close>

definition pointers :: "nat \<Rightarrow> (nat \<times> 'v) list \<Rightarrow> bool" where
  "pointers n m \<longleftrightarrow> (\<forall>e \<in> set m. fst e < n)"

lemma pointers_simps [simp]: "pointers n []" "pointers n (e # m) \<longleftrightarrow> fst e < n \<and> pointers n m"
  by (simp_all add: pointers_def)

lemma map_set_pointers: "pointers n m \<Longrightarrow> k < n \<Longrightarrow> pointers n (map_set k v m)"
  by (induction k v m rule: map_set.induct) (auto simp: pointers_def)

lemma in_order_pointers: "any_order ord \<Longrightarrow> pointers n m \<Longrightarrow> pointers n (in_order ord m)"
  by (simp add: pointers_def in_order_set)

lemma collect_pool_pointers:
  assumes "collect_pool S parts rate (ptr, pool) (a, b, c) = Ok (a', b', c')" "pointers n a" "ptr < n"
  shows "pointers n a'"
  using assms map_set_pointers [OF assms(2,3)]
  by (auto simp: collect_pool_def result_inv split: option.splits)

lemma collect_pointers:
  assumes "CollectProviderDistributions S ps rate s = Ok (a, b, c)"
  shows "pointers (length ps) a"
proof -
  have "(\<lambda>x. pointers (length ps) (fst x)) (a, b, c)"
  proof (rule rfold_inv [OF assms [unfolded CollectProviderDistributions_def]])
    fix e x y
    assume "e \<in> set (enumerate 0 ps)" and x: "pointers (length ps) (fst x)"
      and c: "collect_pool S (GetAllLiquidityProvidersPartitions S s) rate e x = Ok y"
    then have "fst e < length ps" by (auto simp: in_set_enumerate_eq)
    then show "pointers (length ps) (fst y)"
      using collect_pool_pointers [of S _ rate "fst e" "snd e" "fst x" "fst (snd x)" "snd (snd x)"] x c
      by (cases y) simp
  qed (simp add: pointers_def)
  then show ?thesis by simp
qed

lemma sub_share_pointers:
  assumes "sub_share S e m = Ok m'" "pointers n m"
  shows "pointers n m'"
proof -
  from assms(1) obtain i i' where "map_of m (fst e) = Some i" "m' = map_set (fst e) i' m"
    by (auto simp: sub_share_def result_inv split: option.splits)
  moreover from this have "fst e < n" using assms(2) by (force simp: pointers_def dest: map_of_SomeD)
  ultimately show ?thesis using assms(2) by (simp add: map_set_pointers)
qed

lemma pay_provider_stock:
  assumes "pointers n m"
  shows "yields (stock u k) (pointers n) (pay_provider S lps e m)"
proof -
  have "pointers n m'" if "rfold (sub_share S) xs m = Ok m'" for xs m'
    by (rule rfold_inv [where R = "pointers n", OF that assms]) (blast intro: sub_share_pointers)
  then show ?thesis
    unfolding pay_provider_def Let_def send_defs case_prod_beta
    by (auto intro!: yields_bindM [where R = "\<lambda>_. True"] yields_intros keeps_intros ledger_stock frame_intros
        simp: yields_True assms)
qed

lemma transfer_stock:
  assumes "pointers n m"
  shows "yields (stock u k) (pointers n) (TransferProviderDistributionGeneric S ord m a b)"
  unfolding TransferProviderDistributionGeneric_def
  by (rule yields_foldM) (auto intro: pay_provider_stock assms)

lemma RemoveFuryFromPool_stock: "has_units u p \<Longrightarrow> keeps (stock u k) (RemoveFuryFromPool S p n)"
  unfolding RemoveFuryFromPool_def by (intro keeps_intros) simp

lemma ProviderDistributionPolicyRun_stock:
  assumes ord: "any_order ord'"
  shows "keeps (stock u k) (ProviderDistributionPolicyRun S ord ord')"
proof -
  let ?R = "\<lambda>(ps, a, b, c). (\<forall>p \<in> set ps. has_units u p) \<and> pointers (length ps) a"
  have pay: "keeps (stock u k) (TransferProviderDistribution S ord ord' ps a b c)"
    if "\<forall>p \<in> set ps. has_units u p" "pointers (length ps) a" for ps a b c
    unfolding TransferProviderDistribution_def
    by (rule keeps_bind [OF transfer_stock [OF that(2)]], rule keeps_each)
      (use that(1) ord in \<open>auto intro!: keeps_intros RemoveFuryFromPool_stock simp: in_order_set pointers_def\<close>)
  have collect: "?R x" if "stock u k s" "doProviderDistribution S s = Ok x" for s :: "'a clp_state_scheme" and x
    using that GetPools_units [OF that(1)]
    by (force simp: doProviderDistribution_def Let_def result_inv pointers_def
        dest!: collect_pointers split: option.splits)
  show ?thesis
    unfolding ProviderDistributionPolicyRun_def
    by (rule keeps_bind [where R = ?R]) (use collect pay in \<open>auto intro!: yields_intros\<close>)
qed

text \<open>The depth rewards.\<close>

lemma add_depth_stock:
  assumes "has_units u p" "\<forall>q \<in> set (snd acc). has_units u q"
  shows "yields (stock u k) (\<lambda>r. \<forall>q \<in> set (snd r). has_units u q) (add_depth S period h p acc)"
  unfolding add_depth_def Let_def case_prod_beta
  by (auto intro!: yields_bindM [where R = "\<lambda>_. True"] yields_intros keeps_intros simp: yields_True assms)

lemma calcTotalDepth_stock:
  assumes "\<forall>p \<in> set ps. has_units u p"
  shows "yields (stock u k) (\<lambda>r. \<forall>q \<in> set (snd r). has_units u q) (calcTotalDepth S ps period h)"
  unfolding calcTotalDepth_def
  by (rule yields_foldM) (use assms in \<open>auto intro: add_depth_stock\<close>)

lemma collect_tuples_pointers:
  "collect_tuples S bd depth period r c es = Ok (ts, minted) \<Longrightarrow> pointers n es \<Longrightarrow> pointers n ts"
proof (induction es arbitrary: r c ts minted)
  case (Cons e es)
  obtain ptr pool where e: "e = (ptr, pool)" by (cases e)
  have es: "pointers n es" "ptr < n" using Cons.prems(2) e by simp_all
  from Cons.prems(1) es Cons.IH show ?case
    unfolding e by (auto simp: result_inv Let_def split: if_splits)
qed simp

definition fleet :: "(Asset \<Rightarrow> nat) \<Rightarrow> nat \<Rightarrow> Pool list \<times> PoolFuryMap \<times> LpFuryMap \<times> LpPoolMap \<Rightarrow> bool" where
  "fleet u n r \<longleftrightarrow> length (fst r) = n \<and> (\<forall>p \<in> set (fst r). has_units u p) \<and> pointers n (fst (snd r))"

lemma addRewardsToPool_stock:
  assumes "length ps = n" "\<forall>p \<in> set ps. has_units u p" "ptr < n"
  shows "yields (stock u k) (\<lambda>qs. length qs = n \<and> (\<forall>p \<in> set qs. has_units u p)) (addRewardsToPool S ps ptr r)"
proof -
  have "has_units u (ps ! ptr)" using assms by simp
  then show ?thesis
    unfolding addRewardsToPool_def Let_def using assms
    by (auto intro!: yields_bindM [where R = "\<lambda>_. True"] yields_intros keeps_intros simp: yields_True
        dest!: set_update_subset_insert [THEN subsetD])
qed

lemma reward_pool_stock:
  assumes f: "fleet u n acc" and e: "fst e < n"
  shows "yields (stock u k) (fleet u n) (reward_pool S distribute parts e acc)"
proof -
  obtain ptr r ps pf lf lp where acc: "acc = (ps, pf, lf, lp)" and er: "e = (ptr, r)" by (cases acc, cases e)
  have add: "yields (stock u k) (fleet u n) (bindM (addRewardsToPool S ps ptr r) (\<lambda>qs. ret (qs, pf, lf, lp)))"
    by (rule yields_bindM [OF addRewardsToPool_stock])
      (use f e in \<open>auto simp: fleet_def acc er intro!: yields_intros\<close>)
  have coll: "fleet u n (ps, m)" if "CollectRewards S ptr r pu lps (pf, lf, lp) = Ok m" for m pu lps
    using that f e by (auto simp: CollectRewards_def fleet_def acc er result_inv intro: map_set_pointers)
  show ?thesis
    unfolding reward_pool_def acc er
    using add coll by (auto intro!: yields_intros yields_bindM [where R = "\<lambda>m. fleet u n (ps, m)"] split: option.split)
qed

lemma settle_rewards_stock:
  assumes "\<forall>p \<in> set ps. has_units u p" "pointers (length ps) pf" and ord: "any_order ord'"
  shows "keeps (stock u k) (settle_rewards S ord ord' c before ps pf lf lp)"
proof -
  have "keeps (stock u k) (add_distributed S ps e)" if "fst e < length ps" for e
    unfolding add_distributed_def case_prod_beta using assms(1) that by (intro keeps_intros) auto
  then have "keeps (stock u k) (eachM (add_distributed S ps) (in_order ord' m))" if "pointers (length ps) m" for m
    using that ord by (intro keeps_each) (auto simp: in_order_set pointers_def)
  then have pay: "keeps (stock u k) (bindM (TransferProviderDistributionGeneric S ord pf lf lp) (\<lambda>m.
      thenM (eachM (add_distributed S ps) (in_order ord' m)) (rest m)))" if "\<And>m. preserves ledger (rest m)" for rest
    by (intro keeps_bind [OF transfer_stock [OF assms(2)]] keeps_thenM) (auto intro: ledger_stock that)
  show ?thesis
    unfolding settle_rewards_def BurnFury_def send_defs
    by (rule keeps_bindM, rule keeps_prim, rule pay) (intro frame_intros)
qed

lemma DistributeDepthRewards_stock:
  assumes ps: "\<forall>p \<in> set ps. has_units u p" and ord: "any_order ord'"
  shows "keeps (stock u k) (DistributeDepthRewards S ord ord' bd period ps)"
proof -
  define D where "D = rewardPeriodDistribute period"
  have loop: "keeps (stock u k) (bindM (foldM (reward_pool S D parts) ts (qs, [], [], []))
      (\<lambda>(ps2, a, b, c). if D then settle_rewards S ord ord' mint before ps2 a b c else ret ()))"
    if qs: "\<forall>p \<in> set qs. has_units u p" and ts: "pointers (length qs) ts" for qs ts parts mint before
  proof (rule keeps_bind [where R = "fleet u (length qs)"])
    show "yields (stock u k) (fleet u (length qs)) (foldM (reward_pool S D parts) ts (qs, [], [], []))"
      by (rule yields_foldM) (use qs ts in \<open>auto simp: fleet_def pointers_def intro!: reward_pool_stock\<close>)
  qed (use ord in \<open>auto simp: fleet_def intro!: keeps_intros settle_rewards_stock\<close>)
  have tuples: "pointers (length qs) (fst r)" if "CollectPoolRewardTuples S qs bd depth period = Ok r" for qs r depth
    using that collect_tuples_pointers [of S bd depth period bd 0 "enumerate 0 qs" "fst r" "snd r" "length qs"]
    by (auto simp: CollectPoolRewardTuples_def pointers_def in_set_enumerate_eq)
  have rest: "keeps (stock u k) (case r of (ts, mint) \<Rightarrow>
      bindM (gets (GetModuleFury S)) (\<lambda>before. bindM (liftR (new_coin S NativeSymbol (int mint))) (\<lambda>coin.
      bindM (liftR (new_coins S [coin])) (\<lambda>coins. thenM (MintCoins S ModuleName coins) (
      bindM (gets (\<lambda>s. if D then GetAllLiquidityProvidersPartitions S s else [])) (\<lambda>parts.
      bindM (foldM (reward_pool S D parts) ts (qs, [], [], []))
      (\<lambda>(ps2, a, b, c). if D then settle_rewards S ord ord' mint before ps2 a b c else ret ())))))))"
    if "\<forall>p \<in> set qs. has_units u p" "pointers (length qs) (fst r)" for qs r
    using that unfolding send_defs case_prod_beta [of _ r]
    by (intro keeps_bindM keeps_thenM keeps_prim loop ledger_stock [OF bank_call_ledger]) auto
  show ?thesis
    unfolding DistributeDepthRewards_def D_def [symmetric] case_prod_beta [of _ "_ :: int \<times> Pool list"] setters
    apply (rule keeps_bindM, rule keeps_prim)
    apply (rule keeps_thenM, rule ledger_stock, (intro frame_intros; simp add: ledger_def))
    apply (rule keeps_if, rule keeps_prim)
    apply (rule keeps_bind [OF calcTotalDepth_stock [OF ps]])
    apply (rule keeps_if, rule keeps_prim)
    apply (rule keeps_bind [where R = "\<lambda>r. pointers _ (fst r)"])
     apply (rule yields_liftR, erule tuples)
    apply (rule rest; simp)
    done
qed

lemma EndBlocker_stock:
  assumes "any_order ord2" "any_order ord4"
  shows "keeps (stock u k) (EndBlocker S ord1 ord2 ord3 ord4)"
proof -
  have accu: "preserves ledger (SetBlockDistributionAccu n)" for n
    unfolding setters by (intro frame_intros) (simp add: ledger_def)
  have pay: "keeps (stock u k) (if b then thenM (ignoreM (DistributeDepthRewards S ord3 ord4 bd period ps))
      (SetBlockDistributionAccu 0) else SetBlockDistributionAccu bd)"
    if "\<forall>p \<in> set ps. has_units u p" for b bd period ps
    by (intro keeps_if keeps_thenM keeps_ignoreM DistributeDepthRewards_stock [OF that assms(2)] ledger_stock [OF accu])
  show ?thesis
    unfolding EndBlocker_def
    by (rule keeps_bindM, rule keeps_prim, rule keeps_thenM,
        intro keeps_if keeps_prim ProviderDistributionPolicyRun_stock assms(1),
        rule keeps_bindM, rule keeps_prim,
        rule keeps_bind [where R = "\<lambda>ps. \<forall>p \<in> set ps. has_units u p"])
      (auto intro!: yields_intros keeps_intros pay dest: GetPools_units)
qed

end
