(* ===== verification/ClpSolvency.thy ===== *)
theory ClpSolvency
  imports ClpUnits
begin

text \<open>
  The coins behind the pools. Every pool records balances and custodies; the coins themselves lie
  in the account of the module. \<open>claims s d\<close> is what all pools record in denomination \<open>d\<close>, and
  \<open>surplus S s d\<close> what the module account holds beyond it. The messages that move coins keep the
  surplus of every denomination exactly, so that a module that covers its pools (the property that
  \<open>BalanceModuleAccountCheck\<close> of \<open>x/clp/keeper/invariants.go\<close> tests) goes on covering them.
\<close>

section \<open>Claims\<close>

definition claim_of :: "string \<Rightarrow> Pool \<Rightarrow> nat" where
  "claim_of d p =
     (if d = NativeSymbol then nativeAssetBalance p + nativeCustody p else 0) +
     (if d = Symbol (externalAsset p) then externalAssetBalance p + externalCustody p else 0)"

definition claims :: "'s clp_state_scheme \<Rightarrow> string \<Rightarrow> nat" where
  "claims s d = kv.total (\<lambda>_. claim_of d) (pools s)"

definition surplus :: "sdk \<Rightarrow> 's clp_state_scheme \<Rightarrow> string \<Rightarrow> int" where
  "surplus S s d = int (bank s (module_address S ModuleName) d) - int (claims s d)"

definition solvent :: "sdk \<Rightarrow> 's clp_state_scheme \<Rightarrow> bool" where
  "solvent S s \<longleftrightarrow> (\<forall>d. claims s d \<le> bank s (module_address S ModuleName) d)"

lemma solvent_surplus: "solvent S s \<longleftrightarrow> (\<forall>d. 0 \<le> surplus S s d)"
  by (simp add: solvent_def surplus_def)

lemma claims_cong: "pools t = pools s \<Longrightarrow> claims t = claims s"
  by (simp add: claims_def fun_eq_iff)

lemma claims_put:
  assumes "pools_wf s"
  shows "claims (s\<lparr>pools := kv_put k q (pools s)\<rparr>) d +
      (case kv_get (pools s) k of None \<Rightarrow> 0 | Some p \<Rightarrow> claim_of d p) = claims s d + claim_of d q"
proof -
  have wf: "kv_wf (pools s)" using assms by (simp add: pools_wf_def)
  have "claims (s\<lparr>pools := kv_put k q (pools s)\<rparr>) d = kv.total (\<lambda>_. claim_of d) (kv_del k (pools s)) + claim_of d q"
    using kv.total_put [OF wf, of "\<lambda>_. claim_of d" k q] by (simp add: claims_def)
  moreover have "claims s d = kv.total (\<lambda>_. claim_of d) (kv_del k (pools s)) +
      (case kv_get (pools s) k of None \<Rightarrow> 0 | Some p \<Rightarrow> claim_of d p)"
    using kv.total_del [OF wf, of "\<lambda>_. claim_of d" k] by (simp add: claims_def)
  ultimately show ?thesis by simp
qed

lemma claims_store:
  assumes "pools_wf s" "pools t = kv_put k q (pools s)"
  shows "claims t d + (case kv_get (pools s) k of None \<Rightarrow> 0 | Some p \<Rightarrow> claim_of d p) = claims s d + claim_of d q"
  using claims_put [OF assms(1), of k q d] assms(2) by (simp add: claims_def)

text \<open>One leg of a swap: what the pool takes in and what it gives.\<close>

definition leg_in :: "Asset \<Rightarrow> Asset \<Rightarrow> string" where
  "leg_in a to = (if to = GetSettlementAsset then Symbol a else NativeSymbol)"

definition leg_out :: "Asset \<Rightarrow> Asset \<Rightarrow> string" where
  "leg_out a to = (if to = GetSettlementAsset then NativeSymbol else Symbol a)"

section \<open>Messages\<close>

context sdk_laws
begin

lemma into_module:
  assumes "send_acc_to_mod S addr md cs bk = Ok bk'" "addr \<noteq> module_address S md"
  shows "bk' (module_address S md) d = bk (module_address S md) d + amount_of cs d"
  using send_acc_to_mod [OF assms(1)] assms(2) by (simp add: move_coins_def)

lemma out_of_module:
  assumes "send_mod_to_acc S md addr cs bk = Ok bk'" "addr \<noteq> module_address S md"
  shows "bk' (module_address S md) d + amount_of cs d = bk (module_address S md) d"
  using send_mod_to_acc [OF assms(1)] assms(2) by (simp add: move_coins_def)

lemma payout_module:
  assumes "payout S addr cs bk bk'" "addr \<noteq> module_address S ModuleName"
  shows "bk' (module_address S ModuleName) d + amount_of cs d = bk (module_address S ModuleName) d"
  using assms out_of_module [of ModuleName addr cs bk bk' d] by (auto simp: payout_def split: if_splits)

lemma withdraws_surplus:
  assumes w: "withdraws S addr a n e s t" and wf: "pools_wf s" and ne: "addr \<noteq> module_address S ModuleName"
  shows "surplus S t = surplus S s"
proof (rule ext)
  fix d
  from w obtain p u cs where p: "kv_get (pools s) (pool_key a) = Some p"
    and le: "n \<le> nativeAssetBalance p" "e \<le> externalAssetBalance p"
    and pay: "payout S addr cs (bank s) (bank t)" "amount_of cs = two_amounts (Symbol a) e NativeSymbol n"
    and pt: "pools t = kv_put (pool_key a) (p\<lparr>poolUnits := u, nativeAssetBalance := nativeAssetBalance p - n,
       externalAssetBalance := externalAssetBalance p - e\<rparr>) (pools s)"
    unfolding withdraws_def by blast
  have "externalAsset p = a" by (rule stored_asset [OF wf p])
  then have "claims t d + two_amounts (Symbol a) e NativeSymbol n d = claims s d"
    using claims_store [OF wf pt, of d] p le by (auto simp: claim_of_def two_amounts_def)
  then show "surplus S t d = surplus S s d"
    using payout_module [OF pay(1) ne, of d] pay(2) by (simp add: surplus_def)
qed

lemma deposits_surplus:
  assumes w: "deposits S addr a n e s t" and wf: "pools_wf s" and ne: "addr \<noteq> module_address S ModuleName"
  shows "surplus S t = surplus S s"
proof (rule ext)
  fix d
  from w obtain p u cs where p: "kv_get (pools s) (pool_key a) = Some p"
    and pay: "send_acc_to_mod S addr ModuleName cs (bank s) = Ok (bank t)"
      "amount_of cs = two_amounts (Symbol a) e NativeSymbol n"
    and pt: "pools t = kv_put (pool_key a) (p\<lparr>poolUnits := u, nativeAssetBalance := nativeAssetBalance p + n,
       externalAssetBalance := externalAssetBalance p + e\<rparr>) (pools s)"
    unfolding deposits_def by blast
  have "externalAsset p = a" by (rule stored_asset [OF wf p])
  then have "claims t d = claims s d + two_amounts (Symbol a) e NativeSymbol n d"
    using claims_store [OF wf pt, of d] p by (auto simp: claim_of_def two_amounts_def)
  then show "surplus S t d = surplus S s d"
    using into_module [OF pay(1) ne, of d] pay(2) by (simp add: surplus_def)
qed

lemma msg_CreatePool_surplus:
  assumes h: "msg_CreatePool S signer a n e s = (Ok (), t)" and wf: "pools_wf s"
    and canon: "acc_from_bech32 S signer = Some addr" and ne: "addr \<noteq> module_address S ModuleName"
  shows "surplus S t = surplus S s"
proof (rule ext)
  fix d
  obtain b cs m where new: "kv_get (pools s) (pool_key a) = None"
    and pay: "send_acc_to_mod S addr ModuleName cs (bank s) = Ok b" "amount_of cs = two_amounts (Symbol a) e NativeSymbol n"
    and t: "t = s\<lparr>bank := b, pools := kv_put (pool_key a) (NewPool a n e n) (pools s), providers := m\<rparr>"
    using msg_CreatePool_Ok [OF h canon] by blast
  have pt: "pools t = kv_put (pool_key a) (NewPool a n e n) (pools s)" using t by simp
  have "claims t d = claims s d + two_amounts (Symbol a) e NativeSymbol n d"
    using claims_store [OF wf pt, of d] new by (simp add: claim_of_def two_amounts_def NewPool_def)
  then show "surplus S t d = surplus S s d"
    using into_module [OF pay(1) ne, of d] pay(2) t by (simp add: surplus_def)
qed

lemma SwapOne_claim:
  assumes "SwapOne S x to p rate fee = Ok (y, f, impact, q)"
  shows "claim_of d q + (if d = leg_out (externalAsset p) to then y else 0) =
    claim_of d p + (if d = leg_in (externalAsset p) to then x else 0)"
proof -
  have set': "IsSettlementAsset to \<longleftrightarrow> to = GetSettlementAsset"
    by (cases to) (simp add: IsSettlementAsset_def GetSettlementAsset_def)
  show ?thesis
    using SwapOne_Ok [OF assms]
    by (auto simp: claim_of_def leg_in_def leg_out_def ExtractValues_def set' split: if_splits)
qed

lemma swap_put_claims:
  assumes sw: "SwapOne S x to p rate fee = Ok (y, f, impact, q)" and p: "kv_get (pools s) (pool_key a) = Some p"
    and wf: "pools_wf s" and t: "pools t = kv_put (pool_key (externalAsset q)) q (pools s)"
  shows "claims t d + (if d = leg_out a to then y else 0) = claims s d + (if d = leg_in a to then x else 0)"
proof -
  have pa: "externalAsset p = a" by (rule stored_asset [OF wf p])
  then have "externalAsset q = a" using SwapOne_frame [OF sw] by simp
  then show ?thesis
    using claims_store [OF wf t, of d] SwapOne_claim [OF sw, of d] p pa by (simp split: if_splits)
qed

lemma first_leg_claims:
  assumes leg: "first_leg S inPool recv x rate fee s = (Ok (x2, lf, im), u)"
    and inp: "inPool = (if sent = GetSettlementAsset then None else kv_get (pools s) (pool_key sent))"
      "sent \<noteq> GetSettlementAsset \<longrightarrow> inPool \<noteq> None"
    and k: "k = (if recv = GetSettlementAsset then sent else recv)" and wf: "pools_wf s"
  shows "pools_wf u \<and> bank u = bank s \<and>
    claims u d + (if d = leg_in k recv then x2 else 0) = claims s d + (if d = Symbol sent then x else 0)"
  using leg unfolding first_leg_Ok SetPool_Ok
proof (elim disjE exE conjE)
  fix p1 q1
  assume *: "inPool = Some p1" "SwapOne S x GetSettlementAsset p1 rate fee = Ok (x2, lf, im, q1)"
    "recv \<noteq> GetSettlementAsset" "u = s\<lparr>pools := kv_put (pool_key (externalAsset q1)) q1 (pools s)\<rparr>"
  have g: "kv_get (pools s) (pool_key sent) = Some p1" using *(1) inp(1) by (simp split: if_splits)
  have "claims u d + (if d = leg_out sent GetSettlementAsset then x2 else 0) =
      claims s d + (if d = leg_in sent GetSettlementAsset then x else 0)"
    by (rule swap_put_claims [OF *(2) g wf]) (use *(4) in simp)
  then show ?thesis using *(3,4) pools_wf_put [OF wf, of q1] by (simp add: leg_in_def leg_out_def)
qed (use wf inp k in \<open>auto simp: leg_in_def GetSettlementAsset_def split: if_splits\<close>)

lemma msg_Swap_surplus:
  assumes h: "msg_Swap S signer sent recv x mn s = (Ok (y, tf, imp), t)" and wf: "pools_wf s"
    and canon: "acc_from_bech32 S signer = Some addr" and ne: "addr \<noteq> module_address S ModuleName"
  shows "surplus S t = surplus S s"
proof (rule ext)
  fix d
  let ?M = "module_address S ModuleName"
  let ?rate = "pmtpCurrentRunningRate (pmtpRateParams s)" and ?fee = "GetSwapFeeRate sent False s"
  define k where "k = (if recv = GetSettlementAsset then sent else recv)"
  obtain inPool b1 x2 lf im u p q f ts b2 c cs cs' where
    inp: "inPool = (if sent = GetSettlementAsset then None else kv_get (pools s) (pool_key sent))"
      "sent \<noteq> GetSettlementAsset \<longrightarrow> inPool \<noteq> None"
    and b1: "send_acc_to_mod S addr ModuleName cs (bank s) = Ok b1" "amount_of cs = two_amounts (Symbol sent) x (Symbol sent) 0"
    and leg: "first_leg S inPool recv x ?rate ?fee (s\<lparr>bank := b1\<rparr>) = (Ok (x2, lf, im), u)"
    and k: "kv_get (pools u) (pool_key k) = Some p"
    and sw: "SwapOne S x2 recv p ?rate ?fee = Ok (y, f, ts, q)"
    and b2: "send_mod_to_acc S ModuleName addr cs' (bank u) = Ok b2" "amount_of cs' = two_amounts (Symbol recv) y (Symbol recv) 0"
    and t: "t = u\<lparr>pools := kv_put (pool_key (externalAsset q)) q (pools u), bank := b2, currentFuryLiquidityThreshold := c\<rparr>"
    using msg_Swap_Ok [OF h canon] unfolding k_def by blast
  have "claims (s\<lparr>bank := b1\<rparr>) = claims s" by (rule claims_cong) simp
  moreover have "pools_wf u \<and> bank u = bank (s\<lparr>bank := b1\<rparr>) \<and> claims u d + (if d = leg_in k recv then x2 else 0) =
      claims (s\<lparr>bank := b1\<rparr>) d + (if d = Symbol sent then x else 0)"
    by (rule first_leg_claims [OF leg _ inp(2) k_def]) (simp_all add: inp(1) wf)
  ultimately have first: "pools_wf u" "bank u = b1"
      "claims u d + (if d = leg_in k recv then x2 else 0) = claims s d + (if d = Symbol sent then x else 0)"
    by simp_all
  have "claims t d + (if d = leg_out k recv then y else 0) = claims u d + (if d = leg_in k recv then x2 else 0)"
    by (rule swap_put_claims [OF sw k first(1)]) (simp add: t)
  moreover have "leg_out k recv = Symbol recv" by (simp add: leg_out_def k_def GetSettlementAsset_def)
  moreover have "b1 ?M d = bank s ?M d + (if d = Symbol sent then x else 0)"
    using into_module [OF b1(1) ne, of d] b1(2) by (simp add: two_amounts_def)
  moreover have "b2 ?M d + (if d = Symbol recv then y else 0) = b1 ?M d"
    using out_of_module [OF b2(1) ne, of d] b2(2) first(2) by (simp add: two_amounts_def)
  moreover have "bank t ?M d = b2 ?M d" by (simp add: t)
  ultimately have "bank t ?M d + claims s d = bank s ?M d + claims t d" using first(3) by simp
  then show "surplus S t d = surplus S s d" by (simp add: surplus_def)
qed

end

section \<open>Closing a pool\<close>

context sdk_laws
begin

lemma refund_provider_bank:
  assumes r: "refund_provider S p d l (pu, nb, eb) s = (Ok (pu', nb', eb'), t)"
    and ne: "\<And>a. acc_from_bech32 S (liquidityProviderAddress l) = Some a \<Longrightarrow> a \<noteq> module_address S ModuleName"
  shows "nb' \<le> nb \<and> eb' \<le> eb \<and> bank t (module_address S ModuleName) x + two_amounts d (eb - eb') NativeSymbol (nb - nb') x =
    bank s (module_address S ModuleName) x"
proof -
  from r obtain wn we i j nc ec cs b addr where
    w: "wn \<le> nb" "we \<le> eb" "nb' = nb - wn" "eb' = eb - we"
    and c: "int_of_uint S wn = Some i" "new_coin S NativeSymbol i = Ok nc" "int_of_uint S we = Some j"
      "new_coin S d j = Ok ec" "new_coins S [ec, nc] = Ok cs"
    and send: "acc_from_bech32 S (liquidityProviderAddress l) = Some addr" "send_mod_to_acc S ModuleName addr cs (bank s) = Ok b"
    and t: "bank t = b"
    unfolding refund_provider_def RemoveLiquidityProvider_def send_defs
    by (simp only: result_inv op_inv uint_Ok) (auto simp: GetSettlementAsset_def)
  have "ec = (d, we)" "nc = (NativeSymbol, wn)"
    using new_coin [OF c(2)] new_coin [OF c(4)] int_of_uint [OF c(1)] int_of_uint [OF c(3)] by auto
  then have "amount_of cs x = two_amounts d we NativeSymbol wn x"
    using new_coins [OF c(5), of x] by (auto simp: two_amounts_def)
  then show ?thesis
    using out_of_module [OF send(2) ne [OF send(1)], of x] w t by (auto simp: two_amounts_def)
qed

lemma refund_all_bank:
  assumes "foldM (refund_provider S p d) ls (pu, nb, eb) s = (Ok (pu', nb', eb'), t)"
    and "\<And>l a. l \<in> set ls \<Longrightarrow> acc_from_bech32 S (liquidityProviderAddress l) = Some a \<Longrightarrow> a \<noteq> module_address S ModuleName"
  shows "nb' \<le> nb \<and> eb' \<le> eb \<and> bank t (module_address S ModuleName) x + two_amounts d (eb - eb') NativeSymbol (nb - nb') x =
    bank s (module_address S ModuleName) x"
  using assms
proof (induction ls arbitrary: pu nb eb s)
  case Nil
  then show ?case by (auto simp: ret_def two_amounts_def)
next
  case (Cons l ls)
  then obtain pu1 nb1 eb1 u where r: "refund_provider S p d l (pu, nb, eb) s = (Ok (pu1, nb1, eb1), u)"
    and f: "foldM (refund_provider S p d) ls (pu1, nb1, eb1) u = (Ok (pu', nb', eb'), t)"
    by (auto simp: result_inv)
  note h = refund_provider_bank [OF r, of x]
  note i = Cons.IH [OF f]
  have h': "nb1 \<le> nb \<and> eb1 \<le> eb \<and> bank u (module_address S ModuleName) x +
      two_amounts d (eb - eb1) NativeSymbol (nb - nb1) x = bank s (module_address S ModuleName) x"
    by (rule h) (use Cons.prems(2) in auto)
  have i': "nb' \<le> nb1 \<and> eb' \<le> eb1 \<and> bank t (module_address S ModuleName) x +
      two_amounts d (eb1 - eb') NativeSymbol (nb1 - nb') x = bank u (module_address S ModuleName) x"
    by (rule i) (use Cons.prems(2) in auto)
  show ?case using h' i' by (auto simp: two_amounts_def split: if_splits)
qed

lemma msg_DecommissionPool_surplus:
  assumes h: "msg_DecommissionPool S signer d s = (Ok (), t)" and wf: "pools_wf s"
    and ne: "\<And>k l a. kv_get (providers s) k = Some l \<Longrightarrow> acc_from_bech32 S (liquidityProviderAddress l) = Some a \<Longrightarrow>
      a \<noteq> module_address S ModuleName" and kw: "kv_wf (providers s)"
  shows "surplus S s x \<le> surplus S t x"
proof -
  let ?M = "module_address S ModuleName"
  from h obtain p pu nb eb u where p: "kv_get (pools s) (pool_key (Asset d)) = Some p"
    and f: "foldM (refund_provider S p d) (GetLiquidityProvidersForAssetPaginated S (2 ^ 64 - 1) (externalAsset p) s)
        (poolUnits p, nativeAssetBalance p, externalAssetBalance p) s = (Ok (pu, nb, eb), u)"
    and t: "t = u\<lparr>pools := kv_del (GetPoolKey (Symbol (externalAsset p)) NativeSymbol) (pools u)\<rparr>"
    unfolding msg_DecommissionPool_def DecommissionPool_def DestroyPool_def
    by (simp only: result_inv) auto
  have pa: "externalAsset p = Asset d" by (rule stored_asset [OF wf p])
  have "nb \<le> nativeAssetBalance p \<and> eb \<le> externalAssetBalance p \<and>
      bank u ?M x + two_amounts d (externalAssetBalance p - eb) NativeSymbol (nativeAssetBalance p - nb) x = bank s ?M x"
    by (rule refund_all_bank [OF f])
      (use page_stored [of "2 ^ 64 - 1" "externalAsset p" s] ne kv_values_set [OF kw] in blast)
  moreover have "two_amounts d (externalAssetBalance p - eb) NativeSymbol (nativeAssetBalance p - nb) x \<le> claim_of x p"
    using pa by (auto simp: two_amounts_def claim_of_def)
  moreover have "claims t x + claim_of x p = claims s x"
  proof -
    have "pools u = pools s" using refund_all_Ok [OF f] by auto
    then have "claims t x = kv.total (\<lambda>_. claim_of x) (kv_del (pool_key (Asset d)) (pools s))"
      using t pa by (simp add: claims_def)
    moreover have "kv_wf (pools s)" using wf by (simp add: pools_wf_def)
    ultimately show ?thesis
      using kv.total_del [of "pools s" "\<lambda>_. claim_of x" "pool_key (Asset d)"] p by (simp add: claims_def)
  qed
  moreover have "bank t ?M x = bank u ?M x" using t by simp
  ultimately show ?thesis unfolding surplus_def by linarith
qed

end

lemma surplus_cong: "pools t = pools s \<Longrightarrow> bank t = bank s \<Longrightarrow> surplus S t = surplus S s"
  using claims_cong [of t s] by (simp add: surplus_def fun_eq_iff)

end
