(* ===== verification/ClpInvariants.thy ===== *)
theory ClpInvariants
  imports ClpSolvency
begin

text \<open>
  The checks of \<open>x/clp/keeper/invariants.go\<close>, which \<open>RegisterInvariants\<close> does not register (its only route is commented
  out), decide what they are named after: \<open>UnitsCheck\<close> fires exactly when the units of some pool are not the
  units held of it, and \<open>BalanceModuleAccountCheck\<close> exactly when the module account has a surplus or a
  deficit in Fury or in the asset of some pool, as long as the sums fit into 256 bits and the providers onto one page.
\<close>

lemma paginate_all:
  fixes s :: "'s clp_state_scheme"
  defines "ls \<equiv> kv_values (providers s)"
  assumes page: "filtered_paginate S limit (map hit ls) = take limit (filter (\<lambda>i. map hit ls ! i) [0..<length ls])"
    and len: "length ls \<le> limit"
  shows "paginate_providers S limit hit s = filter hit ls"
proof -
  let ?is = "filter (\<lambda>i. map hit ls ! i) [0..<length ls]"
  have "take limit ?is = ?is"
    using le_trans [OF length_filter_le [of "\<lambda>i. map hit ls ! i" "[0..<length ls]"]] len by simp
  also have "\<dots> = filter (\<lambda>i. hit (ls ! i)) [0..<length ls]"
    by (rule filter_cong) auto
  finally show ?thesis
    using page nth_filter [of ls hit] by (simp add: paginate_providers_def ls_def comp_def Let_def)
qed

context sdk_laws
begin

lemma all_providers:
  assumes "length (providers s) < 2 ^ 64 - 1"
  shows "GetAllLiquidityProvidersForAsset S a s = filter (\<lambda>l. lp_asset l = a) (kv_values (providers s))"
proof -
  have "paginate_providers S (2 ^ 64 - 2) (\<lambda>l. lp_asset l = a) s = filter (\<lambda>l. lp_asset l = a) (kv_values (providers s))"
    by (rule paginate_all) (use assms in \<open>simp_all add: filtered_paginate kv_values_def\<close>)
  then show ?thesis
    by (simp add: GetAllLiquidityProvidersForAsset_def GetLiquidityProvidersForAssetPaginated_def)
qed

lemma sum_units:
  "n + sum_list (map f ls) < 2 ^ 256 \<Longrightarrow> rfold (\<lambda>l acc. uint_add S acc (f l)) ls n = Ok (n + sum_list (map f ls))"
  by (induction ls arbitrary: n) (simp_all add: uint_add)

lemma held_sum:
  "held s a = sum_list (map liquidityProviderUnits (filter (\<lambda>l. lp_asset l = a) (kv_values (providers s))))"
  unfolding held_def held_in_def kv_values_total [symmetric] by (induction "kv_values (providers s)") (auto simp: sum_list_map_filter')

lemma UnitsCheck_exact:
  assumes wf: "kv_wf (pools s)" and len: "length (providers s) < 2 ^ 64 - 1" and fits: "\<And>a. held s a < 2 ^ 256"
  shows "UnitsCheck S s = Ok (\<exists>k p. kv_get (pools s) k = Some p \<and> poolUnits p \<noteq> held s (externalAsset p))"
proof -
  have tot: "rfold (\<lambda>l acc. uint_add S acc (liquidityProviderUnits l)) (GetAllLiquidityProvidersForAsset S a s) 0 = Ok (held s a)" for a
    using sum_units [of 0 liquidityProviderUnits "GetAllLiquidityProvidersForAsset S a s"] fits [of a]
    by (simp add: all_providers [OF len] held_sum)
  have "check_units S ps s = Ok (\<exists>p \<in> set ps. poolUnits p \<noteq> held s (externalAsset p))" for ps
    by (induction ps) (auto simp: tot)
  then show ?thesis by (simp add: UnitsCheck_def GetPools_def Bex_def kv_values_set [OF wf]) blast
qed

lemma claims_external:
  assumes wf: "pools_wf s" and p: "kv_get (pools s) (pool_key a) = Some p" and a: "Symbol a \<noteq> NativeSymbol"
  shows "claims s (Symbol a) = externalAssetBalance p + externalCustody p"
proof -
  have kw: "kv_wf (pools s)" using wf by (simp add: pools_wf_def)
  have "kv.total (\<lambda>_. claim_of (Symbol a)) (kv_del (pool_key a) (pools s)) = 0"
  proof (rule kv_total_zero)
    fix k q assume "kv_get (kv_del (pool_key a) (pools s)) k = Some q"
    then have "k \<noteq> pool_key a" "k = pool_key (externalAsset q)" using kw wf by (auto simp: pools_wf_def split: if_splits)
    then show "claim_of (Symbol a) q = 0" using a by (auto simp: claim_of_def)
  qed (simp add: kw)
  moreover have "externalAsset p = a" by (rule stored_asset [OF wf p])
  ultimately show ?thesis
    using kv.total_del [OF kw, of "\<lambda>_. claim_of (Symbol a)" "pool_key a"] p a by (simp add: claims_def claim_of_def)
qed

lemma check_pools_exact:
  assumes "\<And>p. p \<in> set ps \<Longrightarrow> externalAssetBalance p + externalCustody p < 2 ^ 256"
    and "nb + nc + sum_list (map (\<lambda>p. nativeAssetBalance p + nativeCustody p) ps) < 2 ^ 256"
  shows "check_pools S ps nb nc s = Ok
    ((\<exists>p \<in> set ps. externalAssetBalance p + externalCustody p \<noteq> bank s (GetCLPModuleAddress S) (Symbol (externalAsset p))) \<or>
     nb + nc + sum_list (map (\<lambda>p. nativeAssetBalance p + nativeCustody p) ps) \<noteq> bank s (GetCLPModuleAddress S) NativeSymbol)"
  using assms
proof (induction ps arbitrary: nb nc)
  case Nil
  then show ?case by (auto simp: uint_add GetModuleFury_def)
next
  case (Cons p ps)
  have "nb + nativeAssetBalance p < 2 ^ 256" "nc + nativeCustody p < 2 ^ 256" "externalAssetBalance p + externalCustody p < 2 ^ 256"
    using Cons.prems by simp_all
  moreover have "check_pools S ps (nb + nativeAssetBalance p) (nc + nativeCustody p) s = Ok
    ((\<exists>p \<in> set ps. externalAssetBalance p + externalCustody p \<noteq> bank s (GetCLPModuleAddress S) (Symbol (externalAsset p))) \<or>
     (nb + nativeAssetBalance p) + (nc + nativeCustody p) + sum_list (map (\<lambda>p. nativeAssetBalance p + nativeCustody p) ps) \<noteq>
       bank s (GetCLPModuleAddress S) NativeSymbol)"
    using Cons.prems by (intro Cons.IH) (simp_all add: algebra_simps)
  ultimately show ?case by (auto simp: uint_add algebra_simps)
qed

lemma BalanceModuleAccountCheck_exact:
  assumes wf: "pools_wf s" and native: "kv_get (pools s) (pool_key GetSettlementAsset) = None"
    and fits: "\<And>d. claims s d < 2 ^ 256"
  shows "BalanceModuleAccountCheck S s = Ok (surplus S s NativeSymbol \<noteq> 0 \<or>
    (\<exists>k p. kv_get (pools s) k = Some p \<and> surplus S s (Symbol (externalAsset p)) \<noteq> 0))"
proof -
  have kw: "kv_wf (pools s)" using wf by (simp add: pools_wf_def)
  have bank: "bank s (GetCLPModuleAddress S) d = claims s d \<longleftrightarrow> surplus S s d = 0" for d
    by (auto simp: surplus_def GetCLPModuleAddress_def)
  have pool: "externalAssetBalance p + externalCustody p = claims s (Symbol (externalAsset p)) \<and> Symbol (externalAsset p) \<noteq> NativeSymbol"
    if k: "kv_get (pools s) k = Some p" for k p
  proof -
    have key: "kv_get (pools s) (pool_key (externalAsset p)) = Some p" using wf k by (auto simp: pools_wf_def)
    then have "Symbol (externalAsset p) \<noteq> NativeSymbol" using native by (auto simp: GetSettlementAsset_def)
    then show ?thesis using claims_external [OF wf key] by simp
  qed
  have stored: "p \<in> set (GetPools s) \<longleftrightarrow> (\<exists>k. kv_get (pools s) k = Some p)" for p
    by (auto simp: GetPools_def kv_values_set [OF kw])
  have "map (claim_of NativeSymbol) (GetPools s) = map (\<lambda>p. nativeAssetBalance p + nativeCustody p) (GetPools s)"
  proof (rule map_cong)
    fix p assume "p \<in> set (GetPools s)"
    then have "Symbol (externalAsset p) \<noteq> NativeSymbol" using stored pool by blast
    then show "claim_of NativeSymbol p = nativeAssetBalance p + nativeCustody p" by (simp add: claim_of_def)
  qed simp
  moreover have "claims s NativeSymbol = sum_list (map (claim_of NativeSymbol) (GetPools s))"
    unfolding claims_def GetPools_def by (rule kv_values_total [symmetric])
  ultimately have fury: "sum_list (map (\<lambda>p. nativeAssetBalance p + nativeCustody p) (GetPools s)) = claims s NativeSymbol" by (simp only:)
  have "BalanceModuleAccountCheck S s = Ok
    ((\<exists>p \<in> set (GetPools s). externalAssetBalance p + externalCustody p \<noteq> bank s (GetCLPModuleAddress S) (Symbol (externalAsset p))) \<or>
     0 + 0 + sum_list (map (\<lambda>p. nativeAssetBalance p + nativeCustody p) (GetPools s)) \<noteq> bank s (GetCLPModuleAddress S) NativeSymbol)"
    unfolding BalanceModuleAccountCheck_def by (rule check_pools_exact) (use stored pool fits fury in auto)
  moreover have "bank s (GetCLPModuleAddress S) (Symbol (externalAsset p)) = externalAssetBalance p + externalCustody p \<longleftrightarrow>
      surplus S s (Symbol (externalAsset p)) = 0" if "kv_get (pools s) k = Some p" for k p
    using pool [OF that] bank by simp
  then have "(\<exists>p \<in> set (GetPools s). externalAssetBalance p + externalCustody p \<noteq> bank s (GetCLPModuleAddress S) (Symbol (externalAsset p))) \<longleftrightarrow>
      (\<exists>k p. kv_get (pools s) k = Some p \<and> surplus S s (Symbol (externalAsset p)) \<noteq> 0)"
    using stored by metis
  ultimately show ?thesis using fury bank [of NativeSymbol] by auto
qed

end

end
