(* ===== verification/ClpMsgs.thy ===== *)
theory ClpMsgs
  imports ClpMsgServer
begin

text \<open>
  The messages of \<open>x/clp\<close> as the chain routes them: their fields, the stateless checks
  (\<open>ValidateBasic\<close> and \<open>GetSigners\<close> of \<open>types/msgs.go\<close>) and the handler of the module
  (\<open>handler.go\<close>). A transaction runs the checks first and is rolled back when its message fails.
\<close>

section \<open>Messages\<close>

datatype (plugins only: code size) clp_msg =
    MsgCreatePool string Asset nat nat                \<comment> \<open>signer, asset, native and external amount\<close>
  | MsgDecommissionPool string string                 \<comment> \<open>signer, symbol\<close>
  | MsgAddLiquidity string Asset nat nat
  | MsgRemove MsgRemoveLiquidity
  | MsgRemoveLiquidityUnits string Asset nat
  | MsgSwap string Asset Asset nat nat                \<comment> \<open>sent and received asset, amount sent, least amount received\<close>
  | MsgModifyPmtpRates string string string bool      \<comment> \<open>block rate, running rate, end policy\<close>
  | MsgUpdatePmtpParams string string int int int     \<comment> \<open>governance rate, epoch length, start, end\<close>
  | MsgCancelUnlock string Asset nat
  | MsgUnlockLiquidityRequest string Asset nat
  | MsgUpdateRewardsParamsRequest string int int      \<comment> \<open>lock and cancel period\<close>
  | MsgAddRewardPeriodRequest string "RewardPeriod list"
  | MsgUpdateStakingRewardParams string Minter string
  | MsgUpdateLiquidityProtectionParams string nat string int bool
  | MsgModifyLiquidityProtectionRates string nat
  | MsgAddProviderDistributionPeriodRequest string "ProviderDistributionPeriod list"
  | MsgUpdateSwapFeeParamsRequest string int "SwapFeeTokenParams list"
  | MsgSetSymmetryThreshold string int int

fun msg_signer :: "clp_msg \<Rightarrow> string" where
  "msg_signer (MsgCreatePool signer _ _ _) = signer"
| "msg_signer (MsgDecommissionPool signer _) = signer"
| "msg_signer (MsgAddLiquidity signer _ _ _) = signer"
| "msg_signer (MsgRemove m) = removeSigner m"
| "msg_signer (MsgRemoveLiquidityUnits signer _ _) = signer"
| "msg_signer (MsgSwap signer _ _ _ _) = signer"
| "msg_signer (MsgModifyPmtpRates signer _ _ _) = signer"
| "msg_signer (MsgUpdatePmtpParams signer _ _ _ _) = signer"
| "msg_signer (MsgCancelUnlock signer _ _) = signer"
| "msg_signer (MsgUnlockLiquidityRequest signer _ _) = signer"
| "msg_signer (MsgUpdateRewardsParamsRequest signer _ _) = signer"
| "msg_signer (MsgAddRewardPeriodRequest signer _) = signer"
| "msg_signer (MsgUpdateStakingRewardParams signer _ _) = signer"
| "msg_signer (MsgUpdateLiquidityProtectionParams signer _ _ _ _) = signer"
| "msg_signer (MsgModifyLiquidityProtectionRates signer _) = signer"
| "msg_signer (MsgAddProviderDistributionPeriodRequest signer _) = signer"
| "msg_signer (MsgUpdateSwapFeeParamsRequest signer _ _) = signer"
| "msg_signer (MsgSetSymmetryThreshold signer _ _) = signer"

section \<open>Stateless checks (types/msgs.go)\<close>

text \<open>\<open>if !asset.Validate() { return ErrInValidAsset }\<close>.\<close>

definition check_asset :: "sdk \<Rightarrow> Asset \<Rightarrow> unit result" where
  "check_asset S a = rbind (Asset_Validate S a) (\<lambda>ok. check ok ErrInValidAsset)"

definition check_signer :: "string \<Rightarrow> unit result" where
  "check_signer signer = check (length signer \<noteq> 0) ErrInvalidAddress"

definition check_address :: "sdk \<Rightarrow> string \<Rightarrow> unit result" where
  "check_address S signer = rbind (of_option (ErrSdk ''bech32'') (acc_from_bech32 S signer)) (\<lambda>_. Ok ())"

text \<open>A multiplier that is not set is a nil pointer.\<close>

definition check_multiplier :: "string \<Rightarrow> int option \<Rightarrow> unit result" where
  "check_multiplier what m =
     (case m of
        None \<Rightarrow> Panic
      | Some x \<Rightarrow> rbind (check (0 \<le> x) (ErrSdk what)) (\<lambda>_. check (x \<le> new_dec 10) (ErrSdk what)))"

definition MsgAddRewardPeriodRequest_ValidateBasic :: "RewardPeriod list \<Rightarrow> unit result" where
  "MsgAddRewardPeriodRequest_ValidateBasic periods =
     rfold (\<lambda>period _.
       rbind (check (rewardPeriodId period \<noteq> '''') (ErrSdk ''reward period id must be non-empty'')) (\<lambda>_.
       rbind (check (rewardPeriodStartBlock period \<le> rewardPeriodEndBlock period)
                (ErrSdk ''reward period start block must be before end block'')) (\<lambda>_.
       rbind (rfold (\<lambda>m _. check_multiplier ''pool multiplier'' (multiplier m))
                (rewardPeriodPoolMultipliers period) ()) (\<lambda>_.
       check_multiplier ''default multiplier'' (rewardPeriodDefaultMultiplier period))))) periods ()"

definition MsgUpdatePmtpParams_ValidateBasic :: "sdk \<Rightarrow> string \<Rightarrow> int \<Rightarrow> int \<Rightarrow> int \<Rightarrow> unit result" where
  "MsgUpdatePmtpParams_ValidateBasic S signer epochLen startBlock endBlock =
     rbind (check_address S signer) (\<lambda>_.
     rbind (check (0 < epochLen) (ErrSdk ''pmtp epoch length must be greated than zero'')) (\<lambda>_.
     rbind (check (0 \<le> startBlock) (ErrSdk ''pmtp start block cannot be negative'')) (\<lambda>_.
     rbind (check (0 < endBlock) (ErrSdk ''pmtp end block cannot be negative'')) (\<lambda>_.
     rbind (check (startBlock \<le> endBlock) (ErrSdk ''end block must be after begin block'')) (\<lambda>_.
     check (trem (to_i64 (to_i64 (endBlock - startBlock) + 1)) epochLen = 0)
       (ErrSdk ''all epochs must have equal number of blocks''))))))"

definition MsgDecommissionPool_ValidateBasic :: "string \<Rightarrow> string \<Rightarrow> unit result" where
  "MsgDecommissionPool_ValidateBasic signer symbol =
     rbind (check_signer signer) (\<lambda>_.
     check (VerifyRange (int (length (TrimSpace symbol))) 0 (int MaxSymbolLength)) (ErrSdk ''invalid request''))"

definition MsgSwap_ValidateBasic :: "sdk \<Rightarrow> string \<Rightarrow> Asset \<Rightarrow> Asset \<Rightarrow> nat \<Rightarrow> unit result" where
  "MsgSwap_ValidateBasic S signer sent recv x =
     rbind (check_signer signer) (\<lambda>_. rbind (check_asset S sent) (\<lambda>_. rbind (check_asset S recv) (\<lambda>_.
     rbind (check (\<not> Asset_Equals sent recv) ErrInValidAsset) (\<lambda>_. check (x \<noteq> 0) ErrInValidAmount))))"

definition MsgRemoveLiquidity_ValidateBasic :: "sdk \<Rightarrow> MsgRemoveLiquidity \<Rightarrow> unit result" where
  "MsgRemoveLiquidity_ValidateBasic S m =
     rbind (check_signer (removeSigner m)) (\<lambda>_. rbind (check_asset S (removeExternalAsset m)) (\<lambda>_.
     rbind (check (\<not> (\<not> 0 < wBasisPoints m \<or> MaxWbasis < wBasisPoints m)) ErrInvalidWBasis) (\<lambda>_.
     check (\<not> (10000 < asymmetry m \<or> asymmetry m < - 10000)) ErrInvalidAsymmetry)))"

definition MsgRemoveLiquidityUnits_ValidateBasic :: "sdk \<Rightarrow> string \<Rightarrow> Asset \<Rightarrow> nat \<Rightarrow> unit result" where
  "MsgRemoveLiquidityUnits_ValidateBasic S signer a n =
     rbind (check_signer signer) (\<lambda>_. rbind (check_asset S a) (\<lambda>_. check (0 < n) ErrInValidAmount))"

definition MsgAddLiquidity_ValidateBasic :: "sdk \<Rightarrow> string \<Rightarrow> Asset \<Rightarrow> nat \<Rightarrow> nat \<Rightarrow> unit result" where
  "MsgAddLiquidity_ValidateBasic S signer a n e =
     rbind (check_signer signer) (\<lambda>_. rbind (check_asset S a) (\<lambda>_.
     rbind (check (\<not> Asset_Equals a GetSettlementAsset) ErrInValidAsset) (\<lambda>_.
     check (\<not> (\<not> 0 < n \<and> \<not> 0 < e)) ErrInValidAmount)))"

definition MsgCreatePool_ValidateBasic :: "sdk \<Rightarrow> string \<Rightarrow> Asset \<Rightarrow> nat \<Rightarrow> nat \<Rightarrow> unit result" where
  "MsgCreatePool_ValidateBasic S signer a n e =
     rbind (check_signer signer) (\<lambda>_. rbind (check_asset S a) (\<lambda>_.
     rbind (check (\<not> Asset_Equals a GetSettlementAsset) ErrInValidAsset) (\<lambda>_.
     rbind (check (0 < n) ErrInValidAmount) (\<lambda>_. check (0 < e) ErrInValidAmount))))"

text \<open>\<open>MsgCancelUnlock\<close> and \<open>MsgUnlockLiquidityRequest\<close> have the same fields and checks.\<close>

definition MsgCancelUnlock_ValidateBasic :: "sdk \<Rightarrow> string \<Rightarrow> Asset \<Rightarrow> unit result" where
  "MsgCancelUnlock_ValidateBasic S signer a = rbind (check_signer signer) (\<lambda>_. check_asset S a)"

definition MsgUnlockLiquidityRequest_ValidateBasic :: "sdk \<Rightarrow> string \<Rightarrow> Asset \<Rightarrow> unit result" where
  "MsgUnlockLiquidityRequest_ValidateBasic S signer a = rbind (check_signer signer) (\<lambda>_. check_asset S a)"

definition MsgUpdateLiquidityProtectionParams_ValidateBasic :: "sdk \<Rightarrow> string \<Rightarrow> int \<Rightarrow> unit result" where
  "MsgUpdateLiquidityProtectionParams_ValidateBasic S signer len =
     rbind (check_address S signer) (\<lambda>_.
     check (0 < len) (ErrSdk ''liquidity protection epoch length must be greated than zero''))"

definition check_fee :: "int \<Rightarrow> unit result" where
  "check_fee r =
     rbind (check (0 \<le> r) (ErrSdk ''swap rate fee must be greater than or equal to zero'')) (\<lambda>_.
     check (r \<le> new_dec 1) (ErrSdk ''swap rate fee must be less than or equal to one''))"

definition MsgUpdateSwapFeeParamsRequest_ValidateBasic :: "string \<Rightarrow> int \<Rightarrow> SwapFeeTokenParams list \<Rightarrow> unit result" where
  "MsgUpdateSwapFeeParamsRequest_ValidateBasic signer rate tokens =
     rbind (check (signer \<noteq> '''') ErrInvalidAddress) (\<lambda>_. rbind (check_fee rate) (\<lambda>_.
     rfold (\<lambda>p _. check_fee (swapFeeRate p)) tokens ()))"

definition MsgSetSymmetryThreshold_ValidateBasic :: "string \<Rightarrow> unit result" where
  "MsgSetSymmetryThreshold_ValidateBasic signer = check (signer \<noteq> '''') ErrInvalidAddress"

fun ValidateBasic :: "sdk \<Rightarrow> clp_msg \<Rightarrow> unit result" where
  "ValidateBasic S (MsgCreatePool signer a n e) = MsgCreatePool_ValidateBasic S signer a n e"
| "ValidateBasic S (MsgDecommissionPool signer symbol) = MsgDecommissionPool_ValidateBasic signer symbol"
| "ValidateBasic S (MsgAddLiquidity signer a n e) = MsgAddLiquidity_ValidateBasic S signer a n e"
| "ValidateBasic S (MsgRemove m) = MsgRemoveLiquidity_ValidateBasic S m"
| "ValidateBasic S (MsgRemoveLiquidityUnits signer a n) = MsgRemoveLiquidityUnits_ValidateBasic S signer a n"
| "ValidateBasic S (MsgSwap signer sent recv x mn) = MsgSwap_ValidateBasic S signer sent recv x"
| "ValidateBasic S (MsgModifyPmtpRates signer _ _ _) = check_address S signer"
| "ValidateBasic S (MsgUpdatePmtpParams signer _ len start end') =
     MsgUpdatePmtpParams_ValidateBasic S signer len start end'"
| "ValidateBasic S (MsgCancelUnlock signer a _) = MsgCancelUnlock_ValidateBasic S signer a"
| "ValidateBasic S (MsgUnlockLiquidityRequest signer a _) = MsgUnlockLiquidityRequest_ValidateBasic S signer a"
| "ValidateBasic S (MsgUpdateRewardsParamsRequest _ _ _) = Ok ()"
| "ValidateBasic S (MsgAddRewardPeriodRequest _ periods) = MsgAddRewardPeriodRequest_ValidateBasic periods"
| "ValidateBasic S (MsgUpdateStakingRewardParams _ _ params) = mint_params_validate S params"
| "ValidateBasic S (MsgUpdateLiquidityProtectionParams signer _ _ len _) =
     MsgUpdateLiquidityProtectionParams_ValidateBasic S signer len"
| "ValidateBasic S (MsgModifyLiquidityProtectionRates signer _) = check_address S signer"
| "ValidateBasic S (MsgAddProviderDistributionPeriodRequest signer periods) =
     ProviderDistribution_ValidateBasic signer periods"
| "ValidateBasic S (MsgUpdateSwapFeeParamsRequest signer rate tokens) =
     MsgUpdateSwapFeeParamsRequest_ValidateBasic signer rate tokens"
| "ValidateBasic S (MsgSetSymmetryThreshold signer _ _) = MsgSetSymmetryThreshold_ValidateBasic signer"

lemmas validate_defs = MsgCreatePool_ValidateBasic_def MsgDecommissionPool_ValidateBasic_def
  MsgAddLiquidity_ValidateBasic_def MsgRemoveLiquidity_ValidateBasic_def MsgRemoveLiquidityUnits_ValidateBasic_def
  MsgSwap_ValidateBasic_def MsgUpdatePmtpParams_ValidateBasic_def MsgCancelUnlock_ValidateBasic_def
  MsgUnlockLiquidityRequest_ValidateBasic_def MsgAddRewardPeriodRequest_ValidateBasic_def
  MsgUpdateLiquidityProtectionParams_ValidateBasic_def ProviderDistribution_ValidateBasic_def
  MsgUpdateSwapFeeParamsRequest_ValidateBasic_def MsgSetSymmetryThreshold_ValidateBasic_def

text \<open>\<open>GetSigners\<close> panics for an address that does not parse.\<close>

definition GetSigners :: "sdk \<Rightarrow> clp_msg \<Rightarrow> string list result" where
  "GetSigners S m = (case acc_from_bech32 S (msg_signer m) of None \<Rightarrow> Panic | Some addr \<Rightarrow> Ok [addr])"

section \<open>Routing (handler.go)\<close>

text \<open>The switch of \<open>NewHandler\<close> has no case for \<open>MsgSetSymmetryThreshold\<close>.\<close>

fun NewHandler :: "sdk \<Rightarrow> clp_msg \<Rightarrow> ('s clp_state_scheme, unit) M" where
  "NewHandler S (MsgCreatePool signer a n e) = msg_CreatePool S signer a n e"
| "NewHandler S (MsgDecommissionPool signer symbol) = msg_DecommissionPool S signer symbol"
| "NewHandler S (MsgAddLiquidity signer a n e) = msg_AddLiquidity S signer a n e"
| "NewHandler S (MsgRemove m) = msg_RemoveLiquidity S m"
| "NewHandler S (MsgRemoveLiquidityUnits signer a n) = msg_RemoveLiquidityUnits S signer a n"
| "NewHandler S (MsgSwap signer sent recv x mn) = bindM (msg_Swap S signer sent recv x mn) (\<lambda>_. ret ())"
| "NewHandler S (MsgModifyPmtpRates signer b r e) = msg_ModifyPmtpRates S signer b r e"
| "NewHandler S (MsgUpdatePmtpParams signer g len start end') = msg_UpdatePmtpParams S signer g len start end'"
| "NewHandler S (MsgCancelUnlock signer a n) = msg_CancelUnlockLiquidity S signer a n"
| "NewHandler S (MsgUnlockLiquidityRequest signer a n) = msg_UnlockLiquidity S signer a n"
| "NewHandler S (MsgUpdateRewardsParamsRequest signer l c) = msg_UpdateRewardsParams S signer l c"
| "NewHandler S (MsgAddRewardPeriodRequest signer ps) = msg_AddRewardPeriod S signer ps"
| "NewHandler S (MsgUpdateStakingRewardParams signer m p) = msg_UpdateStakingRewardParams S signer m p"
| "NewHandler S (MsgUpdateLiquidityProtectionParams signer n a len act) =
     msg_UpdateLiquidityProtectionParams S signer n a len act"
| "NewHandler S (MsgModifyLiquidityProtectionRates signer n) = msg_ModifyLiquidityProtectionRates S signer n"
| "NewHandler S (MsgAddProviderDistributionPeriodRequest signer ps) = msg_AddProviderDistributionPeriod S signer ps"
| "NewHandler S (MsgUpdateSwapFeeParamsRequest signer r ts) = msg_UpdateSwapFeeParams S signer r ts"
| "NewHandler S (MsgSetSymmetryThreshold signer t r) = throw (ErrSdk ''unrecognized message type'')"

text \<open>The service router of the SDK, which comes first, calls the message server directly.\<close>

definition route_msg :: "sdk \<Rightarrow> clp_msg \<Rightarrow> ('s clp_state_scheme, unit) M" where
  "route_msg S m =
     (case m of MsgSetSymmetryThreshold signer t r \<Rightarrow> msg_SetSymmetryThreshold S signer t r
      | _ \<Rightarrow> NewHandler S m)"

definition run_msg :: "sdk \<Rightarrow> clp_msg \<Rightarrow> ('s clp_state_scheme, unit) M" where
  "run_msg S m =
     bindM (liftR (ValidateBasic S m)) (\<lambda>_.
     bindM (liftR (GetSigners S m)) (\<lambda>_. route_msg S m))"

section \<open>Facts\<close>

lemma check_Ok [result_inv]: "check b e = Ok () \<longleftrightarrow> b"
  by (simp add: check_def)

lemma check_signer_Ok [result_inv]: "check_signer s = Ok () \<longleftrightarrow> s \<noteq> []"
  by (simp add: check_signer_def check_Ok)

lemma check_asset_Ok [result_inv]: "check_asset S a = Ok () \<longleftrightarrow> Asset_Validate S a = Ok True"
  by (auto simp: check_asset_def result_inv)

lemma run_msg_Ok:
  "run_msg S m s = (Ok (), t) \<longleftrightarrow> ValidateBasic S m = Ok () \<and>
     (\<exists>addr. acc_from_bech32 S (msg_signer m) = Some addr) \<and> route_msg S m s = (Ok (), t)"
  by (auto simp: run_msg_def GetSigners_def result_inv split: option.splits)

section \<open>Administration\<close>

text \<open>The role a message needs, from the comments and checks of the handlers.\<close>

fun admin_role :: "clp_msg \<Rightarrow> AdminType option" where
  "admin_role (MsgModifyPmtpRates _ _ _ _) = Some PMTPREWARDS"
| "admin_role (MsgUpdatePmtpParams _ _ _ _ _) = Some PMTPREWARDS"
| "admin_role (MsgUpdateRewardsParamsRequest _ _ _) = Some PMTPREWARDS"
| "admin_role (MsgAddRewardPeriodRequest _ _) = Some PMTPREWARDS"
| "admin_role (MsgUpdateStakingRewardParams _ _ _) = Some PMTPREWARDS"
| "admin_role (MsgUpdateLiquidityProtectionParams _ _ _ _ _) = Some CLPDEX"
| "admin_role (MsgModifyLiquidityProtectionRates _ _) = Some CLPDEX"
| "admin_role (MsgAddProviderDistributionPeriodRequest _ _) = Some PMTPREWARDS"
| "admin_role (MsgUpdateSwapFeeParamsRequest _ _ _) = Some PMTPREWARDS"
| "admin_role (MsgSetSymmetryThreshold _ _ _) = Some CLPDEX"
| "admin_role _ = None"

lemma periods_no_panic: "ProviderDistribution_ValidateBasic signer periods \<noteq> Panic"
proof -
  have "rfold (\<lambda>p _. if P p then Err e1 else if Q p then Err e2 else if R p then Err e3 else Ok ()) ps () \<noteq> Panic"
    for P Q R :: "ProviderDistributionPeriod \<Rightarrow> bool" and e1 e2 e3 ps
    by (induction ps) auto
  then show ?thesis unfolding ProviderDistribution_ValidateBasic_def by simp
qed

lemma route_msg_denied:
  assumes "admin_role m = Some t" "\<And>addr. acc_from_bech32 S (msg_signer m) = Some addr \<Longrightarrow> \<not> IsAdminAccount t addr s"
  shows "\<exists>e. route_msg S m s = (Err e, s)"
proof (cases m)
  case (MsgAddProviderDistributionPeriodRequest signer ps)
  then show ?thesis
    using assms admin_gate_denied [of S signer PMTPREWARDS s] periods_no_panic [of signer ps]
    by (cases "ProviderDistribution_ValidateBasic signer ps")
      (auto simp: route_msg_def msg_AddProviderDistributionPeriod_def run)
qed (use assms admin_gate_denied [of S "msg_signer m" t s] in
  \<open>auto simp: route_msg_def msg_ModifyPmtpRates_def msg_UpdatePmtpParams_def msg_UpdateRewardsParams_def
    msg_AddRewardPeriod_def msg_UpdateStakingRewardParams_def msg_UpdateLiquidityProtectionParams_def
    msg_ModifyLiquidityProtectionRates_def msg_UpdateSwapFeeParams_def msg_SetSymmetryThreshold_def\<close>)

end
