(* ===== verification/ClpUnlocks.thy ===== *)
theory ClpUnlocks
  imports ClpUnits
begin

text \<open>
  The unlock requests of a provider (\<open>UseUnlockedLiquidity\<close> of \<open>x/clp/keeper/rewards.go\<close>):
  the loop takes units from the records whose lock period has passed, in their order, and only
  from them.
\<close>

section \<open>Unlock records\<close>

definition unlocked :: "bool \<Rightarrow> int \<Rightarrow> int \<Rightarrow> LiquidityUnlock \<Rightarrow> bool" where
  "unlocked anyway lockPeriod now r \<longleftrightarrow> anyway \<or> to_i64 (requestHeight r + to_i64 lockPeriod) \<le> now"

definition locked_units :: "LiquidityUnlock list \<Rightarrow> nat" where
  "locked_units rs = sum_list (map units rs)"

lemma use_records_spec:
  "use_records anyway lockPeriod now n rs = (left, rs') \<Longrightarrow>
     left = n - locked_units (filter (unlocked anyway lockPeriod now) rs) \<and> left \<le> n \<and>
     locked_units rs' + (n - left) = locked_units rs \<and> map requestHeight rs' = map requestHeight rs"
proof (induction anyway lockPeriod now n rs arbitrary: left rs' rule: use_records.induct)
  case (2 anyway lockPeriod now n r rs)
  show ?case
  proof (cases "unlocked anyway lockPeriod now r")
    case False
    obtain l qs where q: "use_records anyway lockPeriod now n rs = (l, qs)" by force
    then have "left = l" "rs' = r # qs" using 2(3) False 
      by (auto simp: unlocked_def)
    with "2.IH"(2) [OF _ q] False show ?thesis by (auto simp: unlocked_def locked_units_def)
  next
    case True
    show ?thesis
    proof (cases "units r < n")
      case lt: True
      obtain l qs where q: "use_records anyway lockPeriod now (n - units r) rs = (l, qs)" by force
      then have "left = l" "rs' = r\<lparr>units := 0\<rparr> # qs" using 2(3) True lt by (auto simp: unlocked_def)
      with "2.IH"(1) [OF _ lt q] True lt show ?thesis by (auto simp: unlocked_def locked_units_def)
    qed (use 2(3) True in \<open>auto simp: unlocked_def locked_units_def\<close>)
  qed
qed (simp add: locked_units_def)

text \<open>What a use may do to one record: its height stays, it does not grow, and it is debited only when its lock has run out.\<close>

definition debited :: "bool \<Rightarrow> int \<Rightarrow> int \<Rightarrow> LiquidityUnlock \<Rightarrow> LiquidityUnlock \<Rightarrow> bool" where
  "debited anyway lockPeriod now r r' \<longleftrightarrow> requestHeight r' = requestHeight r \<and> units r' \<le> units r \<and>
     (units r' < units r \<longrightarrow> unlocked anyway lockPeriod now r)"

lemma debited_same: "debited anyway lockPeriod now r r"
  by (simp add: debited_def)

lemma debited_less: "unlocked anyway lockPeriod now r \<Longrightarrow> n \<le> units r \<Longrightarrow> debited anyway lockPeriod now r (r\<lparr>units := n\<rparr>)"
  by (simp add: debited_def)

lemma use_records_debited: "list_all2 (debited anyway lockPeriod now) rs (snd (use_records anyway lockPeriod now n rs))"
  by (induction anyway lockPeriod now n rs rule: use_records.induct)
    (auto simp: unlocked_def [symmetric] debited_same list_all2_same Let_def split: prod.splits intro!: debited_less)

definition matured :: "bool \<Rightarrow> 's clp_state_scheme \<Rightarrow> LiquidityProvider \<Rightarrow> nat" where
  "matured anyway s lp =
     locked_units (filter (unlocked anyway (liquidityRemovalLockPeriod (rewardParams s)) (height s)) (unlocks lp))"

lemma UseUnlockedLiquidity_exact:
  assumes lock: "liquidityRemovalLockPeriod (rewardParams s) \<noteq> 0" and valid: "Asset_Validate S (lp_asset lp) = Ok True"
  shows "if n \<le> matured anyway s lp
    then \<exists>rs. UseUnlockedLiquidity S lp n anyway s = (Ok rs, s\<lparr>providers :=
        kv_put (lp_key lp) (lp\<lparr>unlocks := filter (\<lambda>r. units r \<noteq> 0) rs\<rparr>) (providers s)\<rparr>) \<and>
      list_all2 (debited anyway (liquidityRemovalLockPeriod (rewardParams s)) (height s)) (unlocks lp) rs \<and>
      locked_units rs + n = locked_units (unlocks lp)
    else UseUnlockedLiquidity S lp n anyway s = (Err ErrBalanceNotAvailable, s)"
proof -
  obtain l rs where use: "use_records anyway (liquidityRemovalLockPeriod (rewardParams s)) (height s) n (unlocks lp) = (l, rs)"
    by force
  have "SetLiquidityProvider S (lp\<lparr>unlocks := filter (\<lambda>r. units r \<noteq> 0) rs\<rparr>) s =
      (Ok (), s\<lparr>providers := kv_put (lp_key lp) (lp\<lparr>unlocks := filter (\<lambda>r. units r \<noteq> 0) rs\<rparr>) (providers s)\<rparr>)"
    using valid by (simp add: SetLiquidityProvider_Ok)
  moreover have "list_all2 (debited anyway (liquidityRemovalLockPeriod (rewardParams s)) (height s)) (unlocks lp) rs"
    using use_records_debited [of anyway "liquidityRemovalLockPeriod (rewardParams s)" "height s" "unlocks lp" n] use by simp
  moreover note use_records_spec [OF use]
  ultimately show ?thesis
    using use lock
    by (auto simp: matured_def UseUnlockedLiquidity_def GetRewardsParams_def thenM_def bindM_def gets_def throw_def ret_def)
qed

end
