(* ===== verification/ClpProtection.thy ===== *)
theory ClpProtection
  imports ClpBlockUnits
begin

text \<open>
  The liquidity protection (\<open>x/clp/keeper/liquidityprotection.go\<close>): the current threshold stays
  between zero and the maximum under every update the code makes; a threshold above the maximum,
  which an administrator can set, stops the chain at the next block. Over a run of blocks without swaps the threshold grows by its
  share per block.
\<close>

section \<open>Liquidity protection\<close>

definition threshold_ok :: "'s clp_state_scheme \<Rightarrow> bool" where
  "threshold_ok s \<longleftrightarrow> currentFuryLiquidityThreshold s \<le> maxFuryLiquidityThreshold (protectionParams s)"

context sdk_laws
begin

lemma MustUpdate_sell:
  assumes "isActive (protectionParams s)" "CalcFuryValue S n price = Ok v"
  shows "MustUpdateLiquidityProtectionThreshold S True n price s =
    (if v \<le> currentFuryLiquidityThreshold s
     then (Ok (), s\<lparr>currentFuryLiquidityThreshold := currentFuryLiquidityThreshold s - v\<rparr>) else (Panic, s))"
  using assms
  by (simp add: MustUpdateLiquidityProtectionThreshold_def run GetLiquidityProtectionParams_def uint_sub
      SetLiquidityProtectionCurrentFuryLiquidityThreshold_def SetLiquidityProtectionRateParams_def modify_def not_le)

lemma MustUpdate_buy:
  assumes "isActive (protectionParams s)" "CalcFuryValue S n price = Ok v" "threshold_ok s"
    "maxFuryLiquidityThreshold (protectionParams s) < 2 ^ 256"
  shows "MustUpdateLiquidityProtectionThreshold S False n price s =
    (Ok (), s\<lparr>currentFuryLiquidityThreshold :=
       min (maxFuryLiquidityThreshold (protectionParams s)) (currentFuryLiquidityThreshold s + v)\<rparr>)"
proof -
  let ?m = "maxFuryLiquidityThreshold (protectionParams s)" and ?c = "currentFuryLiquidityThreshold s"
  have c: "?c \<le> ?m" using assms(3) by (simp add: threshold_ok_def)
  note run_simps = MustUpdateLiquidityProtectionThreshold_def run GetLiquidityProtectionParams_def uint_sub uint_add
    SetLiquidityProtectionCurrentFuryLiquidityThreshold_def SetLiquidityProtectionRateParams_def modify_def
  show ?thesis
  proof (cases "?m - ?c < v")
    case True
    then show ?thesis using assms(1,2) c by (simp add: run_simps min_def)
  next
    case False
    then have "?c + v \<le> ?m" using c by linarith
    then show ?thesis using assms c False by (simp add: run_simps min_def)
  qed
qed

lemma MustUpdate_threshold:
  assumes h: "MustUpdateLiquidityProtectionThreshold S sell n price s = (Ok (), t)" and s: "threshold_ok s"
  shows "threshold_ok t"
proof (cases "isActive (protectionParams s)")
  case True
  let ?m = "maxFuryLiquidityThreshold (protectionParams s)" and ?c = "currentFuryLiquidityThreshold s"
  obtain v u where u: "(if sell then if ?c < v then Panic else uint_sub S ?c v
      else rbind (uint_sub S ?m ?c) (\<lambda>room. if room < v then Ok ?m else uint_add S ?c v)) = Ok u"
    and t: "t = s\<lparr>currentFuryLiquidityThreshold := u\<rparr>"
    using h True unfolding MustUpdateLiquidityProtectionThreshold_def GetLiquidityProtectionParams_def
      SetLiquidityProtectionCurrentFuryLiquidityThreshold_def SetLiquidityProtectionRateParams_def
    by (simp only: result_inv) blast
  have "u \<le> ?m"
    using u s by (auto simp: uint_laws threshold_ok_def split: if_splits)
  then show ?thesis using t by (simp add: threshold_ok_def)
qed (use h s in \<open>simp add: MustUpdateLiquidityProtectionThreshold_def GetLiquidityProtectionParams_def run ret_def\<close>)

lemma replenish_run:
  assumes "isActive (protectionParams s)" "threshold_ok s" "0 < protectionEpochLength (protectionParams s)"
    "maxFuryLiquidityThreshold (protectionParams s) < 2 ^ 256"
  shows "replenish_threshold S s = (Ok (), s\<lparr>currentFuryLiquidityThreshold :=
     min (maxFuryLiquidityThreshold (protectionParams s))
       (currentFuryLiquidityThreshold s +
        maxFuryLiquidityThreshold (protectionParams s) div nat (protectionEpochLength (protectionParams s)))\<rparr>)"
proof -
  let ?m = "maxFuryLiquidityThreshold (protectionParams s)" and ?c = "currentFuryLiquidityThreshold s"
  let ?r = "?m div nat (protectionEpochLength (protectionParams s))"
  have c: "?c \<le> ?m" using assms(2) by (simp add: threshold_ok_def)
  then have "(if ?m - ?c < ?r then Ok ?m else uint_add S ?c ?r) = Ok (min ?m (?c + ?r))"
    using assms(4) by (auto simp: uint_add min_def)
  with c show ?thesis
    using assms(1,3)
    by (simp add: replenish_threshold_def run GetLiquidityProtectionParams_def uint_sub uint_quo Let_def
        SetLiquidityProtectionCurrentFuryLiquidityThreshold_def SetLiquidityProtectionRateParams_def modify_def)
qed

lemma replenish_panics:
  assumes "isActive (protectionParams s)" "\<not> threshold_ok s"
  shows "replenish_threshold S s = (Panic, s)"
  using assms
  by (cases "nat (protectionEpochLength (protectionParams s)) = 0")
    (auto simp: replenish_threshold_def run GetLiquidityProtectionParams_def uint_sub uint_quo Let_def threshold_ok_def)

lemma BeginBlocker_panics:
  assumes "isActive (protectionParams s)" "\<not> threshold_ok s"
  shows "BeginBlocker S s = (Panic, s)"
  using replenish_panics [OF assms] by (simp add: BeginBlocker_def run thenM_def)

end

section \<open>The beginning of a block returns\<close>

text \<open>The prices of a pool can be written: the sums fit, and neither the check of the asset nor the look-up of its decimals panics.\<close>

definition quotable :: "sdk \<Rightarrow> 's clp_state_scheme \<Rightarrow> Pool \<Rightarrow> bool" where
  "quotable S s p \<longleftrightarrow> nativeAssetBalance p + nativeLiabilities p < 2 ^ 256 \<and> externalAssetBalance p + externalLiabilities p < 2 ^ 256 \<and>
     Asset_Validate S (externalAsset p) \<noteq> Panic \<and> GetAssetDecimals (externalAsset p) s \<noteq> Panic"

definition no_policy :: "int \<Rightarrow> 's clp_state_scheme \<Rightarrow> bool" where
  "no_policy h s \<longleftrightarrow> h < pmtpPeriodStartBlock (pmtpParams s) \<or> pmtpPeriodStartBlock (pmtpParams s) < h \<and> pmtpPeriodEndBlock (pmtpParams s) < h"

lemma price_bounded: "X = 0 \<or> isX \<or> rate \<noteq> - dec_one \<Longrightarrow> \<exists>v. price_or_zero (CalcSpotPriceX X Y dx dy rate isX) = Ok v"
proof -
  have dec: "\<exists>v. price_or_zero (RatToDec r) = Ok v" for r
    by (simp add: RatToDec_def Let_def split: prod.split)
  have fac: "calcPmtpFactor rate \<noteq> 0" if "rate \<noteq> - dec_one"
    using that by (simp add: calcPmtpFactor_def DecToRat_def field_simps)
  assume "X = 0 \<or> isX \<or> rate \<noteq> - dec_one"
  then show ?thesis
    by (cases "X = 0"; cases isX) (simp_all add: CalcSpotPriceX_def rat_frac_def rat_quo_def Let_def fac dec)
qed

context sdk_laws
begin

lemma prices_return:
  assumes "nativeAssetBalance p + nativeLiabilities p < 2 ^ 256" "externalAssetBalance p + externalLiabilities p < 2 ^ 256" "rate \<noteq> - dec_one"
  shows "\<exists>v. price_or_zero (CalcSpotPriceNative S p d rate) = Ok v" "\<exists>v. price_or_zero (CalcSpotPriceExternal S p d rate) = Ok v"
  using assms price_bounded by (simp_all add: CalcSpotPriceNative_def CalcSpotPriceExternal_def ExtractDebt_def uint_add)

lemma update_price_returns:
  assumes q: "quotable S s p" and r: "rate \<noteq> - dec_one"
  shows "\<exists>m. update_price S rate p s = (Ok (), s\<lparr>pools := m\<rparr>)"
proof (cases "GetAssetDecimals (externalAsset p) s")
  case (Ok d)
  obtain v w where v: "price_or_zero (CalcSpotPriceNative S p d rate) = Ok v" "price_or_zero (CalcSpotPriceExternal S p d rate) = Ok w"
    using prices_return q r unfolding quotable_def by metis
  show ?thesis
    using q by (cases "Asset_Validate S (externalAsset p)")
     (auto simp: update_price_def Ok v gets_def quotable_def SetPool_def Pool_Validate_def ignoreM_def catchM_def bindM_def liftR_def throw_def ret_def modify_def
       intro: exI [of _ "pools s"])
next
  case (Err e)
  then show ?thesis by (auto simp: update_price_def run ret_def intro: exI [of _ "pools s"])
qed (use q in \<open>simp add: quotable_def\<close>)

lemma PolicyRun_returns:
  assumes "\<forall>p \<in> set (GetPools s). quotable S s p" and "rate \<noteq> - dec_one"
  shows "\<exists>m. PolicyRun S rate s = (Ok (), s\<lparr>pools := m\<rparr>)"
proof -
  have "\<exists>m. eachM (update_price S rate) ps u = (Ok (), u\<lparr>pools := m\<rparr>)" if "\<forall>p \<in> set ps. quotable S u p" for ps and u :: "'a clp_state_scheme"
    using that
  proof (induction ps arbitrary: u)
    case Nil
    then show ?case by (auto simp: ret_def intro: exI [of _ "pools u"])
  next
    case (Cons p ps)
    obtain m where m: "update_price S rate p u = (Ok (), u\<lparr>pools := m\<rparr>)" using update_price_returns Cons.prems assms(2) by fastforce
    have "quotable S (u\<lparr>pools := m\<rparr>) q = quotable S u q" for q by (simp add: quotable_def GetAssetDecimals_def GetRegistry_def)
    with Cons.IH [of "u\<lparr>pools := m\<rparr>"] Cons.prems show ?case by (auto simp: thenM_def bindM_def m)
  qed
  with assms(1) show ?thesis by (simp add: PolicyRun_def run)
qed


text \<open>Outside the period of a policy of the ratio shift, the beginning of a block returns.\<close>

lemma BeginBlocker_returns:
  assumes "isActive (protectionParams s)" "threshold_ok s" "0 < protectionEpochLength (protectionParams s)"
    "maxFuryLiquidityThreshold (protectionParams s) < 2 ^ 256"
    and "no_policy (height s) s" and "pmtpCurrentRunningRate (pmtpRateParams s) \<noteq> - dec_one"
    and "\<forall>p \<in> set (GetPools s). quotable S s p"
  shows "\<exists>t. BeginBlocker S s = (Ok (), t)"
proof -
  let ?rate = "pmtpCurrentRunningRate (pmtpRateParams s)"
  define u where "u = s\<lparr>currentFuryLiquidityThreshold := min (maxFuryLiquidityThreshold (protectionParams s))
    (currentFuryLiquidityThreshold s + maxFuryLiquidityThreshold (protectionParams s) div nat (protectionEpochLength (protectionParams s)))\<rparr>"
  have u: "replenish_threshold S s = (Ok (), u)" unfolding u_def by (rule replenish_run [OF assms(1-4)])
  define v where "v = (if height s = pmtpPeriodEndBlock (pmtpParams s)
    then u\<lparr>pmtpEpoch := \<lparr>epochCounter = 0, blockCounter = 0\<rparr>, pmtpRateParams := (pmtpRateParams s)\<lparr>pmtpInterPolicyRate := ?rate\<rparr>\<rparr> else u)"
  have "GetPools v = GetPools s" "quotable S v p = quotable S s p" for p
    by (simp_all add: v_def u_def GetPools_def quotable_def GetAssetDecimals_def GetRegistry_def)
  then have "\<exists>m. PolicyRun S ?rate v = (Ok (), v\<lparr>pools := m\<rparr>)" using assms(6,7) by (intro PolicyRun_returns) auto
  moreover have "BeginBlocker S s = PolicyRun S ?rate v"
    using assms(5) by (simp add: BeginBlocker_def thenM_def bindM_def gets_def u ret_def)
      (auto simp: no_policy_def u_def v_def GetPmtpParams_def GetPmtpRateParams_def GetPmtpEpoch_def SetPmtpEpoch_def SetPmtpInterPolicyRate_def SetPmtpRateParams_def thenM_def bindM_def gets_def modify_def ret_def)
  ultimately show ?thesis by auto
qed

end

section \<open>The threshold over blocks\<close>

text \<open>What the protection keeps in the store: its parameters and the current threshold.\<close>

definition protection :: "'s clp_state_scheme \<Rightarrow> LiquidityProtectionParams \<times> nat" where
  "protection s = (protectionParams s, currentFuryLiquidityThreshold s)"

lemma SetPool_protection [frame_intros]: "preserves protection (SetPool S p)"
  unfolding SetPool_def by (intro frame_intros) (simp add: protection_def)

lemma bank_call_protection [frame_intros]: "preserves protection (bank_call f)"
  unfolding bank_call_def by (intro frame_intros) (simp add: protection_def)

lemma update_price_protection: "preserves protection (update_price S rate p)"
  unfolding update_price_def by (rule preserves_bindM) (auto intro!: frame_intros split: result.split)

text \<open>The beginning of a block moves the threshold only by \<open>replenish_threshold\<close>.\<close>

lemma BeginBlocker_protection:
  assumes "BeginBlocker S s = (Ok (), t)"
  shows "\<exists>u. replenish_threshold S s = (Ok (), u) \<and> protection t = protection u"
proof -
  have pol: "preserves protection (PolicyStart S)" "preserves protection (PolicyCalculations S)"
    "preserves protection DecrementPmtpBlockCounter" "preserves protection DecrementPmtpEpochCounter"
    "preserves protection (SetPmtpBlockCounter n)" "preserves protection (SetPmtpEpoch e)"
    "preserves protection (SetPmtpInterPolicyRate r)" "preserves protection (PolicyRun S rate)"
    for n e r and rate :: int
    unfolding PolicyStart_def PolicyCalculations_def PolicyRun_def setters
    by (intro frame_intros update_price_protection; simp add: protection_def)+
  have "\<exists>rest. BeginBlocker S = bindM (gets height) (\<lambda>h. thenM (replenish_threshold S) (rest h)) \<and>
      (\<forall>h. preserves protection (rest h :: ('a clp_state_scheme, unit) M))"
    unfolding BeginBlocker_def by (intro exI conjI, rule refl) (intro allI frame_intros pol)
  then obtain rest where r: "BeginBlocker S = bindM (gets height) (\<lambda>h. thenM (replenish_threshold S) (rest h))"
    and rest: "\<And>h. preserves protection (rest h :: ('a clp_state_scheme, unit) M)" by blast
  from assms obtain u where "replenish_threshold S s = (Ok (), u)" "rest (height s) u = (Ok (), t)"
    unfolding r by (auto simp: result_inv)
  then show ?thesis using preservesD [OF rest] by blast
qed

lemma EndBlocker_protection: "preserves protection (EndBlocker S ord1 ord2 ord3 ord4)"
  unfolding EndBlocker_def ProviderDistributionPolicyRun_def TransferProviderDistribution_def
    TransferProviderDistributionGeneric_def pay_provider_def RemoveFuryFromPool_def DistributeDepthRewards_def calcTotalDepth_def
    add_depth_def reward_pool_def settle_rewards_def CollectRewards_def addRewardsToPool_def BurnFury_def add_distributed_def send_defs setters
  by (intro frame_intros; simp add: protection_def)

text \<open>
  A run of \<open>n\<close> blocks without swaps: the beginning and the end of a block, and in between anything that leaves
  parameters and threshold of the protection as they are.
\<close>

inductive quiet_blocks :: "sdk \<Rightarrow> 's clp_state_scheme \<Rightarrow> nat \<Rightarrow> 's clp_state_scheme \<Rightarrow> bool" for S s where
  start: "quiet_blocks S s 0 s"
| begin_block: "quiet_blocks S s n t \<Longrightarrow> BeginBlocker S (t\<lparr>height := h, block_time := bt\<rparr>) = (Ok (), u) \<Longrightarrow>
    quiet_blocks S s (Suc n) u"
| end_block: "quiet_blocks S s n t \<Longrightarrow> EndBlocker S ord1 ord2 ord3 ord4 t = (Ok (), u) \<Longrightarrow> quiet_blocks S s n u"
| other: "quiet_blocks S s n t \<Longrightarrow> protection u = protection t \<Longrightarrow> quiet_blocks S s n u"

lemma min_add_min: "min m (min m x + k) = min m (x + k)" for m x k :: nat
  by auto

context sdk_laws
begin

lemma quiet_blocks_threshold:
  assumes "quiet_blocks S s n t" "isActive (protectionParams s)" "threshold_ok s"
    and "0 < protectionEpochLength (protectionParams s)" "maxFuryLiquidityThreshold (protectionParams s) < 2 ^ 256"
  shows "protection t = (protectionParams s, min (maxFuryLiquidityThreshold (protectionParams s))
    (currentFuryLiquidityThreshold s +
      n * (maxFuryLiquidityThreshold (protectionParams s) div nat (protectionEpochLength (protectionParams s)))))"
  using assms(1)
proof induction
  case start
  then show ?case using assms(3) by (simp add: protection_def threshold_ok_def min_def)
next
  case (begin_block n t bt h u)
  let ?t = "t\<lparr>height := h, block_time := bt\<rparr>"
  have t: "protectionParams ?t = protectionParams s" "currentFuryLiquidityThreshold ?t =
      min (maxFuryLiquidityThreshold (protectionParams s)) (currentFuryLiquidityThreshold s +
        n * (maxFuryLiquidityThreshold (protectionParams s) div nat (protectionEpochLength (protectionParams s))))"
    using begin_block.IH by (simp_all add: protection_def)
  from BeginBlocker_protection [OF begin_block.hyps(2)] replenish_run [of ?t] assms(2-5) t
  show ?case by (auto simp: protection_def threshold_ok_def min_add_min algebra_simps)
next
  case (end_block n t ord1 ord2 ord3 ord4 u)
  then show ?case using preservesD [OF EndBlocker_protection] by metis
next
  case (other n t u)
  then show ?case by simp
qed

end

end
