(* ===== verification/ClpDistribution.thy ===== *)
theory ClpDistribution
  imports ClpUnits
begin

text \<open>
  Bounds of the payouts: the rewards of a block are minted exactly for the pools they go to and
  within the allocation, and a distribution to providers takes no more from a pool than its rate
  allows.
\<close>

section \<open>Depth rewards\<close>

context sdk_laws
begin

lemma collect_tuples_sum:
  "collect_tuples S bd depth period r c es = Ok (ts, minted) \<Longrightarrow>
     minted = c + sum_list (map snd ts) \<and> sum_list (map snd ts) \<le> r"
proof (induction es arbitrary: r c ts minted)
  case (Cons e es)
  obtain ptr pool where e: "e = (ptr, pool)" by (cases e)
  from Cons.prems show ?case
    unfolding e by (auto simp: result_inv Let_def uint_Ok dest!: Cons.IH split: if_splits)
qed auto

end

section \<open>Provider distribution\<close>

definition map_sum :: "('k \<times> nat) list \<Rightarrow> nat" where
  "map_sum m = sum_list (map snd m)"

lemma map_set_sum: "map_sum (map_set k v m) + (case map_of m k of None \<Rightarrow> 0 | Some n \<Rightarrow> n) = map_sum m + v"
  by (induction k v m rule: map_set.induct) (auto simp: map_sum_def)

context sdk_laws
begin

lemma collect_share_Ok:
  assumes "collect_share S ptr furyPd n pu lp (tot, lf, lpp) = Ok (tot', lf', lpp')" "tot \<le> n"
  shows "tot' \<le> n \<and> map_sum lf' + tot = map_sum lf + tot'"
proof -
  obtain addr l where lp: "lp = (addr, l)" by (cases lp)
  let ?old = "case map_of lf addr of None \<Rightarrow> 0 | Some n \<Rightarrow> n"
  obtain new where "tot' \<le> n" "lf' = map_set addr new lf" "new + tot = ?old + tot'"
    using assms unfolding lp collect_share_def
    by (auto simp: result_inv uint_Ok split: if_splits)
  then show ?thesis using map_set_sum [of addr new lf] by simp
qed

lemma CollectProviderDistribution_Ok:
  assumes c: "CollectProviderDistribution S ptr depth rate pu lps lf lpp = Ok (tot, lf', lpp')"
  shows "\<exists>d n. dec_mul S rate depth = Ok d \<and> uint_round S d = Ok n \<and> tot \<le> n \<and> map_sum lf' = map_sum lf + tot"
proof -
  obtain d n where d: "dec_mul S rate depth = Ok d" "uint_round S d = Ok n"
    and f: "rfold (collect_share S ptr d n pu) lps (0, lf, lpp) = Ok (tot, lf', lpp')"
    using c by (auto simp: CollectProviderDistribution_def result_inv)
  have "(\<lambda>(t, m, _). t \<le> n \<and> map_sum m = map_sum lf + t) (tot, lf', lpp')"
    by (rule rfold_inv [OF f]) (auto dest!: collect_share_Ok split: prod.splits)
  then show ?thesis using d by auto
qed

lemma share_of_balance:
  assumes "dec_mul S rate (new_dec (int b)) = Ok d" "uint_round S d = Ok n" "rate \<le> dec_one"
  shows "n \<le> b"
proof -
  have "2 * \<bar>d * dec_one - rate * (int b * dec_one)\<bar> \<le> dec_one" using dec_mul [OF assms(1)] by (simp add: new_dec_def)
  moreover have "rate * (int b * dec_one) \<le> dec_one * (int b * dec_one)" using assms(3) by (intro mult_right_mono) auto
  ultimately have "2 * (d * dec_one) \<le> 2 * (dec_one * (int b * dec_one)) + dec_one" by (simp add: abs_if split: if_splits)
  then have "d \<le> int b * dec_one" by simp
  then show ?thesis by (rule uint_round_le [OF assms(2)])
qed

end

end
