(* ===== verification/ClpGenesis.thy ===== *)
theory ClpGenesis
  imports ClpUnits
begin

text \<open>
  Genesis (\<open>x/clp/genesis.go\<close>) as a round trip: exporting a chain that was started from a genesis
  state gives the state back, and a chain started from an export has the same pools and providers.
\<close>

definition genesis_ok :: "sdk \<Rightarrow> GenesisState \<Rightarrow> bool" where
  "genesis_ok S g \<longleftrightarrow> genMinCreatePoolThreshold g \<noteq> 0 \<and> addressWhitelist g \<noteq> [] \<and>
     (\<forall>a \<in> set (addressWhitelist g). acc_from_bech32 S a = Some a) \<and>
     (\<forall>p \<in> set (poolList g). Pool_Validate S p = Ok True) \<and>
     (\<forall>l \<in> set (liquidityProviders g). LiquidityProvider_Validate S l = Ok True) \<and>
     sorted_wrt (<) (map (\<lambda>p. pool_key (externalAsset p)) (poolList g)) \<and>
     sorted_wrt (<) (map (\<lambda>l. lp_key l) (liquidityProviders g))"

lemma whitelist_parse: "\<forall>a \<in> set as. acc_from_bech32 S a = Some a \<Longrightarrow>
    rfold (\<lambda>entry wl. case acc_from_bech32 S entry of None \<Rightarrow> Panic | Some a \<Rightarrow> Ok (wl @ [a])) as ws = Ok (ws @ as)"
  by (induction as arbitrary: ws) auto

lemma set_pools: "\<forall>p \<in> set ps. Pool_Validate S p = Ok True \<Longrightarrow>
    eachM (\<lambda>p. catchM (SetPool S p) (\<lambda>_. panic)) ps s =
      (Ok (), s\<lparr>pools := fold (\<lambda>p. kv_put (pool_key (externalAsset p)) p) ps (pools s)\<rparr>)"
  by (induction ps arbitrary: s)
    (simp_all add: ret_def thenM_def bindM_def SetPool_def catchM_def liftR_def modify_def GetSettlementAsset_def)

lemma set_providers: "\<forall>l \<in> set ls. LiquidityProvider_Validate S l = Ok True \<Longrightarrow>
    eachM (SetLiquidityProvider S) ls s =
      (Ok (), s\<lparr>providers := fold (\<lambda>l. kv_put (lp_key l) l) ls (providers s)\<rparr>)"
  by (induction ls arbitrary: s)
    (simp_all add: ret_def thenM_def bindM_def SetLiquidityProvider_def liftR_def modify_def)

lemma InitGenesis_run:
  assumes g: "genesis_ok S g" and s: "pools s = []" "providers s = []"
  shows "\<exists>t. InitGenesis S g s = (Ok (), t) \<and> kv_values (pools t) = poolList g \<and> kv_values (providers t) = liquidityProviders g \<and>
    pools t = map (\<lambda>p. (pool_key (externalAsset p), p)) (poolList g) \<and>
    providers t = map (\<lambda>l. (lp_key l, l)) (liquidityProviders g) \<and>
    clpWhiteList t = Some (addressWhitelist g) \<and> minCreatePoolThreshold t = genMinCreatePoolThreshold g \<and>
    enableRemovalQueue t = genEnableRemovalQueue g \<and> removalQueues t = removalQueues s \<and> removalRequests t = removalRequests s"
proof -
  have p: "fold (\<lambda>p. kv_put (pool_key (externalAsset p)) p) (poolList g) [] = map (\<lambda>p. (pool_key (externalAsset p), p)) (poolList g)"
    using fold_kv_put [of "[]" "\<lambda>p. pool_key (externalAsset p)" "poolList g"] g by (simp add: genesis_ok_def)
  have l: "fold (\<lambda>l. kv_put (lp_key l) l) (liquidityProviders g) [] = map (\<lambda>l. (lp_key l, l)) (liquidityProviders g)"
    using fold_kv_put [of "[]" "\<lambda>l. lp_key l" "liquidityProviders g"] g by (simp add: genesis_ok_def)
  have w: "rfold (\<lambda>entry wl. case acc_from_bech32 S entry of None \<Rightarrow> Panic | Some a \<Rightarrow> Ok (wl @ [a])) (addressWhitelist g) []
      = Ok (addressWhitelist g)"
    using whitelist_parse [of "addressWhitelist g" S "[]"] g by (simp add: genesis_ok_def)
  show ?thesis
    using g s p l w
    by (simp add: set_pools set_providers genesis_ok_def InitGenesis_def clp_SetParams_def SetRewardParams_def SetPmtpRateParams_def SetPmtpEpoch_def
        SetPmtpParams_def SetPmtpInterPolicyRate_def GetPmtpRateParams_def SetLiquidityProtectionParams_def
        SetLiquidityProtectionRateParams_def SetClpWhiteList_def thenM_def bindM_def liftR_def modify_def gets_def
        kv_values_def comp_def)
qed

lemma genesis_roundtrip_run:
  assumes g: "genesis_ok S g" and s: "pools s = []" "providers s = []"
  shows "\<exists>t. InitGenesis S g s = (Ok (), t) \<and> ExportGenesis S t = Ok g"
proof -
  obtain t where t: "InitGenesis S g s = (Ok (), t)" "kv_values (pools t) = poolList g"
    "kv_values (providers t) = liquidityProviders g" "clpWhiteList t = Some (addressWhitelist g)"
    "minCreatePoolThreshold t = genMinCreatePoolThreshold g" "enableRemovalQueue t = genEnableRemovalQueue g"
    using InitGenesis_run [OF assms] by blast
  have "GetClpWhiteList S t = Ok (addressWhitelist g)"
    using whitelist_parse [of "addressWhitelist g" S "[]"] g t by (simp add: genesis_ok_def GetClpWhiteList_def)
  then show ?thesis using t by (simp add: ExportGenesis_def GetPools_def)
qed

text \<open>A chain whose stores are in order restarts with the same pools and providers.\<close>

lemma export_restart:
  assumes e: "ExportGenesis S s = Ok g" and wf: "pools_wf s" "providers_wf s"
    and ok: "genMinCreatePoolThreshold g \<noteq> 0" "addressWhitelist g \<noteq> []"
      "\<forall>a \<in> set (addressWhitelist g). acc_from_bech32 S a = Some a"
      "\<forall>p \<in> set (poolList g). Pool_Validate S p = Ok True"
      "\<forall>l \<in> set (liquidityProviders g). LiquidityProvider_Validate S l = Ok True"
    and s0: "pools s0 = []" "providers s0 = []"
  shows "\<exists>t. InitGenesis S g s0 = (Ok (), t) \<and> pools t = pools s \<and> providers t = providers s"
proof -
  have g: "poolList g = map snd (pools s)" "liquidityProviders g = map snd (providers s)"
    using e by (auto simp: ExportGenesis_def result_inv GetPools_def kv_values_def)
  have kp: "pool_key (externalAsset (snd x)) = fst x" if "x \<in> set (pools s)" for x
    using that wf(1) kv.in_entries_iff [of "pools s" "fst x" "snd x"] by (auto simp: pools_wf_def)
  have kl: "lp_key (snd x) = fst x" if "x \<in> set (providers s)" for x
    using that wf(2) kv.in_entries_iff [of "providers s" "fst x" "snd x"] by (auto simp: providers_wf_def)
  have mp: "map (\<lambda>p. pool_key (externalAsset p)) (poolList g) = map fst (pools s)"
    "map (\<lambda>p. (pool_key (externalAsset p), p)) (poolList g) = pools s"
    unfolding g using kp by (auto simp: map_idI)
  have ml: "map (\<lambda>l. lp_key l) (liquidityProviders g) = map fst (providers s)"
    "map (\<lambda>l. (lp_key l, l)) (liquidityProviders g) = providers s"
    unfolding g using kl by (auto simp: map_idI)
  have "genesis_ok S g"
    using ok mp(1) ml(1) wf kv_wf_sorted [of "pools s"] kv_wf_sorted [of "providers s"] by (auto simp: genesis_ok_def pools_wf_def providers_wf_def)
  from InitGenesis_run [OF this s0] show ?thesis using mp(2) ml(2) by auto
qed

end
