(* ===== verification/ClpChain.thy ===== *)
theory ClpChain
  imports ClpBlockUnits ClpInvariants ClpMsgs ClpUnlocks ClpProtection ClpDistribution ClpGenesis
begin

text \<open>
  The module as the chain runs it: \<open>step\<close> is one transaction (rolled back when its message
  fails), the beginning or the end of a block, or a change outside the stores of the module.
  \<open>ledger_inv\<close> holds in every state that is reachable from a state where it holds: units issued
  and units held agree for every pool, and the removal queue is empty. Three guards on the state before a transaction
  (\<open>accounted\<close>) keep the cases out in which the code breaks it. \<open>chain_inv\<close> says in addition that both sides of every
  pool have depth; messages and the beginning of a block keep that too, while a distribution
  at the end of a block may empty a pool.
\<close>

section \<open>Depth\<close>

text \<open>Both sides of every pool have depth, debts included.\<close>

definition deep_pool :: "Pool \<Rightarrow> bool" where
  "deep_pool p \<longleftrightarrow> 0 < nativeAssetBalance p + nativeLiabilities p \<and> 0 < externalAssetBalance p + externalLiabilities p"

definition deep_all :: "'s clp_state_scheme \<Rightarrow> bool" where
  "deep_all s \<longleftrightarrow> (\<forall>k p. kv_get (pools s) k = Some p \<longrightarrow> deep_pool p)"

lemma deep_all_deep: "deep_all s \<Longrightarrow> deep a s"
  by (auto simp: deep_all_def deep_def deep_pool_def split: option.split)

lemma deep_all_put: "deep_all s \<Longrightarrow> kv_wf (pools s) \<Longrightarrow> deep_pool q \<Longrightarrow> pools t = kv_put k q (pools s) \<Longrightarrow> deep_all t"
  by (simp add: deep_all_def)

lemma deep_all_cong: "pools t = pools s \<Longrightarrow> deep_all t = deep_all s"
  by (simp add: deep_all_def)

section \<open>The invariant of the chain\<close>

definition ledger_inv :: "'s clp_state_scheme \<Rightarrow> bool" where
  "ledger_inv s \<longleftrightarrow> units_inv s \<and> removalQueues s = [] \<and> removalRequests s = []"

lemma ledger_inv_cong: "ledger t = ledger s \<Longrightarrow> ledger_inv t = ledger_inv s"
  using units_inv_cong [of t s] by (simp add: ledger_inv_def ledger_def)

lemma ledger_inv_queues: "ledger_inv s \<Longrightarrow> units_inv t \<Longrightarrow> same_queues s t \<Longrightarrow> ledger_inv t"
  by (simp add: ledger_inv_def same_queues_def)

definition chain_inv :: "'s clp_state_scheme \<Rightarrow> bool" where
  "chain_inv s \<longleftrightarrow> units_inv s \<and> deep_all s \<and> removalQueues s = [] \<and> removalRequests s = []"

lemma chain_inv_iff: "chain_inv s \<longleftrightarrow> ledger_inv s \<and> deep_all s"
  by (auto simp: chain_inv_def ledger_inv_def)

lemma chain_inv_wf: "chain_inv s \<Longrightarrow> pools_wf s \<and> kv_wf (pools s) \<and> providers_wf s"
  by (simp add: chain_inv_def units_inv_def pools_wf_def)

context sdk_laws
begin

lemma withdraws_queues: "withdraws S addr a n e s t \<Longrightarrow> same_queues s t"
  by (auto simp: withdraws_def)

lemma deposits_queues: "deposits S addr a n e s t \<Longrightarrow> same_queues s t"
  by (auto simp: deposits_def)

lemma withdraws_deep: "withdraws S addr a n e s t \<Longrightarrow> chain_inv s \<Longrightarrow> deep_all t"
  unfolding withdraws_def
  by (elim exE conjE) (auto intro!: deep_all_put [of s] simp: chain_inv_wf chain_inv_def deep_pool_def)

lemma deposits_deep: "deposits S addr a n e s t \<Longrightarrow> chain_inv s \<Longrightarrow> deep_all t"
  unfolding deposits_def
proof (elim exE conjE)
  fix p u cs
  assume s: "chain_inv s" and p: "kv_get (pools s) (pool_key a) = Some p"
    and t: "pools t = kv_put (pool_key a) (p\<lparr>poolUnits := u, nativeAssetBalance := nativeAssetBalance p + n,
       externalAssetBalance := externalAssetBalance p + e\<rparr>) (pools s)"
  have "deep_pool p" using s p by (auto simp: chain_inv_def deep_all_def)
  then show ?thesis
    by (intro deep_all_put [OF _ _ _ t]) (use s chain_inv_wf [OF s] in \<open>auto simp: chain_inv_def deep_pool_def\<close>)
qed

lemma SwapOne_deep: "SwapOne S x to p rate fee = Ok (y, f, im, q) \<Longrightarrow> deep_pool p \<Longrightarrow> deep_pool q"
  by (drule SwapOne_Ok) (auto simp: deep_pool_def ExtractValues_def split: if_splits)

lemma msg_Swap_queues:
  assumes h: "msg_Swap S signer sent recv x mn s = (Ok (y, tf, imp), t)" and canon: "acc_from_bech32 S signer = Some addr"
  shows "same_queues s t"
proof -
  obtain inPool b1 x2 lf im u q b2 c where
    leg: "first_leg S inPool recv x (pmtpCurrentRunningRate (pmtpRateParams s)) (GetSwapFeeRate sent False s)
      (s\<lparr>bank := b1\<rparr>) = (Ok (x2, lf, im), u)"
    and t: "t = u\<lparr>pools := kv_put (pool_key (externalAsset q)) q (pools u), bank := b2, currentFuryLiquidityThreshold := c\<rparr>"
    using msg_Swap_Ok [OF h canon] by blast
  have "same_queues s u"
    using leg unfolding first_leg_Ok SetPool_Ok by (elim disjE exE conjE) (simp_all add: same_queues_def)
  then show ?thesis using t by (simp add: same_queues_def)
qed

lemma msg_Swap_deep:
  assumes h: "msg_Swap S signer sent recv x mn s = (Ok (y, tf, imp), t)" and inv: "chain_inv s"
    and canon: "acc_from_bech32 S signer = Some addr"
  shows "deep_all t"
proof -
  let ?rate = "pmtpCurrentRunningRate (pmtpRateParams s)" and ?fee = "GetSwapFeeRate sent False s"
  obtain inPool b1 x2 lf im u p q f ts b2 c k where
    inp: "inPool = (if sent = GetSettlementAsset then None else kv_get (pools s) (pool_key sent))"
    and leg: "first_leg S inPool recv x ?rate ?fee (s\<lparr>bank := b1\<rparr>) = (Ok (x2, lf, im), u)"
    and k: "kv_get (pools u) (pool_key k) = Some p"
    and sw: "SwapOne S x2 recv p ?rate ?fee = Ok (y, f, ts, q)"
    and t: "t = u\<lparr>pools := kv_put (pool_key (externalAsset q)) q (pools u), bank := b2, currentFuryLiquidityThreshold := c\<rparr>"
    using msg_Swap_Ok [OF h canon] by blast
  have s: "deep_all (s\<lparr>bank := b1\<rparr>)" "kv_wf (pools s)" using inv chain_inv_wf [OF inv] by (auto simp: chain_inv_def deep_all_def)
  have "deep_all u \<and> kv_wf (pools u)"
    using leg unfolding first_leg_Ok SetPool_Ok
  proof (elim disjE exE conjE)
    fix p1 q1
    assume *: "inPool = Some p1" "SwapOne S x GetSettlementAsset p1 ?rate ?fee = Ok (x2, lf, im, q1)"
      "u = s\<lparr>bank := b1\<rparr>\<lparr>pools := kv_put (pool_key (externalAsset q1)) q1 (pools (s\<lparr>bank := b1\<rparr>))\<rparr>"
    have "deep_pool p1" using s(1) *(1) inp by (auto simp: deep_all_def split: if_splits)
    then show ?thesis
      using deep_all_put [OF s(1), of q1 u] SwapOne_deep [OF *(2)] s(2) *(3) by simp
  qed (use s in simp_all)
  moreover from this have "deep_pool q" using SwapOne_deep [OF sw] k by (auto simp: deep_all_def)
  ultimately show ?thesis using deep_all_put [of u q t] t by simp
qed

lemma relocks_chain: "relocks l s t \<Longrightarrow> deep_all t = deep_all s \<and> same_queues s t"
  by (auto simp: relocks_def same_queues_def deep_all_def)

lemma msg_UnlockLiquidity_deep:
  assumes h: "msg_UnlockLiquidity S signer a n s = (Ok (), t)" and wf: "providers_wf s"
    and canon: "acc_from_bech32 S signer = Some signer"
  shows "deep_all t = deep_all s \<and> same_queues s t"
proof -
  from h obtain l l1 u r where l: "kv_get (providers s) (GetLiquidityProviderKey (Symbol a) signer) = Some l"
    and pr: "prune_provider S l s = (Ok l1, u)"
    and st: "SetLiquidityProvider S (l1\<lparr>unlocks := unlocks l1 @ [r]\<rparr>) u = (Ok (), t)"
    unfolding msg_UnlockLiquidity_def by (simp only: result_inv) blast
  note pr' = prune_provider_relocks [OF pr stored_relocks(3) [OF wf l bech32_chars [OF canon]]]
  have "relocks l s t"
    by (rule relocks_set [OF conjunct2 [OF pr'] _ st]) (use pr' in \<open>simp add: same_stake_def\<close>)
  then show ?thesis by (rule relocks_chain)
qed

lemma msg_CancelUnlockLiquidity_deep:
  assumes h: "msg_CancelUnlockLiquidity S signer a n s = (Ok (), t)" and wf: "providers_wf s"
    and canon: "acc_from_bech32 S signer = Some signer"
  shows "deep_all t = deep_all s \<and> same_queues s t"
proof -
  from h obtain l l1 u rs where l: "kv_get (providers s) (GetLiquidityProviderKey (Symbol a) signer) = Some l"
    and pr: "prune_provider S l s = (Ok l1, u)" and us: "UseUnlockedLiquidity S l1 n True u = (Ok rs, t)"
    unfolding msg_CancelUnlockLiquidity_def by (simp only: result_inv) blast
  note pr' = prune_provider_relocks [OF pr stored_relocks(3) [OF wf l bech32_chars [OF canon]]]
  show ?thesis
    using relocks_chain [OF UseUnlockedLiquidity_relocks [OF us]] pr' by blast
qed

lemma msg_DecommissionPool_deep:
  assumes h: "msg_DecommissionPool S signer d s = (Ok (), t)" and wf: "kv_wf (pools s)"
  shows "(deep_all s \<longrightarrow> deep_all t) \<and> same_queues s t"
proof -
  from h obtain p ls acc ac u where f: "foldM (refund_provider S p d) ls acc s = (Ok ac, u)"
    and t: "t = u\<lparr>pools := kv_del (pool_key (externalAsset p)) (pools u)\<rparr>"
    unfolding msg_DecommissionPool_def DecommissionPool_def DestroyPool_def
    by (simp only: result_inv) auto
  from refund_all_Ok [OF f] t wf show ?thesis
    by (auto simp: same_queues_def deep_all_def split: if_splits)
qed

lemma msg_CreatePool_deep:
  assumes h: "msg_CreatePool S signer a n e s = (Ok (), t)" and wf: "kv_wf (pools s)"
    and canon: "acc_from_bech32 S signer = Some addr"
  shows "(deep_all s \<longrightarrow> deep_all t) \<and> same_queues s t"
proof -
  from msg_CreatePool_Ok [OF h canon] obtain b m where n: "PoolThrehold \<le> n" "0 < e"
    and t: "t = s\<lparr>bank := b, pools := kv_put (pool_key a) (NewPool a n e n) (pools s), providers := m\<rparr>" by blast
  have "deep_pool (NewPool a n e n)" using n by (simp add: deep_pool_def NewPool_def)
  moreover have "pools t = kv_put (pool_key a) (NewPool a n e n) (pools s)" using t by simp
  ultimately have "deep_all s \<longrightarrow> deep_all t"
    using deep_all_put [of s "NewPool a n e n" t] wf by simp
  then show ?thesis using t by (simp add: same_queues_def)
qed

end

text \<open>The administrative messages leave pools, providers, queues and balances alone.\<close>

lemma admin_quiet:
  "preserves (\<lambda>s. (ledger s, bank s)) (msg_ModifyPmtpRates S signer b r e)"
  "preserves (\<lambda>s. (ledger s, bank s)) (msg_UpdatePmtpParams S signer g len start end')"
  "preserves (\<lambda>s. (ledger s, bank s)) (msg_UpdateRewardsParams S signer l c)"
  "preserves (\<lambda>s. (ledger s, bank s)) (msg_AddRewardPeriod S signer ps)"
  "preserves (\<lambda>s. (ledger s, bank s)) (msg_UpdateStakingRewardParams S signer mn mp)"
  "preserves (\<lambda>s. (ledger s, bank s)) (msg_UpdateLiquidityProtectionParams S signer n a len act)"
  "preserves (\<lambda>s. (ledger s, bank s)) (msg_ModifyLiquidityProtectionRates S signer n)"
  "preserves (\<lambda>s. (ledger s, bank s)) (msg_AddProviderDistributionPeriod S signer ds)"
  "preserves (\<lambda>s. (ledger s, bank s)) (msg_UpdateSwapFeeParams S signer rate ts)"
  "preserves (\<lambda>s. (ledger s, bank s)) (msg_SetSymmetryThreshold S signer th ra)"
  unfolding msg_ModifyPmtpRates_def msg_UpdatePmtpParams_def msg_UpdateRewardsParams_def msg_AddRewardPeriod_def
    msg_UpdateStakingRewardParams_def msg_UpdateLiquidityProtectionParams_def msg_ModifyLiquidityProtectionRates_def
    msg_AddProviderDistributionPeriod_def msg_UpdateSwapFeeParams_def msg_SetSymmetryThreshold_def setters
  by (intro frame_intros; simp add: ledger_def)+

section \<open>Steps of the chain\<close>

text \<open>
  What a transaction needs for the books to stay right, all of it in the state before: the signer is spelled
  as the address is printed (\<open>AddLiquidity\<close> looks a provider up by the spelling of the message and stores it by address),
  a deposit goes to a pool that is not empty on one side (\<open>CalculatePoolUnits\<close> starts the units of such a pool
  afresh), and the page of providers of a pool to be closed misses none.
\<close>

definition accounted :: "sdk \<Rightarrow> clp_msg \<Rightarrow> 's clp_state_scheme \<Rightarrow> bool" where
  "accounted S m s \<longleftrightarrow> acc_from_bech32 S (msg_signer m) = Some (msg_signer m) \<and>
     (case m of MsgAddLiquidity _ a _ _ \<Rightarrow> deep a s
      | MsgDecommissionPool _ d \<Rightarrow> page_complete S (Asset d) s
      | _ \<Rightarrow> True)"

inductive step :: "sdk \<Rightarrow> 's clp_state_scheme \<Rightarrow> 's clp_state_scheme \<Rightarrow> bool" for S where
  tx: "accounted S m s \<Longrightarrow> step S s (deliver (run_msg S m) s)"
| begin_block: "BeginBlocker S (s\<lparr>height := h, block_time := bt\<rparr>) = (Ok (), t) \<Longrightarrow> step S s t"
| end_block: "any_order ord2 \<Longrightarrow> any_order ord4 \<Longrightarrow> EndBlocker S ord1 ord2 ord3 ord4 s = (Ok (), t) \<Longrightarrow>
    step S s t"
| other: "ledger t = ledger s \<Longrightarrow> step S s t"

inductive reachable :: "sdk \<Rightarrow> 's clp_state_scheme \<Rightarrow> 's clp_state_scheme \<Rightarrow> bool" for S s where
  start: "reachable S s s"
| more: "reachable S s t \<Longrightarrow> step S t u \<Longrightarrow> reachable S s u"

inductive_cases stepE: "step S s t"

lemma stock_chain:
  assumes "keeps (stock (issued s) (providers s, removalQueues s, removalRequests s)) m" "m s = (Ok x, t)"
    "ledger_inv s"
  shows "ledger_inv t"
proof -
  have "stock (issued s) (providers s, removalQueues s, removalRequests s) s"
    using assms(3) by (simp add: stock_def ledger_inv_def units_inv_def)
  from keepsD [OF assms(1,2) this] have "pools_wf t" "issued t = issued s" "providers t = providers s" "same_queues s t"
    by (auto simp: stock_def same_queues_def)
  then show ?thesis
    using assms(3) by (simp add: ledger_inv_def units_inv_def held_def providers_wf_def same_queues_def)
qed

text \<open>The prices written at the beginning of a block leave the depths alone.\<close>

definition deep_store :: "'s clp_state_scheme \<Rightarrow> bool" where
  "deep_store s \<longleftrightarrow> kv_wf (pools s) \<and> deep_all s"

lemma ledger_deep: "preserves ledger m \<Longrightarrow> keeps deep_store m"
  unfolding preserves_def keeps_def deep_store_def ledger_def deep_all_def by simp

lemma SetPool_deep: "deep_pool p \<Longrightarrow> keeps deep_store (SetPool S p)"
  unfolding SetPool_def
  by (intro keeps_intros) (simp add: keeps_def modify_def deep_store_def deep_all_def)

lemma PolicyRun_deep: "keeps deep_store (PolicyRun S rate)"
proof -
  have up: "keeps deep_store (update_price S rate p)" if "deep_pool p" for p
    unfolding update_price_def
    by (rule keeps_bindM) (use that in \<open>auto intro!: keeps_intros SetPool_deep simp: deep_pool_def split: result.split\<close>)
  have "\<forall>p \<in> set (GetPools s). deep_pool p" if "deep_store s" for s :: "'a clp_state_scheme"
    using that by (auto simp: GetPools_def deep_store_def deep_all_def kv_values_set)
  then show ?thesis
    unfolding PolicyRun_def
    by (intro keeps_bind [where R = "\<lambda>ps. \<forall>p \<in> set ps. deep_pool p"] yields_gets keeps_each up) auto
qed

lemma BeginBlocker_deep: "keeps deep_store (BeginBlocker S)"
  unfolding BeginBlocker_def
  by (intro keeps_intros PolicyRun_deep ledger_deep policy_ledger)

lemma BeginBlocker_inv:
  assumes "BeginBlocker S s = (Ok (), t)" "chain_inv s"
  shows "chain_inv t"
proof -
  have "deep_store s" using assms(2) chain_inv_wf [OF assms(2)] by (simp add: deep_store_def chain_inv_def)
  then have "deep_all t" using keepsD [OF BeginBlocker_deep assms(1)] by (simp add: deep_store_def)
  then show ?thesis
    using stock_chain [OF BeginBlocker_stock assms(1)] assms(2) by (simp add: chain_inv_iff)
qed

context sdk_laws
begin

lemma route_msg_ledger:
  assumes r: "route_msg S m s = (Ok (), t)" and inv: "ledger_inv s" and acc: "accounted S m s"
  shows "ledger_inv t"
proof -
  have u: "units_inv s" and wf: "pools_wf s" "providers_wf s" "kv_wf (pools s)" and q: "removalQueues s = []"
    using inv by (auto simp: ledger_inv_def units_inv_def pools_wf_def)
  have canon: "acc_from_bech32 S (msg_signer m) = Some (msg_signer m)" using acc by (simp add: accounted_def)
  have fr: "ledger_inv t" if "preserves (\<lambda>s. (ledger s, bank s)) k" "k s = (Ok (), t)" for k :: "('a clp_state_scheme, unit) M"
    using ledger_inv_cong [of t s] preservesD [OF that] inv by simp
  note fin = ledger_inv_queues [OF inv]
  show ?thesis
  proof (cases m)
    case (MsgCreatePool signer a n e)
    then show ?thesis using r canon fin msg_CreatePool_units msg_CreatePool_deep wf u
      by (simp add: route_msg_def) blast
  next
    case (MsgDecommissionPool signer d)
    then show ?thesis using r canon fin msg_DecommissionPool_units msg_DecommissionPool_deep wf u acc
      by (simp add: route_msg_def accounted_def) blast
  next
    case (MsgAddLiquidity signer a n e)
    then have h: "msg_AddLiquidity S signer a n e s = (Ok (), t)" and c: "acc_from_bech32 S signer = Some signer"
      and deep: "deep a s" using r acc by (simp_all add: route_msg_def accounted_def)
    show ?thesis
      using fin msg_AddLiquidity_units [OF h q deep c u] deposits_queues [OF msg_AddLiquidity_deposits [OF h q deep c wf(1,2)]]
      by blast
  next
    case (MsgRemove rm)
    then have h: "msg_RemoveLiquidity S rm s = (Ok (), t)" and c: "acc_from_bech32 S (removeSigner rm) = Some (removeSigner rm)"
      using r canon by (simp_all add: route_msg_def)
    show ?thesis
      using fin msg_RemoveLiquidity_units [OF h u c] msg_RemoveLiquidity_withdraws [OF h wf(1,2) c] withdraws_queues by blast
  next
    case (MsgRemoveLiquidityUnits signer a n)
    then have h: "msg_RemoveLiquidityUnits S signer a n s = (Ok (), t)" and c: "acc_from_bech32 S signer = Some signer"
      using r canon by (simp_all add: route_msg_def)
    show ?thesis
      using fin msg_RemoveLiquidityUnits_units [OF h u c] msg_RemoveLiquidityUnits_withdraws [OF h wf(1,2) c] withdraws_queues
      by blast
  next
    case (MsgSwap signer sent recv x mn)
    then obtain y tf imp where h: "msg_Swap S signer sent recv x mn s = (Ok (y, tf, imp), t)"
      and c: "acc_from_bech32 S signer = Some signer"
      using r canon by (auto simp: route_msg_def result_inv)
    show ?thesis using fin msg_Swap_units [OF h u c] msg_Swap_queues [OF h c] by blast
  next
    case (MsgCancelUnlock signer a n)
    then show ?thesis using r canon fin msg_CancelUnlockLiquidity_units msg_CancelUnlockLiquidity_deep wf u
      by (simp add: route_msg_def) blast
  next
    case (MsgUnlockLiquidityRequest signer a n)
    then show ?thesis using r canon fin msg_UnlockLiquidity_units msg_UnlockLiquidity_deep wf u
      by (simp add: route_msg_def) blast
  qed (use r in \<open>auto simp: route_msg_def intro: admin_quiet [THEN fr]\<close>)
qed

text \<open>A message keeps the depth of every pool.\<close>

lemma route_msg_deep:
  assumes r: "route_msg S m s = (Ok (), t)" and inv: "chain_inv s"
    and canon: "acc_from_bech32 S (msg_signer m) = Some (msg_signer m)"
  shows "deep_all t"
proof -
  have wf: "pools_wf s" "providers_wf s" "kv_wf (pools s)" and d: "deep_all s" "\<And>a. deep a s" and q: "removalQueues s = []"
    using inv chain_inv_wf [OF inv] by (auto simp: chain_inv_def deep_all_deep)
  have fr: "deep_all t" if "preserves (\<lambda>s. (ledger s, bank s)) k" "k s = (Ok (), t)" for k :: "('a clp_state_scheme, unit) M"
    using preservesD [OF that] d(1) by (auto simp: ledger_def deep_all_def)
  show ?thesis
  proof (cases m)
    case (MsgCreatePool signer a n e)
    then show ?thesis using r canon msg_CreatePool_deep wf d by (simp add: route_msg_def) blast
  next
    case (MsgDecommissionPool signer d)
    then show ?thesis using r msg_DecommissionPool_deep wf \<open>deep_all s\<close> by (simp add: route_msg_def) blast
  next
    case (MsgAddLiquidity signer a n e)
    then have h: "msg_AddLiquidity S signer a n e s = (Ok (), t)" and c: "acc_from_bech32 S signer = Some signer"
      using r canon by (simp_all add: route_msg_def)
    show ?thesis by (rule deposits_deep [OF msg_AddLiquidity_deposits [OF h q d(2) c wf(1,2)] inv])
  next
    case (MsgRemove rm)
    then have h: "msg_RemoveLiquidity S rm s = (Ok (), t)" and c: "acc_from_bech32 S (removeSigner rm) = Some (removeSigner rm)"
      using r canon by (simp_all add: route_msg_def)
    show ?thesis using msg_RemoveLiquidity_withdraws [OF h wf(1,2) c] withdraws_deep inv by blast
  next
    case (MsgRemoveLiquidityUnits signer a n)
    then have h: "msg_RemoveLiquidityUnits S signer a n s = (Ok (), t)" and c: "acc_from_bech32 S signer = Some signer"
      using r canon by (simp_all add: route_msg_def)
    show ?thesis using msg_RemoveLiquidityUnits_withdraws [OF h wf(1,2) c] withdraws_deep inv by blast
  next
    case (MsgSwap signer sent recv x mn)
    then obtain y tf imp where h: "msg_Swap S signer sent recv x mn s = (Ok (y, tf, imp), t)"
      and c: "acc_from_bech32 S signer = Some signer"
      using r canon by (auto simp: route_msg_def result_inv)
    show ?thesis by (rule msg_Swap_deep [OF h inv c])
  next
    case (MsgCancelUnlock signer a n)
    then show ?thesis using r canon msg_CancelUnlockLiquidity_deep wf d by (simp add: route_msg_def) blast
  next
    case (MsgUnlockLiquidityRequest signer a n)
    then show ?thesis using r canon msg_UnlockLiquidity_deep wf d by (simp add: route_msg_def) blast
  qed (use r in \<open>auto simp: route_msg_def intro: admin_quiet [THEN fr]\<close>)
qed

lemma route_msg_inv: "route_msg S m s = (Ok (), t) \<Longrightarrow> chain_inv s \<Longrightarrow> accounted S m s \<Longrightarrow> chain_inv t"
  using route_msg_ledger [of m s t] route_msg_deep [of m s t] by (simp add: chain_inv_iff accounted_def)

lemma step_ledger:
  assumes "step S s t" "ledger_inv s"
  shows "ledger_inv t"
  using assms
proof cases
  case (tx m)
  then show ?thesis
    using assms(2) by (auto intro!: deliver_keeps [of ledger_inv] intro: route_msg_ledger simp: run_msg_Ok)
next
  case (begin_block bt h)
  have "ledger_inv (s\<lparr>height := h, block_time := bt\<rparr>)"
    using assms(2) ledger_inv_cong [of "s\<lparr>height := h, block_time := bt\<rparr>" s] by (simp add: ledger_def)
  then show ?thesis using stock_chain [OF BeginBlocker_stock begin_block] by blast
next
  case (end_block ord2 ord4 ord1 ord3)
  then show ?thesis using stock_chain [OF EndBlocker_stock] assms(2) by blast
next
  case other
  then show ?thesis using assms(2) ledger_inv_cong by blast
qed

lemma reachable_ledger: "reachable S s t \<Longrightarrow> ledger_inv s \<Longrightarrow> ledger_inv t"
  by (induction rule: reachable.induct) (auto intro: step_ledger)

end

section \<open>Messages and the coins of the module\<close>

definition closes_pool :: "clp_msg \<Rightarrow> bool" where
  "closes_pool m = (case m of MsgDecommissionPool _ _ \<Rightarrow> True | _ \<Rightarrow> False)"

context sdk_laws
begin

lemma unlock_surplus:
  assumes "msg_UnlockLiquidity S signer a n s = (Ok (), t) \<or> msg_CancelUnlockLiquidity S signer a n s = (Ok (), t)"
  shows "surplus S t = surplus S s"
proof -
  have "preserves (\<lambda>s. (pools s, bank s)) (msg_UnlockLiquidity S signer a n :: ('a clp_state_scheme, unit) M)"
    "preserves (\<lambda>s. (pools s, bank s)) (msg_CancelUnlockLiquidity S signer a n :: ('a clp_state_scheme, unit) M)"
    unfolding msg_UnlockLiquidity_def msg_CancelUnlockLiquidity_def prune_provider_def PruneUnlockRecords_def
      UseUnlockedLiquidity_def get_provider_def
    by (intro frame_intros; simp)+
  then have "(pools t, bank t) = (pools s, bank s)"
    using assms preservesD [of "\<lambda>s. (pools s, bank s)" _ s _ t] by blast
  then show ?thesis by (intro surplus_cong) simp_all
qed

lemma route_msg_surplus:
  assumes r: "route_msg S m s = (Ok (), t)" and inv: "chain_inv s"
    and canon: "acc_from_bech32 S (msg_signer m) = Some (msg_signer m)"
    and ne: "msg_signer m \<noteq> module_address S ModuleName" and nc: "\<not> closes_pool m"
  shows "surplus S t = surplus S s"
proof -
  have wf: "pools_wf s" "providers_wf s" and dq: "\<And>a. deep a s" "removalQueues s = []"
    using inv by (auto simp: chain_inv_def units_inv_def deep_all_deep)
  have fr: "surplus S t = surplus S s" if "preserves (\<lambda>s. (ledger s, bank s)) k" "k s = (Ok (), t)"
    for k :: "('a clp_state_scheme, unit) M"
    using preservesD [OF that] by (intro surplus_cong) (simp_all add: ledger_def)
  show ?thesis
  proof (cases m)
    case (MsgCreatePool signer a n e)
    then show ?thesis using r canon ne msg_CreatePool_surplus wf by (simp add: route_msg_def) blast
  next
    case (MsgAddLiquidity signer a n e)
    then have h: "msg_AddLiquidity S signer a n e s = (Ok (), t)" and c: "acc_from_bech32 S signer = Some signer"
      using r canon by (simp_all add: route_msg_def)
    show ?thesis
      using deposits_surplus [OF msg_AddLiquidity_deposits [OF h dq(2,1) c wf] wf(1)] ne MsgAddLiquidity by simp
  next
    case (MsgRemove rm)
    then have h: "msg_RemoveLiquidity S rm s = (Ok (), t)" and c: "acc_from_bech32 S (removeSigner rm) = Some (removeSigner rm)"
      using r canon by (simp_all add: route_msg_def)
    then show ?thesis using msg_RemoveLiquidity_withdraws [OF h wf c] withdraws_surplus [OF _ wf(1)] ne MsgRemove by auto
  next
    case (MsgRemoveLiquidityUnits signer a n)
    then have h: "msg_RemoveLiquidityUnits S signer a n s = (Ok (), t)" and c: "acc_from_bech32 S signer = Some signer"
      using r canon by (simp_all add: route_msg_def)
    then show ?thesis
      using msg_RemoveLiquidityUnits_withdraws [OF h wf c] withdraws_surplus [OF _ wf(1)] ne MsgRemoveLiquidityUnits by auto
  next
    case (MsgSwap signer sent recv x mn)
    then obtain y tf imp where h: "msg_Swap S signer sent recv x mn s = (Ok (y, tf, imp), t)"
      and c: "acc_from_bech32 S signer = Some signer"
      using r canon by (auto simp: route_msg_def result_inv)
    show ?thesis using msg_Swap_surplus [OF h wf(1) c] ne MsgSwap by simp
  qed (use r nc in \<open>auto simp: route_msg_def closes_pool_def intro: admin_quiet [THEN fr] unlock_surplus\<close>)
qed

end

section \<open>What the swapper pays and gets\<close>

context sdk_laws
begin

lemma first_leg_bank: "first_leg S inPool recv x rate fee s = (Ok (x2, lf, im), u) \<Longrightarrow> bank u = bank s"
  unfolding first_leg_Ok SetPool_Ok by (elim disjE exE conjE) simp_all

lemma msg_Swap_balances:
  assumes h: "msg_Swap S signer sent recv x mn s = (Ok (y, tf, imp), t)"
    and canon: "acc_from_bech32 S signer = Some addr" and ne: "addr \<noteq> module_address S ModuleName" "sent \<noteq> recv"
  shows "mn \<le> y \<and> bank t addr (Symbol sent) + x = bank s addr (Symbol sent) \<and>
    bank t addr (Symbol recv) = bank s addr (Symbol recv) + y"
proof -
  obtain inPool b1 x2 lf im u b2 cs cs' where
    b1: "send_acc_to_mod S addr ModuleName cs (bank s) = Ok b1" "amount_of cs = two_amounts (Symbol sent) x (Symbol sent) 0"
    and leg: "first_leg S inPool recv x (pmtpCurrentRunningRate (pmtpRateParams s)) (GetSwapFeeRate sent False s)
        (s\<lparr>bank := b1\<rparr>) = (Ok (x2, lf, im), u)"
    and mn: "mn \<le> y"
    and b2: "send_mod_to_acc S ModuleName addr cs' (bank u) = Ok b2" "amount_of cs' = two_amounts (Symbol recv) y (Symbol recv) 0"
    and t: "bank t = b2"
    using msg_Swap_Ok [OF h canon] by (elim exE conjE) simp
  have "bank u = b1" using first_leg_bank [OF leg] by simp
  moreover have "Symbol sent \<noteq> Symbol recv" using ne(2) Asset_eqI by blast
  moreover have "x \<le> bank s addr (Symbol sent)"
    using spec [OF conjunct1 [OF send_acc_to_mod [OF b1(1)]], of "Symbol sent"] b1(2) by (simp add: two_amounts_def)
  ultimately show ?thesis
    using send_acc_to_mod [OF b1(1)] send_mod_to_acc [OF b2(1)] b1(2) b2(2) ne(1) t mn
    by (auto simp: move_coins_def two_amounts_def)
qed

end

end
