(* ===== verification/ClpQueries.thy ===== *)
theory ClpQueries
  imports ClpUnits
begin

text \<open>
  The gRPC queries of \<open>x/clp/keeper/grpc_query.go\<close>. A request pointer that may be nil is an option. Pagination is code of the SDK:
  the environment \<open>Q\<close> says which entries of a store a page holds, given the number of entries, or which of them
  the filter accepts, and the locale \<open>page_laws\<close> what the queries rely on.
\<close>

section \<open>Pages\<close>

record PageRequest =
  pageKey :: string
  pageOffset :: nat
  pageLimit :: nat
  countTotal :: bool
  pageReverse :: bool

record PageResponse =
  nextKey :: string
  pageTotal :: nat

record page_env =
  Paginate :: "PageRequest \<Rightarrow> nat \<Rightarrow> (nat list \<times> PageResponse) result"
  FilteredPaginate :: "PageRequest \<Rightarrow> bool list \<Rightarrow> (nat list \<times> PageResponse) result"

text \<open>A page without a limit has the default size of the SDK.\<close>

definition page_size :: "PageRequest \<Rightarrow> nat" where
  "page_size r = (if pageLimit r = 0 then 100 else pageLimit r)"

locale page_laws =
  fixes Q :: page_env
  assumes Paginate: "Paginate Q r n = Ok (is, res) \<Longrightarrow> length is \<le> page_size r \<and> distinct is \<and> set is \<subseteq> {0..<n}"
    and FilteredPaginate: "FilteredPaginate Q r hits = Ok (is, res) \<Longrightarrow>
      length is \<le> page_size r \<and> distinct is \<and> set is \<subseteq> {i. i < length hits \<and> hits ! i}"

definition page_ref :: page_env where
  "page_ref = \<lparr>Paginate = (\<lambda>r n. Ok (take (page_size r) (drop (pageOffset r) [0..<n]), \<lparr>nextKey = '''', pageTotal = n\<rparr>)),
     FilteredPaginate = (\<lambda>r hits. let is = filter (\<lambda>i. hits ! i) [0..<length hits] in
       Ok (take (page_size r) (drop (pageOffset r) is), \<lparr>nextKey = '''', pageTotal = length is\<rparr>))\<rparr>"

lemma set_take_drop: "set (take n (drop m xs)) \<subseteq> set xs"
  by (meson in_set_dropD in_set_takeD subsetI)

interpretation pages: page_laws page_ref
  by unfold_locales (auto simp: page_ref_def Let_def dest!: in_set_takeD in_set_dropD)

definition MaxPageLimit :: nat where
  "MaxPageLimit = 200"

text \<open>The page a query works with.\<close>

definition NewPageRequest :: "nat \<Rightarrow> PageRequest" where
  "NewPageRequest limit = \<lparr>pageKey = '''', pageOffset = 0, pageLimit = limit, countTotal = False, pageReverse = False\<rparr>"

definition request_page :: "PageRequest option \<Rightarrow> PageRequest result" where
  "request_page p =
     (let r = (case p of None \<Rightarrow> NewPageRequest MaxPageLimit | Some r \<Rightarrow> r) in
      if MaxPageLimit < pageLimit r then Err (ErrSdk ''page size'') else Ok r)"

definition need_request :: "'a option \<Rightarrow> 'a result" where
  "need_request req = of_option (ErrSdk ''empty request'') req"

section \<open>Stores (pool.go, liquidityprovider.go)\<close>

definition page_of :: "'a list \<Rightarrow> (nat list \<times> PageResponse) result \<Rightarrow> ('a list \<times> PageResponse) result" where
  "page_of xs r = rbind (rwrap (ErrSdk ''internal'') r) (\<lambda>(is, res). Ok (map (\<lambda>i. xs ! i) is, res))"

definition GetPoolsPaginated :: "page_env \<Rightarrow> PageRequest \<Rightarrow> 's clp_state_scheme \<Rightarrow> (Pool list \<times> PageResponse) result" where
  "GetPoolsPaginated Q r s = page_of (kv_values (pools s)) (Paginate Q r (length (pools s)))"

definition GetAllLiquidityProvidersPaginated ::
  "page_env \<Rightarrow> PageRequest \<Rightarrow> 's clp_state_scheme \<Rightarrow> (LiquidityProvider list \<times> PageResponse) result" where
  "GetAllLiquidityProvidersPaginated Q r s = page_of (kv_values (providers s)) (Paginate Q r (length (providers s)))"

definition providers_page ::
  "page_env \<Rightarrow> Asset \<Rightarrow> PageRequest \<Rightarrow> 's clp_state_scheme \<Rightarrow> (LiquidityProvider list \<times> PageResponse) result" where
  "providers_page Q asset r s =
     page_of (kv_values (providers s))
       (FilteredPaginate Q r (map (\<lambda>lp. Asset_Equals (lp_asset lp) asset) (kv_values (providers s))))"

definition GetAssetsForLiquidityProviderPaginated ::
  "page_env \<Rightarrow> string \<Rightarrow> PageRequest \<Rightarrow> 's clp_state_scheme \<Rightarrow> (Asset list \<times> PageResponse) result" where
  "GetAssetsForLiquidityProviderPaginated Q addr r s =
     page_of (map lp_asset (kv_values (providers s)))
       (FilteredPaginate Q r (map (\<lambda>lp. liquidityProviderAddress lp = addr) (kv_values (providers s))))"

section \<open>Queries (grpc\_query.go)\<close>

definition query_GetPool :: "sdk \<Rightarrow> string option \<Rightarrow> 's clp_state_scheme \<Rightarrow> (Pool \<times> int \<times> string) result" where
  "query_GetPool S req s =
     rbind (need_request req) (\<lambda>symbol.
     rbind (rwrap (ErrSdk ''not found'') (GetPool symbol s)) (\<lambda>pool.
     Ok (pool, height s, GetCLPModuleAddress S)))"

definition query_GetPools ::
  "sdk \<Rightarrow> page_env \<Rightarrow> PageRequest option option \<Rightarrow> 's clp_state_scheme \<Rightarrow> (Pool list \<times> int \<times> string \<times> PageResponse) result" where
  "query_GetPools S Q req s =
     rbind (need_request req) (\<lambda>p.
     rbind (request_page p) (\<lambda>r.
     rbind (GetPoolsPaginated Q r s) (\<lambda>(ps, res).
     Ok (ps, height s, GetCLPModuleAddress S, res))))"

text \<open>The provider with its shares of the pool, printed in decimal.\<close>

definition NewLiquidityProviderData :: "sdk \<Rightarrow> Pool \<Rightarrow> LiquidityProvider \<Rightarrow> (LiquidityProvider \<times> string \<times> string) result" where
  "NewLiquidityProviderData S pool lp =
     rbind (CalculateAllAssetsForLP S pool lp) (\<lambda>(native, external, _, _). Ok (lp, digits native, digits external))"

definition query_GetLiquidityProvider ::
  "sdk \<Rightarrow> (string \<times> string) option \<Rightarrow> 's clp_state_scheme \<Rightarrow> ((LiquidityProvider \<times> string \<times> string) \<times> int) result" where
  "query_GetLiquidityProvider S req s =
     rbind (need_request req) (\<lambda>(symbol, addr).
     rbind (GetLiquidityProvider symbol addr s) (\<lambda>lp.
     rbind (GetPool symbol s) (\<lambda>pool.
     rbind (NewLiquidityProviderData S pool lp) (\<lambda>data. Ok (data, height s)))))"

text \<open>An asset whose pool or provider is not found is left out; a panic of the calculation is not caught.\<close>

fun provider_data :: "sdk \<Rightarrow> string \<Rightarrow> Asset list \<Rightarrow> 's clp_state_scheme \<Rightarrow> (LiquidityProvider \<times> string \<times> string) list result" where
  "provider_data S addr [] s = Ok []"
| "provider_data S addr (a # as) s =
     (case (GetPool (Symbol a) s, GetLiquidityProvider (Symbol a) addr s) of
        (Ok pool, Ok lp) \<Rightarrow>
          rbind (NewLiquidityProviderData S pool lp) (\<lambda>data. rbind (provider_data S addr as s) (\<lambda>rest. Ok (data # rest)))
      | _ \<Rightarrow> provider_data S addr as s)"

definition query_GetLiquidityProviderData ::
  "sdk \<Rightarrow> page_env \<Rightarrow> (string \<times> PageRequest option) option \<Rightarrow> 's clp_state_scheme
    \<Rightarrow> ((LiquidityProvider \<times> string \<times> string) list \<times> int) result" where
  "query_GetLiquidityProviderData S Q req s =
     rbind (need_request req) (\<lambda>(lpAddress, p).
     rbind (request_page p) (\<lambda>r.
     rbind (of_option (ErrSdk ''bech32'') (acc_from_bech32 S lpAddress)) (\<lambda>addr.
     rbind (GetAssetsForLiquidityProviderPaginated Q addr (NewPageRequest (pageLimit r)) s) (\<lambda>(assets, _).
     rbind (provider_data S lpAddress assets s) (\<lambda>data. Ok (data, height s))))))"

definition query_GetAssetList ::
  "sdk \<Rightarrow> page_env \<Rightarrow> (string \<times> PageRequest option) option \<Rightarrow> 's clp_state_scheme \<Rightarrow> Asset list result" where
  "query_GetAssetList S Q req s =
     rbind (need_request req) (\<lambda>(lpAddress, p).
     rbind (request_page p) (\<lambda>_.
     rbind (of_option (ErrSdk ''bech32'') (acc_from_bech32 S lpAddress)) (\<lambda>addr.
     rbind (GetAssetsForLiquidityProviderPaginated Q addr (NewPageRequest MaxPageLimit) s) (\<lambda>(assets, _).
     Ok assets))))"

definition query_GetLiquidityProviderList ::
  "page_env \<Rightarrow> (string \<times> PageRequest option) option \<Rightarrow> 's clp_state_scheme \<Rightarrow> (LiquidityProvider list \<times> int \<times> PageResponse) result" where
  "query_GetLiquidityProviderList Q req s =
     rbind (need_request req) (\<lambda>(symbol, p).
     rbind (request_page p) (\<lambda>r.
     rbind (providers_page Q (Asset symbol) r s) (\<lambda>(lps, res). Ok (lps, height s, res))))"

definition query_GetLiquidityProviders ::
  "page_env \<Rightarrow> PageRequest option option \<Rightarrow> 's clp_state_scheme \<Rightarrow> (LiquidityProvider list \<times> int \<times> PageResponse) result" where
  "query_GetLiquidityProviders Q req s =
     rbind (need_request req) (\<lambda>p.
     rbind (request_page p) (\<lambda>r.
     rbind (GetAllLiquidityProvidersPaginated Q r s) (\<lambda>(lps, res). Ok (lps, height s, res))))"

definition query_GetPmtpParams :: "'s clp_state_scheme \<Rightarrow> PmtpParams \<times> PmtpRateParams \<times> PmtpEpoch \<times> int" where
  "query_GetPmtpParams s = (GetPmtpParams s, GetPmtpRateParams s, GetPmtpEpoch s, height s)"

definition query_GetParams :: "'s clp_state_scheme \<Rightarrow> (int \<times> bool) \<times> int \<times> int" where
  "query_GetParams s = ((minCreatePoolThreshold s, enableRemovalQueue s), GetSymmetryThreshold s, GetSymmetryRatio s)"

definition query_GetRewardParams :: "'s clp_state_scheme \<Rightarrow> RewardParams" where
  "query_GetRewardParams s = GetRewardsParams s"

definition query_GetLiquidityProtectionParams :: "'s clp_state_scheme \<Rightarrow> LiquidityProtectionParams \<times> nat \<times> int" where
  "query_GetLiquidityProtectionParams s = (GetLiquidityProtectionParams s, currentFuryLiquidityThreshold s, height s)"

definition query_GetProviderDistributionParams :: "'s clp_state_scheme \<Rightarrow> ProviderDistributionPeriod list" where
  "query_GetProviderDistributionParams s = distributionPeriods s"

definition query_GetSwapFeeParams :: "'s clp_state_scheme \<Rightarrow> int \<times> SwapFeeTokenParams list" where
  "query_GetSwapFeeParams s = (let p = GetSwapFeeParams s in (defaultSwapFeeRate p, tokenParams p))"

datatype SwapStatus = SwapStatus_UNSPECIFIED | SwapStatus_NO_SWAP | SwapStatus_SELL_NATIVE | SwapStatus_BUY_NATIVE

record SwapInfo =
  infoStatus :: SwapStatus
  infoFee :: nat
  infoFeeRate :: int
  infoAmount :: nat
  infoResult :: nat

record PoolShareEstimateRes =
  percentage :: int
  estNativeAmount :: nat
  estExternalAmount :: nat
  swapInfo :: SwapInfo

fun calculateSwapInfo ::
  "sdk \<Rightarrow> swap_status \<Rightarrow> nat \<Rightarrow> nat \<Rightarrow> nat \<Rightarrow> int \<Rightarrow> int \<Rightarrow> int \<Rightarrow> (int \<times> nat \<times> nat \<times> SwapStatus) result" where
  "calculateSwapInfo S NoSwap swapAmount nd ed sell buy rate = Ok (0, 0, 0, SwapStatus_NO_SWAP)"
| "calculateSwapInfo S SellNative swapAmount nd ed sell buy rate =
     rbind (CalcSwapResult S False nd swapAmount ed rate sell) (\<lambda>(result, fee). Ok (sell, result, fee, SwapStatus_SELL_NATIVE))"
| "calculateSwapInfo S BuyNative swapAmount nd ed sell buy rate =
     rbind (CalcSwapResult S True ed swapAmount nd rate buy) (\<lambda>(result, fee). Ok (buy, result, fee, SwapStatus_BUY_NATIVE))"

definition GetPoolShareEstimate ::
  "sdk \<Rightarrow> Asset \<Rightarrow> nat \<Rightarrow> nat \<Rightarrow> 's clp_state_scheme \<Rightarrow> PoolShareEstimateRes result" where
  "GetPoolShareEstimate S asset nativeAmount externalAmount s =
     rbind (rwrap ErrPoolDoesNotExist (GetPool (Symbol asset) s)) (\<lambda>pool.
     let rate = pmtpCurrentRunningRate (GetPmtpRateParams s);
         sell = GetSwapFeeRate GetSettlementAsset False s;
         buy = GetSwapFeeRate asset False s in
     rbind (ExtractDebt S pool (nativeAssetBalance pool) (externalAssetBalance pool) False) (\<lambda>(nd, ed).
     rbind (CalculatePoolUnits S (poolUnits pool) nd ed nativeAmount externalAmount sell buy rate)
       (\<lambda>(newPoolUnits, lpUnits, status, swapAmount).
     rbind (calculateSwapInfo S status swapAmount nd ed sell buy rate) (\<lambda>(feeRate, swapResult, fee, resStatus).
     rbind (uint_add S nd nativeAmount) (\<lambda>newNative.
     rbind (uint_add S ed externalAmount) (\<lambda>newExternal.
     rbind (dec_quo S (new_dec (int lpUnits)) (new_dec (int newPoolUnits))) (\<lambda>share.
     rbind (dec_mul S share (new_dec (int newNative))) (\<lambda>nativeD.
     rbind (dec_mul S share (new_dec (int newExternal))) (\<lambda>externalD.
     rbind (rbind (dec_truncate S nativeD) (uint_of_big S)) (\<lambda>nativeU.
     rbind (rbind (dec_truncate S externalD) (uint_of_big S)) (\<lambda>externalU.
     Ok \<lparr>percentage = share, estNativeAmount = nativeU, estExternalAmount = externalU,
         swapInfo = \<lparr>infoStatus = resStatus, infoFee = fee, infoFeeRate = feeRate, infoAmount = swapAmount,
           infoResult = swapResult\<rparr>\<rparr>)))))))))))"

section \<open>Pages are bounded\<close>

lemma request_page_size: "request_page p = Ok r \<Longrightarrow> page_size r \<le> MaxPageLimit"
  by (auto simp: request_page_def page_size_def MaxPageLimit_def Let_def split: if_splits)

lemma page_of_Ok: "page_of xs r = Ok (ys, res) \<longleftrightarrow> (\<exists>is. r = Ok (is, res) \<and> ys = map (\<lambda>i. xs ! i) is)"
  by (auto simp: page_of_def result_inv)

context page_laws
begin

lemma pages_bounded:
  "query_GetPools S Q req s = Ok (ps, h, addr, res) \<Longrightarrow> length ps \<le> MaxPageLimit \<and> set ps \<subseteq> set (GetPools s)"
  "query_GetLiquidityProviders Q req s = Ok (lps, h, res) \<Longrightarrow> length lps \<le> MaxPageLimit \<and> set lps \<subseteq> set (kv_values (providers s))"
  "query_GetLiquidityProviderList Q (Some (symbol, p)) s = Ok (lps, h, res) \<Longrightarrow>
    length lps \<le> MaxPageLimit \<and> (\<forall>lp \<in> set lps. Asset_Equals (lp_asset lp) (Asset symbol))"
  by (auto simp: query_GetPools_def query_GetLiquidityProviders_def query_GetLiquidityProviderList_def GetPoolsPaginated_def
      GetAllLiquidityProvidersPaginated_def providers_page_def need_request_def result_inv page_of_Ok GetPools_def kv_values_def
      dest!: Paginate FilteredPaginate request_page_size) (auto dest!: subsetD)

end

section \<open>An estimate is what a deposit gets\<close>

text \<open>What the provider of an asset gains in units.\<close>

definition units_gained :: "string \<Rightarrow> Asset \<Rightarrow> 's clp_state_scheme \<Rightarrow> 's clp_state_scheme \<Rightarrow> nat" where
  "units_gained addr a s t =
     (let k = GetLiquidityProviderKey (Symbol a) addr in holding t k - holding s k)"

context sdk_laws
begin

lemma estimate_share:
  assumes h: "msg_AddLiquidity S signer a n e s = (Ok (), t)" and q: "removalQueues s = []"
    and deep: "deep a s" and canon: "acc_from_bech32 S signer = Some signer"
    and wf: "pools_wf s" "providers_wf s" and est: "GetPoolShareEstimate S a n e s = Ok est"
  shows "\<exists>p. GetPool (Symbol a) t = Ok p \<and>
    dec_quo S (new_dec (int (units_gained signer a s t))) (new_dec (int (poolUnits p))) = Ok (percentage est)"
proof -
  obtain p nd ed lu st sw l s1 where p: "kv_get (pools s) (pool_key a) = Some p"
    and d: "ExtractDebt S p (nativeAssetBalance p) (externalAssetBalance p) False = Ok (nd, ed)"
    and cu: "CalculatePoolUnits S (poolUnits p) nd ed n e (GetSwapFeeRate GetSettlementAsset False s) (GetSwapFeeRate a False s)
      (pmtpCurrentRunningRate (GetPmtpRateParams s)) = Ok (poolUnits p + lu, lu, st, sw)"
    and fr: "pools s1 = pools s" "providers s1 = providers s"
    and add: "AddLiquidity S signer a n e p (poolUnits p + lu) lu s1 = (Ok l, t)"
    using msg_AddLiquidity_quote [OF h q deep canon wf] by blast
  have pa: "externalAsset p = a" by (rule stored_asset [OF wf(1) p])
  have wf1: "providers_wf s1" "kv_wf (pools s)" "kv_wf (providers s)" using wf fr by (simp_all add: providers_wf_def pools_wf_def)
  obtain b where l: "lp_asset l = a" "liquidityProviderAddress l = signer" "liquidityProviderUnits l = holding s (lp_key l) + lu"
    and t: "t = s1\<lparr>bank := b, pools := kv_put (pool_key a) (p\<lparr>poolUnits := poolUnits p + lu,
        nativeAssetBalance := nativeAssetBalance p + n, externalAssetBalance := externalAssetBalance p + e\<rparr>) (pools s),
      providers := kv_put (lp_key l) l (providers s)\<rparr>"
    using AddLiquidity_Ok [of signer p n e "poolUnits p + lu" lu s1 l t] add canon wf1(1) pa fr by (auto simp: holding_def)
  have "units_gained signer a s t = lu"
    using l wf1(3) by (simp add: units_gained_def t holding_def Let_def)
  moreover have "dec_quo S (new_dec (int lu)) (new_dec (int (poolUnits p + lu))) = Ok (percentage est)"
    using est p d cu by (auto simp: GetPoolShareEstimate_def GetPool_def Let_def result_inv)
  ultimately show ?thesis using wf1(2) by (simp add: t GetPool_def)
qed

end

end
