(* ===== verification/Demo.thy ===== *)
theory Demo
  imports ClpChain ClpQueries
begin

text \<open>
  A small chain at which the properties are evaluated: one pool of 2000000 Fury and 1000000
  \<open>ceth\<close>, all of whose units belong to \<open>bob\<close>, a user \<open>alice\<close> with coins, and \<open>carol\<close> as
  administrator; the SDK is \<open>sdk_ref\<close>. The bundles \<open>eval_...\<close> collect the defining equations that
  the simplifier runs handlers with.
\<close>

section \<open>A chain\<close>

definition demo_entry :: "string \<Rightarrow> RegistryEntry" where
  "demo_entry d = \<lparr>decimals = 18, denom = d, base_denom = d, path = [], ibc_channel_id = [],
     ibc_counterparty_channel_id = [], display_name = [], display_symbol = [], network = [], reg_address = [],
     external_symbol = [], transfer_limit = [], permissions = [CLP], unit_denom = [],
     ibc_counterparty_denom = [], ibc_counterparty_chain_id = []\<rparr>"

definition demo_admin :: "string \<Rightarrow> AdminType \<Rightarrow> string \<times> AdminAccount" where
  "demo_admin n t = (n @ ''_carol'', \<lparr>adminType = t, adminAddress = ''carol''\<rparr>)"

definition demo_pool :: Pool where
  "demo_pool = NewPool (Asset ''ceth'') 2000000 1000000 2000000"

definition demo_provider :: LiquidityProvider where
  "demo_provider = NewLiquidityProvider (Asset ''ceth'') 2000000 ''bob''"

definition demo :: clp_state where
  "demo = \<lparr>bank = (\<lambda>a d. if a = ''alice'' then 5000000000000000000 else if a = ''module/clp''
         then (if d = ''fury'' then 2000000 else if d = ''ceth'' then 1000000 else 0) else 0),
     height = 10,
     block_time = [],
     adminAccounts = [demo_admin ''ADMIN'' ADMIN, demo_admin ''CLPDEX'' CLPDEX, demo_admin ''PMTPREWARDS'' PMTPREWARDS,
       demo_admin ''TOKENREGISTRY'' TOKENREGISTRY],
     submitProposalFee = None,
     whitelist = Some [Some (demo_entry ''fury''), Some (demo_entry ''ceth''), Some (demo_entry ''cdash'')],
     marginParams = None,
     pools = [(pool_key (Asset ''ceth''), demo_pool)],
     providers = [(GetLiquidityProviderKey ''ceth'' ''bob'', demo_provider)],
     clpWhiteList = Some [''carol''],
     pmtpRateParams = \<lparr>pmtpPeriodBlockRate = 0, pmtpCurrentRunningRate = 0, pmtpInterPolicyRate = 0\<rparr>,
     pmtpEpoch = \<lparr>epochCounter = 0, blockCounter = 0\<rparr>,
     pmtpParams = GetDefaultPmtpParams,
     rewardParams = GetDefaultRewardParams,
     symmetryThreshold = None,
     protectionParams = GetDefaultLiquidityProtectionParams,
     currentFuryLiquidityThreshold = 1000000000000,
     distributionPeriods = [],
     blockDistributionAccu = None,
     swapFeeParams = None,
     removalRequests = [],
     removalQueues = [],
     minCreatePoolThreshold = 100,
     enableRemovalQueue = False,
     minter = \<lparr>inflation = 0, annualProvisions = 0\<rparr>,
     mintParams = []\<rparr>"

lemma demo_sel:
  "bank demo = (\<lambda>a d. if a = ''alice'' then 5000000000000000000 else if a = ''module/clp'' then (if d = ''fury'' then 2000000 else if d = ''ceth'' then 1000000 else 0) else 0)"
  "height demo = 10"
  "block_time demo = []"
  "adminAccounts demo = [demo_admin ''ADMIN'' ADMIN, demo_admin ''CLPDEX'' CLPDEX, demo_admin ''PMTPREWARDS'' PMTPREWARDS, demo_admin ''TOKENREGISTRY'' TOKENREGISTRY]"
  "submitProposalFee demo = None"
  "whitelist demo = Some [Some (demo_entry ''fury''), Some (demo_entry ''ceth''), Some (demo_entry ''cdash'')]"
  "marginParams demo = None"
  "pools demo = [(pool_key (Asset ''ceth''), demo_pool)]"
  "providers demo = [(GetLiquidityProviderKey ''ceth'' ''bob'', demo_provider)]"
  "clpWhiteList demo = Some [''carol'']"
  "pmtpRateParams demo = \<lparr>pmtpPeriodBlockRate = 0, pmtpCurrentRunningRate = 0, pmtpInterPolicyRate = 0\<rparr>"
  "pmtpEpoch demo = \<lparr>epochCounter = 0, blockCounter = 0\<rparr>"
  "pmtpParams demo = GetDefaultPmtpParams"
  "rewardParams demo = GetDefaultRewardParams"
  "symmetryThreshold demo = None"
  "protectionParams demo = GetDefaultLiquidityProtectionParams"
  "currentFuryLiquidityThreshold demo = 1000000000000"
  "distributionPeriods demo = []"
  "blockDistributionAccu demo = None"
  "swapFeeParams demo = None"
  "removalRequests demo = []"
  "removalQueues demo = []"
  "minCreatePoolThreshold demo = 100"
  "enableRemovalQueue demo = False"
  "minter demo = \<lparr>inflation = 0, annualProvisions = 0\<rparr>"
  "mintParams demo = []"
  by (simp_all add: demo_def)

section \<open>Evaluation\<close>

lemmas eval_monad = bindM_def thenM_def monad_defs deliver_def

lemmas eval_sdk = sdk_ref_sel denom_ref_def new_coins_ref_def send_ref_def mod_ref_def fits_def quo_ref_def
  round_div_def new_dec_def move_coins_def amount_of_def tquo_def trem_def to_i64_def to_u64_def

lemmas eval_types = GetSettlementAsset_def IsSettlementAsset_def Asset_Validate_def VerifyRange_def
  TrimSpace_def is_space_def Pool_Validate_def NewPool_def ExtractValues_def ExtractDebt_def UpdateBalances_def
  GetPoolKey_def GetLiquidityProviderKey_def GetCLPModuleAddress_def StringCompare_def NewLiquidityProvider_def
  LiquidityProvider_Validate_def GetRemovalQueueKey_def GetRemovalRequestLPPrefix_def

lemmas eval_state = bank_call_def send_defs HasBalance_def has_balance_def SetPool_def GetPool_def ExistsPool_def
  GetLiquidityProvider_def SetLiquidityProvider_def DestroyLiquidityProvider_def GetSwapFeeParams_def GetSwapFeeRate_def
  GetPmtpRateParams_def GetLiquidityProtectionParams_def GetRewardsParams_def GetPmtpParams_def GetPmtpEpoch_def
  kv_get_def kv_del_def kv_values_def kv_prefix_def GetPools_def

lemmas eval_calc = SwapOne_def calcPriceImpact_def CalcSwapResult_def IsAnyZero_def calcRawXYK_def rat_quo_def
  calcPmtpFactor_def DecToRat_def big_quo_def RatIntQuo_numeral CalculateWithdrawalFromUnits_def uint_round_def
  uint_truncate_def CalculateWithdrawal_def CalculatePoolUnits_def CalculatePoolUnitsSymmetric_def
  GetLiquidityAddSymmetryState_def subtract_withdrawal_def adjust_asymmetry_def ConvWBasisPointsToUnits_def

lemmas eval_exec = ParseToInt_def parse_address_def InitiateSwap_def FinalizeSwap_def CreatePool_def
  CreateLiquidityProvider_def AddLiquidity_def lacks_both_def RemoveLiquidity_def PruneUnlockRecords_def
  UseUnlockedLiquidity_def GetRemovalQueueUnitsForLP_def GetRemovalQueue_def

lemmas eval_msg = require_def get_entry_def get_pool_def get_provider_def in_pool_def out_pool_def first_leg_def
  protect_swap_def protection_price_def check_protection_def GetRegistry_def CheckEntryPermissions_def prune_provider_def
  check_swap_status_def check_health_def IsPoolEnabled_def GetEnabledPools_def margin_GetParams_def margin_DefaultParams_def
  admin_gate_def IsAdminAccount_def GetAdminAccountsForType_def msg_Swap_def msg_CreatePool_def msg_AddLiquidity_def
  msg_RemoveLiquidityUnits_def msg_RemoveLiquidity_def

lemmas eval_route = run_msg_def route_msg_def check_def check_asset_def check_signer_def check_address_def GetSigners_def
  validate_defs

lemmas demo_defs = demo_sel demo_entry_def demo_pool_def demo_provider_def demo_admin_def
  GetDefaultLiquidityProtectionParams_def GetDefaultRewardParams_def GetDefaultPmtpParams_def

lemmas eval = eval_monad eval_sdk eval_types eval_state eval_calc eval_exec eval_msg eval_route demo_defs Let_def

section \<open>Runs\<close>

lemma demo_swap:
  "\<exists>t. msg_Swap sdk_ref ''alice'' (Asset ''fury'') (Asset ''ceth'') 1000 1 demo = (Ok (498, 1, 0), t)"
  by (simp add: eval cong: eval_cong)

lemma demo_remove:
  "\<exists>t. msg_RemoveLiquidityUnits sdk_ref ''bob'' (Asset ''ceth'') 500000 demo = (Ok (), t)"
  by (simp add: eval cong: eval_cong)

lemma demo_add:
  "\<exists>t. msg_AddLiquidity sdk_ref ''alice'' (Asset ''ceth'') 2000 1000 demo = (Ok (), t)"
  by (simp add: eval cong: eval_cong)

lemma demo_create:
  "\<exists>t. msg_CreatePool sdk_ref ''alice'' (Asset ''cdash'') 1000000000000000000 1000 demo = (Ok (), t)"
  by (simp add: eval cong: eval_cong)

lemma demo_run_swap:
  "\<exists>t. run_msg sdk_ref (MsgSwap ''alice'' (Asset ''fury'') (Asset ''ceth'') 1000 1) demo = (Ok (), t)"
  by (simp add: eval cong: eval_cong)

lemma demo_close:
  "\<exists>t. msg_DecommissionPool sdk_ref ''carol'' ''ceth'' demo = (Ok (), t)"
  by (simp add: eval msg_DecommissionPool_def ValidateAddress_def GetClpWhiteList_def DecommissionPool_def DestroyPool_def
      GetLiquidityProvidersForAssetPaginated_def paginate_providers_def refund_provider_def CalculateAllAssetsForLP_def
      RemoveLiquidityProvider_def cong: eval_cong)

lemma demo_inv: "chain_inv demo"
proof -
  have "issued demo a = held demo a" for a
    by (cases a) (simp add: demo_defs eval_types issued_def held_def held_in_def kv.total_def kv_get_def)
  then show ?thesis
    by (auto simp: eval_types demo_defs kv_get_def chain_inv_def units_inv_def pools_wf_def providers_wf_def kv_wf_def
        deep_all_def deep_pool_def split: if_splits)
qed

lemma demo_estimate: "\<exists>est. GetPoolShareEstimate sdk_ref (Asset ''ceth'') 2000 1000 demo = Ok est"
  by (simp add: GetPoolShareEstimate_def eval cong: eval_cong)

end
