(* ===== verification/Margin.thy ===== *)
theory Margin
  imports ClpMsgs
begin

text \<open>
  Margin positions (\<open>x/margin\<close>): the store of positions, borrowing, custody, repayment, interest and
  liquidation of \<open>keeper/keeper.go\<close> and \<open>keeper/calculations.go\<close>, and the block hook of
  \<open>keeper/abci.go\<close>.

  The functions work on a position and a pool through pointers, and the block hook recovers from
  a panic in the middle of them. What the pointers point to is therefore part of the state: \<open>mtpVar\<close> is the
  position and \<open>poolVar\<close> the pool that is being processed. A function that takes a
  value instead of a pointer takes it as an argument.
\<close>

section \<open>State (types/types.go, types/keys.go)\<close>

datatype Position = POSITION_UNSPECIFIED | LONG | SHORT

record MTP =
  mtpAddress :: string
  collateralAsset :: string
  collateralAmount :: nat
  liabilities :: nat
  interestPaidCollateral :: nat
  interestPaidCustody :: nat
  interestUnpaidCollateral :: nat
  custodyAsset :: string
  custodyAmount :: nat
  leverage :: int
  mtpHealth :: int
  position :: Position
  mtpId :: int

record margin_state = clp_state +
  mtps :: "MTP kv"
  mtpCount :: int             \<comment> \<open>0 when not set\<close>
  openMTPCount :: int
  marginWhitelist :: "string kv"
  sqBeginBlocks :: "int kv"
  poolVar :: Pool
  mtpVar :: MTP

definition NewMTP :: "string \<Rightarrow> string \<Rightarrow> string \<Rightarrow> Position \<Rightarrow> int \<Rightarrow> MTP" where
  "NewMTP signer collateral borrow pos lev = \<lparr>
     mtpAddress = signer, collateralAsset = collateral, collateralAmount = 0, liabilities = 0,
     interestPaidCollateral = 0, interestPaidCustody = 0, interestUnpaidCollateral = 0,
     custodyAsset = borrow, custodyAmount = 0, leverage = lev, mtpHealth = 0, position = pos, mtpId = 0\<rparr>"

definition MTP_Validate :: "MTP \<Rightarrow> unit result" where
  "MTP_Validate m =
     (if collateralAsset m = '''' then Err ErrMTPInvalid
      else if mtpAddress m = '''' then Err ErrMTPInvalid
      else if position m = POSITION_UNSPECIFIED then Err ErrMTPInvalid
      else if mtpId m = 0 then Err ErrMTPInvalid
      else Ok ())"

text \<open>\<open>binary.BigEndian\<close> on eight bytes.\<close>

definition GetUint64Bytes :: "int \<Rightarrow> string" where
  "GetUint64Bytes n = map (\<lambda>i. char_of (nat n div 256 ^ (7 - i))) [0..<8]"

definition GetUint64FromBytes :: "string \<Rightarrow> int" where
  "GetUint64FromBytes bz = foldl (\<lambda>acc c. acc * 256 + int (of_char c)) 0 bz"

definition GetMTPKey :: "string \<Rightarrow> int \<Rightarrow> string" where
  "GetMTPKey addr n = addr @ GetUint64Bytes n"

definition ToAsset :: "string \<Rightarrow> Asset" where
  "ToAsset a = Asset a"

section \<open>Positions (keeper.go)\<close>

definition SetMTP :: "('s margin_state_scheme, unit) M" where
  "SetMTP =
     bindM (gets mtpVar) (\<lambda>m.
     thenM (if mtpId m = 0
            then modify (\<lambda>s. let c = to_u64 (mtpCount s + 1) in
                   s\<lparr>mtpVar := m\<lparr>mtpId := c\<rparr>, mtpCount := c, openMTPCount := to_u64 (openMTPCount s + 1)\<rparr>)
            else ret ()) (
     bindM (gets mtpVar) (\<lambda>m'.
     thenM (liftR (MTP_Validate m')) (
     modify (\<lambda>s. s\<lparr>mtps := kv_put (GetMTPKey (mtpAddress m') (mtpId m')) m' (mtps s)\<rparr>)))))"

definition GetMTP :: "string \<Rightarrow> int \<Rightarrow> 's margin_state_scheme \<Rightarrow> MTP result" where
  "GetMTP addr n s = (case kv_get (mtps s) (GetMTPKey addr n) of None \<Rightarrow> Err ErrMTPDoesNotExist | Some m \<Rightarrow> Ok m)"

definition GetAllMTPS :: "'s margin_state_scheme \<Rightarrow> MTP list" where
  "GetAllMTPS s = kv_values (mtps s)"

definition GetMTPsForPool :: "sdk \<Rightarrow> string \<Rightarrow> 's margin_state_scheme \<Rightarrow> MTP list" where
  "GetMTPsForPool S asset s =
     (let ms = kv_values (mtps s) in
      map (\<lambda>i. ms ! i) (filtered_paginate S (2 ^ 64 - 2)
        (map (\<lambda>m. StringCompare (custodyAsset m) asset \<or> StringCompare (collateralAsset m) asset) ms)))"

definition DestroyMTP :: "string \<Rightarrow> int \<Rightarrow> ('s margin_state_scheme, unit) M" where
  "DestroyMTP addr n =
     bindM (gets (\<lambda>s. kv_get (mtps s) (GetMTPKey addr n))) (\<lambda>found.
     case found of
       None \<Rightarrow> throw ErrMTPDoesNotExist
     | Some _ \<Rightarrow> modify (\<lambda>s. s\<lparr>mtps := kv_del (GetMTPKey addr n) (mtps s),
                              openMTPCount := to_u64 (openMTPCount s - 1)\<rparr>))"

definition CLPSwap :: "sdk \<Rightarrow> nat \<Rightarrow> string \<Rightarrow> Pool \<Rightarrow> 's margin_state_scheme \<Rightarrow> nat result" where
  "CLPSwap S sentAmount to pool s =
     rbind (CLPCalcSwap S sentAmount (ToAsset to) pool (IsPoolEnabled (Symbol (externalAsset pool)) s) s) (\<lambda>r.
     if r = 0 then Err ErrAmountTooLow else Ok r)"

definition UpdateMTPHealth :: "sdk \<Rightarrow> MTP \<Rightarrow> Pool \<Rightarrow> 's margin_state_scheme \<Rightarrow> int result" where
  "UpdateMTPHealth S m pool s =
     (if liabilities m = 0 then Ok 0
      else
      rbind (if 0 < interestUnpaidCollateral m then uint_add S (liabilities m) (interestUnpaidCollateral m)
             else Ok (liabilities m)) (\<lambda>xl.
      rbind (CLPSwap S (custodyAmount m) (collateralAsset m) pool s) (\<lambda>c.
      dec_quo S (new_dec (int c)) (new_dec (int xl)))))"

text \<open>A write through the pool pointer.\<close>

definition set_pool_var :: "(Pool \<Rightarrow> Pool result) \<Rightarrow> ('s margin_state_scheme, unit) M" where
  "set_pool_var f = bindM (gets poolVar) (\<lambda>p. bindM (liftR (f p)) (\<lambda>q. modify (\<lambda>s. s\<lparr>poolVar := q\<rparr>)))"

definition set_mtp_var :: "(MTP \<Rightarrow> MTP result) \<Rightarrow> ('s margin_state_scheme, unit) M" where
  "set_mtp_var f = bindM (gets mtpVar) (\<lambda>m. bindM (liftR (f m)) (\<lambda>m'. modify (\<lambda>s. s\<lparr>mtpVar := m'\<rparr>)))"

text \<open>
  \<open>pool.F = pool.F.Add(n)\<close> and \<open>pool.F = pool.F.Sub(n)\<close> for a field, given with its update. Each assignment is a
  step of its own: a panic in a later one leaves the earlier ones done.
\<close>

definition pool_add :: "sdk \<Rightarrow> (Pool \<Rightarrow> nat) \<Rightarrow> ((nat \<Rightarrow> nat) \<Rightarrow> Pool \<Rightarrow> Pool) \<Rightarrow> nat \<Rightarrow> ('s margin_state_scheme, unit) M" where
  "pool_add S fld upd n = set_pool_var (\<lambda>p. rbind (uint_add S (fld p) n) (\<lambda>v. Ok (upd (\<lambda>_. v) p)))"

definition pool_sub :: "sdk \<Rightarrow> (Pool \<Rightarrow> nat) \<Rightarrow> ((nat \<Rightarrow> nat) \<Rightarrow> Pool \<Rightarrow> Pool) \<Rightarrow> nat \<Rightarrow> ('s margin_state_scheme, unit) M" where
  "pool_sub S fld upd n = set_pool_var (\<lambda>p. rbind (uint_sub S (fld p) n) (\<lambda>v. Ok (upd (\<lambda>_. v) p)))"

definition store_pool :: "sdk \<Rightarrow> ('s margin_state_scheme, unit) M" where
  "store_pool S = bindM (gets poolVar) (SetPool S)"

definition UpdatePoolHealth :: "sdk \<Rightarrow> ('s margin_state_scheme, unit) M" where
  "UpdatePoolHealth S =
     thenM (set_pool_var (\<lambda>p. rbind (CalculatePoolHealth S p) (\<lambda>h. Ok (p\<lparr>health := Some h\<rparr>)))) (store_pool S)"

definition Borrow :: "sdk \<Rightarrow> string \<Rightarrow> nat \<Rightarrow> nat \<Rightarrow> int \<Rightarrow> ('s margin_state_scheme, unit) M" where
  "Borrow S asset amount custody eta =
     bindM (gets mtpVar) (\<lambda>m0.
     bindM (liftR (of_option (ErrSdk ''bech32'') (acc_from_bech32 S (mtpAddress m0)))) (\<lambda>addr.
     bindM (liftR (new_coin S asset (int amount))) (\<lambda>coin.
     bindM (gets (HasBalance addr coin)) (\<lambda>ok.
     if \<not> ok then throw ErrBalanceNotAvailable
     else
     bindM (liftR (dec_mul S (new_dec (int amount)) eta)) (\<lambda>liabilitiesDec.
     thenM (set_mtp_var (\<lambda>m. rbind (uint_add S (collateralAmount m) amount) (\<lambda>c. Ok (m\<lparr>collateralAmount := c\<rparr>)))) (
     thenM (set_mtp_var (\<lambda>m. rbind (uint_truncate S liabilitiesDec) (\<lambda>l.
              rbind (uint_add S (liabilities m) l) (\<lambda>l'. Ok (m\<lparr>liabilities := l'\<rparr>))))) (
     thenM (set_mtp_var (\<lambda>m. rbind (uint_add S (custodyAmount m) custody) (\<lambda>c. Ok (m\<lparr>custodyAmount := c\<rparr>)))) (
     thenM (set_mtp_var (\<lambda>m. rbind (dec_add S eta dec_one) (\<lambda>l. Ok (m\<lparr>leverage := l\<rparr>)))) (
     bindM (getsR (\<lambda>s. UpdateMTPHealth S (mtpVar s) (poolVar s) s)) (\<lambda>h.
     thenM (set_mtp_var (\<lambda>m. Ok (m\<lparr>mtpHealth := h\<rparr>))) (
     bindM (liftR (new_coins S [coin])) (\<lambda>coins.
     thenM (SendCoinsFromAccountToModule S addr ModuleName coins) (
     bindM (gets mtpVar) (\<lambda>m.
     thenM (if StringCompare (collateralAsset m) NativeSymbol
            then thenM (pool_add S nativeAssetBalance nativeAssetBalance_update amount) (
                 pool_add S nativeLiabilities nativeLiabilities_update (liabilities m))
            else thenM (pool_add S externalAssetBalance externalAssetBalance_update amount) (
                 pool_add S externalLiabilities externalLiabilities_update (liabilities m))) (
     thenM (store_pool S) SetMTP)))))))))))))))"

definition TakeInCustody :: "sdk \<Rightarrow> MTP \<Rightarrow> ('s margin_state_scheme, unit) M" where
  "TakeInCustody S m =
     thenM (if StringCompare (custodyAsset m) NativeSymbol
            then thenM (pool_sub S nativeAssetBalance nativeAssetBalance_update (custodyAmount m)) (
                 pool_add S nativeCustody nativeCustody_update (custodyAmount m))
            else thenM (pool_sub S externalAssetBalance externalAssetBalance_update (custodyAmount m)) (
                 pool_add S externalCustody externalCustody_update (custodyAmount m))) (
     store_pool S)"

definition TakeOutCustody :: "sdk \<Rightarrow> MTP \<Rightarrow> ('s margin_state_scheme, unit) M" where
  "TakeOutCustody S m =
     thenM (if StringCompare (custodyAsset m) NativeSymbol
            then thenM (pool_sub S nativeCustody nativeCustody_update (custodyAmount m)) (
                 pool_add S nativeAssetBalance nativeAssetBalance_update (custodyAmount m))
            else thenM (pool_sub S externalCustody externalCustody_update (custodyAmount m)) (
                 pool_add S externalAssetBalance externalAssetBalance_update (custodyAmount m))) (
     store_pool S)"

definition GetForceCloseFundAddress :: "sdk \<Rightarrow> 's margin_params_state_scheme \<Rightarrow> string result" where
  "GetForceCloseFundAddress S s =
     (case acc_from_bech32 S (forceCloseFundAddress (margin_GetParams s)) of None \<Rightarrow> Panic | Some a \<Rightarrow> Ok a)"

definition GetIncrementalInterestPaymentFundAddress :: "sdk \<Rightarrow> 's margin_params_state_scheme \<Rightarrow> string result" where
  "GetIncrementalInterestPaymentFundAddress S s =
     (case acc_from_bech32 S (incrementalInterestPaymentFundAddress (margin_GetParams s)) of
        None \<Rightarrow> Panic | Some a \<Rightarrow> Ok a)"

definition TakeFundPayment :: "sdk \<Rightarrow> nat \<Rightarrow> string \<Rightarrow> int \<Rightarrow> string \<Rightarrow> ('s margin_state_scheme, nat) M" where
  "TakeFundPayment S returnAmount asset takePercentage fundAddr =
     bindM (liftR (rbind (dec_mul S takePercentage (new_dec (int returnAmount))) (uint_truncate S))) (\<lambda>takeAmount.
     if takeAmount = 0 then ret 0
     else
     bindM (liftR (new_coin S asset (int takeAmount))) (\<lambda>coin.
     bindM (liftR (new_coins S [coin])) (\<lambda>coins.
     thenM (SendCoinsFromModuleToAccount S ModuleName fundAddr coins) (ret takeAmount))))"

text \<open>What is returned to the owner, and the principal and the interest that stay unpaid.\<close>

definition repay_split :: "sdk \<Rightarrow> nat \<Rightarrow> nat \<Rightarrow> nat \<Rightarrow> (nat \<times> nat \<times> nat) result" where
  "repay_split S have_amount debt unpaid =
     rbind (uint_add S debt unpaid) (\<lambda>owe.
     if have_amount < debt then rbind (uint_sub S debt have_amount) (\<lambda>p. Ok (0, p, unpaid))
     else if have_amount < owe
     then rbind (rbind (uint_add S debt unpaid) (\<lambda>o'. uint_sub S o' have_amount)) (\<lambda>i. Ok (0, 0, i))
     else rbind (rbind (uint_sub S have_amount debt) (\<lambda>r. uint_sub S r unpaid)) (\<lambda>r. Ok (r, 0, 0)))"

text \<open>The payment to the fund and to the owner.\<close>

definition pay_return :: "sdk \<Rightarrow> MTP \<Rightarrow> nat \<Rightarrow> bool \<Rightarrow> ('s margin_state_scheme, unit) M" where
  "pay_return S m returnAmount takeFundPayment =
     (if returnAmount = 0 then ret ()
      else
      bindM (if takeFundPayment
             then bindM (gets (\<lambda>s. forceCloseFundPercentage (margin_GetParams s))) (\<lambda>pct.
                  bindM (getsR (GetForceCloseFundAddress S)) (\<lambda>fund.
                  bindM (TakeFundPayment S returnAmount (collateralAsset m) pct fund) (\<lambda>takeAmount.
                  liftR (uint_sub S returnAmount takeAmount))))
             else ret returnAmount) (\<lambda>actual.
      if actual = 0 then ret ()
      else
      bindM (liftR (new_coin S (collateralAsset m) (int actual))) (\<lambda>coin.
      bindM (liftR (coins_add S [] coin)) (\<lambda>coins.
      bindM (liftR (of_option (ErrSdk ''bech32'') (acc_from_bech32 S (mtpAddress m)))) (\<lambda>addr.
      SendCoinsFromModuleToAccount S ModuleName addr coins)))))"

definition Repay :: "sdk \<Rightarrow> nat \<Rightarrow> bool \<Rightarrow> ('s margin_state_scheme, unit) M" where
  "Repay S repayAmount takeFundPayment =
     bindM (getsR (\<lambda>s. UpdateMTPHealth S (mtpVar s) (poolVar s) s)) (\<lambda>h.
     thenM (set_mtp_var (\<lambda>m. Ok (m\<lparr>mtpHealth := h\<rparr>))) (
     bindM (gets mtpVar) (\<lambda>m.
     bindM (liftR (repay_split S repayAmount (liabilities m) (interestUnpaidCollateral m))) (\<lambda>(returnAmount, debtP, debtI).
     thenM (pay_return S m returnAmount takeFundPayment) (
     thenM (if StringCompare (collateralAsset m) NativeSymbol
            then thenM (pool_sub S nativeAssetBalance nativeAssetBalance_update returnAmount) (
                 thenM (pool_sub S nativeLiabilities nativeLiabilities_update (liabilities m)) (
                 set_pool_var (\<lambda>p. rbind (rbind (uint_add S (unsettledNativeLiabilities p) debtI) (\<lambda>u. uint_add S u debtP)) (\<lambda>u.
                   Ok (p\<lparr>unsettledNativeLiabilities := u\<rparr>)))))
            else thenM (pool_sub S externalAssetBalance externalAssetBalance_update returnAmount) (
                 thenM (pool_sub S externalLiabilities externalLiabilities_update (liabilities m)) (
                 set_pool_var (\<lambda>p. rbind (rbind (uint_add S (unsettledExternalLiabilities p) debtI) (\<lambda>u. uint_add S u debtP)) (\<lambda>u.
                   Ok (p\<lparr>unsettledExternalLiabilities := u\<rparr>)))))) (
     thenM (DestroyMTP (mtpAddress m) (mtpId m)) (store_pool S)))))))"

section \<open>Interest (keeper.go, calculations.go)\<close>

definition CalcMTPInterestLiabilities :: "sdk \<Rightarrow> MTP \<Rightarrow> int \<Rightarrow> int \<Rightarrow> int \<Rightarrow> nat result" where
  "CalcMTPInterestLiabilities S m rate epochPosition epochLen =
     (let interest0 = dec_float S rate * of_nat (liabilities m + interestUnpaidCollateral m) in
      rbind (if 0 < epochPosition
             then rbind (rat_quo (of_int epochPosition) (of_int epochLen)) (\<lambda>share. Ok (interest0 * share))
             else Ok interest0) (\<lambda>interest.
      rbind (uint_of_big S (RatIntQuo interest + int (interestUnpaidCollateral m))) (\<lambda>n.
      Ok (if n = 0 \<and> rate \<noteq> 0 then 1 else n))))"

text \<open>Within \<open>IncrementalInterestPayment\<close>: a payment above the custody is cut to the custody.\<close>

definition cut_payment :: "sdk \<Rightarrow> nat \<Rightarrow> nat \<Rightarrow> ('s margin_state_scheme, nat \<times> nat) M" where
  "cut_payment S payment paymentCustody =
     bindM (gets mtpVar) (\<lambda>m.
     if custodyAmount m < paymentCustody
     then bindM (getsR (\<lambda>s. CLPSwap S (custodyAmount m) (collateralAsset m) (poolVar s) s)) (\<lambda>c.
          thenM (set_mtp_var (\<lambda>m. rbind (uint_sub S payment c) (\<lambda>u. Ok (m\<lparr>interestUnpaidCollateral := u\<rparr>)))) (
          ret (c, custodyAmount m)))
     else ret (payment, paymentCustody))"

text \<open>The share of the fund leaves the custody, the rest of the payment joins the balance of the pool.\<close>

definition interest_to_pool :: "sdk \<Rightarrow> string \<Rightarrow> nat \<Rightarrow> ('s margin_state_scheme, nat) M" where
  "interest_to_pool S asset paymentCustody =
     bindM (gets (\<lambda>s. incrementalInterestPaymentFundPercentage (margin_GetParams s))) (\<lambda>pct.
     bindM (getsR (GetIncrementalInterestPaymentFundAddress S)) (\<lambda>fund.
     bindM (TakeFundPayment S paymentCustody asset pct fund) (\<lambda>takeAmount.
     bindM (liftR (uint_sub S paymentCustody takeAmount)) (\<lambda>actual.
     thenM (if StringCompare asset NativeSymbol
            then thenM (pool_sub S nativeCustody nativeCustody_update paymentCustody) (
                 pool_add S nativeAssetBalance nativeAssetBalance_update actual)
            else thenM (pool_sub S externalCustody externalCustody_update paymentCustody) (
                 pool_add S externalAssetBalance externalAssetBalance_update actual)) (
     thenM SetMTP (thenM (store_pool S) (ret actual)))))))"

definition IncrementalInterestPayment :: "sdk \<Rightarrow> nat \<Rightarrow> ('s margin_state_scheme, nat) M" where
  "IncrementalInterestPayment S interestPayment =
     bindM (gets mtpVar) (\<lambda>m0.
     bindM (liftR (if 0 < interestUnpaidCollateral m0 then uint_add S interestPayment (interestUnpaidCollateral m0)
                   else Ok interestPayment)) (\<lambda>payment0.
     bindM (getsR (\<lambda>s. CLPSwap S payment0 (custodyAsset m0) (poolVar s) s)) (\<lambda>paymentCustody0.
     thenM (set_mtp_var (\<lambda>m. Ok (m\<lparr>interestUnpaidCollateral := 0\<rparr>))) (
     bindM (cut_payment S payment0 paymentCustody0) (\<lambda>(payment, paymentCustody).
     thenM (set_mtp_var (\<lambda>m. rbind (uint_add S (interestPaidCollateral m) payment) (\<lambda>n.
              Ok (m\<lparr>interestPaidCollateral := n\<rparr>)))) (
     thenM (set_mtp_var (\<lambda>m. rbind (uint_add S (interestPaidCustody m) paymentCustody) (\<lambda>n.
              Ok (m\<lparr>interestPaidCustody := n\<rparr>)))) (
     thenM (set_mtp_var (\<lambda>m. rbind (uint_sub S (custodyAmount m) paymentCustody) (\<lambda>n.
              Ok (m\<lparr>custodyAmount := n\<rparr>)))) (
     interest_to_pool S (custodyAsset m0) paymentCustody))))))))"

definition HandleInterestPayment :: "sdk \<Rightarrow> nat \<Rightarrow> ('s margin_state_scheme, nat) M" where
  "HandleInterestPayment S interestPayment =
     bindM (gets (\<lambda>s. incrementalInterestPaymentEnabled (margin_GetParams s))) (\<lambda>enabled.
     if enabled then catchM (IncrementalInterestPayment S interestPayment) (\<lambda>_. ret 0)
     else thenM (set_mtp_var (\<lambda>m. Ok (m\<lparr>interestUnpaidCollateral := interestPayment\<rparr>))) (ret 0))"

definition GetSQBeginBlock :: "Pool \<Rightarrow> 's margin_state_scheme \<Rightarrow> int" where
  "GetSQBeginBlock pool s =
     (case kv_get (sqBeginBlocks s) (Symbol (externalAsset pool)) of None \<Rightarrow> 0 | Some h \<Rightarrow> h)"

definition SetSQBeginBlock :: "Pool \<Rightarrow> int \<Rightarrow> ('s margin_state_scheme, unit) M" where
  "SetSQBeginBlock pool h =
     modify (\<lambda>s. s\<lparr>sqBeginBlocks := kv_put (Symbol (externalAsset pool)) h (sqBeginBlocks s)\<rparr>)"

text \<open>A comparison with a nil decimal panics.\<close>

definition TrackSQBeginBlock :: "Pool \<Rightarrow> ('s margin_state_scheme, unit) M" where
  "TrackSQBeginBlock pool =
     bindM (gets GetRemovalQueueThreshold) (\<lambda>threshold.
     bindM (gets (GetSQBeginBlock pool)) (\<lambda>begin_block.
     bindM (gets height) (\<lambda>h.
     case health pool of
       None \<Rightarrow> panic
     | Some poolHealth \<Rightarrow>
         if begin_block = 0
         then if poolHealth \<le> threshold then SetSQBeginBlock pool (to_u64 h) else ret ()
         else if threshold < poolHealth then SetSQBeginBlock pool 0 else ret ())))"

definition GetSQFromBlocks :: "sdk \<Rightarrow> Pool \<Rightarrow> int \<Rightarrow> 's margin_state_scheme \<Rightarrow> int result" where
  "GetSQFromBlocks S pool rate s =
     (let begin_block = GetSQBeginBlock pool s in
      if begin_block = 0 then Ok 0
      else
      let blocks = to_i64 (height s - to_i64 begin_block);
          minusDec = (case exp_decay S rate blocks of Ok d \<Rightarrow> d | _ \<Rightarrow> 0) in
      rbind (dec_sub S (new_dec 1) minusDec) (\<lambda>multipliedBy.
      dec_mul S (interestRateMax (margin_GetParams s)) multipliedBy))"

definition GetSQFromQueue :: "sdk \<Rightarrow> Pool \<Rightarrow> 's margin_state_scheme \<Rightarrow> int result" where
  "GetSQFromQueue S pool s =
     (let q = GetRemovalQueue (Symbol (externalAsset pool)) s in
      if queueCount q = 0 then Ok 0
      else
      rbind (dec_mul S (new_dec (int (totalValue q))) (new_dec (to_i64 (height s - startHeight q)))) (\<lambda>v.
      dec_quo S v (sqModifier (margin_GetParams s))))"

text \<open>The next rate before the bounds: towards the target, by at most a step.\<close>

definition step_rate :: "sdk \<Rightarrow> int \<Rightarrow> int \<Rightarrow> MarginParams \<Rightarrow> int result" where
  "step_rate S target prev ps =
     rbind (dec_sub S target prev) (\<lambda>change.
     rbind (dec_mul S (interestRateDecrease ps) (new_dec (- 1))) (\<lambda>down.
     if down \<le> change \<and> change \<le> interestRateIncrease ps then Ok target
     else if interestRateIncrease ps < change then dec_add S prev (interestRateIncrease ps)
     else if change < down then dec_sub S prev (interestRateDecrease ps)
     else Ok prev))"

definition clamp_rate :: "int \<Rightarrow> MarginParams \<Rightarrow> int" where
  "clamp_rate r ps =
     (if interestRateMin ps < r \<and> r < interestRateMax ps then r
      else if r \<le> interestRateMin ps then interestRateMin ps
      else if interestRateMax ps \<le> r then interestRateMax ps
      else r)"

definition InterestRateComputation :: "sdk \<Rightarrow> Pool \<Rightarrow> 's margin_state_scheme \<Rightarrow> int result" where
  "InterestRateComputation S pool s =
     (let ps = margin_GetParams s;
          eb = new_dec (int (externalAssetBalance pool)); el = new_dec (int (externalLiabilities pool));
          nb = new_dec (int (nativeAssetBalance pool)); nl = new_dec (int (nativeLiabilities pool)) in
      rbind (rbind (dec_add S eb el) (\<lambda>x. dec_quo S x eb)) (\<lambda>mul1.
      rbind (rbind (dec_add S nb nl) (\<lambda>x. dec_quo S x nb)) (\<lambda>mul2.
      rbind (rbind (dec_mul S (healthGainFactor ps) mul1) (\<lambda>x. dec_mul S x mul2)) (\<lambda>target.
      rbind (step_rate S target (interestRate pool) ps) (\<lambda>r.
      let r' = clamp_rate r ps in
      rbind (GetSQFromBlocks S pool r' s) (\<lambda>sQ.
      dec_add S r' sQ))))))"

definition CheckMinLiabilities :: "sdk \<Rightarrow> nat \<Rightarrow> int \<Rightarrow> Pool \<Rightarrow> string \<Rightarrow> 's margin_state_scheme \<Rightarrow> unit result" where
  "CheckMinLiabilities S amount eta pool custody s =
     (let minRate = interestRateMin (margin_GetParams s) in
      rbind (rbind (dec_mul S (new_dec (int amount)) eta) (uint_truncate S)) (\<lambda>debt.
      rbind (uint_of_big S (RatIntQuo (dec_float S minRate * of_nat debt))) (\<lambda>samplePayment.
      if samplePayment = 0 \<and> minRate \<noteq> 0 then Err ErrBorrowTooLow
      else rbind (rwrap ErrBorrowTooLow (CLPSwap S samplePayment custody pool s)) (\<lambda>_. Ok ()))))"

definition GetEpochPosition :: "int \<Rightarrow> int \<Rightarrow> int" where
  "GetEpochPosition h epochLen = (let len = (if epochLen \<le> 0 then 1 else epochLen) in trem h len)"

text \<open>The interest of a started epoch, paid before a position is closed.\<close>

definition settle_interest :: "sdk \<Rightarrow> int \<Rightarrow> int \<Rightarrow> ('s margin_state_scheme, unit) M" where
  "settle_interest S epochPosition epochLen =
     bindM (gets (\<lambda>s. (mtpVar s, poolVar s))) (\<lambda>(m, p).
     bindM (liftR (CalcMTPInterestLiabilities S m (interestRate p) epochPosition epochLen)) (\<lambda>payment.
     bindM (HandleInterestPayment S payment) (\<lambda>paid.
     if StringCompare (collateralAsset m) NativeSymbol
     then pool_add S blockInterestExternal blockInterestExternal_update paid
     else pool_add S blockInterestNative blockInterestNative_update paid)))"

definition refresh_health :: "sdk \<Rightarrow> ('s margin_state_scheme, unit) M" where
  "refresh_health S =
     bindM (getsR (\<lambda>s. UpdateMTPHealth S (mtpVar s) (poolVar s) s)) (\<lambda>h.
     set_mtp_var (\<lambda>m. Ok (m\<lparr>mtpHealth := h\<rparr>)))"

text \<open>From the custody to the repayment, as \<open>ForceCloseLong\<close> and \<open>CloseLong\<close> do it.\<close>

definition close_position :: "sdk \<Rightarrow> bool \<Rightarrow> ('s margin_state_scheme, nat) M" where
  "close_position S takeFundPayment =
     bindM (gets mtpVar) (\<lambda>m.
     thenM (TakeOutCustody S m) (
     bindM (getsR (\<lambda>s. CLPSwap S (custodyAmount m) (collateralAsset m) (poolVar s) s)) (\<lambda>repayAmount.
     thenM (Repay S repayAmount takeFundPayment) (ret repayAmount))))"

definition ForceCloseLong :: "sdk \<Rightarrow> bool \<Rightarrow> bool \<Rightarrow> ('s margin_state_scheme, nat) M" where
  "ForceCloseLong S isAdminClose takeFundPayment =
     bindM (gets (\<lambda>s. safetyFactor (margin_GetParams s))) (\<lambda>factor.
     bindM (gets (\<lambda>s. epochLength (margin_GetParams s))) (\<lambda>len.
     bindM (gets (\<lambda>s. GetEpochPosition (height s) len)) (\<lambda>pos.
     thenM (if 0 < pos then thenM (settle_interest S pos len) (refresh_health S) else ret ()) (
     bindM (gets mtpVar) (\<lambda>m.
     if \<not> isAdminClose \<and> factor < mtpHealth m then throw ErrMTPHealthy
     else close_position S takeFundPayment)))))"

section \<open>Block hook (abci.go)\<close>

text \<open>\<open>defer recover()\<close>: a panic ends the function, and the writes made until then stay.\<close>

definition recoverM :: "('s, unit) M \<Rightarrow> ('s, unit) M" where
  "recoverM m s = (case m s of (Panic, t) \<Rightarrow> (Ok (), t) | r \<Rightarrow> r)"

definition BeginBlockerProcessMTP :: "sdk \<Rightarrow> MTP \<Rightarrow> ('s margin_state_scheme, unit) M" where
  "BeginBlockerProcessMTP S mtp =
     thenM (modify (\<lambda>s. s\<lparr>mtpVar := mtp\<rparr>)) (
     recoverM (
       bindM (gets (\<lambda>s. UpdateMTPHealth S (mtpVar s) (poolVar s) s)) (\<lambda>h.
       case h of
         Panic \<Rightarrow> panic
       | Err e \<Rightarrow> ret ()
       | Ok h' \<Rightarrow>
           thenM (set_mtp_var (\<lambda>m. Ok (m\<lparr>mtpHealth := h'\<rparr>))) (
           thenM (settle_interest S 0 0) (
           thenM (ignoreM SetMTP) (
           ignoreM (bindM (ForceCloseLong S False True) (\<lambda>_. ret ()))))))))"

definition process_pool :: "sdk \<Rightarrow> Pool \<Rightarrow> ('s margin_state_scheme, unit) M" where
  "process_pool S pool =
     thenM (modify (\<lambda>s. s\<lparr>poolVar := pool\<lparr>blockInterestExternal := 0, blockInterestNative := 0\<rparr>\<rparr>)) (
     bindM (gets (IsPoolEnabled (Symbol (externalAsset pool)))) (\<lambda>enabled.
     if enabled
     then bindM (gets (\<lambda>s. InterestRateComputation S (poolVar s) s)) (\<lambda>r.
          case r of
            Panic \<Rightarrow> panic
          | Err e \<Rightarrow> ret ()
          | Ok rate \<Rightarrow>
              bindM (gets height) (\<lambda>h.
              thenM (set_pool_var (\<lambda>p. Ok (p\<lparr>interestRate := rate, lastHeightInterestRateComputed := h\<rparr>))) (
              thenM (ignoreM (UpdatePoolHealth S)) (
              thenM (bindM (gets poolVar) TrackSQBeginBlock) (
              bindM (gets (GetMTPsForPool S (Symbol (externalAsset pool)))) (\<lambda>ms.
              thenM (eachM (BeginBlockerProcessMTP S) ms) (
              ignoreM (store_pool S))))))))
     else ignoreM (store_pool S)))"

definition margin_BeginBlocker :: "sdk \<Rightarrow> ('s margin_state_scheme, unit) M" where
  "margin_BeginBlocker S =
     bindM (gets (\<lambda>s. GetEpochPosition (height s) (epochLength (margin_GetParams s)))) (\<lambda>pos.
     if pos = 0 then bindM (gets GetPools) (eachM (process_pool S)) else ret ())"

end
