(* ===== verification/MarginMsgs.thy ===== *)
theory MarginMsgs
  imports Margin
begin

text \<open>
  The messages of \<open>x/margin\<close>: stateless checks (\<open>types/msgs.go\<close>), message server
  (\<open>keeper/msg_server.go\<close>, \<open>keeper/admin_msg_server.go\<close>), routing (\<open>keeper/legacy.go\<close>) and genesis
  (\<open>keeper/genesis.go\<close>). A handler that takes the address of a local pool or position puts it into
  \<open>poolVar\<close> or \<open>mtpVar\<close>.
\<close>

section \<open>Messages\<close>

record MsgOpen =
  openSigner :: string
  openCollateralAsset :: string
  openCollateralAmount :: nat
  openBorrowAsset :: string
  openPosition :: Position
  openLeverage :: "int option"      \<comment> \<open>\<open>None\<close> for a nil decimal\<close>

datatype (plugins only: code size) margin_msg =
    MarginOpen MsgOpen
  | MarginClose string int                        \<comment> \<open>signer, id\<close>
  | MarginForceClose string string int            \<comment> \<open>signer, owner, id\<close>
  | MarginUpdateParams string MarginParams
  | MarginUpdatePools string "string list" "string list"   \<comment> \<open>enabled and closed pools\<close>
  | MarginUpdateFuryCollateral string bool
  | MarginWhitelist string string                 \<comment> \<open>signer, address\<close>
  | MarginDewhitelist string string
  | MarginAdminClose string string int bool       \<comment> \<open>signer, owner, id, whether the fund is paid\<close>
  | MarginAdminCloseAll string bool

fun margin_signer :: "margin_msg \<Rightarrow> string" where
  "margin_signer (MarginOpen m) = openSigner m"
| "margin_signer (MarginClose signer _) = signer"
| "margin_signer (MarginForceClose signer _ _) = signer"
| "margin_signer (MarginUpdateParams signer _) = signer"
| "margin_signer (MarginUpdatePools signer _ _) = signer"
| "margin_signer (MarginUpdateFuryCollateral signer _) = signer"
| "margin_signer (MarginWhitelist signer _) = signer"
| "margin_signer (MarginDewhitelist signer _) = signer"
| "margin_signer (MarginAdminClose signer _ _ _) = signer"
| "margin_signer (MarginAdminCloseAll signer _) = signer"

section \<open>Stateless checks (types/msgs.go)\<close>

text \<open>\<open>NewCoin\<close> panics for an invalid denomination, and a coin of one unit is valid otherwise.\<close>

definition margin_Validate :: "sdk \<Rightarrow> string \<Rightarrow> bool result" where
  "margin_Validate S asset =
     (if \<not> VerifyRange (int (length (TrimSpace asset))) 0 (int MaxSymbolLength) then Ok False
      else rbind (new_coin S asset 1) (\<lambda>_. Ok True))"

definition IsValidPosition :: "Position \<Rightarrow> bool" where
  "IsValidPosition p \<longleftrightarrow> p = LONG \<or> p = SHORT"

definition MsgOpen_ValidateBasic :: "sdk \<Rightarrow> MsgOpen \<Rightarrow> unit result" where
  "MsgOpen_ValidateBasic S m =
     rbind (check_signer (openSigner m)) (\<lambda>_.
     rbind (rbind (margin_Validate S (openCollateralAsset m)) (\<lambda>ok. check ok ErrInValidAsset)) (\<lambda>_.
     rbind (rbind (margin_Validate S (openBorrowAsset m)) (\<lambda>ok. check ok ErrInValidAsset)) (\<lambda>_.
     rbind (check (openCollateralAmount m \<noteq> 0) ErrInValidAmount) (\<lambda>_.
     rbind (case openLeverage m of None \<Rightarrow> Err ErrInValidAmount
            | Some l \<Rightarrow> check (new_dec 1 \<le> l) ErrInValidAmount) (\<lambda>_.
     check (IsValidPosition (openPosition m)) ErrInvalidPosition)))))"

definition MsgClose_ValidateBasic :: "string \<Rightarrow> int \<Rightarrow> unit result" where
  "MsgClose_ValidateBasic signer n =
     rbind (check_signer signer) (\<lambda>_. check (n \<noteq> 0) ErrMTPDoesNotExist)"

definition MsgForceClose_ValidateBasic :: "string \<Rightarrow> string \<Rightarrow> int \<Rightarrow> unit result" where
  "MsgForceClose_ValidateBasic signer owner n =
     rbind (check_signer signer) (\<lambda>_. rbind (check_signer owner) (\<lambda>_. check (n \<noteq> 0) ErrMTPDoesNotExist))"

definition MsgWhitelist_ValidateBasic :: "sdk \<Rightarrow> string \<Rightarrow> string \<Rightarrow> unit result" where
  "MsgWhitelist_ValidateBasic S signer addr = rbind (check_signer signer) (\<lambda>_. check_address S addr)"

fun margin_ValidateBasic :: "sdk \<Rightarrow> margin_msg \<Rightarrow> unit result" where
  "margin_ValidateBasic S (MarginOpen m) = MsgOpen_ValidateBasic S m"
| "margin_ValidateBasic S (MarginClose signer n) = MsgClose_ValidateBasic signer n"
| "margin_ValidateBasic S (MarginForceClose signer owner n) = MsgForceClose_ValidateBasic signer owner n"
| "margin_ValidateBasic S (MarginWhitelist signer addr) = MsgWhitelist_ValidateBasic S signer addr"
| "margin_ValidateBasic S (MarginDewhitelist signer addr) = MsgWhitelist_ValidateBasic S signer addr"
| "margin_ValidateBasic S m = check_signer (margin_signer m)"

section \<open>Whitelist (keeper.go)\<close>

definition WhitelistAddress :: "string \<Rightarrow> ('s margin_state_scheme, unit) M" where
  "WhitelistAddress addr = modify (\<lambda>s. s\<lparr>marginWhitelist := kv_put addr addr (marginWhitelist s)\<rparr>)"

definition DewhitelistAddress :: "string \<Rightarrow> ('s margin_state_scheme, unit) M" where
  "DewhitelistAddress addr = modify (\<lambda>s. s\<lparr>marginWhitelist := kv_del addr (marginWhitelist s)\<rparr>)"

definition IsWhitelisted :: "string \<Rightarrow> 's margin_state_scheme \<Rightarrow> bool" where
  "IsWhitelisted addr s \<longleftrightarrow> kv_get (marginWhitelist s) addr \<noteq> None"

section \<open>Opening and closing (msg\_server.go)\<close>

text \<open>The pool of a position: the side that is not Fury names it.\<close>

definition external_of :: "string \<Rightarrow> string \<Rightarrow> string" where
  "external_of collateral borrow = (if StringCompare collateral NativeSymbol then borrow else collateral)"

definition OpenLong :: "sdk \<Rightarrow> MsgOpen \<Rightarrow> int \<Rightarrow> ('s margin_state_scheme, MTP) M" where
  "OpenLong S msg msgLeverage =
     bindM (gets (\<lambda>s. leverageMax (margin_GetParams s))) (\<lambda>maxLeverage.
     let lev = min msgLeverage maxLeverage; collateral = openCollateralAsset msg; borrow = openBorrowAsset msg;
         amount = openCollateralAmount msg in
     bindM (liftR (dec_sub S lev dec_one)) (\<lambda>eta.
     thenM (modify (\<lambda>s. s\<lparr>mtpVar := NewMTP (openSigner msg) collateral borrow (openPosition msg) lev\<rparr>)) (
     bindM (gets (\<lambda>s. furyCollateralEnabled (margin_GetParams s))) (\<lambda>furyOk.
     if \<not> furyOk \<and> StringCompare collateral NativeSymbol then throw ErrFuryAsCollateralNotAllowed
     else
     let ext = external_of collateral borrow in
     bindM (getsR (\<lambda>s. rwrap ErrPoolDoesNotExist (GetPool ext s))) (\<lambda>pool.
     thenM (modify (\<lambda>s. s\<lparr>poolVar := pool\<rparr>)) (
     bindM (gets (IsPoolEnabled ext)) (\<lambda>enabled.
     if \<not> enabled then throw ErrMTPDisabled
     else
     bindM (liftR (rbind (dec_mul S (new_dec (int amount)) lev) (uint_truncate S))) (\<lambda>leveragedAmount.
     if (if StringCompare collateral NativeSymbol then nativeAssetBalance pool else externalAssetBalance pool)
        < leveragedAmount then throw ErrBorrowTooHigh
     else
     thenM (getsR (CheckMinLiabilities S amount eta pool borrow)) (
     bindM (getsR (CLPSwap S leveragedAmount borrow pool)) (\<lambda>custody.
     if (if StringCompare collateral NativeSymbol then externalAssetBalance pool else nativeAssetBalance pool)
        < custody then throw ErrCustodyTooHigh
     else
     thenM (Borrow S collateral amount custody eta) (
     thenM (UpdatePoolHealth S) (
     thenM (bindM (gets mtpVar) (TakeInCustody S)) (
     bindM (gets (\<lambda>s. safetyFactor (margin_GetParams s))) (\<lambda>factor.
     bindM (getsR (\<lambda>s. UpdateMTPHealth S (mtpVar s) (poolVar s) s)) (\<lambda>lr.
     if lr \<le> factor then throw ErrMTPUnhealthy else gets mtpVar)))))))))))))))"

text \<open>
  A pool whose health is nil passes the check of \<open>Open\<close>. A message whose leverage
  is nil does not pass its stateless checks; the comparison would panic.
\<close>

definition msg_Open :: "sdk \<Rightarrow> MsgOpen \<Rightarrow> ('s margin_state_scheme, unit) M" where
  "msg_Open S msg =
     bindM (gets (\<lambda>s. whitelistingEnabled (margin_GetParams s) \<and> \<not> IsWhitelisted (openSigner msg) s)) (\<lambda>excluded.
     if excluded then throw ErrUnauthorised
     else
     bindM (gets (\<lambda>s. maxOpenPositions (margin_GetParams s) \<le> openMTPCount s)) (\<lambda>full.
     if full then throw ErrMaxOpenPositions
     else
     let ext = external_of (openCollateralAsset msg) (openBorrowAsset msg) in
     bindM (getsR (\<lambda>s. rwrap ErrPoolDoesNotExist (GetPool ext s))) (\<lambda>pool.
     bindM (gets (\<lambda>s. \<not> IsPoolEnabled ext s \<or> IsPoolClosed ext s)) (\<lambda>disabled.
     if disabled then throw ErrMTPDisabled
     else
     bindM (gets (\<lambda>s. case health pool of None \<Rightarrow> False | Some h \<Rightarrow> h \<le> poolOpenThreshold (margin_GetParams s))) (\<lambda>low.
     if low then throw ErrMTPDisabled
     else
     case openPosition msg of
       LONG \<Rightarrow> (case openLeverage msg of None \<Rightarrow> panic | Some l \<Rightarrow> bindM (OpenLong S msg l) (\<lambda>_. ret ()))
     | _ \<Rightarrow> throw ErrInvalidPosition)))))"

definition CloseLong :: "sdk \<Rightarrow> string \<Rightarrow> int \<Rightarrow> ('s margin_state_scheme, MTP \<times> nat) M" where
  "CloseLong S signer n =
     bindM (getsR (GetMTP signer n)) (\<lambda>mtp.
     bindM (getsR (\<lambda>s. rwrap ErrPoolDoesNotExist (GetPool (external_of (collateralAsset mtp) (custodyAsset mtp)) s))) (\<lambda>pool.
     thenM (modify (\<lambda>s. s\<lparr>mtpVar := mtp, poolVar := pool\<rparr>)) (
     bindM (gets (\<lambda>s. epochLength (margin_GetParams s))) (\<lambda>len.
     bindM (gets (\<lambda>s. GetEpochPosition (height s) len)) (\<lambda>pos.
     thenM (if 0 < pos then thenM (settle_interest S pos len) (refresh_health S) else ret ()) (
     bindM (close_position S False) (\<lambda>repayAmount.
     bindM (gets mtpVar) (\<lambda>m. ret (m, repayAmount)))))))))"

definition msg_Close :: "sdk \<Rightarrow> string \<Rightarrow> int \<Rightarrow> ('s margin_state_scheme, unit) M" where
  "msg_Close S signer n =
     bindM (getsR (GetMTP signer n)) (\<lambda>mtp.
     case position mtp of
       LONG \<Rightarrow> bindM (CloseLong S signer n) (\<lambda>_. ret ())
     | _ \<Rightarrow> throw ErrInvalidPosition)"

section \<open>Administration\<close>

definition msg_UpdateParams :: "sdk \<Rightarrow> string \<Rightarrow> MarginParams \<Rightarrow> ('s margin_state_scheme, unit) M" where
  "msg_UpdateParams S signer ps =
     admin_gate S ErrPermissionDenied MARGIN signer (
     bindM (gets margin_GetParams) (\<lambda>old. margin_SetParams (ps\<lparr>enabledPools := enabledPools old\<rparr>)))"

definition msg_UpdatePools :: "sdk \<Rightarrow> string \<Rightarrow> string list \<Rightarrow> string list \<Rightarrow> ('s margin_state_scheme, unit) M" where
  "msg_UpdatePools S signer ps shut =
     admin_gate S ErrPermissionDenied MARGIN signer (
     bindM (gets margin_GetParams) (\<lambda>old. margin_SetParams (old\<lparr>enabledPools := ps, closedPools := shut\<rparr>)))"

definition msg_UpdateFuryCollateral :: "sdk \<Rightarrow> string \<Rightarrow> bool \<Rightarrow> ('s margin_state_scheme, unit) M" where
  "msg_UpdateFuryCollateral S signer on =
     admin_gate S ErrPermissionDenied MARGIN signer (
     bindM (gets margin_GetParams) (\<lambda>old. margin_SetParams (old\<lparr>furyCollateralEnabled := on\<rparr>)))"

definition msg_Whitelist :: "sdk \<Rightarrow> string \<Rightarrow> string \<Rightarrow> ('s margin_state_scheme, unit) M" where
  "msg_Whitelist S signer addr = admin_gate S ErrPermissionDenied MARGIN signer (WhitelistAddress addr)"

definition msg_Dewhitelist :: "sdk \<Rightarrow> string \<Rightarrow> string \<Rightarrow> ('s margin_state_scheme, unit) M" where
  "msg_Dewhitelist S signer addr = admin_gate S ErrPermissionDenied MARGIN signer (DewhitelistAddress addr)"

text \<open>\<open>ForceClose\<close> and \<open>AdminClose\<close> differ only in the payment to the fund.\<close>

definition admin_close :: "sdk \<Rightarrow> string \<Rightarrow> string \<Rightarrow> int \<Rightarrow> bool \<Rightarrow> ('s margin_state_scheme, unit) M" where
  "admin_close S signer owner n takeFund =
     admin_gate S ErrPermissionDenied MARGIN signer (
     bindM (getsR (GetMTP owner n)) (\<lambda>mtp.
     case position mtp of
       LONG \<Rightarrow>
         bindM (getsR (\<lambda>s. rwrap ErrPoolDoesNotExist (GetPool (external_of (collateralAsset mtp) (custodyAsset mtp)) s))) (\<lambda>pool.
         thenM (modify (\<lambda>s. s\<lparr>mtpVar := mtp, poolVar := pool\<rparr>)) (
         bindM (ForceCloseLong S True takeFund) (\<lambda>_. ret ())))
     | _ \<Rightarrow> throw ErrInvalidPosition))"

definition msg_ForceClose :: "sdk \<Rightarrow> string \<Rightarrow> string \<Rightarrow> int \<Rightarrow> ('s margin_state_scheme, unit) M" where
  "msg_ForceClose S signer owner n = admin_close S signer owner n False"

definition msg_AdminClose :: "sdk \<Rightarrow> string \<Rightarrow> string \<Rightarrow> int \<Rightarrow> bool \<Rightarrow> ('s margin_state_scheme, unit) M" where
  "msg_AdminClose S signer owner n takeFund = admin_close S signer owner n takeFund"

definition msg_AdminCloseAll :: "sdk \<Rightarrow> string \<Rightarrow> bool \<Rightarrow> ('s margin_state_scheme, unit) M" where
  "msg_AdminCloseAll S signer takeFund =
     admin_gate S ErrPermissionDenied MARGIN signer (
     bindM (gets margin_GetParams) (\<lambda>old.
     let ps = old\<lparr>safetyFactor := new_dec 100\<rparr> in
     margin_SetParams (if takeFund then ps else ps\<lparr>forceCloseFundPercentage := 0\<rparr>)))"

section \<open>Routing and genesis\<close>

fun NewLegacyHandler :: "sdk \<Rightarrow> margin_msg \<Rightarrow> ('s margin_state_scheme, unit) M" where
  "NewLegacyHandler S (MarginOpen m) = msg_Open S m"
| "NewLegacyHandler S (MarginClose signer n) = msg_Close S signer n"
| "NewLegacyHandler S (MarginForceClose signer owner n) = msg_ForceClose S signer owner n"
| "NewLegacyHandler S (MarginUpdateParams signer ps) = msg_UpdateParams S signer ps"
| "NewLegacyHandler S (MarginUpdatePools signer ps shut) = msg_UpdatePools S signer ps shut"
| "NewLegacyHandler S (MarginUpdateFuryCollateral signer on) = msg_UpdateFuryCollateral S signer on"
| "NewLegacyHandler S (MarginWhitelist signer addr) = msg_Whitelist S signer addr"
| "NewLegacyHandler S (MarginDewhitelist signer addr) = msg_Dewhitelist S signer addr"
| "NewLegacyHandler S (MarginAdminClose signer owner n f) = msg_AdminClose S signer owner n f"
| "NewLegacyHandler S (MarginAdminCloseAll signer f) = msg_AdminCloseAll S signer f"

definition run_margin :: "sdk \<Rightarrow> margin_msg \<Rightarrow> ('s margin_state_scheme, unit) M" where
  "run_margin S m =
     thenM (liftR (margin_ValidateBasic S m)) (
     thenM (liftR (if acc_from_bech32 S (margin_signer m) = None then Panic else Ok ())) (
     NewLegacyHandler S m))"

text \<open>The export names the fields one by one and leaves out the closed pools and two switches.\<close>

definition margin_InitGenesis :: "MarginParams \<Rightarrow> ('s margin_state_scheme, unit) M" where
  "margin_InitGenesis ps = margin_SetParams ps"

definition margin_ExportGenesis :: "sdk \<Rightarrow> 's margin_state_scheme \<Rightarrow> MarginParams result" where
  "margin_ExportGenesis S s =
     (let ps = margin_GetParams s in
      rbind (GetForceCloseFundAddress S s) (\<lambda>f.
      rbind (GetIncrementalInterestPaymentFundAddress S s) (\<lambda>i.
      Ok (ps\<lparr>forceCloseFundAddress := f, incrementalInterestPaymentFundAddress := i, closedPools := [],
             incrementalInterestPaymentEnabled := False, whitelistingEnabled := False\<rparr>))))"

end
