(* ===== verification/MarginSolvency.thy ===== *)
theory MarginSolvency
  imports Triples MarginMsgs ClpSolvency
begin

text \<open>
  The coins behind the pools and the messages of \<open>x/margin\<close>. While a message runs, the pool it works
  on is in \<open>poolVar\<close> and reaches the store later; \<open>hand_surplus\<close> is the surplus of the module account
  as if that pool were stored already. \<open>in_hand S d c\<close> says that it is \<open>c\<close> in denomination \<open>d\<close>, and that the
  position in \<open>mtpVar\<close> fits the pool; each operation keeps it (\<open>..._hand\<close>), on errors too where the
  code goes on after an error (\<open>HandleInterestPayment\<close>). \<open>store_pool\<close> turns it into the surplus of the store.
\<close>

section \<open>The surplus with the pool in hand\<close>

definition others :: "string \<Rightarrow> Pool kv \<Rightarrow> string \<Rightarrow> nat" where
  "others d ps k = kv.total (\<lambda>_. claim_of d) (kv_del k ps)"

definition hand_surplus :: "sdk \<Rightarrow> string \<Rightarrow> 's margin_state_scheme \<Rightarrow> int" where
  "hand_surplus S d s = int (bank s (module_address S ModuleName) d) - int (claim_of d (poolVar s)) -
     int (others d (pools s) (pool_key (externalAsset (poolVar s))))"

definition one_sided :: "MTP \<Rightarrow> bool" where
  "one_sided m \<longleftrightarrow> collateralAsset m = NativeSymbol \<or> custodyAsset m = NativeSymbol"

definition sides :: "MTP \<Rightarrow> Pool \<Rightarrow> bool" where
  "sides m p \<longleftrightarrow>
     (collateralAsset m \<noteq> NativeSymbol \<longrightarrow> collateralAsset m = Symbol (externalAsset p)) \<and>
     (custodyAsset m \<noteq> NativeSymbol \<longrightarrow> custodyAsset m = Symbol (externalAsset p))"

definition foreign :: "sdk \<Rightarrow> string \<Rightarrow> bool" where
  "foreign S a \<longleftrightarrow> acc_from_bech32 S a \<noteq> Some (module_address S ModuleName)"

definition funds_foreign :: "sdk \<Rightarrow> 's margin_params_state_scheme \<Rightarrow> bool" where
  "funds_foreign S s \<longleftrightarrow> foreign S (forceCloseFundAddress (margin_GetParams s)) \<and>
     foreign S (incrementalInterestPaymentFundAddress (margin_GetParams s))"

definition positions_ok :: "sdk \<Rightarrow> 's margin_state_scheme \<Rightarrow> bool" where
  "positions_ok S s \<longleftrightarrow> kv_wf (mtps s) \<and>
     (\<forall>k m. kv_get (mtps s) k = Some m \<longrightarrow> one_sided m \<and> foreign S (mtpAddress m))"

definition in_hand :: "sdk \<Rightarrow> string \<Rightarrow> int \<Rightarrow> 's margin_state_scheme \<Rightarrow> bool" where
  "in_hand S d c s \<longleftrightarrow> hand_surplus S d s = c \<and> pools_wf s \<and> positions_ok S s \<and> funds_foreign S s \<and>
     one_sided (mtpVar s) \<and> sides (mtpVar s) (poolVar s) \<and> foreign S (mtpAddress (mtpVar s))"

definition msg_one_sided :: "MsgOpen \<Rightarrow> bool" where
  "msg_one_sided m \<longleftrightarrow> openCollateralAsset m = NativeSymbol \<or> openBorrowAsset m = NativeSymbol"

text \<open>The account of the module has \<open>n\<close> coins of \<open>a\<close> less in \<open>b'\<close> than in \<open>b\<close>, and the same of everything else.\<close>

definition lost :: "sdk \<Rightarrow> string \<Rightarrow> nat \<Rightarrow> bank \<Rightarrow> bank \<Rightarrow> bool" where
  "lost S a n b b' \<longleftrightarrow> (\<forall>d. b' (module_address S ModuleName) d + (if d = a then n else 0) = b (module_address S ModuleName) d)"

lemma case_Position_Ok_iff [result_inv]:
  "(case p of POSITION_UNSPECIFIED \<Rightarrow> f | LONG \<Rightarrow> g | SHORT \<Rightarrow> h) s = (Ok x, t) \<longleftrightarrow>
     p = POSITION_UNSPECIFIED \<and> f s = (Ok x, t) \<or> p = LONG \<and> g s = (Ok x, t) \<or> p = SHORT \<and> h s = (Ok x, t)"
  by (cases p) auto

lemma kv_del_put: "kv_del k (kv_put k v m) = kv_del k m"
  by (induction k v m rule: kv_put.induct) (auto simp: kv_del_def)

lemma others_put [simp]: "others d (kv_put k p ps) k = others d ps k"
  by (simp add: others_def kv_del_put)

lemma lostD: "lost S a n b b' \<Longrightarrow> b' (module_address S ModuleName) d + (if d = a then n else 0) = b (module_address S ModuleName) d"
  by (simp add: lost_def)

lemma lost_rest:
  assumes "lost S a n b b'" "n \<le> k" "lost S a (k - n) b' b''"
  shows "lost S a k b b''"
  unfolding lost_def
proof
  fix d
  show "b'' (module_address S ModuleName) d + (if d = a then k else 0) = b (module_address S ModuleName) d"
    using lostD [OF assms(1), of d] lostD [OF assms(3), of d] assms(2) by (simp split: if_splits)
qed

lemma lost_0: "lost S a 0 b b"
  by (simp add: lost_def)

lemma lost_nothing: "\<forall>b. lost S a 0 (bank s) b \<longrightarrow> Q (s\<lparr>bank := b\<rparr>) \<Longrightarrow> Q s"
  using lost_0 [of S a "bank s"] by (auto dest: spec [of _ "bank s"])

lemma lost_none: "\<forall>t b. lost S a t (bank s) b \<longrightarrow> Q t (s\<lparr>bank := b\<rparr>) \<Longrightarrow> Q 0 s"
proof -
  assume "\<forall>t b. lost S a t (bank s) b \<longrightarrow> Q t (s\<lparr>bank := b\<rparr>)"
  then have "Q 0 (s\<lparr>bank := bank s\<rparr>)" using lost_0 by blast
  then show ?thesis by simp
qed

context sdk_laws
begin

lemmas hand_defs = in_hand_def hand_surplus_def pools_wf_def positions_ok_def funds_foreign_def
  one_sided_def sides_def margin_GetParams_def

lemma hand_start:
  assumes "pools_wf s" "kv_get (pools s) (pool_key a) = Some p"
  shows "hand_surplus S d (s\<lparr>mtpVar := m, poolVar := p\<rparr>) = surplus S s d" "externalAsset p = a"
proof -
  show a: "externalAsset p = a" by (rule stored_asset [OF assms])
  show "hand_surplus S d (s\<lparr>mtpVar := m, poolVar := p\<rparr>) = surplus S s d"
    using kv.total_del [of "pools s" "\<lambda>_. claim_of d" "pool_key a"] assms a
    by (simp add: hand_surplus_def surplus_def others_def claims_def pools_wf_def)
qed

lemma surplus_stored:
  assumes "pools_wf s"
  shows "surplus S (s\<lparr>pools := kv_put (pool_key (externalAsset (poolVar s))) (poolVar s) (pools s)\<rparr>) d = hand_surplus S d s"
  using kv.total_put [of "pools s" "\<lambda>_. claim_of d" "pool_key (externalAsset (poolVar s))" "poolVar s"] assms
  by (simp add: hand_surplus_def surplus_def others_def claims_def pools_wf_def)

end

section \<open>Rules for the operations\<close>

lemma set_mtp_var_wp [wp]:
  "triple (\<lambda>s. (\<forall>m. f (mtpVar s) = Ok m \<longrightarrow> Q () (s\<lparr>mtpVar := m\<rparr>)) \<and> (\<forall>e. f (mtpVar s) = Err e \<longrightarrow> E s)) (set_mtp_var f) Q E"
  unfolding set_mtp_var_def by (rule triple_pre, (rule wp)+) auto

lemma set_pool_var_wp [wp]:
  "triple (\<lambda>s. (\<forall>p. f (poolVar s) = Ok p \<longrightarrow> Q () (s\<lparr>poolVar := p\<rparr>)) \<and> (\<forall>e. f (poolVar s) = Err e \<longrightarrow> E s)) (set_pool_var f) Q E"
  unfolding set_pool_var_def by (rule triple_pre, (rule wp)+) auto

lemma SetPool_wp:
  "triple (\<lambda>s. (Asset_Validate S (externalAsset p) = Ok True \<longrightarrow> Q () (s\<lparr>pools := kv_put (pool_key (externalAsset p)) p (pools s)\<rparr>)) \<and> E s)
     (SetPool S p) Q E"
  unfolding SetPool_def by (rule triple_pre, (rule wp)+) (auto simp: Pool_Validate_def GetSettlementAsset_def)

lemma store_pool_wp:
  "triple (\<lambda>s. Q () (s\<lparr>pools := kv_put (pool_key (externalAsset (poolVar s))) (poolVar s) (pools s)\<rparr>) \<and> E s) (store_pool S) Q E"
  unfolding store_pool_def by (rule triple_pre, (rule wp SetPool_wp)+) auto

context sdk_laws
begin

lemma pool_add_wp [wp]:
  "triple (\<lambda>s. \<forall>v. v = fld (poolVar s) + n \<longrightarrow> Q () (s\<lparr>poolVar := upd (\<lambda>_. v) (poolVar s)\<rparr>)) (pool_add S fld upd n) Q E"
  unfolding pool_add_def by (rule triple_pre, (rule wp)+) (auto simp: uint_laws split: if_splits)

lemma pool_sub_wp [wp]:
  "triple (\<lambda>s. \<forall>v. v + n = fld (poolVar s) \<longrightarrow> Q () (s\<lparr>poolVar := upd (\<lambda>_. v) (poolVar s)\<rparr>)) (pool_sub S fld upd n) Q E"
  unfolding pool_sub_def by (rule triple_pre, (rule wp)+) (auto simp: uint_laws split: if_splits)

lemma one_coin:
  assumes "new_coin S d (int n) = Ok c" "new_coins S [c] = Ok cs \<or> coins_add S [] c = Ok cs"
  shows "amount_of cs x = (if x = d then n else 0)"
  using assms new_coin [OF assms(1)] new_coins [of "[c]" cs x] coins_add [of "[]" c cs x] by auto

lemma one_coin_leaves:
  assumes "new_coin S asset (int n) = Ok c" "new_coins S [c] = Ok cs \<or> coins_add S [] c = Ok cs"
    and "send_mod_to_acc S ModuleName addr cs bk = Ok b" "addr \<noteq> module_address S ModuleName"
  shows "lost S asset n bk b"
  using out_of_module [OF assms(3,4)] one_coin [OF assms(1,2)] by (simp add: lost_def)

lemma TakeFundPayment_wp:
  "triple (\<lambda>s. fund \<noteq> module_address S ModuleName \<and> E s \<and>
      (\<forall>t b. lost S asset t (bank s) b \<longrightarrow> Q t (s\<lparr>bank := b\<rparr>)))
     (TakeFundPayment S n asset pct fund) Q E"
  unfolding TakeFundPayment_def SendCoinsFromModuleToAccount_def
  by (rule triple_pre, (rule wp bank_call_wp)+) (auto dest: one_coin_leaves lost_none)

lemma pay_return_wp:
  "triple (\<lambda>s. funds_foreign S s \<and> foreign S (mtpAddress m) \<and>
      (\<forall>b. lost S (collateralAsset m) n (bank s) b \<longrightarrow> Q () (s\<lparr>bank := b\<rparr>)))
    (pay_return S m n f) Q (\<lambda>_. True)"
  unfolding pay_return_def SendCoinsFromModuleToAccount_def GetForceCloseFundAddress_def
  by (rule triple_pre, (rule wp bank_call_wp TakeFundPayment_wp)+)
    (auto simp: uint_laws result_inv foreign_def funds_foreign_def split: if_splits option.splits simp del: of_nat_diff
      dest: one_coin_leaves lost_rest lost_nothing)


lemma in_hand_mtp:
  assumes "in_hand S d c s" "collateralAsset m = collateralAsset (mtpVar s)" "custodyAsset m = custodyAsset (mtpVar s)"
    "mtpAddress m = mtpAddress (mtpVar s)"
  shows "in_hand S d c (s\<lparr>mtpVar := m\<rparr>)"
  using assms
  by (simp add: hand_defs)

lemma set_mtp_var_hand:
  assumes "\<And>m m'. f m = Ok m' \<Longrightarrow> collateralAsset m' = collateralAsset m \<and> custodyAsset m' = custodyAsset m \<and> mtpAddress m' = mtpAddress m"
  shows "triple (in_hand S d c) (set_mtp_var f) (\<lambda>_. in_hand S d c) (in_hand S d c)"
  by (rule triple_pre [OF set_mtp_var_wp]) (auto intro!: in_hand_mtp dest: assms)

lemma SetMTP_hand: "triple (in_hand S d c) SetMTP (\<lambda>_. in_hand S d c) (in_hand S d c)"
  unfolding SetMTP_def Let_def
  apply (rule triple_pre, (rule wp)+)
  apply (auto simp: hand_defs)
  done

lemma in_hand_put:
  assumes "in_hand S d c (s\<lparr>poolVar := q\<rparr>)" "k = pool_key (externalAsset q)"
  shows "in_hand S d c (s\<lparr>poolVar := q, pools := kv_put k q (pools s)\<rparr>)"
  using assms by (auto simp: hand_defs)

lemma in_hand_del:
  assumes "in_hand S d c s"
  shows "in_hand S d c (s\<lparr>mtps := kv_del k (mtps s), openMTPCount := n\<rparr>)"
  using assms by (auto simp: hand_defs)

lemma DestroyMTP_hand: "triple (in_hand S d c) (DestroyMTP a n) (\<lambda>_. in_hand S d c) (\<lambda>_. True)"
  unfolding DestroyMTP_def by (rule triple_pre, (rule wp)+) (auto intro!: in_hand_del)

lemma store_pool_hand:
  "triple (in_hand S d c) (store_pool S) (\<lambda>_ s. in_hand S d c s \<and> surplus S s d = c) (in_hand S d c)"
  by (rule triple_pre [OF store_pool_wp])
    (use in_hand_put [where q = "poolVar s" and s = s for s] in \<open>auto simp: in_hand_def surplus_stored\<close>)

lemma store_pool_keeps: "triple (in_hand S d c) (store_pool S) (\<lambda>_. in_hand S d c) (in_hand S d c)"
  by (rule triple_post [OF store_pool_hand]) auto

lemma store_pool_done:
  "triple (in_hand S d c) (store_pool S) (\<lambda>_ s. in_hand S d c s \<and> surplus S s d = c) (\<lambda>_. True)"
  by (rule triple_post [OF store_pool_hand]) auto

lemma in_hand_move:
  assumes "in_hand S d c s" "externalAsset q = externalAsset (poolVar s)" "lost S a t (bank s) b"
    "claim_of d q + (if d = a then t else 0) = claim_of d (poolVar s)"
  shows "in_hand S d c (s\<lparr>bank := b, poolVar := q\<rparr>)"
  using assms(1,2,4) lostD [OF assms(3), of d]
  by (auto simp: hand_defs split: if_splits)

lemma in_hand_pool:
  assumes "in_hand S d c s" "externalAsset q = externalAsset (poolVar s)" "claim_of d q = claim_of d (poolVar s)"
  shows "in_hand S d c (s\<lparr>poolVar := q\<rparr>)"
  using assms
  by (auto simp: hand_defs)

lemma in_hand_fund:
  "in_hand S d c s \<Longrightarrow>
   acc_from_bech32 S (incrementalInterestPaymentFundAddress (margin_GetParams s)) \<noteq> Some (module_address S ModuleName)"
  by (auto simp: in_hand_def funds_foreign_def foreign_def)

lemma interest_to_pool_hand:
  "triple (\<lambda>s. in_hand S d c s \<and> (a \<noteq> NativeSymbol \<longrightarrow> a = Symbol (externalAsset (poolVar s))))
     (interest_to_pool S a n) (\<lambda>_. in_hand S d c) (in_hand S d c)"
  unfolding interest_to_pool_def GetIncrementalInterestPaymentFundAddress_def StringCompare_def
  by (rule triple_pre, (rule wp TakeFundPayment_wp SetMTP_hand store_pool_keeps)+)
    (auto simp: uint_laws claim_of_def intro!: in_hand_move dest: in_hand_fund split: if_splits option.splits)

lemma in_hand_sides:
  "in_hand S d c s \<Longrightarrow> custodyAsset (mtpVar s) \<noteq> NativeSymbol \<Longrightarrow> custodyAsset (mtpVar s) = Symbol (externalAsset (poolVar s))"
  "in_hand S d c s \<Longrightarrow> collateralAsset (mtpVar s) \<noteq> NativeSymbol \<Longrightarrow> collateralAsset (mtpVar s) = Symbol (externalAsset (poolVar s))"
  by (auto simp: in_hand_def sides_def)

lemma in_hand_foreign: "in_hand S d c s \<Longrightarrow> funds_foreign S s \<and> foreign S (mtpAddress (mtpVar s))"
  by (simp add: in_hand_def)

lemma funds_mtp [simp]: "funds_foreign S (s\<lparr>mtpVar := m\<rparr>) = funds_foreign S s"
  by (simp add: funds_foreign_def margin_GetParams_def)

lemma uint_no_err [simp]: "uint_add S a b \<noteq> Err e" "uint_sub S a b \<noteq> Err e"
  by (simp_all add: uint_laws)

lemma IncrementalInterestPayment_hand:
  "triple (in_hand S d c) (IncrementalInterestPayment S n) (\<lambda>_. in_hand S d c) (in_hand S d c)"
  unfolding IncrementalInterestPayment_def cut_payment_def
  by (rule triple_pre, (rule wp interest_to_pool_hand)+)
    (auto simp: result_inv intro!: in_hand_mtp dest: in_hand_sides)

lemma HandleInterestPayment_hand:
  "triple (in_hand S d c) (HandleInterestPayment S n) (\<lambda>_. in_hand S d c) (in_hand S d c)"
  unfolding HandleInterestPayment_def
  by (rule triple_pre, (rule wp IncrementalInterestPayment_hand)+)
    (auto intro!: in_hand_mtp)

lemma settle_interest_hand: "triple (in_hand S d c) (settle_interest S pos len) (\<lambda>_. in_hand S d c) (\<lambda>_. True)"
  unfolding settle_interest_def
  by (rule triple_pre, (rule wp HandleInterestPayment_hand [THEN triple_keeps])+)
    (auto intro!: in_hand_pool simp: claim_of_def)

lemma refresh_health_hand: "triple (in_hand S d c) (refresh_health S) (\<lambda>_. in_hand S d c) (\<lambda>_. True)"
  unfolding refresh_health_def
  by (rule triple_pre, (rule wp)+) (auto intro!: in_hand_mtp)

lemma TakeOutCustody_hand:
  "triple (\<lambda>s. in_hand S d c s \<and> m = mtpVar s) (TakeOutCustody S m) (\<lambda>_ s. in_hand S d c s \<and> m = mtpVar s) (\<lambda>_. True)"
  unfolding TakeOutCustody_def StringCompare_def
  by (rule triple_pre, (rule wp store_pool_wp)+)
    (auto intro!: in_hand_put in_hand_pool simp: claim_of_def)

lemma Repay_hand: "triple (in_hand S d c) (Repay S n f) (\<lambda>_ s. in_hand S d c s \<and> surplus S s d = c) (\<lambda>_. True)"
  unfolding Repay_def StringCompare_def
  by (rule triple_pre, (rule wp store_pool_done DestroyMTP_hand pay_return_wp)+)
    (auto simp: result_inv claim_of_def intro!: in_hand_move in_hand_mtp dest: in_hand_foreign in_hand_sides)

lemma close_position_hand:
  "triple (in_hand S d c) (close_position S f) (\<lambda>_ s. in_hand S d c s \<and> surplus S s d = c) (\<lambda>_. True)"
  unfolding close_position_def
  by (rule triple_pre, (rule wp Repay_hand TakeOutCustody_hand [THEN triple_final])+) auto

lemma ForceCloseLong_hand:
  "triple (in_hand S d c) (ForceCloseLong S a f) (\<lambda>_ s. in_hand S d c s \<and> surplus S s d = c) (\<lambda>_. True)"
  unfolding ForceCloseLong_def
  by (rule triple_pre, (rule wp close_position_hand refresh_health_hand [of d c, THEN triple_final]
      settle_interest_hand [of d c, THEN triple_final])+) auto

text \<open>From the store into the hand: the position and its pool are those the store has.\<close>

lemma in_hand_start:
  assumes "pools_wf s" "positions_ok S s" "funds_foreign S s" "one_sided m" "foreign S (mtpAddress m)"
    and "kv_get (pools s) (GetPoolKey (external_of (collateralAsset m) (custodyAsset m)) NativeSymbol) = Some p"
  shows "in_hand S d (surplus S s d) (s\<lparr>mtpVar := m, poolVar := p\<rparr>)"
proof -
  let ?a = "Asset (external_of (collateralAsset m) (custodyAsset m))"
  have k: "kv_get (pools s) (pool_key ?a) = Some p" using assms(6) by simp
  show ?thesis
    using hand_start [OF assms(1) k] assms
    by (auto simp: in_hand_def positions_ok_def sides_def one_sided_def external_of_def StringCompare_def
        pools_wf_def funds_foreign_def margin_GetParams_def)
qed

lemma position_ok: "positions_ok S s \<Longrightarrow> kv_get (mtps s) k = Some m \<Longrightarrow> one_sided m \<and> foreign S (mtpAddress m)"
  by (simp add: positions_ok_def)

lemma CloseLong_surplus:
  assumes "CloseLong S signer n s = (Ok x, t)" "pools_wf s" "positions_ok S s" "funds_foreign S s"
  shows "surplus S t d = surplus S s d \<and> pools_wf t \<and> positions_ok S t"
proof -
  have "triple (\<lambda>s. pools_wf s \<and> positions_ok S s \<and> funds_foreign S s \<and> surplus S s d = c) (CloseLong S signer n) 
     (\<lambda>_ t. in_hand S d c t \<and> surplus S t d = c) (\<lambda>_. True)" for c
    unfolding CloseLong_def
    by (rule triple_pre, (rule wp close_position_hand [of d c, THEN triple_final] refresh_health_hand [of d c, THEN triple_final]
      settle_interest_hand [of d c, THEN triple_final])+)
      (auto simp: GetMTP_def GetPool_Ok result_inv intro!: in_hand_start dest: position_ok split: option.splits)
  from tripleD [OF this _ assms(1), of "surplus S s d"] assms(2-4) show ?thesis by (simp add: in_hand_def)
qed


lemma in_hand_gain:
  assumes "in_hand S d c s" "externalAsset q = externalAsset (poolVar s)" "lost S a t b (bank s)"
    "claim_of d q = claim_of d (poolVar s) + (if d = a then t else 0)"
  shows "in_hand S d c (s\<lparr>bank := b, poolVar := q\<rparr>)"
  using assms(1,2,4) lostD [OF assms(3), of d] by (auto simp: hand_defs split: if_splits)

lemma one_coin_arrives:
  assumes "new_coin S asset (int n) = Ok c" "new_coins S [c] = Ok cs"
    and "send_acc_to_mod S addr ModuleName cs bk = Ok b" "addr \<noteq> module_address S ModuleName"
  shows "lost S asset n b bk"
  using into_module [OF assms(3,4)] one_coin [OF assms(1) disjI1 [OF assms(2)]] by (simp add: lost_def)

lemma SetMTP_done: "triple (in_hand S d c) SetMTP (\<lambda>_. in_hand S d c) (\<lambda>_. True)"
  by (rule triple_post [OF SetMTP_hand]) auto

lemma store_pool_kept: "triple (in_hand S d c) (store_pool S) (\<lambda>_. in_hand S d c) (\<lambda>_. True)"
  by (rule triple_post [OF store_pool_hand]) auto

lemma Borrow_hand:
  "triple (\<lambda>s. in_hand S d c s \<and> a = collateralAsset (mtpVar s)) (Borrow S a n k eta) (\<lambda>_. in_hand S d c) (\<lambda>_. True)"
  unfolding Borrow_def StringCompare_def SendCoinsFromAccountToModule_def
  apply (rule triple_pre, (rule wp SetMTP_done store_pool_kept bank_call_wp)+)
  apply (clarsimp simp: result_inv simp del: split_paired_All)
  apply (frule in_hand_foreign, frule (2) one_coin_arrives, simp add: foreign_def)
  apply (auto simp: claim_of_def intro!: in_hand_gain in_hand_mtp dest: in_hand_sides)
  done

lemma UpdatePoolHealth_hand: "triple (in_hand S d c) (UpdatePoolHealth S) (\<lambda>_. in_hand S d c) (\<lambda>_. True)"
  unfolding UpdatePoolHealth_def
  by (rule triple_pre, (rule wp store_pool_kept)+) (auto simp: result_inv claim_of_def intro!: in_hand_pool)

lemma TakeInCustody_hand:
  "triple (\<lambda>s. in_hand S d c s \<and> m = mtpVar s) (TakeInCustody S m) (\<lambda>_ s. in_hand S d c s \<and> surplus S s d = c) (\<lambda>_. True)"
  unfolding TakeInCustody_def StringCompare_def
  by (rule triple_pre, (rule wp store_pool_done)+)
    (auto intro!: in_hand_pool simp: claim_of_def)

lemma in_hand_open:
  assumes "pools_wf s" "positions_ok S s" "funds_foreign S s" "msg_one_sided m" "foreign S (openSigner m)"
    and "kv_get (pools s) (GetPoolKey (external_of (openCollateralAsset m) (openBorrowAsset m)) NativeSymbol) = Some p"
  shows "in_hand S d (surplus S s d)
    (s\<lparr>mtpVar := NewMTP (openSigner m) (openCollateralAsset m) (openBorrowAsset m) pos lev, poolVar := p\<rparr>)"
  by (rule in_hand_start [OF assms(1-3)])
    (use assms(4-) in \<open>simp_all add: NewMTP_def one_sided_def msg_one_sided_def\<close>)

lemma OpenLong_surplus:
  assumes "OpenLong S m l s = (Ok x, t)" "pools_wf s" "positions_ok S s" "funds_foreign S s"
    "msg_one_sided m" "foreign S (openSigner m)"
  shows "surplus S t d = surplus S s d \<and> pools_wf t \<and> positions_ok S t"
proof -
  have "triple (\<lambda>s. pools_wf s \<and> positions_ok S s \<and> funds_foreign S s \<and> surplus S s d = c) (OpenLong S m l)
     (\<lambda>_ t. in_hand S d c t \<and> surplus S t d = c) (\<lambda>_. True)" for c
    unfolding OpenLong_def
    apply (rule triple_pre, (rule wp Borrow_hand [of d c, THEN triple_final] UpdatePoolHealth_hand [of d c, THEN triple_final]
      TakeInCustody_hand [of d c, THEN triple_final])+)
    apply (auto simp: GetPool_Ok result_inv NewMTP_def intro!: in_hand_open [unfolded NewMTP_def] assms(5,6))
    done
  from tripleD [OF this _ assms(1), of "surplus S s d"] assms(2-4) show ?thesis by (simp add: in_hand_def)
qed


lemma admin_close_surplus:
  assumes "admin_close S signer owner n f s = (Ok x, t)" "pools_wf s" "positions_ok S s" "funds_foreign S s"
  shows "surplus S t d = surplus S s d \<and> pools_wf t \<and> positions_ok S t"
proof -
  from assms(1) obtain m p where m: "kv_get (mtps s) (GetMTPKey owner n) = Some m"
    and p: "kv_get (pools s) (GetPoolKey (external_of (collateralAsset m) (custodyAsset m)) NativeSymbol) = Some p"
    and c: "\<exists>y. ForceCloseLong S True f (s\<lparr>mtpVar := m, poolVar := p\<rparr>) = (Ok y, t)"
    unfolding admin_close_def
    by (auto simp: result_inv GetMTP_def GetPool_Ok split: option.splits)
  have "in_hand S d (surplus S s d) (s\<lparr>mtpVar := m, poolVar := p\<rparr>)"
    by (rule in_hand_start [OF assms(2-4) _ _ p]) (use position_ok [OF assms(3) m] in auto)
  moreover obtain y where "ForceCloseLong S True f (s\<lparr>mtpVar := m, poolVar := p\<rparr>) = (Ok y, t)" using c by blast
  ultimately have "in_hand S d (surplus S s d) t \<and> surplus S t d = surplus S s d" by (rule tripleD [OF ForceCloseLong_hand])
  then show ?thesis by (simp add: in_hand_def)
qed

lemma msg_Open_surplus:
  assumes "msg_Open S m s = (Ok x, t)" "pools_wf s" "positions_ok S s" "funds_foreign S s"
    "msg_one_sided m" "foreign S (openSigner m)"
  shows "surplus S t d = surplus S s d \<and> pools_wf t \<and> positions_ok S t"
  using assms OpenLong_surplus [OF _ assms(2-6)]
  by (auto simp: msg_Open_def result_inv Let_def)

lemma msg_Close_surplus:
  assumes "msg_Close S signer n s = (Ok x, t)" "pools_wf s" "positions_ok S s" "funds_foreign S s"
  shows "surplus S t d = surplus S s d \<and> pools_wf t \<and> positions_ok S t"
  using assms(1) CloseLong_surplus [OF _ assms(2-4)]
  by (auto simp: msg_Close_def result_inv)

lemma params_surplus:
  assumes "pools t = pools s" "bank t = bank s" "mtps t = mtps s"
  shows "surplus S t d = surplus S s d \<and> (pools_wf s \<longrightarrow> pools_wf t) \<and> (positions_ok S s \<longrightarrow> positions_ok S t)"
  using surplus_cong [OF assms(1,2)] assms by (simp add: pools_wf_def positions_ok_def)

lemma NewLegacyHandler_surplus:
  assumes h: "NewLegacyHandler S m s = (Ok x, t)" and wf: "pools_wf s" "positions_ok S s" "funds_foreign S s"
    and "\<And>o'. m = MarginOpen o' \<Longrightarrow> msg_one_sided o'" and "foreign S (margin_signer m)"
  shows "surplus S t d = surplus S s d \<and> pools_wf t \<and> positions_ok S t"
  using assms params_surplus [of t s d]
  by (cases m)
    (auto simp: msg_ForceClose_def msg_AdminClose_def msg_UpdateParams_def msg_UpdatePools_def msg_UpdateFuryCollateral_def
      msg_Whitelist_def msg_Dewhitelist_def msg_AdminCloseAll_def WhitelistAddress_def DewhitelistAddress_def
      margin_SetParams_def result_inv Let_def
      dest!: admin_close_surplus [OF _ wf] msg_Open_surplus [OF _ wf] msg_Close_surplus [OF _ wf])

end

end
