(* ===== verification/MarginPositions.thy ===== *)
theory MarginPositions
  imports MarginSolvency
begin

text \<open>
  What opening a position guarantees, and the bounds of the interest rate. \<open>OpenLong_Ok\<close> says which position
  \<open>OpenLong\<close> stores, under which id, and what it does to the pool of the position; ids below the counter make the
  key of the position a new one. The interest rate moves by a step and stays within its bounds.
\<close>

section \<open>Keys of positions\<close>

lemma digits_eq:
  fixes a b :: nat
  assumes "\<forall>j<k. (a div 256 ^ j) mod 256 = (b div 256 ^ j) mod 256"
  shows "a mod 256 ^ k = b mod 256 ^ k"
  using assms
proof (induction k)
  case (Suc k)
  have "x mod 256 ^ Suc k = 256 ^ k * ((x div 256 ^ k) mod 256) + x mod 256 ^ k" for x :: nat
    using mod_mult2_eq [of x "256 ^ k" 256] by (simp add: mult.commute)
  with Suc show ?case by simp
qed simp

lemma GetUint64Bytes_inj:
  assumes "GetUint64Bytes m = GetUint64Bytes n" "0 \<le> m" "m < 2 ^ 64" "0 \<le> n" "n < 2 ^ 64"
  shows "m = n"
proof -
  have bytes: "\<forall>i\<in>{0..<8}. nat m div 256 ^ (7 - i) mod 256 = nat n div 256 ^ (7 - i) mod (256 :: nat)"
    using assms(1) by (auto simp: GetUint64Bytes_def)
  have "(nat m div 256 ^ j) mod 256 = (nat n div 256 ^ j) mod 256" if "j < 8" for j
  proof -
    have "7 - j \<in> {0..<8}" "7 - (7 - j) = j" using that by auto
    then show ?thesis using bspec [OF bytes, of "7 - j"] by simp
  qed
  then have "nat m mod 256 ^ 8 = nat n mod 256 ^ 8" by (intro digits_eq) simp
  moreover have "nat m < 256 ^ 8" "nat n < 256 ^ 8" using assms by (simp_all add: nat_less_iff)
  ultimately show ?thesis using assms by simp
qed

lemma GetMTPKey_inj:
  assumes "GetMTPKey a m = GetMTPKey b n" "0 \<le> m" "m < 2 ^ 64" "0 \<le> n" "n < 2 ^ 64"
  shows "a = b \<and> m = n"
proof -
  have "length (GetUint64Bytes m) = length (GetUint64Bytes n)" by (simp add: GetUint64Bytes_def)
  then have "a = b" "GetUint64Bytes m = GetUint64Bytes n" using assms(1) by (auto simp: GetMTPKey_def)
  with GetUint64Bytes_inj assms show ?thesis by blast
qed

text \<open>Every position is stored under its key, with an id the counter has given out.\<close>

definition ids_counted :: "'s margin_state_scheme \<Rightarrow> bool" where
  "ids_counted s \<longleftrightarrow> kv_wf (mtps s) \<and> 0 \<le> mtpCount s \<and> mtpCount s < 2 ^ 64 \<and>
     (\<forall>k x. kv_get (mtps s) k = Some x \<longrightarrow> k = GetMTPKey (mtpAddress x) (mtpId x) \<and> 0 \<le> mtpId x \<and> mtpId x \<le> mtpCount s)"

lemma fresh_id:
  assumes "ids_counted s" "mtpCount s + 1 < 2 ^ 64"
  shows "kv_get (mtps s) (GetMTPKey addr (mtpCount s + 1)) = None"
proof (rule ccontr)
  assume "kv_get (mtps s) (GetMTPKey addr (mtpCount s + 1)) \<noteq> None"
  then obtain x where "kv_get (mtps s) (GetMTPKey addr (mtpCount s + 1)) = Some x" by blast
  then have "GetMTPKey addr (mtpCount s + 1) = GetMTPKey (mtpAddress x) (mtpId x)" "0 \<le> mtpId x" "mtpId x \<le> mtpCount s"
    using assms(1) by (auto simp: ids_counted_def)
  with GetMTPKey_inj [of addr "mtpCount s + 1" "mtpAddress x" "mtpId x"] assms show False by (simp add: ids_counted_def)
qed


section \<open>Opening\<close>

text \<open>What a position does to its pool: the collateral comes in and the debt is noted, and what is bought is set aside.\<close>

definition lend :: "string \<Rightarrow> nat \<Rightarrow> nat \<Rightarrow> Pool \<Rightarrow> Pool" where
  "lend asset n l p = (if StringCompare asset NativeSymbol
     then p\<lparr>nativeAssetBalance := nativeAssetBalance p + n, nativeLiabilities := nativeLiabilities p + l\<rparr>
     else p\<lparr>externalAssetBalance := externalAssetBalance p + n, externalLiabilities := externalLiabilities p + l\<rparr>)"

definition set_aside :: "string \<Rightarrow> nat \<Rightarrow> Pool \<Rightarrow> Pool" where
  "set_aside asset n p = (if StringCompare asset NativeSymbol
     then p\<lparr>nativeAssetBalance := nativeAssetBalance p - n, nativeCustody := nativeCustody p + n\<rparr>
     else p\<lparr>externalAssetBalance := externalAssetBalance p - n, externalCustody := externalCustody p + n\<rparr>)"

lemma SetMTP_new:
  assumes "SetMTP s = (Ok (), t)" "mtpId (mtpVar s) = 0"
  defines "c \<equiv> to_u64 (mtpCount s + 1)"
  defines "x \<equiv> (mtpVar s)\<lparr>mtpId := c\<rparr>"
  shows "t = s\<lparr>mtpVar := x, mtpCount := c, openMTPCount := to_u64 (openMTPCount s + 1), mtps := kv_put (GetMTPKey (mtpAddress x) c) x (mtps s)\<rparr>"
  using assms unfolding SetMTP_def
  by (auto simp: result_inv Let_def)

context sdk_laws
begin


lemma set_mtp_var_Ok: "set_mtp_var f s = (Ok (), t) \<longleftrightarrow> (\<exists>m. f (mtpVar s) = Ok m \<and> t = s\<lparr>mtpVar := m\<rparr>)"
  by (auto simp: set_mtp_var_def result_inv)

lemma pool_var_Ok:
  "pool_add S fld upd n s = (Ok (), t) \<longleftrightarrow>
     fld (poolVar s) + n < 2 ^ 256 \<and> t = s\<lparr>poolVar := upd (\<lambda>_. fld (poolVar s) + n) (poolVar s)\<rparr>"
  "pool_sub S fld upd n s = (Ok (), t) \<longleftrightarrow>
     n \<le> fld (poolVar s) \<and> t = s\<lparr>poolVar := upd (\<lambda>_. fld (poolVar s) - n) (poolVar s)\<rparr>"
  "store_pool S s = (Ok (), t) \<longleftrightarrow> Asset_Validate S (externalAsset (poolVar s)) = Ok True \<and>
     t = s\<lparr>pools := kv_put (pool_key (externalAsset (poolVar s))) (poolVar s) (pools s)\<rparr>"
  by (auto simp: pool_add_def pool_sub_def store_pool_def set_pool_var_def result_inv uint_Ok op_inv)

lemma Borrow_stores:
  assumes "Borrow S a n k eta s = (Ok (), t)"
  shows "\<exists>li h bk m p. m = (mtpVar s)\<lparr>collateralAmount := collateralAmount (mtpVar s) + n, liabilities := liabilities (mtpVar s) + li,
      custodyAmount := custodyAmount (mtpVar s) + k, leverage := eta + dec_one, mtpHealth := h\<rparr> \<and>
    p = lend (collateralAsset m) n (liabilities m) (poolVar s) \<and>
    SetMTP (s\<lparr>mtpVar := m, bank := bk, poolVar := p, pools := kv_put (pool_key (externalAsset p)) p (pools s)\<rparr>) = (Ok (), t)"
  using assms unfolding Borrow_def SendCoinsFromAccountToModule_def bank_call_def
  by (simp only: result_inv set_mtp_var_Ok pool_var_Ok uint_Ok)
    (elim exE conjE disjE; clarsimp simp: lend_def dest!: dec_add; blast)

lemma Borrow_new:
  assumes b: "Borrow S a n k eta s = (Ok (), t)"
    and new: "mtpVar s = NewMTP addr a borrow pos l"
  shows "\<exists>h li p b x. x = (mtpVar s)\<lparr>collateralAmount := n, liabilities := li, custodyAmount := k, leverage := eta + dec_one, mtpHealth := h,
      mtpId := to_u64 (mtpCount s + 1)\<rparr> \<and> p = lend a n li (poolVar s) \<and>
    t = s\<lparr>bank := b, pools := kv_put (pool_key (externalAsset p)) p (pools s), poolVar := p, mtpVar := x, mtpCount := mtpId x,
      openMTPCount := to_u64 (openMTPCount s + 1), mtps := kv_put (GetMTPKey addr (mtpId x)) x (mtps s)\<rparr>"
proof -
  obtain li h bk m p where m: "m = (mtpVar s)\<lparr>collateralAmount := n, liabilities := li, custodyAmount := k, leverage := eta + dec_one,
      mtpHealth := h\<rparr>" and p: "p = lend a n li (poolVar s)"
    and t: "SetMTP (s\<lparr>mtpVar := m, bank := bk, poolVar := p, pools := kv_put (pool_key (externalAsset p)) p (pools s)\<rparr>) = (Ok (), t)"
    using Borrow_stores [OF b] by (auto simp: new NewMTP_def)
  show ?thesis
    by (intro exI [of _ h] exI [of _ li] exI [of _ p] exI [of _ bk]) (use SetMTP_new [OF t] m p in \<open>simp add: new NewMTP_def\<close>)
qed

lemma TakeInCustody_Ok:
  assumes "TakeInCustody S m s = (Ok (), t)"
  shows "let p = set_aside (custodyAsset m) (custodyAmount m) (poolVar s) in
    t = s\<lparr>poolVar := p, pools := kv_put (pool_key (externalAsset p)) p (pools s)\<rparr>"
  using assms unfolding TakeInCustody_def set_pool_var_def store_pool_def pool_add_def pool_sub_def
  by (simp only: result_inv op_inv uint_Ok) (auto simp: set_aside_def result_inv uint_Ok split: if_splits)

lemma UpdatePoolHealth_Ok:
  assumes "UpdatePoolHealth S s = (Ok (), t)"
  shows "\<exists>h p. CalculatePoolHealth S (poolVar s) = Ok h \<and> p = (poolVar s)\<lparr>health := Some h\<rparr> \<and>
    t = s\<lparr>poolVar := p, pools := kv_put (pool_key (externalAsset p)) p (pools s)\<rparr>"
  using assms unfolding UpdatePoolHealth_def set_pool_var_def store_pool_def
  by (simp only: result_inv op_inv uint_Ok) auto


lemma pool_frames [simp]:
  "externalAsset (lend a n l p) = externalAsset p" "externalAsset (set_aside a n p) = externalAsset p"
  by (simp_all add: lend_def set_aside_def)

lemma OpenLong_Ok:
  assumes o: "OpenLong S m l s = (Ok x, t)" and wf: "pools_wf s"
  defines "ext \<equiv> external_of (openCollateralAsset m) (openBorrowAsset m)" and "ps \<equiv> margin_GetParams s"
  shows "\<exists>pool p li k hx hp h. GetPool ext s = Ok pool \<and>
    x = (NewMTP (openSigner m) (openCollateralAsset m) (openBorrowAsset m) (openPosition m) (min l (leverageMax ps)))
      \<lparr>collateralAmount := openCollateralAmount m, liabilities := li, custodyAmount := k, mtpHealth := hx, mtpId := to_u64 (mtpCount s + 1)\<rparr> \<and>
    p = set_aside (openBorrowAsset m) k ((lend (openCollateralAsset m) (openCollateralAmount m) li pool)\<lparr>health := Some hp\<rparr>) \<and>
    pools t = kv_put (pool_key (Asset ext)) p (pools s) \<and> mtps t = kv_put (GetMTPKey (openSigner m) (mtpId x)) x (mtps s) \<and>
    mtpCount t = mtpId x \<and> openMTPCount t = to_u64 (openMTPCount s + 1) \<and>
    UpdateMTPHealth S x p t = Ok h \<and> safetyFactor ps < h"
proof -
  let ?lev = "min l (leverageMax ps)" and ?a = "openCollateralAsset m" and ?b = "openBorrowAsset m" and ?n = "openCollateralAmount m"
  let ?m = "NewMTP (openSigner m) ?a ?b (openPosition m) ?lev"
  from o obtain eta pool k u v w h where eta: "dec_sub S ?lev dec_one = Ok eta" and pool: "GetPool ext s = Ok pool"
    and u: "Borrow S ?a ?n k eta (s\<lparr>mtpVar := ?m, poolVar := pool\<rparr>) = (Ok (), u)"
    and v: "UpdatePoolHealth S u = (Ok (), v)" and w: "TakeInCustody S (mtpVar v) v = (Ok (), t)"
    and h: "UpdateMTPHealth S (mtpVar t) (poolVar t) t = Ok h" "safetyFactor (margin_GetParams t) < h" and x: "x = mtpVar t"
    unfolding OpenLong_def Let_def ext_def ps_def
    by (simp only: result_inv) (auto simp: result_inv not_le GetPool_Ok)
  have pa: "externalAsset pool = Asset ext" "kv_wf (pools s)"
    using stored_asset [OF wf, of "Asset ext" pool] pool wf by (auto simp: GetPool_Ok pools_wf_def)
  obtain hx li p1 b y where y: "y = ?m\<lparr>collateralAmount := ?n, liabilities := li, custodyAmount := k, mtpHealth := hx, mtpId := to_u64 (mtpCount s + 1)\<rparr>"
    "p1 = lend ?a ?n li pool"
    "u = s\<lparr>bank := b, pools := kv_put (pool_key (Asset ext)) p1 (pools s), poolVar := p1, mtpVar := y, mtpCount := mtpId y,
      openMTPCount := to_u64 (openMTPCount s + 1), mtps := kv_put (GetMTPKey (openSigner m) (mtpId y)) y (mtps s)\<rparr>"
    using Borrow_new [OF u] dec_sub [OF eta] pa by (auto simp: NewMTP_def)
  obtain hp where hp: "v = u\<lparr>poolVar := p1\<lparr>health := Some hp\<rparr>, pools := kv_put (pool_key (Asset ext)) (p1\<lparr>health := Some hp\<rparr>) (pools u)\<rparr>"
    using UpdatePoolHealth_Ok [OF v] y pa by auto
  let ?p = "set_aside ?b k (p1\<lparr>health := Some hp\<rparr>)"
  have "t = v\<lparr>poolVar := ?p, pools := kv_put (pool_key (Asset ext)) ?p (pools v)\<rparr>"
    using TakeInCustody_Ok [OF w] hp y pa by (simp add: Let_def NewMTP_def)
  then have t: "pools t = kv_put (pool_key (Asset ext)) ?p (pools s)" "poolVar t = ?p" "mtpVar t = y" "margin_GetParams t = ps"
    "mtps t = kv_put (GetMTPKey (openSigner m) (mtpId y)) y (mtps s)" "mtpCount t = mtpId y" "openMTPCount t = to_u64 (openMTPCount s + 1)"
    using hp y(3) pa(2) by (simp_all add: kv_put_twice kv_put_wf ps_def margin_GetParams_def)
  show ?thesis
    by (intro exI [of _ pool] exI [of _ ?p] exI [of _ li] exI [of _ k] exI [of _ hx] exI [of _ hp] exI [of _ h])
      (use pool y(1,2) t h x in simp)
qed


lemma dec_mul_minus_one: "dec_mul S x (new_dec (- 1)) = Ok z \<Longrightarrow> z = - x"
  using dec_mul [of x "new_dec (- 1)" z] by (simp add: new_dec_def abs_if split: if_splits)

lemma step_rate_near:
  assumes "step_rate S target prev ps = Ok r" "0 \<le> interestRateIncrease ps" "0 \<le> interestRateDecrease ps"
  shows "prev - interestRateDecrease ps \<le> r \<and> r \<le> prev + interestRateIncrease ps"
  using assms unfolding step_rate_def
  by (auto simp: result_inv split: if_splits dest!: dec_mul_minus_one dec_sub dec_add)

lemma clamp_rate_range:
  "interestRateMin ps \<le> interestRateMax ps \<Longrightarrow> interestRateMin ps \<le> clamp_rate r ps \<and> clamp_rate r ps \<le> interestRateMax ps \<and>
     (interestRateMin ps < clamp_rate r ps \<longrightarrow> clamp_rate r ps < interestRateMax ps \<longrightarrow> clamp_rate r ps = r)"
  by (auto simp: clamp_rate_def)

end

end
