(* ===== verification/MarginDemo.thy ===== *)
theory MarginDemo
  imports Demo MarginPositions
begin

text \<open>
  A small chain with margin trading enabled for one pool, at which the properties of positions are evaluated:
  alice opens a position with 10000 Fury as collateral.
\<close>

definition mdemo_params :: MarginParams where
  "mdemo_params = margin_DefaultParams\<lparr>enabledPools := [''ceth''], forceCloseFundAddress := ''fund'',
     incrementalInterestPaymentFundAddress := ''fund''\<rparr>"

definition mdemo :: margin_state where
  "mdemo = \<lparr>bank = (\<lambda>a d. if a = ''alice'' then 5000000000000000000 else if a = ''module/clp'' then (if d = ''fury'' then 2000000 else if d = ''ceth'' then 1000000 else 0) else 0),
     height = 10,
     block_time = [],
     adminAccounts = [demo_admin ''MARGIN'' MARGIN],
     submitProposalFee = None,
     whitelist = Some [Some (demo_entry ''fury''), Some (demo_entry ''ceth'')],
     marginParams = Some mdemo_params,
     pools = [(pool_key (Asset ''ceth''), demo_pool\<lparr>health := Some 1000000000000000000\<rparr>)],
     providers = [(GetLiquidityProviderKey ''ceth'' ''bob'', demo_provider)],
     clpWhiteList = None,
     pmtpRateParams = \<lparr>pmtpPeriodBlockRate = 0, pmtpCurrentRunningRate = 0, pmtpInterPolicyRate = 0\<rparr>,
     pmtpEpoch = \<lparr>epochCounter = 0, blockCounter = 0\<rparr>,
     pmtpParams = GetDefaultPmtpParams,
     rewardParams = GetDefaultRewardParams,
     symmetryThreshold = None,
     protectionParams = GetDefaultLiquidityProtectionParams,
     currentFuryLiquidityThreshold = 1000000000000,
     distributionPeriods = [],
     blockDistributionAccu = None,
     swapFeeParams = None,
     removalRequests = [],
     removalQueues = [],
     minCreatePoolThreshold = 100,
     enableRemovalQueue = False,
     minter = \<lparr>inflation = 0, annualProvisions = 0\<rparr>,
     mintParams = [],
     mtps = [],
     mtpCount = 0,
     openMTPCount = 0,
     marginWhitelist = [],
     sqBeginBlocks = [],
     poolVar = demo_pool,
     mtpVar = NewMTP ''alice'' ''fury'' ''ceth'' LONG 0\<rparr>"

lemma mdemo_sel:
  "bank mdemo = (\<lambda>a d. if a = ''alice'' then 5000000000000000000 else if a = ''module/clp'' then (if d = ''fury'' then 2000000 else if d = ''ceth'' then 1000000 else 0) else 0)"
  "height mdemo = 10"
  "block_time mdemo = []"
  "adminAccounts mdemo = [demo_admin ''MARGIN'' MARGIN]"
  "submitProposalFee mdemo = None"
  "whitelist mdemo = Some [Some (demo_entry ''fury''), Some (demo_entry ''ceth'')]"
  "marginParams mdemo = Some mdemo_params"
  "pools mdemo = [(pool_key (Asset ''ceth''), demo_pool\<lparr>health := Some 1000000000000000000\<rparr>)]"
  "providers mdemo = [(GetLiquidityProviderKey ''ceth'' ''bob'', demo_provider)]"
  "clpWhiteList mdemo = None"
  "pmtpRateParams mdemo = \<lparr>pmtpPeriodBlockRate = 0, pmtpCurrentRunningRate = 0, pmtpInterPolicyRate = 0\<rparr>"
  "pmtpEpoch mdemo = \<lparr>epochCounter = 0, blockCounter = 0\<rparr>"
  "pmtpParams mdemo = GetDefaultPmtpParams"
  "rewardParams mdemo = GetDefaultRewardParams"
  "symmetryThreshold mdemo = None"
  "protectionParams mdemo = GetDefaultLiquidityProtectionParams"
  "currentFuryLiquidityThreshold mdemo = 1000000000000"
  "distributionPeriods mdemo = []"
  "blockDistributionAccu mdemo = None"
  "swapFeeParams mdemo = None"
  "removalRequests mdemo = []"
  "removalQueues mdemo = []"
  "minCreatePoolThreshold mdemo = 100"
  "enableRemovalQueue mdemo = False"
  "minter mdemo = \<lparr>inflation = 0, annualProvisions = 0\<rparr>"
  "mintParams mdemo = []"
  "mtps mdemo = []"
  "mtpCount mdemo = 0"
  "openMTPCount mdemo = 0"
  "marginWhitelist mdemo = []"
  "sqBeginBlocks mdemo = []"
  "poolVar mdemo = demo_pool"
  "mtpVar mdemo = NewMTP ''alice'' ''fury'' ''ceth'' LONG 0"
  by (simp_all add: mdemo_def)

definition mdemo_open :: MsgOpen where
  "mdemo_open = \<lparr>openSigner = ''alice'', openCollateralAsset = ''fury'', openCollateralAmount = 10000,
     openBorrowAsset = ''ceth'', openPosition = LONG, openLeverage = Some (2 * 10 ^ 18)\<rparr>"

lemmas eval_margin = msg_Open_def OpenLong_def external_of_def IsPoolClosed_def CheckMinLiabilities_def CLPSwap_def
  CLPCalcSwap_def ToAsset_def Borrow_def set_mtp_var_def set_pool_var_def pool_add_def pool_sub_def UpdateMTPHealth_def store_pool_def
  SetMTP_def MTP_Validate_def GetMTPKey_def UpdatePoolHealth_def CalculatePoolHealth_def TakeInCustody_def NewMTP_def
  run_margin_def MsgOpen_ValidateBasic_def margin_Validate_def IsValidPosition_def
  mdemo_sel mdemo_open_def mdemo_params_def demo_pool_def NewPool_def demo_admin_def

lemma mdemo_opens: "\<exists>t. run_margin sdk_ref (MarginOpen mdemo_open) mdemo = (Ok (), t)"
  by (simp add: eval eval_margin cong: eval_cong)

lemma mdemo_wf: "pools_wf mdemo" "positions_ok sdk_ref mdemo" "funds_foreign sdk_ref mdemo"
  by (auto simp: pools_wf_def positions_ok_def funds_foreign_def foreign_def mdemo_sel mdemo_params_def margin_GetParams_def
      kv_wf_def kv_get_def sdk_ref_sel mod_ref_def demo_pool_def NewPool_def split: if_splits)

end
