(* ===== verification/Oracle.thy ===== *)
theory Oracle
  imports Admin GoLib
begin

text \<open>
  The oracle (\<open>x/oracle\<close>): validators on a whitelist claim what happened on another chain; a prophecy collects the
  claims made under one id and is final once the claim with the most voting power has enough of
  it, or none can have enough any more.

  A validator address is its Bech32 text; the argument \<open>V\<close> is \<open>sdk.ValAddressFromBech32\<close>, which
  returns the canonical text. \<open>activeValidators\<close> and \<open>bondedPowers\<close> are what the staking module
  answers (\<open>GetValidator\<close> with \<open>IsBonded\<close>, and \<open>GetBondedValidatorsByPower\<close> with \<open>GetConsensusPower\<close>).
  The JSON form in which a prophecy keeps its two maps is not modelled: the maps are stored as such.
\<close>

section \<open>Types (types/prophecy.go, types/claim.go)\<close>

datatype StatusText = STATUS_TEXT_UNSPECIFIED | STATUS_TEXT_PENDING | STATUS_TEXT_SUCCESS | STATUS_TEXT_FAILED

record Status =
  statusText :: StatusText
  finalClaim :: string

record Prophecy =
  prophecyID :: string
  prophecyStatus :: Status
  claimValidators :: "string list kv"    \<comment> \<open>who made a claim\<close>
  validatorClaims :: "string kv"         \<comment> \<open>what a validator claimed\<close>

record OracleClaim =
  claimId :: string
  claimValidator :: string
  claimContent :: string

definition NewStatus :: "StatusText \<Rightarrow> string \<Rightarrow> Status" where
  "NewStatus text c = \<lparr>statusText = text, finalClaim = c\<rparr>"

definition NewProphecy :: "string \<Rightarrow> Prophecy" where
  "NewProphecy i = \<lparr>prophecyID = i, prophecyStatus = NewStatus STATUS_TEXT_PENDING '''', claimValidators = [], validatorClaims = []\<rparr>"

definition NewClaim :: "string \<Rightarrow> string \<Rightarrow> string \<Rightarrow> OracleClaim" where
  "NewClaim i v content = \<lparr>claimId = i, claimValidator = v, claimContent = content\<rparr>"

definition AddClaim :: "string \<Rightarrow> string \<Rightarrow> Prophecy \<Rightarrow> Prophecy" where
  "AddClaim v claim p =
     (let vs = (case kv_get (claimValidators p) claim of None \<Rightarrow> [] | Some vs \<Rightarrow> vs) in
      p\<lparr>claimValidators := kv_put claim (vs @ [v]) (claimValidators p),
        validatorClaims := kv_put v claim (validatorClaims p)\<rparr>)"

definition inWhiteList :: "string \<times> int \<Rightarrow> string list \<Rightarrow> bool" where
  "inWhiteList v wl = list_ex (\<lambda>a. fst v = a) wl"

text \<open>\<open>validatorsByAddress\<close>: a later entry of the list wins.\<close>

definition power_of :: "(string \<times> int) list \<Rightarrow> string \<Rightarrow> int option" where
  "power_of validators a = map_of (rev validators) a"

definition claim_power :: "(string \<times> int) list \<Rightarrow> string list \<Rightarrow> int" where
  "claim_power validators addrs =
     foldl (\<lambda>pw a. case power_of validators a of None \<Rightarrow> pw | Some w \<Rightarrow> to_i64 (pw + w)) 0 addrs"

fun highest_step :: "(string \<times> int) list \<Rightarrow> string \<times> int \<times> int \<Rightarrow> string \<times> string list \<Rightarrow> string \<times> int \<times> int" where
  "highest_step validators (hc, hp, tc) (claim, addrs) =
     (let cp = claim_power validators addrs; tc' = to_i64 (tc + cp) in
      if hp < cp then (claim, cp, tc') else (hc, hp, tc'))"

definition FindHighestClaim ::
  "(nat \<Rightarrow> nat list) \<Rightarrow> (string \<times> int) list \<Rightarrow> string list \<Rightarrow> Prophecy \<Rightarrow> string \<times> int \<times> int \<times> int" where
  "FindHighestClaim ord validators wl p =
     (let tp = foldl (\<lambda>t v. if inWhiteList v wl then to_i64 (t + snd v) else t) 0 validators;
          (hc, hp, tc) = foldl (highest_step validators) ('''', - 1, 0) (in_order ord (claimValidators p)) in
      (hc, hp, tc, tp))"

definition DefaultConsensusNeeded :: rat where
  "DefaultConsensusNeeded = float64 (7 / 10)"

text \<open>The check of \<open>NewKeeper\<close>, which keeps the value in the field \<open>consensusNeeded\<close>.\<close>

definition oracle_NewKeeper :: "rat \<Rightarrow> rat result" where
  "oracle_NewKeeper consensusNeeded = (if consensusNeeded \<le> 0 \<or> 1 < consensusNeeded then Panic else Ok consensusNeeded)"

section \<open>State\<close>

record oracle_state = admin_state +
  oracleWhitelist :: "string list option"
  oracleAdmin :: "string option"
  prophecies :: "Prophecy kv"
  activeValidators :: "string \<Rightarrow> bool"
  bondedPowers :: "(string \<times> int) list"

section \<open>Administration (keeper/adminAccount.go, keeper/validatorWhiteList.go)\<close>

definition SetAdminAccount_oracle :: "string \<Rightarrow> ('s oracle_state_scheme, unit) M" where
  "SetAdminAccount_oracle a = modify (\<lambda>s. s\<lparr>oracleAdmin := Some a\<rparr>)"

definition GetAdminAccount_oracle :: "'s oracle_state_scheme \<Rightarrow> string option" where
  "GetAdminAccount_oracle s = oracleAdmin s"

definition IsAdminAccount_oracle :: "string \<Rightarrow> 's oracle_state_scheme \<Rightarrow> bool" where
  "IsAdminAccount_oracle a s = (case GetAdminAccount_oracle s of None \<Rightarrow> False | Some b \<Rightarrow> b = a)"

definition SetOracleWhiteList :: "string list \<Rightarrow> ('s oracle_state_scheme, unit) M" where
  "SetOracleWhiteList vs = modify (\<lambda>s. s\<lparr>oracleWhitelist := Some vs\<rparr>)"

definition ExistsOracleWhiteList :: "'s oracle_state_scheme \<Rightarrow> bool" where
  "ExistsOracleWhiteList s \<longleftrightarrow> oracleWhitelist s \<noteq> None"

fun parse_validators :: "(string \<Rightarrow> string option) \<Rightarrow> string list \<Rightarrow> string list result" where
  "parse_validators V [] = Ok []"
| "parse_validators V (x # xs) =
     (case V x of None \<Rightarrow> Panic | Some v \<Rightarrow> rbind (parse_validators V xs) (\<lambda>vs. Ok (v # vs)))"

definition GetOracleWhiteList :: "(string \<Rightarrow> string option) \<Rightarrow> 's oracle_state_scheme \<Rightarrow> string list result" where
  "GetOracleWhiteList V s = parse_validators V (case oracleWhitelist s of None \<Rightarrow> [] | Some vs \<Rightarrow> vs)"

definition ValidateAddress_oracle :: "(string \<Rightarrow> string option) \<Rightarrow> string \<Rightarrow> 's oracle_state_scheme \<Rightarrow> bool result" where
  "ValidateAddress_oracle V a s =
     (if \<not> ExistsOracleWhiteList s then Ok False
      else rbind (GetOracleWhiteList V s) (\<lambda>wl. Ok (list_ex (\<lambda>v. v = a) wl)))"

definition AddOracleWhiteList :: "(string \<Rightarrow> string option) \<Rightarrow> string \<Rightarrow> ('s oracle_state_scheme, unit) M" where
  "AddOracleWhiteList V v = bindM (getsR (GetOracleWhiteList V)) (\<lambda>wl. SetOracleWhiteList (wl @ [v]))"

definition RemoveOracleWhiteList :: "(string \<Rightarrow> string option) \<Rightarrow> string \<Rightarrow> ('s oracle_state_scheme, unit) M" where
  "RemoveOracleWhiteList V v =
     bindM (getsR (GetOracleWhiteList V)) (\<lambda>wl. SetOracleWhiteList (filter (\<lambda>a. v \<noteq> a) wl))"

section \<open>Claims (keeper/keeper.go)\<close>

definition GetProphecies :: "'s oracle_state_scheme \<Rightarrow> Prophecy list" where
  "GetProphecies s = kv_values (prophecies s)"

definition GetProphecy :: "string \<Rightarrow> 's oracle_state_scheme \<Rightarrow> Prophecy option" where
  "GetProphecy i s = kv_get (prophecies s) i"

definition SetDBProphecy :: "Prophecy \<Rightarrow> ('s oracle_state_scheme, unit) M" where
  "SetDBProphecy p = modify (\<lambda>s. s\<lparr>prophecies := kv_put (prophecyID p) p (prophecies s)\<rparr>)"

definition SetProphecy :: "Prophecy \<Rightarrow> ('s oracle_state_scheme, unit) M" where
  "SetProphecy p = SetDBProphecy p"

definition EnsureAddressIsInWhitelist ::
  "(string \<Rightarrow> string option) \<Rightarrow> string \<Rightarrow> 's oracle_state_scheme \<Rightarrow> unit result" where
  "EnsureAddressIsInWhitelist V a s =
     rbind (GetOracleWhiteList V s) (\<lambda>wl. if list_ex (\<lambda>v. v = a) wl then Ok () else Err ErrValidatorNotInWhiteList)"

definition checkActiveValidator :: "string \<Rightarrow> 's oracle_state_scheme \<Rightarrow> bool" where
  "checkActiveValidator v s = activeValidators s v"

text \<open>\<open>c\<close> is the field \<open>consensusNeeded\<close> of the keeper.\<close>

definition processCompletion ::
  "(string \<Rightarrow> string option) \<Rightarrow> (nat \<Rightarrow> nat list) \<Rightarrow> rat \<Rightarrow> Prophecy \<Rightarrow> 's oracle_state_scheme \<Rightarrow> Prophecy result" where
  "processCompletion V ord c p s =
     rbind (GetOracleWhiteList V s) (\<lambda>wl.
     let (hc, hp, tc, tp) = FindHighestClaim ord (bondedPowers s) wl p;
         left = to_i64 (tp - tc);
         best = to_i64 (hp + left) in
     Ok (if float_ge (float_div hp tp) c
         then p\<lparr>prophecyStatus := \<lparr>statusText = STATUS_TEXT_SUCCESS, finalClaim = hc\<rparr>\<rparr>
         else if float_less (float_div best tp) c
         then p\<lparr>prophecyStatus := (prophecyStatus p)\<lparr>statusText := STATUS_TEXT_FAILED\<rparr>\<rparr>
         else p))"

definition ProcessClaim ::
  "(string \<Rightarrow> string option) \<Rightarrow> (nat \<Rightarrow> nat list) \<Rightarrow> rat \<Rightarrow> OracleClaim \<Rightarrow> ('s oracle_state_scheme, Status) M" where
  "ProcessClaim V ord c claim =
     thenM (getsR (EnsureAddressIsInWhitelist V (claimValidator claim))) (
     bindM (liftR (of_option (ErrSdk ''bech32'') (V (claimValidator claim)))) (\<lambda>valAddr.
     bindM (gets (checkActiveValidator valAddr)) (\<lambda>active.
     if \<not> active then throw ErrInvalidValidator
     else if claimId claim = '''' then throw ErrInvalidIdentifier
     else if claimContent claim = '''' then throw ErrInvalidClaim
     else
     bindM (gets (GetProphecy (claimId claim))) (\<lambda>found.
     let p = (case found of None \<Rightarrow> NewProphecy (claimId claim) | Some p \<Rightarrow> p) in
     if statusText (prophecyStatus p) \<noteq> STATUS_TEXT_PENDING then throw ErrProphecyFinalized
     else if kv_get (validatorClaims p) (claimValidator claim) \<notin> {None, Some ''''} then throw ErrDuplicateMessage
     else
     bindM (getsR (processCompletion V ord c (AddClaim valAddr (claimContent claim) p))) (\<lambda>q.
     thenM (SetProphecy q) (ret (prophecyStatus q)))))))"

definition ProcessUpdateWhiteListValidator ::
  "(string \<Rightarrow> string option) \<Rightarrow> string \<Rightarrow> string \<Rightarrow> string \<Rightarrow> ('s oracle_state_scheme, unit) M" where
  "ProcessUpdateWhiteListValidator V sender v operation =
     bindM (gets (IsAdminAccount_oracle sender)) (\<lambda>ok.
     if \<not> ok then throw ErrNotAdminAccount
     else if operation = ''add'' then AddOracleWhiteList V v
     else if operation = ''remove'' then RemoveOracleWhiteList V v
     else throw ErrInvalidOperationType)"

section \<open>Genesis (genesis.go)\<close>

record OracleGenesis =
  addressWhitelist :: "string list option"
  adminAddress :: string
  genesisProphecies :: "Prophecy list"

definition oracle_InitGenesis :: "sdk \<Rightarrow> (string \<Rightarrow> string option) \<Rightarrow> OracleGenesis \<Rightarrow> ('s oracle_state_scheme, unit) M" where
  "oracle_InitGenesis S V g =
     thenM (case addressWhitelist g of
              None \<Rightarrow> ret ()
            | Some wl \<Rightarrow> bindM (liftR (parse_validators V (filter (\<lambda>e. TrimSpace e \<noteq> '''') wl))) SetOracleWhiteList) (
     thenM (if TrimSpace (adminAddress g) \<noteq> ''''
            then (case acc_from_bech32 S (adminAddress g) of None \<Rightarrow> panic | Some a \<Rightarrow> SetAdminAccount_oracle a)
            else ret ()) (
     eachM SetDBProphecy (genesisProphecies g)))"

definition oracle_ExportGenesis :: "(string \<Rightarrow> string option) \<Rightarrow> 's oracle_state_scheme \<Rightarrow> OracleGenesis result" where
  "oracle_ExportGenesis V s =
     rbind (GetOracleWhiteList V s) (\<lambda>wl.
     Ok \<lparr>addressWhitelist = Some wl, adminAddress = (case GetAdminAccount_oracle s of None \<Rightarrow> '''' | Some a \<Rightarrow> a),
         genesisProphecies = GetProphecies s\<rparr>)"

end
