(* ===== verification/OracleVotes.thy ===== *)
theory OracleVotes
  imports Oracle
begin

text \<open>
  What the votes of a prophecy mean. \<open>votes_ok\<close> is the invariant of a prophecy: every validator has voted for
  at most one claim, once, and the two maps agree. With it the powers that \<open>FindHighestClaim\<close> computes with 64-bit
  additions are the sums of the powers of the supporters (\<open>FindHighestClaim_spec\<close>), a claim that succeeds has more
  than two thirds of the power of the whitelist although the code compares quotients of floating point numbers
  (\<open>quorum_bound\<close>), and while all voters are on the whitelist the order of the loop over the map makes no difference.
\<close>

section \<open>Voting power\<close>

text \<open>What the staking module promises of its list: one entry per validator, and powers that fit into 64 bits together.\<close>

definition powers_ok :: "(string \<times> int) list \<Rightarrow> bool" where
  "powers_ok ps \<longleftrightarrow> distinct (map fst ps) \<and> list_all (\<lambda>v. 0 \<le> snd v) ps \<and> sum_list (map snd ps) < 2 ^ 63"

definition bonded_power :: "(string \<times> int) list \<Rightarrow> string \<Rightarrow> int" where
  "bonded_power ps v = (case power_of ps v of None \<Rightarrow> 0 | Some w \<Rightarrow> w)"

definition group_power :: "(string \<times> int) list \<Rightarrow> string set \<Rightarrow> int" where
  "group_power ps A = (\<Sum>v\<in>A. bonded_power ps v)"

definition votes_ok :: "Prophecy \<Rightarrow> bool" where
  "votes_ok p \<longleftrightarrow> kv_wf (claimValidators p) \<and> kv_wf (validatorClaims p) \<and>
     (\<forall>claim vs. kv_get (claimValidators p) claim = Some vs \<longrightarrow>
        distinct vs \<and> set vs = {v. kv_get (validatorClaims p) v = Some claim}) \<and>
     (\<forall>v. kv_get (validatorClaims p) v \<noteq> Some '''') \<and>
     (\<forall>v claim. kv_get (validatorClaims p) v = Some claim \<longrightarrow> kv_get (claimValidators p) claim \<noteq> None)"

lemma bonded_power_member: "powers_ok ps \<Longrightarrow> (v, w) \<in> set ps \<Longrightarrow> bonded_power ps v = w"
  using map_of_is_SomeI [of "rev ps" v w] by (simp add: bonded_power_def power_of_def powers_ok_def flip: rev_map)

lemma bonded_power_absent: "v \<notin> fst ` set ps \<Longrightarrow> bonded_power ps v = 0"
  using map_of_eq_None_iff [of "rev ps" v] by (simp add: bonded_power_def power_of_def)

lemma bonded_power_nonneg: "powers_ok ps \<Longrightarrow> 0 \<le> bonded_power ps v"
  by (cases "v \<in> fst ` set ps")
    (force simp: bonded_power_member bonded_power_absent powers_ok_def list_all_iff)+

lemma group_power_all: "powers_ok ps \<Longrightarrow> group_power ps (fst ` set ps) = sum_list (map snd ps)"
proof -
  assume ok: "powers_ok ps"
  then have d: "distinct (map fst ps)" by (simp add: powers_ok_def)
  have "group_power ps (fst ` set ps) = sum_list (map (bonded_power ps) (map fst ps))"
    unfolding group_power_def using sum_list_distinct_conv_sum_set [OF d, of "bonded_power ps"] by simp
  also have "map (bonded_power ps) (map fst ps) = map snd ps"
    using bonded_power_member [OF ok] by auto
  finally show ?thesis .
qed

lemma group_power_mono: "powers_ok ps \<Longrightarrow> A \<subseteq> B \<Longrightarrow> finite B \<Longrightarrow> group_power ps A \<le> group_power ps B"
  unfolding group_power_def by (intro sum_mono2) (auto simp: bonded_power_nonneg)

lemma group_power_nonneg: "powers_ok ps \<Longrightarrow> 0 \<le> group_power ps A"
  by (simp add: group_power_def sum_nonneg bonded_power_nonneg)

lemma group_power_small:
  assumes ok: "powers_ok ps" and "finite A"
  shows "group_power ps A < 2 ^ 63"
proof -
  have "group_power ps A \<le> group_power ps (A \<union> fst ` set ps)"
    using assms by (intro group_power_mono) auto
  also have "\<dots> = group_power ps (fst ` set ps)"
    using assms(2) unfolding group_power_def
    by (intro sum.mono_neutral_cong_right) (auto intro: bonded_power_absent)
  also have "\<dots> < 2 ^ 63" using ok by (simp only: group_power_all) (simp add: powers_ok_def)
  finally show ?thesis .
qed

lemma group_power_i64: "powers_ok ps \<Longrightarrow> finite A \<Longrightarrow> to_i64 (group_power ps A) = group_power ps A"
  using group_power_nonneg [of ps A] group_power_small [of ps A] by (intro to_i64_id) linarith+

lemma group_power_foldl:
  assumes ok: "powers_ok ps" and "distinct vs" "set vs \<inter> A = {}" "finite A"
  shows "foldl (\<lambda>pw a. case power_of ps a of None \<Rightarrow> pw | Some w \<Rightarrow> to_i64 (pw + w)) (group_power ps A) vs
    = group_power ps (A \<union> set vs)"
  using assms(2-4)
proof (induction vs arbitrary: A)
  case (Cons v vs)
  have "group_power ps (insert v A) = group_power ps A + bonded_power ps v"
    using Cons.prems by (simp add: group_power_def)
  moreover have "to_i64 (group_power ps (insert v A)) = group_power ps (insert v A)"
    using Cons.prems(3) by (simp add: group_power_i64 [OF ok])
  ultimately have "(case power_of ps v of None \<Rightarrow> group_power ps A | Some w \<Rightarrow> to_i64 (group_power ps A + w))
    = group_power ps (insert v A)"
    by (simp add: bonded_power_def split: option.splits)
  with Cons.IH [of "insert v A"] Cons.prems show ?case by auto
qed simp

lemma claim_power_eq: "powers_ok ps \<Longrightarrow> distinct vs \<Longrightarrow> claim_power ps vs = group_power ps (set vs)"
  using group_power_foldl [of ps vs "{}"] by (simp add: claim_power_def group_power_def)

text \<open>The total of \<open>FindHighestClaim\<close> is the power of the whitelist.\<close>

lemma total_power_foldl:
  assumes ok: "powers_ok ps" and "ps = pre @ vs"
  shows "foldl (\<lambda>t v. if inWhiteList v wl then to_i64 (t + snd v) else t) (group_power ps (set wl \<inter> fst ` set pre)) vs
    = group_power ps (set wl \<inter> fst ` set ps)" (is "foldl ?f (?g pre) vs = _")
  using assms(2)
proof (induction vs arbitrary: pre)
  case (Cons v vs)
  have d: "fst v \<notin> fst ` set pre" and m: "v \<in> set ps"
    using ok Cons.prems by (auto simp: powers_ok_def)
  have "?f (?g pre) v = ?g (pre @ [v])"
  proof (cases "fst v \<in> set wl")
    case True
    then have "set wl \<inter> fst ` set (pre @ [v]) = insert (fst v) (set wl \<inter> fst ` set pre)" by auto
    moreover have "group_power ps (insert (fst v) (set wl \<inter> fst ` set pre)) = ?g pre + snd v"
      using d m bonded_power_member [OF ok, of "fst v" "snd v"] by (simp add: group_power_def)
    moreover have "to_i64 (?g (pre @ [v])) = ?g (pre @ [v])"
      by (simp add: group_power_i64 [OF ok])
    ultimately show ?thesis using True by (simp add: inWhiteList_def list_ex_iff)
  next
    case False
    then have "set wl \<inter> fst ` set (pre @ [v]) = set wl \<inter> fst ` set pre" by auto
    with False show ?thesis by (simp add: inWhiteList_def list_ex_iff)
  qed
  moreover have "foldl ?f (?g (pre @ [v])) vs = group_power ps (set wl \<inter> fst ` set ps)"
    using Cons.prems by (intro Cons.IH) simp
  ultimately show ?case by (simp only: foldl_Cons)
qed simp

lemma total_power_eq:
  assumes "powers_ok ps"
  shows "foldl (\<lambda>t v. if inWhiteList v wl then to_i64 (t + snd v) else t) 0 ps = group_power ps (set wl)"
proof -
  have "group_power ps (set wl \<inter> fst ` set ps) = group_power ps (set wl)"
    unfolding group_power_def by (rule sum.mono_neutral_left) (auto intro: bonded_power_absent)
  with total_power_foldl [OF assms, of "[]" ps wl] show ?thesis by (simp add: group_power_def)
qed

section \<open>The highest claim\<close>

lemma highest_steps:
  assumes "foldl (highest_step ps) (hc0, hp0, to_i64 tc0) es = (hc, hp, tc)"
  shows "hp0 \<le> hp \<and> (\<forall>e\<in>set es. claim_power ps (snd e) \<le> hp) \<and>
    ((hc, hp) = (hc0, hp0) \<or> (\<exists>vs. (hc, vs) \<in> set es \<and> hp = claim_power ps vs)) \<and>
    tc = to_i64 (tc0 + sum_list (map (claim_power ps \<circ> snd) es))"
  using assms
proof (induction es arbitrary: hc0 hp0 tc0)
  case (Cons e es)
  obtain claim vs where e: "e = (claim, vs)" by fastforce
  let ?cp = "claim_power ps vs"
  have "highest_step ps (hc0, hp0, to_i64 tc0) e =
    (if hp0 < ?cp then claim else hc0, if hp0 < ?cp then ?cp else hp0, to_i64 (tc0 + ?cp))"
    by (simp add: e Let_def to_i64_add)
  with Cons.prems have "foldl (highest_step ps)
    (if hp0 < ?cp then claim else hc0, if hp0 < ?cp then ?cp else hp0, to_i64 (tc0 + ?cp)) es = (hc, hp, tc)"
    by simp
  from Cons.IH [OF this] show ?case by (auto simp: e add_ac split: if_splits)
qed simp

definition supporters :: "Prophecy \<Rightarrow> string \<Rightarrow> string set" where
  "supporters p claim = {v. kv_get (validatorClaims p) v = Some claim}"

lemma supporters_finite: "votes_ok p \<Longrightarrow> finite (supporters p claim)"
  unfolding supporters_def votes_ok_def
  by (rule finite_subset [OF _ kv.finite_dom [of "validatorClaims p"]]) auto

lemma votes_entry:
  assumes ok: "votes_ok p" "powers_ok ps" and e: "(claim, vs) \<in> set (claimValidators p)"
  shows "claim_power ps vs = group_power ps (supporters p claim)"
proof -
  have "kv_get (claimValidators p) claim = Some vs"
    using e ok(1) by (simp add: kv.in_entries_iff [symmetric] votes_ok_def)
  then have "distinct vs \<and> set vs = supporters p claim"
    using ok(1) by (simp add: votes_ok_def supporters_def)
  then show ?thesis using claim_power_eq [OF ok(2)] by metis
qed

lemma votes_claim:
  assumes "votes_ok p" "supporters p claim \<noteq> {}"
  shows "\<exists>vs. (claim, vs) \<in> set (claimValidators p)"
proof -
  obtain v where "kv_get (validatorClaims p) v = Some claim" using assms(2) by (auto simp: supporters_def)
  then obtain vs where "kv_get (claimValidators p) claim = Some vs"
    using assms(1) unfolding votes_ok_def by blast
  then show ?thesis using assms(1) kv.in_entries_iff [of "claimValidators p"] by (auto simp: votes_ok_def)
qed

lemma FindHighestClaim_spec:
  assumes f: "FindHighestClaim ord ps wl p = (hc, hp, tc, tp)"
    and ok: "any_order ord" "powers_ok ps" "votes_ok p" and ne: "claimValidators p \<noteq> []"
  shows "tp = group_power ps (set wl)" and "hp = group_power ps (supporters p hc)"
    and "group_power ps (supporters p claim) \<le> hp"
    and "tc = to_i64 (sum_list (map (claim_power ps \<circ> snd) (claimValidators p)))"
    and "hc \<in> fst ` set (claimValidators p)"
proof -
  let ?es = "in_order ord (claimValidators p)"
  have es: "set ?es = set (claimValidators p)" by (rule in_order_set [OF ok(1)])
  show "tp = group_power ps (set wl)"
    using f total_power_eq [OF ok(2)] by (simp add: FindHighestClaim_def Let_def split: prod.splits)
  have h: "foldl (highest_step ps) ('''', - 1, to_i64 0) ?es = (hc, hp, tc)"
    using f by (simp add: FindHighestClaim_def Let_def to_i64_def split: prod.splits)
  note s = highest_steps [OF h]
  obtain c0 vs0 where c0: "(c0, vs0) \<in> set (claimValidators p)" using ne by (cases "claimValidators p") auto
  then have pos: "0 \<le> hp"
    using s es votes_entry [OF ok(3,2) c0] group_power_nonneg [OF ok(2)] by (metis order_trans snd_conv)
  then obtain vs where vs: "(hc, vs) \<in> set (claimValidators p)" "hp = claim_power ps vs"
    using s es by auto
  then show "hp = group_power ps (supporters p hc)" "hc \<in> fst ` set (claimValidators p)"
    using votes_entry [OF ok(3,2)] by force+
  show "tc = to_i64 (sum_list (map (claim_power ps \<circ> snd) (claimValidators p)))"
    using s in_order_sum [OF ok(1), of "claim_power ps \<circ> snd" "claimValidators p"] by simp
  show "group_power ps (supporters p claim) \<le> hp"
  proof (cases "supporters p claim = {}")
    case False
    then obtain us where us: "(claim, us) \<in> set (claimValidators p)" using votes_claim [OF ok(3)] by blast
    then show ?thesis using s es votes_entry [OF ok(3,2) us] by (metis snd_conv)
  qed (simp add: group_power_def pos)
qed

lemma quorum_bound:
  assumes "0 \<le> hp" "0 \<le> tp" and ge: "float_ge (float_div hp tp) DefaultConsensusNeeded"
  shows "2 * tp < 3 * hp"
proof -
  define x y u :: rat where "x = float64 (of_int hp)" and "y = float64 (of_int tp)" and "u = 1 / 2 ^ 53"
  have x: "x \<le> of_int hp * (1 + u)" and y: "of_int tp * (1 - u) \<le> y"
    using float64_bounds(2) [of "of_int hp"] float64_bounds(1) [of "of_int tp"] assms(1,2)
    unfolding x_def y_def u_def by simp_all
  have c: "7 / 10 * (1 - u) \<le> DefaultConsensusNeeded"
    using float64_bounds(1) [of "7 / 10"] by (simp add: DefaultConsensusNeeded_def u_def)
  show ?thesis
  proof (cases "tp = 0")
    case True
    then have "y = 0" by (simp add: y_def float64_def)
    then have "hp \<noteq> 0" using ge by (auto simp: float_div_def x_def y_def Let_def float64_def)
    with True assms(1) show ?thesis by simp
  next
    case False
    then have y0: "0 < y" using y assms(2) by (auto simp: u_def intro: less_le_trans [rotated])
    have "DefaultConsensusNeeded \<le> float64 (x / y)"
      using ge y0 by (simp add: float_div_def Let_def flip: x_def y_def)
    moreover have "0 \<le> x" unfolding x_def using assms(1) by (intro float64_bounds(3)) simp
    then have "float64 (x / y) \<le> x / y * (1 + u)"
      using float64_bounds(2) [of "x / y"] y0 by (simp add: u_def)
    ultimately have "7 / 10 * (1 - u) \<le> x / y * (1 + u)" using c by linarith
    then have "7 / 10 * (1 - u) * y \<le> x * (1 + u)" using y0 by (simp add: field_simps)
    moreover have "7 / 10 * (1 - u) * (of_int tp * (1 - u)) \<le> 7 / 10 * (1 - u) * y"
      using y by (intro mult_left_mono) (auto simp: u_def)
    moreover have "x * (1 + u) \<le> of_int hp * (1 + u) * (1 + u)"
      using x by (intro mult_right_mono) (auto simp: u_def)
    ultimately have "7 / 10 * (1 - u) * (of_int tp * (1 - u)) \<le> of_int hp * (1 + u) * (1 + u)" by linarith
    then have le: "of_int tp * (7 / 10 * (1 - u) * (1 - u)) \<le> of_int hp * ((1 + u) * (1 + u))" (is "?l \<le> ?r")
      by (simp only: mult_ac)
    have "0 < ?l" using False assms(2) by (intro mult_pos_pos) (auto simp: u_def)
    then have "0 < of_int hp * ((1 + u) * (1 + u))" using le by linarith
    then have "0 < (of_int hp :: rat)" by (auto simp: zero_less_mult_iff u_def)
    then have "?r < of_int hp * (105 / 100 * (1 - u) * (1 - u))"
      by (intro mult_strict_left_mono) (auto simp: u_def)
    with le have "?l < of_int hp * (105 / 100 * (1 - u) * (1 - u))" by linarith
    then have "rat_of_int (2 * tp) < rat_of_int (3 * hp)" by (simp add: u_def)
    then show ?thesis by (simp only: of_int_less_iff)
  qed
qed

section \<open>Votes of a prophecy\<close>

lemma NewProphecy_votes: "votes_ok (NewProphecy i)"
  by (simp add: votes_ok_def NewProphecy_def)

lemma AddClaim_votes:
  assumes ok: "votes_ok p" and new: "kv_get (validatorClaims p) v = None" and "claim \<noteq> ''''"
  shows "votes_ok (AddClaim v claim p)"
proof -
  have wf: "kv_wf (claimValidators p)" "kv_wf (validatorClaims p)" using ok by (simp_all add: votes_ok_def)
  define vs where "vs = (case kv_get (claimValidators p) claim of None \<Rightarrow> [] | Some vs \<Rightarrow> vs)"
  have vs: "distinct vs" "set vs = supporters p claim"
    using ok unfolding vs_def votes_ok_def supporters_def
    by (cases "kv_get (claimValidators p) claim"; auto)+
  have new': "v \<notin> set vs" using vs new by (simp add: supporters_def)
  have "AddClaim v claim p = p\<lparr>claimValidators := kv_put claim (vs @ [v]) (claimValidators p),
      validatorClaims := kv_put v claim (validatorClaims p)\<rparr>"
    by (simp add: AddClaim_def vs_def Let_def)
  then show ?thesis
    using ok wf vs new new' assms(3) by (auto simp: votes_ok_def supporters_def)
qed

lemma canonical_whitelist:
  "\<forall>x y. V x = Some y \<longrightarrow> V y = Some y \<Longrightarrow> parse_validators V xs = Ok wl \<Longrightarrow> v \<in> set wl \<Longrightarrow> V v = Some v"
  by (induction xs arbitrary: wl) (auto simp: rbind_Ok_iff split: option.splits)

text \<open>What a claim that is accepted does.\<close>

lemma ProcessClaim_Ok:
  assumes "ProcessClaim V ord c claim s = (Ok st, t)" and can: "\<forall>x y. V x = Some y \<longrightarrow> V y = Some y"
    and "votes_ok p" "p = (case GetProphecy (claimId claim) s of None \<Rightarrow> NewProphecy (claimId claim) | Some p \<Rightarrow> p)"
  shows "\<exists>wl q. GetOracleWhiteList V s = Ok wl \<and> claimValidator claim \<in> set wl \<and>
    activeValidators s (claimValidator claim) \<and>
    kv_get (validatorClaims p) (claimValidator claim) = None \<and>
    statusText (prophecyStatus p) = STATUS_TEXT_PENDING \<and> claimContent claim \<noteq> '''' \<and>
    processCompletion V ord c (AddClaim (claimValidator claim) (claimContent claim) p) s = Ok q \<and>
    st = prophecyStatus q \<and> t = s\<lparr>prophecies := kv_put (prophecyID q) q (prophecies s)\<rparr>"
proof -
  let ?v = "claimValidator claim"
  from assms(1) obtain a where c: "EnsureAddressIsInWhitelist V ?v s = Ok ()" "V ?v = Some a" "activeValidators s a"
    "claimContent claim \<noteq> ''''" "statusText (prophecyStatus p) = STATUS_TEXT_PENDING"
    "kv_get (validatorClaims p) ?v \<in> {None, Some ''''}"
    and "\<exists>q. processCompletion V ord c (AddClaim a (claimContent claim) p) s = Ok q \<and> st = prophecyStatus q \<and>
      t = s\<lparr>prophecies := kv_put (prophecyID q) q (prophecies s)\<rparr>"
    unfolding ProcessClaim_def SetProphecy_def SetDBProphecy_def checkActiveValidator_def Let_def assms(4) [symmetric]
    by (auto simp: result_inv assms(4) [symmetric])
  moreover from c(1) obtain wl where wl: "GetOracleWhiteList V s = Ok wl" "?v \<in> set wl"
    by (auto simp: EnsureAddressIsInWhitelist_def result_inv list_ex_iff split: if_splits)
  then have "a = ?v" using canonical_whitelist [OF can] c(2) by (fastforce simp: GetOracleWhiteList_def)
  moreover have "kv_get (validatorClaims p) ?v = None" using c(6) assms(3) by (auto simp: votes_ok_def)
  ultimately show ?thesis using wl by auto
qed

lemma AddClaim_sel [simp]:
  "prophecyID (AddClaim v claim p) = prophecyID p" "prophecyStatus (AddClaim v claim p) = prophecyStatus p"
  by (simp_all add: AddClaim_def Let_def)

lemma AddClaim_nonempty: "claimValidators (AddClaim v claim p) \<noteq> []"
proof -
  have "fst ` set (claimValidators (AddClaim v claim p)) \<noteq> {}"
    by (simp add: AddClaim_def Let_def kv_put_keys)
  then show ?thesis by auto
qed

lemma processCompletion_Ok:
  assumes "processCompletion V ord c p s = Ok q"
  shows "\<exists>wl hc hp tc tp st. GetOracleWhiteList V s = Ok wl \<and> FindHighestClaim ord (bondedPowers s) wl p = (hc, hp, tc, tp) \<and>
    q = p\<lparr>prophecyStatus := st\<rparr> \<and>
    (statusText st = STATUS_TEXT_SUCCESS \<longrightarrow> statusText (prophecyStatus p) = STATUS_TEXT_PENDING \<longrightarrow>
       finalClaim st = hc \<and> float_ge (float_div hp tp) c)"
proof -
  obtain wl where wl: "GetOracleWhiteList V s = Ok wl"
    using assms by (auto simp: processCompletion_def result_inv)
  obtain hc hp tc tp where f: "FindHighestClaim ord (bondedPowers s) wl p = (hc, hp, tc, tp)"
    by (cases "FindHighestClaim ord (bondedPowers s) wl p")
  show ?thesis
    using assms wl f by (auto simp: processCompletion_def Let_def intro!: exI [of _ "prophecyStatus q"] split: if_splits)
qed

lemma votes_ok_status [simp]: "votes_ok (p\<lparr>prophecyStatus := st\<rparr>) = votes_ok p"
  by (simp add: votes_ok_def)

lemma supporters_status [simp]: "supporters (p\<lparr>prophecyStatus := st\<rparr>) claim = supporters p claim"
  by (simp add: supporters_def)

text \<open>The invariant of the store of prophecies.\<close>

definition prophecies_ok :: "'s oracle_state_scheme \<Rightarrow> bool" where
  "prophecies_ok s \<longleftrightarrow> kv_wf (prophecies s) \<and>
     (\<forall>i p. kv_get (prophecies s) i = Some p \<longrightarrow> prophecyID p = i \<and> votes_ok p)"

definition open_prophecy :: "string \<Rightarrow> 's oracle_state_scheme \<Rightarrow> Prophecy" where
  "open_prophecy i s = (case GetProphecy i s of None \<Rightarrow> NewProphecy i | Some p \<Rightarrow> p)"

lemma open_prophecy_ok: "prophecies_ok s \<Longrightarrow> votes_ok (open_prophecy i s) \<and> prophecyID (open_prophecy i s) = i"
  using NewProphecy_votes [of i]
  by (auto simp: prophecies_ok_def open_prophecy_def GetProphecy_def NewProphecy_def split: option.split)

lemma ProcessClaim_votes:
  assumes pc: "ProcessClaim V ord c claim s = (Ok st, t)" and can: "\<forall>x y. V x = Some y \<longrightarrow> V y = Some y"
    and ok: "prophecies_ok s"
  shows "\<exists>wl q hc hp tc tp. GetOracleWhiteList V s = Ok wl \<and> claimValidator claim \<in> set wl \<and>
    q = (AddClaim (claimValidator claim) (claimContent claim) (open_prophecy (claimId claim) s))\<lparr>prophecyStatus := st\<rparr> \<and>
    votes_ok q \<and> t = s\<lparr>prophecies := kv_put (claimId claim) q (prophecies s)\<rparr> \<and>
    FindHighestClaim ord (bondedPowers s) wl
      (AddClaim (claimValidator claim) (claimContent claim) (open_prophecy (claimId claim) s)) = (hc, hp, tc, tp) \<and>
    (statusText st = STATUS_TEXT_SUCCESS \<longrightarrow> finalClaim st = hc \<and> float_ge (float_div hp tp) c)"
proof -
  let ?p = "open_prophecy (claimId claim) s"
  let ?a = "AddClaim (claimValidator claim) (claimContent claim) ?p"
  have p: "votes_ok ?p" "prophecyID ?p = claimId claim" using open_prophecy_ok [OF ok] by auto
  from ProcessClaim_Ok [OF pc can p(1) open_prophecy_def] obtain wl q where
    w: "GetOracleWhiteList V s = Ok wl" "claimValidator claim \<in> set wl"
    and new: "kv_get (validatorClaims ?p) (claimValidator claim) = None" "claimContent claim \<noteq> ''''"
      "statusText (prophecyStatus ?p) = STATUS_TEXT_PENDING"
    and q: "processCompletion V ord c ?a s = Ok q" "st = prophecyStatus q"
      "t = s\<lparr>prophecies := kv_put (prophecyID q) q (prophecies s)\<rparr>"
    by blast
  have a: "votes_ok ?a" by (rule AddClaim_votes [OF p(1) new(1,2)])
  from processCompletion_Ok [OF q(1)] w(1) obtain hc hp tc tp st' where
    f: "FindHighestClaim ord (bondedPowers s) wl ?a = (hc, hp, tc, tp)" and q': "q = ?a\<lparr>prophecyStatus := st'\<rparr>"
    and suc: "statusText st' = STATUS_TEXT_SUCCESS \<longrightarrow> finalClaim st' = hc \<and> float_ge (float_div hp tp) c"
    using new(3) by auto
  then show ?thesis using w q(2,3) p(2) a by auto
qed

lemma ProcessClaim_keeps:
  assumes "ProcessClaim V ord c claim s = (Ok st, t)" "\<forall>x y. V x = Some y \<longrightarrow> V y = Some y" "prophecies_ok s"
  shows "prophecies_ok t"
  using ProcessClaim_votes [OF assms] assms(3) open_prophecy_ok [OF assms(3), of "claimId claim"]
  by (auto simp: prophecies_ok_def split: if_splits)

lemma ProcessClaim_quorum:
  assumes pc: "ProcessClaim V ord DefaultConsensusNeeded claim s = (Ok st, t)"
    and can: "\<forall>x y. V x = Some y \<longrightarrow> V y = Some y"
    and ok: "prophecies_ok s" "any_order ord" "powers_ok (bondedPowers s)" and suc: "statusText st = STATUS_TEXT_SUCCESS"
  shows "\<exists>wl p. GetOracleWhiteList V s = Ok wl \<and> GetProphecy (claimId claim) t = Some p \<and> prophecyStatus p = st \<and>
    2 * group_power (bondedPowers s) (set wl) < 3 * group_power (bondedPowers s) (supporters p (finalClaim st))"
proof -
  let ?a = "AddClaim (claimValidator claim) (claimContent claim) (open_prophecy (claimId claim) s)"
  from ProcessClaim_votes [OF pc can ok(1)] suc obtain wl q hp tc tp where
    q: "GetOracleWhiteList V s = Ok wl" "q = ?a\<lparr>prophecyStatus := st\<rparr>" "votes_ok q"
      "t = s\<lparr>prophecies := kv_put (claimId claim) q (prophecies s)\<rparr>"
    and f: "FindHighestClaim ord (bondedPowers s) wl ?a = (finalClaim st, hp, tc, tp)"
      "float_ge (float_div hp tp) DefaultConsensusNeeded"
    by metis
  have a: "votes_ok ?a" using q(2,3) by simp
  note h = FindHighestClaim_spec [OF f(1) ok(2,3) a AddClaim_nonempty]
  have "2 * tp < 3 * hp"
    using group_power_nonneg [OF ok(3)] by (intro quorum_bound f(2)) (simp_all only: h(1,2))
  moreover have "GetProphecy (claimId claim) t = Some q"
    using ok(1) by (simp add: q(4) GetProphecy_def prophecies_ok_def)
  ultimately show ?thesis using q(1,2) h(1,2) by (intro exI [of _ wl] exI [of _ q]) auto
qed

section \<open>The order of the loop\<close>

text \<open>Two claims cannot both have two thirds of the whitelist behind them, so the loop over the map has one outcome.\<close>

lemma quorum_unique:
  assumes ok: "powers_ok ps" "votes_ok p" and wl: "dom (kv_get (validatorClaims p)) \<subseteq> set wl"
    and q: "2 * group_power ps (set wl) < 3 * group_power ps (supporters p a)"
      "2 * group_power ps (set wl) < 3 * group_power ps (supporters p b)"
  shows "a = b"
proof (rule ccontr)
  assume "a \<noteq> b"
  then have "supporters p a \<inter> supporters p b = {}" by (auto simp: supporters_def)
  then have "group_power ps (supporters p a) + group_power ps (supporters p b) = group_power ps (supporters p a \<union> supporters p b)"
    using supporters_finite [OF ok(2)] by (simp add: group_power_def sum.union_disjoint)
  also have "\<dots> \<le> group_power ps (set wl)"
    using wl by (intro group_power_mono ok) (auto simp: supporters_def)
  finally show False using q group_power_nonneg [OF ok(1), of "set wl"] by linarith
qed

lemma processCompletion_order:
  assumes ok: "powers_ok (bondedPowers s)" "votes_ok p" "claimValidators p \<noteq> []" and ord: "any_order ord" "any_order ord'"
    and wl: "\<And>wl. GetOracleWhiteList V s = Ok wl \<Longrightarrow> dom (kv_get (validatorClaims p)) \<subseteq> set wl"
  shows "processCompletion V ord DefaultConsensusNeeded p s = processCompletion V ord' DefaultConsensusNeeded p s"
proof (cases "GetOracleWhiteList V s")
  case (Ok wl)
  let ?ps = "bondedPowers s"
  obtain hc hp tc tp where f: "FindHighestClaim ord ?ps wl p = (hc, hp, tc, tp)"
    by (cases "FindHighestClaim ord ?ps wl p")
  obtain hc' hp' tc' tp' where f': "FindHighestClaim ord' ?ps wl p = (hc', hp', tc', tp')"
    by (cases "FindHighestClaim ord' ?ps wl p")
  note h = FindHighestClaim_spec [OF f ord(1) ok] and h' = FindHighestClaim_spec [OF f' ord(2) ok]
  have eq: "tp' = tp" "tc' = tc" using h(1,4) h'(1,4) by simp_all
  have hp: "hp' = hp" using h(3) [of hc'] h'(3) [of hc] h(2) h'(2) by simp
  have "hc = hc'" if "float_ge (float_div hp tp) DefaultConsensusNeeded"
  proof (rule quorum_unique [OF ok(1,2) wl [OF Ok]])
    have "2 * tp < 3 * hp" using group_power_nonneg [OF ok(1)] by (intro quorum_bound that) (simp_all only: h(1,2))
    then show "2 * group_power ?ps (set wl) < 3 * group_power ?ps (supporters p hc)"
      "2 * group_power ?ps (set wl) < 3 * group_power ?ps (supporters p hc')"
      using h(1,2) h'(2) hp by simp_all
  qed
  then show ?thesis using Ok f f' eq hp by (simp add: processCompletion_def Let_def)
qed (simp_all add: processCompletion_def)

text \<open>Every validator that voted on a prophecy still open is on the whitelist.\<close>

definition voters_listed :: "(string \<Rightarrow> string option) \<Rightarrow> 's oracle_state_scheme \<Rightarrow> bool" where
  "voters_listed V s \<longleftrightarrow> (\<forall>i p wl. GetProphecy i s = Some p \<longrightarrow> GetOracleWhiteList V s = Ok wl \<longrightarrow>
     dom (kv_get (validatorClaims p)) \<subseteq> set wl)"

lemma ProcessClaim_order:
  assumes can: "\<forall>x y. V x = Some y \<longrightarrow> V y = Some y" and ok: "prophecies_ok s" "powers_ok (bondedPowers s)" "voters_listed V s"
    and ord: "any_order ord" "any_order ord'"
  shows "ProcessClaim V ord DefaultConsensusNeeded claim s = ProcessClaim V ord' DefaultConsensusNeeded claim s"
proof -
  let ?p = "open_prophecy (claimId claim) s"
  let ?v = "claimValidator claim"
  have p: "votes_ok ?p" using open_prophecy_ok [OF ok(1)] by auto
  have listed: "dom (kv_get (validatorClaims ?p)) \<subseteq> set wl" if "GetOracleWhiteList V s = Ok wl" for wl
    using ok(3) that by (auto simp: voters_listed_def open_prophecy_def NewProphecy_def dom_def split: option.split)
  have "processCompletion V ord DefaultConsensusNeeded (AddClaim a (claimContent claim) ?p) s =
    processCompletion V ord' DefaultConsensusNeeded (AddClaim a (claimContent claim) ?p) s"
    if c: "EnsureAddressIsInWhitelist V ?v s = Ok ()" "V ?v = Some a" "claimContent claim \<noteq> ''''"
      "kv_get (validatorClaims ?p) ?v \<in> {None, Some ''''}" for a
  proof (rule processCompletion_order [OF ok(2) _ AddClaim_nonempty ord])
    from c(1) obtain wl where wl: "GetOracleWhiteList V s = Ok wl" "?v \<in> set wl"
      by (auto simp: EnsureAddressIsInWhitelist_def result_inv list_ex_iff split: if_splits)
    then have a: "a = ?v" using canonical_whitelist [OF can] c(2) by (fastforce simp: GetOracleWhiteList_def)
    have "kv_get (validatorClaims ?p) ?v = None" using c(4) p by (auto simp: votes_ok_def)
    then show "votes_ok (AddClaim a (claimContent claim) ?p)" using AddClaim_votes [OF p _ c(3)] a by simp
    show "dom (kv_get (validatorClaims (AddClaim a (claimContent claim) ?p))) \<subseteq> set wl'" if "GetOracleWhiteList V s = Ok wl'" for wl'
      using listed [OF that] that wl a p by (simp add: AddClaim_def Let_def votes_ok_def)
  qed
  then show ?thesis
    unfolding ProcessClaim_def Let_def open_prophecy_def
    by (cases "V ?v")
      (auto simp: bindM_def thenM_def gets_def getsR_def liftR_def split: result.split option.split)
qed

end
