(* ===== verification/EthBridge.thy ===== *)
theory EthBridge
  imports OracleVotes Bank
begin

text \<open>
  The bridge to Ethereum (\<open>x/ethbridge\<close>). Coins leave the chain by \<open>Lock\<close> (coins of this chain) and \<open>Burn\<close> (pegged
  coins), which destroy them and charge a fee in \<open>ceth\<close>; coins arrive when the oracle has accepted a claim that
  they were locked or burnt on Ethereum, and are minted then.

  \<open>bridge_env\<close> holds what the module calls outside the repository: Bech32 for validators,
  the address functions of go-ethereum, and JSON for the content of a claim.
\<close>

section \<open>Types (types/claim.go, types/ethereum.go, types/keys.go)\<close>

datatype ClaimType = CLAIM_TYPE_UNSPECIFIED | CLAIM_TYPE_BURN | CLAIM_TYPE_LOCK

record OracleClaimContent =
  contentReceiver :: string
  contentAmount :: int
  contentSymbol :: string
  contentToken :: string
  contentType :: ClaimType

record EthBridgeClaim =
  ethereumChainId :: int
  bridgeContractAddress :: string
  ethNonce :: int
  ethSymbol :: string
  tokenContractAddress :: string
  ethereumSender :: string
  cosmosReceiver :: string
  ethValidator :: string
  ethAmount :: int
  ethClaimType :: ClaimType

record MsgTransfer =                     \<comment> \<open>\<open>MsgLock\<close> and \<open>MsgBurn\<close> have the same fields\<close>
  transferSender :: string
  transferAmount :: int
  transferSymbol :: string
  transferChainId :: int
  transferReceiver :: string
  transferCeth :: int

record bridge_env =
  val_from_bech32 :: "string \<Rightarrow> string option"
  is_hex_address :: "string \<Rightarrow> bool"        \<comment> \<open>\<open>gethCommon.IsHexAddress\<close>\<close>
  hex_to_address :: "string \<Rightarrow> string"      \<comment> \<open>the text of \<open>gethCommon.HexToAddress\<close>\<close>
  claim_to_json :: "OracleClaimContent \<Rightarrow> string"
  claim_of_json :: "string \<Rightarrow> OracleClaimContent option"

definition PeggedCoinPrefix :: string where
  "PeggedCoinPrefix = ''c''"

definition CethSymbol :: string where
  "CethSymbol = ''ceth''"

definition BridgeModule :: string where
  "BridgeModule = ''ethbridge''"

definition GasCost :: int where
  "GasCost = 60000000000 * 393000"

definition NewOracleClaimContent :: "string \<Rightarrow> int \<Rightarrow> string \<Rightarrow> string \<Rightarrow> ClaimType \<Rightarrow> OracleClaimContent" where
  "NewOracleClaimContent receiver amount symbol token t =
     \<lparr>contentReceiver = receiver, contentAmount = amount, contentSymbol = symbol, contentToken = token, contentType = t\<rparr>"

text \<open>The id under which the oracle collects the claims for one event.\<close>

definition oracle_id :: "EthBridgeClaim \<Rightarrow> string" where
  "oracle_id c = show_int (ethereumChainId c) @ show_int (ethNonce c) @ ethereumSender c"

definition CreateOracleClaimFromEthClaim :: "sdk \<Rightarrow> bridge_env \<Rightarrow> EthBridgeClaim \<Rightarrow> OracleClaim result" where
  "CreateOracleClaimFromEthClaim S B c =
     rbind (of_option (ErrSdk ''bech32'') (acc_from_bech32 S (cosmosReceiver c))) (\<lambda>receiver.
     Ok (NewClaim (oracle_id c) (ethValidator c)
       (claim_to_json B (NewOracleClaimContent receiver (ethAmount c) (ethSymbol c)
          (hex_to_address B (tokenContractAddress c)) (ethClaimType c)))))"

definition CreateOracleClaimFromOracleString :: "bridge_env \<Rightarrow> string \<Rightarrow> OracleClaimContent result" where
  "CreateOracleClaimFromOracleString B str = of_option ErrJSONMarshalling (claim_of_json B str)"

section \<open>State\<close>

record bridge_state = oracle_state +
  peggyTokens :: "string list"
  cethReceiver :: "string option"       \<comment> \<open>the stored text\<close>
  bridgeBlacklist :: "string kv"
  bridgePaused :: bool
  accounts :: "string \<Rightarrow> bool"          \<comment> \<open>whether \<open>GetAccount\<close> of the auth module finds the address\<close>

section \<open>Keeper (keeper/*.go)\<close>

definition SetPause :: "bool \<Rightarrow> ('s bridge_state_scheme, unit) M" where
  "SetPause b = modify (\<lambda>s. s\<lparr>bridgePaused := b\<rparr>)"

definition IsPaused :: "'s bridge_state_scheme \<Rightarrow> bool" where
  "IsPaused s = bridgePaused s"

definition GetPeggyToken :: "'s bridge_state_scheme \<Rightarrow> string list" where
  "GetPeggyToken s = peggyTokens s"

definition ExistsPeggyToken :: "string \<Rightarrow> 's bridge_state_scheme \<Rightarrow> bool" where
  "ExistsPeggyToken t s = list_ex (\<lambda>v. v = t) (GetPeggyToken s)"

definition AddPeggyToken :: "string \<Rightarrow> ('s bridge_state_scheme, unit) M" where
  "AddPeggyToken t =
     bindM (gets (ExistsPeggyToken t)) (\<lambda>ex.
     if ex then ret () else modify (\<lambda>s. s\<lparr>peggyTokens := peggyTokens s @ [t]\<rparr>))"

definition SetCethReceiverAccount :: "string \<Rightarrow> ('s bridge_state_scheme, unit) M" where
  "SetCethReceiverAccount a = modify (\<lambda>s. s\<lparr>cethReceiver := Some a\<rparr>)"

definition GetCethReceiverAccount :: "sdk \<Rightarrow> 's bridge_state_scheme \<Rightarrow> string option" where
  "GetCethReceiverAccount S s =
     (case cethReceiver s of None \<Rightarrow> None | Some a \<Rightarrow> if a = '''' then None else acc_from_bech32 S a)"

definition IsCethReceiverAccount :: "sdk \<Rightarrow> string \<Rightarrow> 's bridge_state_scheme \<Rightarrow> bool" where
  "IsCethReceiverAccount S a s \<longleftrightarrow> GetCethReceiverAccount S s = Some a"

definition IsCethReceiverAccountSet :: "sdk \<Rightarrow> 's bridge_state_scheme \<Rightarrow> bool" where
  "IsCethReceiverAccountSet S s \<longleftrightarrow> GetCethReceiverAccount S s \<noteq> None"

definition IsBlacklisted :: "string \<Rightarrow> 's bridge_state_scheme \<Rightarrow> bool" where
  "IsBlacklisted a s \<longleftrightarrow> kv_get (bridgeBlacklist s) a \<noteq> None"

definition GetBlacklist :: "'s bridge_state_scheme \<Rightarrow> string list" where
  "GetBlacklist s = map fst (bridgeBlacklist s)"

text \<open>An empty address has the key of the prefix alone, which the loop over removals skips.\<close>

definition SetBlacklist :: "sdk \<Rightarrow> string \<Rightarrow> string list \<Rightarrow> ('s bridge_state_scheme, unit) M" where
  "SetBlacklist S from addrs =
     admin_gate S ErrNotAdminAccount ETHBRIDGE from (
     bindM (gets GetBlacklist) (\<lambda>olds.
     let removals = filter (\<lambda>a. a \<noteq> '''' \<and> \<not> list_ex (\<lambda>c. c = a) addrs) olds in
     thenM (eachM (\<lambda>a. modify (\<lambda>s. s\<lparr>bridgeBlacklist := kv_del a (bridgeBlacklist s)\<rparr>)) removals) (
     eachM (\<lambda>a. modify (\<lambda>s. s\<lparr>bridgeBlacklist := kv_put a a (bridgeBlacklist s)\<rparr>)) addrs)))"

definition bridge_ProcessClaim ::
  "sdk \<Rightarrow> bridge_env \<Rightarrow> (nat \<Rightarrow> nat list) \<Rightarrow> rat \<Rightarrow> EthBridgeClaim \<Rightarrow> ('s bridge_state_scheme, Status) M" where
  "bridge_ProcessClaim S B ord c claim =
     bindM (liftR (CreateOracleClaimFromEthClaim S B claim)) (ProcessClaim (val_from_bech32 B) ord c)"

definition mint_for :: "sdk \<Rightarrow> string \<Rightarrow> int \<Rightarrow> ('s bridge_state_scheme, coin list) M" where
  "mint_for S d n =
     bindM (liftR (one_coin_list S d n)) (\<lambda>coins.
     thenM (MintCoins S BridgeModule coins) (ret coins))"

definition ProcessSuccessfulClaim :: "sdk \<Rightarrow> bridge_env \<Rightarrow> string \<Rightarrow> ('s bridge_state_scheme, unit) M" where
  "ProcessSuccessfulClaim S B claim =
     bindM (liftR (CreateOracleClaimFromOracleString B claim)) (\<lambda>content.
     bindM (case contentType content of
              CLAIM_TYPE_LOCK \<Rightarrow>
                let symbol = PeggedCoinPrefix @ contentSymbol content in
                thenM (AddPeggyToken symbol) (mint_for S symbol (contentAmount content))
            | CLAIM_TYPE_BURN \<Rightarrow> mint_for S (contentSymbol content) (contentAmount content)
            | CLAIM_TYPE_UNSPECIFIED \<Rightarrow> throw ErrInvalidClaimType) (\<lambda>coins.
     catchM (SendCoinsFromModuleToAccount S BridgeModule (contentReceiver content) coins) (\<lambda>_. panic)))"

text \<open>The fee, when there is an account for it; then only the amount goes to the module.\<close>

definition pay_fee :: "sdk \<Rightarrow> string \<Rightarrow> int \<Rightarrow> string \<Rightarrow> ('s bridge_state_scheme, unit) M" where
  "pay_fee S sender fee receiver =
     bindM (liftR (one_coin_list S CethSymbol fee)) (\<lambda>coins. SendCoins S sender receiver coins)"

definition ProcessBurn :: "sdk \<Rightarrow> string \<Rightarrow> MsgTransfer \<Rightarrow> ('s bridge_state_scheme, unit) M" where
  "ProcessBurn S sender m =
     bindM (gets (IsBlacklisted (transferReceiver m))) (\<lambda>black.
     if black then throw ErrInvalidEthAddress
     else
     bindM (gets (GetCethReceiverAccount S)) (\<lambda>acc.
     bindM (case acc of
              Some receiver \<Rightarrow>
                thenM (pay_fee S sender (transferCeth m) receiver) (
                liftR (one_coin_list S (transferSymbol m) (transferAmount m)))
            | None \<Rightarrow>
                liftR (if transferSymbol m = CethSymbol
                       then rbind (int_add S (transferCeth m) (transferAmount m)) (one_coin_list S CethSymbol)
                       else two_coin_list S (transferSymbol m) (transferAmount m) CethSymbol (transferCeth m))) (\<lambda>coins.
     thenM (SendCoinsFromAccountToModule S sender BridgeModule coins) (
     bindM (liftR (one_coin_list S (transferSymbol m) (transferAmount m))) (\<lambda>burnt.
     BurnCoins S BridgeModule burnt)))))"

definition ProcessLock :: "sdk \<Rightarrow> string \<Rightarrow> MsgTransfer \<Rightarrow> ('s bridge_state_scheme, unit) M" where
  "ProcessLock S sender m =
     bindM (gets (IsBlacklisted (transferReceiver m))) (\<lambda>black.
     if black then throw ErrInvalidEthAddress
     else
     bindM (gets (GetCethReceiverAccount S)) (\<lambda>acc.
     bindM (case acc of
              Some receiver \<Rightarrow>
                thenM (pay_fee S sender (transferCeth m) receiver) (
                liftR (one_coin_list S (transferSymbol m) (transferAmount m)))
            | None \<Rightarrow> liftR (two_coin_list S (transferSymbol m) (transferAmount m) CethSymbol (transferCeth m))) (\<lambda>coins.
     thenM (SendCoinsFromAccountToModule S sender BridgeModule coins) (
     bindM (liftR (one_coin_list S (transferSymbol m) (transferAmount m))) (\<lambda>burnt.
     BurnCoins S BridgeModule burnt)))))"

definition ProcessUpdateCethReceiverAccount :: "string \<Rightarrow> string \<Rightarrow> ('s bridge_state_scheme, unit) M" where
  "ProcessUpdateCethReceiverAccount sender receiver =
     bindM (gets (IsAdminAccount_oracle sender)) (\<lambda>ok.
     if \<not> ok then throw (ErrSdk ''only admin account can update ceth receiver account'')
     else SetCethReceiverAccount receiver)"

definition ProcessRescueCeth :: "sdk \<Rightarrow> string \<Rightarrow> string \<Rightarrow> int \<Rightarrow> ('s bridge_state_scheme, unit) M" where
  "ProcessRescueCeth S sender receiver amount =
     bindM (liftR (of_option (ErrSdk ''bech32'') (acc_from_bech32 S sender))) (\<lambda>from.
     bindM (liftR (of_option (ErrSdk ''bech32'') (acc_from_bech32 S receiver))) (\<lambda>to.
     bindM (gets (IsAdminAccount_oracle from)) (\<lambda>ok.
     if \<not> ok then throw (ErrSdk ''only admin account can call rescue ceth'')
     else
     bindM (liftR (one_coin_list S CethSymbol amount)) (\<lambda>coins.
     SendCoinsFromModuleToAccount S BridgeModule to coins))))"

section \<open>Messages (types/msgs.go, keeper/msg\_server.go, handler.go)\<close>

datatype (plugins only: code size) bridge_msg =
    MsgCreateEthBridgeClaim EthBridgeClaim
  | MsgBurn MsgTransfer
  | MsgLock MsgTransfer
  | MsgUpdateWhiteListValidator string string string    \<comment> \<open>sender, validator, operation\<close>
  | MsgUpdateCethReceiverAccount string string          \<comment> \<open>sender, receiver\<close>
  | MsgRescueCeth string string int                     \<comment> \<open>sender, receiver, amount\<close>
  | MsgSetBlacklist string "string list"
  | MsgPause string bool

text \<open>The first check of \<open>MsgLock\<close> compares the digits of the chain id with the empty string: it never fails.\<close>

definition MsgLock_ValidateBasic :: "bridge_env \<Rightarrow> MsgTransfer \<Rightarrow> unit result" where
  "MsgLock_ValidateBasic B m =
     rbind (check (show_int (transferChainId m) \<noteq> '''') ErrInvalidEthereumChainID) (\<lambda>_.
     rbind (check (transferSender m \<noteq> '''') ErrInvalidAddress) (\<lambda>_.
     rbind (check (transferReceiver m \<noteq> '''') ErrInvalidEthAddress) (\<lambda>_.
     rbind (check (is_hex_address B (transferReceiver m)) ErrInvalidEthAddress) (\<lambda>_.
     rbind (check (0 < transferAmount m) ErrInvalidAmount) (\<lambda>_.
     rbind (check (GasCost \<le> transferCeth m) ErrCethAmount) (\<lambda>_.
     check (transferSymbol m \<noteq> '''') ErrInvalidSymbol))))))"

definition MsgBurn_ValidateBasic :: "bridge_env \<Rightarrow> MsgTransfer \<Rightarrow> unit result" where
  "MsgBurn_ValidateBasic B m =
     rbind (check (transferChainId m \<noteq> 0) ErrInvalidEthereumChainID) (\<lambda>_.
     rbind (check (transferSender m \<noteq> '''') ErrInvalidAddress) (\<lambda>_.
     rbind (check (transferReceiver m \<noteq> '''') ErrInvalidEthAddress) (\<lambda>_.
     rbind (check (is_hex_address B (transferReceiver m)) ErrInvalidEthAddress) (\<lambda>_.
     rbind (check (0 < transferAmount m) ErrInvalidAmount) (\<lambda>_.
     let n = length PeggedCoinPrefix in
     rbind (check (n + 1 < length (transferSymbol m)) ErrInvalidBurnSymbol) (\<lambda>_.
     rbind (check (take n (transferSymbol m) = PeggedCoinPrefix) ErrInvalidBurnSymbol) (\<lambda>_.
     rbind (check (GasCost \<le> transferCeth m) ErrCethAmount) (\<lambda>_.
     check (drop n (transferSymbol m) \<noteq> '''') ErrInvalidBurnSymbol))))))))"

definition MsgCreateEthBridgeClaim_ValidateBasic :: "bridge_env \<Rightarrow> EthBridgeClaim \<Rightarrow> unit result" where
  "MsgCreateEthBridgeClaim_ValidateBasic B c =
     rbind (check (cosmosReceiver c \<noteq> '''') ErrInvalidAddress) (\<lambda>_.
     rbind (check (ethValidator c \<noteq> '''') ErrInvalidAddress) (\<lambda>_.
     rbind (check (0 \<le> ethNonce c) ErrInvalidEthNonce) (\<lambda>_.
     rbind (check (is_hex_address B (ethereumSender c)) ErrInvalidEthAddress) (\<lambda>_.
     rbind (check (is_hex_address B (bridgeContractAddress c)) ErrInvalidEthAddress) (\<lambda>_.
     rbind (check (is_hex_address B (tokenContractAddress c)) ErrInvalidEthAddress) (\<lambda>_.
     check (\<not> (to_lower (ethSymbol c) = ''eth'' \<and>
         hex_to_address B (tokenContractAddress c) \<noteq> hex_to_address B ''0x0000000000000000000000000000000000000000''))
       ErrInvalidEthSymbol))))))"

fun bridge_ValidateBasic :: "bridge_env \<Rightarrow> bridge_msg \<Rightarrow> unit result" where
  "bridge_ValidateBasic B (MsgCreateEthBridgeClaim c) = MsgCreateEthBridgeClaim_ValidateBasic B c"
| "bridge_ValidateBasic B (MsgBurn m) = MsgBurn_ValidateBasic B m"
| "bridge_ValidateBasic B (MsgLock m) = MsgLock_ValidateBasic B m"
| "bridge_ValidateBasic B (MsgUpdateWhiteListValidator sender v operation) =
     rbind (check (sender \<noteq> '''') ErrInvalidAddress) (\<lambda>_. check (v \<noteq> '''') ErrInvalidAddress)"
| "bridge_ValidateBasic B (MsgUpdateCethReceiverAccount sender receiver) =
     rbind (check (sender \<noteq> '''') ErrInvalidAddress) (\<lambda>_. check (receiver \<noteq> '''') ErrInvalidAddress)"
| "bridge_ValidateBasic B (MsgRescueCeth sender receiver amount) =
     rbind (check (sender \<noteq> '''') ErrInvalidAddress) (\<lambda>_. check (receiver \<noteq> '''') ErrInvalidAddress)"
| "bridge_ValidateBasic B (MsgSetBlacklist from addrs) = Ok ()"
| "bridge_ValidateBasic B (MsgPause signer b) = check (signer \<noteq> '''') ErrInvalidAddress"

text \<open>The address whose signature the message needs; a malformed one panics.\<close>

fun bridge_signer :: "sdk \<Rightarrow> bridge_env \<Rightarrow> bridge_msg \<Rightarrow> string option" where
  "bridge_signer S B (MsgCreateEthBridgeClaim c) = val_from_bech32 B (ethValidator c)"
| "bridge_signer S B (MsgBurn m) = acc_from_bech32 S (transferSender m)"
| "bridge_signer S B (MsgLock m) = acc_from_bech32 S (transferSender m)"
| "bridge_signer S B (MsgUpdateWhiteListValidator sender v operation) = acc_from_bech32 S sender"
| "bridge_signer S B (MsgUpdateCethReceiverAccount sender receiver) = acc_from_bech32 S sender"
| "bridge_signer S B (MsgRescueCeth sender receiver amount) = acc_from_bech32 S sender"
| "bridge_signer S B (MsgSetBlacklist from addrs) = acc_from_bech32 S from"
| "bridge_signer S B (MsgPause signer b) = acc_from_bech32 S signer"

definition msg_SetPause :: "sdk \<Rightarrow> string \<Rightarrow> bool \<Rightarrow> ('s bridge_state_scheme, unit) M" where
  "msg_SetPause S signer b = admin_gate S ErrNotEnoughPermissions ETHBRIDGE signer (SetPause b)"

text \<open>The account of the sender, which has to exist.\<close>

definition sender_account :: "sdk \<Rightarrow> err \<Rightarrow> string \<Rightarrow> ('s bridge_state_scheme, string) M" where
  "sender_account S e sender =
     bindM (liftR (of_option (ErrSdk ''bech32'') (acc_from_bech32 S sender))) (\<lambda>a.
     bindM (gets (\<lambda>s. accounts s a)) (\<lambda>known. if known then ret a else throw e))"

definition msg_Lock :: "sdk \<Rightarrow> MsgTransfer \<Rightarrow> ('s bridge_state_scheme, unit) M" where
  "msg_Lock S m =
     bindM (gets IsPaused) (\<lambda>paused.
     if paused then throw ErrPaused
     else
     bindM (gets (ExistsPeggyToken (transferSymbol m))) (\<lambda>pegged.
     if pegged then throw (ErrSdk ''pegged token can't be locked'')
     else bindM (sender_account S ErrInvalidAddress (transferSender m)) (\<lambda>a. ProcessLock S a m)))"

definition msg_Burn :: "sdk \<Rightarrow> MsgTransfer \<Rightarrow> ('s bridge_state_scheme, unit) M" where
  "msg_Burn S m =
     bindM (gets IsPaused) (\<lambda>paused.
     if paused then throw ErrPaused
     else
     bindM (gets (ExistsPeggyToken (transferSymbol m))) (\<lambda>pegged.
     if \<not> pegged then throw (ErrSdk ''native token can't be burned'')
     else bindM (sender_account S ErrInvalidAddress (transferSender m)) (\<lambda>a. ProcessBurn S a m)))"

definition msg_CreateEthBridgeClaim ::
  "sdk \<Rightarrow> bridge_env \<Rightarrow> (nat \<Rightarrow> nat list) \<Rightarrow> rat \<Rightarrow> EthBridgeClaim \<Rightarrow> ('s bridge_state_scheme, Status) M" where
  "msg_CreateEthBridgeClaim S B ord c claim =
     bindM (bridge_ProcessClaim S B ord c claim) (\<lambda>st.
     thenM (if statusText st = STATUS_TEXT_SUCCESS then ProcessSuccessfulClaim S B (finalClaim st) else ret ()) (
     ret st))"

definition msg_UpdateWhiteListValidator ::
  "sdk \<Rightarrow> bridge_env \<Rightarrow> string \<Rightarrow> string \<Rightarrow> string \<Rightarrow> ('s bridge_state_scheme, unit) M" where
  "msg_UpdateWhiteListValidator S B sender v operation =
     bindM (sender_account S ErrUnknownAddress sender) (\<lambda>a.
     bindM (liftR (of_option ErrInvalidAddress (val_from_bech32 B v))) (\<lambda>val.
     ProcessUpdateWhiteListValidator (val_from_bech32 B) a val operation))"

definition msg_UpdateCethReceiverAccount :: "sdk \<Rightarrow> string \<Rightarrow> string \<Rightarrow> ('s bridge_state_scheme, unit) M" where
  "msg_UpdateCethReceiverAccount S sender receiver =
     bindM (liftR (of_option (ErrSdk ''bech32'') (acc_from_bech32 S sender))) (\<lambda>from.
     bindM (liftR (of_option (ErrSdk ''bech32'') (acc_from_bech32 S receiver))) (\<lambda>to.
     bindM (gets (\<lambda>s. accounts s from)) (\<lambda>known.
     if \<not> known then throw ErrInvalidAddress else ProcessUpdateCethReceiverAccount from to)))"

definition msg_RescueCeth :: "sdk \<Rightarrow> string \<Rightarrow> string \<Rightarrow> int \<Rightarrow> ('s bridge_state_scheme, unit) M" where
  "msg_RescueCeth S sender receiver amount =
     bindM (sender_account S ErrInvalidAddress sender) (\<lambda>_. ProcessRescueCeth S sender receiver amount)"

fun bridge_handler :: "sdk \<Rightarrow> bridge_env \<Rightarrow> (nat \<Rightarrow> nat list) \<Rightarrow> rat \<Rightarrow> bridge_msg \<Rightarrow> ('s bridge_state_scheme, unit) M" where
  "bridge_handler S B ord c (MsgCreateEthBridgeClaim claim) =
     bindM (msg_CreateEthBridgeClaim S B ord c claim) (\<lambda>_. ret ())"
| "bridge_handler S B ord c (MsgBurn m) = msg_Burn S m"
| "bridge_handler S B ord c (MsgLock m) = msg_Lock S m"
| "bridge_handler S B ord c (MsgUpdateWhiteListValidator sender v operation) =
     msg_UpdateWhiteListValidator S B sender v operation"
| "bridge_handler S B ord c (MsgUpdateCethReceiverAccount sender receiver) = msg_UpdateCethReceiverAccount S sender receiver"
| "bridge_handler S B ord c (MsgRescueCeth sender receiver amount) = msg_RescueCeth S sender receiver amount"
| "bridge_handler S B ord c (MsgSetBlacklist from addrs) = SetBlacklist S from addrs"
| "bridge_handler S B ord c (MsgPause signer b) = msg_SetPause S signer b"

definition run_bridge :: "sdk \<Rightarrow> bridge_env \<Rightarrow> (nat \<Rightarrow> nat list) \<Rightarrow> rat \<Rightarrow> bridge_msg \<Rightarrow> ('s bridge_state_scheme, unit) M" where
  "run_bridge S B ord c m =
     thenM (liftR (bridge_ValidateBasic B m)) (
     thenM (liftR (if bridge_signer S B m = None then Panic else Ok ())) (
     bridge_handler S B ord c m))"

section \<open>Genesis (genesis.go)\<close>

record BridgeGenesis =
  genesisReceiver :: string
  genesisTokens :: "string list"

definition bridge_InitGenesis :: "sdk \<Rightarrow> BridgeGenesis \<Rightarrow> ('s bridge_state_scheme, unit) M" where
  "bridge_InitGenesis S g =
     thenM (if genesisReceiver g \<noteq> ''''
            then (case acc_from_bech32 S (genesisReceiver g) of None \<Rightarrow> panic | Some a \<Rightarrow> SetCethReceiverAccount a)
            else ret ()) (
     eachM AddPeggyToken (genesisTokens g))"

definition bridge_ExportGenesis :: "sdk \<Rightarrow> 's bridge_state_scheme \<Rightarrow> BridgeGenesis" where
  "bridge_ExportGenesis S s =
     \<lparr>genesisReceiver = (case GetCethReceiverAccount S s of None \<Rightarrow> '''' | Some a \<Rightarrow> a), genesisTokens = GetPeggyToken s\<rparr>"

end
