(* ===== verification/BridgeClaims.thy ===== *)
theory BridgeClaims
  imports EthBridge
begin

text \<open>
  Coins that arrive over the bridge. A run of the bridge (\<open>bridge_run\<close>) is a sequence of accepted messages,
  between which other modules may change balances, accounts and validators; the list holds the
  messages, the last one first. \<open>bridge_inv\<close> is its invariant: the votes are consistent and each of them was
  signed in a message of the run. It gives \<open>claim_backed\<close> (what a decided claim pays out has been
  claimed by more than two thirds of the whitelist) and \<open>decided_for_good\<close> (nothing is paid out twice under one id).
\<close>

section \<open>What the bridge relies on\<close>

definition ascii :: "string \<Rightarrow> bool" where
  "ascii s = list_all (\<lambda>ch. of_char ch < (128 :: nat)) s"

text \<open>Bech32 texts are canonical, and JSON gives back what was encoded (Go replaces bytes that are not UTF-8).\<close>

locale bridge_laws = sdk_laws S for S :: sdk +
  fixes B :: bridge_env
  assumes val_canonical: "val_from_bech32 B x = Some y \<Longrightarrow> val_from_bech32 B y = Some y"
    and json_round_trip: "acc_from_bech32 S r = Some (contentReceiver c) \<Longrightarrow> contentToken c = hex_to_address B h \<Longrightarrow>
      ascii (contentSymbol c) \<Longrightarrow> claim_of_json B (claim_to_json B c) = Some c"

text \<open>What a claim says, and the balances after it has been paid out.\<close>

definition eth_content :: "sdk \<Rightarrow> bridge_env \<Rightarrow> EthBridgeClaim \<Rightarrow> OracleClaimContent option" where
  "eth_content S B c = map_option (\<lambda>receiver. NewOracleClaimContent receiver (ethAmount c) (ethSymbol c)
     (hex_to_address B (tokenContractAddress c)) (ethClaimType c)) (acc_from_bech32 S (cosmosReceiver c))"

lemma CreateOracleClaim_Ok: "CreateOracleClaimFromEthClaim S B c = Ok oc \<longleftrightarrow>
    (\<exists>content. eth_content S B c = Some content \<and> oc = NewClaim (oracle_id c) (ethValidator c) (claim_to_json B content))"
  by (auto simp: CreateOracleClaimFromEthClaim_def eth_content_def result_inv)

lemma NewClaim_sel [simp]:
  "claimId (NewClaim i v x) = i" "claimValidator (NewClaim i v x) = v" "claimContent (NewClaim i v x) = x"
  by (simp_all add: NewClaim_def)

definition claim_denom :: "OracleClaimContent \<Rightarrow> string" where
  "claim_denom content =
     (if contentType content = CLAIM_TYPE_LOCK then PeggedCoinPrefix @ contentSymbol content else contentSymbol content)"

definition paid_out :: "OracleClaimContent \<Rightarrow> bank \<Rightarrow> bank" where
  "paid_out content bk = bk(contentReceiver content := (\<lambda>d. bk (contentReceiver content) d +
     (if d = claim_denom content then nat (contentAmount content) else 0)))"

text \<open>Who stands behind the content that is paid out.\<close>

definition backed_by :: "sdk \<Rightarrow> bridge_env \<Rightarrow> bridge_msg list \<Rightarrow> EthBridgeClaim \<Rightarrow> OracleClaimContent \<Rightarrow> string set \<Rightarrow> bool" where
  "backed_by S B ms claim content vs \<longleftrightarrow> (\<forall>v\<in>vs. \<exists>c. MsgCreateEthBridgeClaim c \<in> set ms \<and> oracle_id c = oracle_id claim \<and>
     ethValidator c = v \<and> (ascii (ethSymbol c) \<longrightarrow> eth_content S B c = Some content))"

section \<open>Runs\<close>

text \<open>The part of the state that the claims are about.\<close>

definition oracle_part :: "'s bridge_state_scheme \<Rightarrow> Prophecy kv \<times> (string \<times> int) list" where
  "oracle_part s = (prophecies s, bondedPowers s)"

inductive bridge_run :: "sdk \<Rightarrow> bridge_env \<Rightarrow> 's bridge_state_scheme \<Rightarrow> bridge_msg list \<Rightarrow> 's bridge_state_scheme \<Rightarrow> bool"
  for S B s0 where
  start: "bridge_run S B s0 [] s0"
| tx: "bridge_run S B s0 ms s \<Longrightarrow> any_order ord \<Longrightarrow> run_bridge S B ord DefaultConsensusNeeded m s = (Ok (), t) \<Longrightarrow>
    bridge_run S B s0 (m # ms) t"
| other: "bridge_run S B s0 ms s \<Longrightarrow> prophecies t = prophecies s \<Longrightarrow> powers_ok (bondedPowers t) \<Longrightarrow> bridge_run S B s0 ms t"

lemma bank_call_oracle [frame_intros]: "preserves oracle_part (bank_call f)"
  unfolding bank_call_def by (intro frame_intros) (simp add: oracle_part_def)

lemma AddPeggyToken_oracle [frame_intros]: "preserves oracle_part (AddPeggyToken tok)"
  unfolding AddPeggyToken_def by (intro frame_intros) (simp add: oracle_part_def)

lemma mint_for_oracle [frame_intros]: "preserves oracle_part (mint_for S d n)"
  unfolding mint_for_def send_defs by (intro frame_intros)

lemma pay_fee_oracle [frame_intros]: "preserves oracle_part (pay_fee S a n r)"
  unfolding pay_fee_def send_defs by (intro frame_intros)

lemma sender_account_preserves [frame_intros]: "preserves f (sender_account S e a)"
  unfolding sender_account_def by (intro frame_intros)

lemma ProcessSuccessfulClaim_oracle: "preserves oracle_part (ProcessSuccessfulClaim S B text)"
  unfolding ProcessSuccessfulClaim_def send_defs
  by (intro frame_intros; simp split: ClaimType.split; intro conjI impI frame_intros)

lemma handler_oracle:
  assumes "\<And>c. m \<noteq> MsgCreateEthBridgeClaim c"
  shows "preserves oracle_part (run_bridge S B ord c m)"
proof -
  have "preserves oracle_part (bridge_handler S B ord c m)"
    using assms
    by (cases m)
      (auto simp: msg_Burn_def msg_Lock_def ProcessBurn_def ProcessLock_def send_defs msg_UpdateWhiteListValidator_def
        ProcessUpdateWhiteListValidator_def AddOracleWhiteList_def RemoveOracleWhiteList_def SetOracleWhiteList_def
        msg_UpdateCethReceiverAccount_def ProcessUpdateCethReceiverAccount_def SetCethReceiverAccount_def
        msg_RescueCeth_def ProcessRescueCeth_def SetBlacklist_def msg_SetPause_def SetPause_def oracle_part_def
        intro!: frame_intros)
  then show ?thesis unfolding run_bridge_def by (intro frame_intros)
qed

section \<open>A claim\<close>

text \<open>A claim that the chain accepts: the vote is recorded, and when it decides the prophecy the content is paid out.\<close>

lemma claim_Ok:
  assumes "run_bridge S B ord c (MsgCreateEthBridgeClaim claim) s = (Ok (), t)"
  shows "\<exists>content st u. eth_content S B claim = Some content \<and>
    ProcessClaim (val_from_bech32 B) ord c
      (NewClaim (oracle_id claim) (ethValidator claim) (claim_to_json B content)) s = (Ok st, u) \<and>
    (if statusText st = STATUS_TEXT_SUCCESS then ProcessSuccessfulClaim S B (finalClaim st) u = (Ok (), t) else t = u)"
proof -
  have "(\<exists>st. msg_CreateEthBridgeClaim S B ord c claim s = (Ok st, t))"
    using assms by (auto simp: run_bridge_def result_inv)
  then show ?thesis
    by (auto simp: msg_CreateEthBridgeClaim_def bridge_ProcessClaim_def result_inv CreateOracleClaim_Ok split: if_splits)
qed

lemma AddPeggyToken_bank: "preserves bank (AddPeggyToken tok)"
  unfolding AddPeggyToken_def by (intro frame_intros) simp

context bridge_laws
begin

lemma mint_for_Ok:
  assumes "mint_for S d n s = (Ok cs, t)"
  shows "0 \<le> n \<and> (\<forall>e. amount_of cs e = (if e = d then nat n else 0)) \<and>
    (\<exists>b. mint_coins S BridgeModule cs (bank s) = Ok b \<and> t = s\<lparr>bank := b\<rparr>)"
proof -
  from assms have "one_coin_list S d n = Ok cs" "\<exists>b. mint_coins S BridgeModule cs (bank s) = Ok b \<and> t = s\<lparr>bank := b\<rparr>"
    by (auto simp: mint_for_def result_inv op_inv send_defs)
  with one_coin_list_Ok show ?thesis by blast
qed

lemma ProcessSuccessfulClaim_Ok:
  assumes "ProcessSuccessfulClaim S B text s = (Ok (), t)"
  shows "\<exists>content. claim_of_json B text = Some content \<and> contentType content \<noteq> CLAIM_TYPE_UNSPECIFIED \<and>
    0 \<le> contentAmount content \<and> bank t = paid_out content (bank s)"
proof -
  from assms obtain content cs u where c: "claim_of_json B text = Some content"
    and m: "(case contentType content of
              CLAIM_TYPE_LOCK \<Rightarrow>
                let symbol = PeggedCoinPrefix @ contentSymbol content in
                thenM (AddPeggyToken symbol) (mint_for S symbol (contentAmount content))
            | CLAIM_TYPE_BURN \<Rightarrow> mint_for S (contentSymbol content) (contentAmount content)
            | CLAIM_TYPE_UNSPECIFIED \<Rightarrow> throw ErrInvalidClaimType) s = (Ok cs, u)"
    and p: "\<exists>b. send_mod_to_acc S BridgeModule (contentReceiver content) cs (bank u) = Ok b \<and> t = u\<lparr>bank := b\<rparr>"
    by (auto simp: ProcessSuccessfulClaim_def CreateOracleClaimFromOracleString_def result_inv op_inv send_defs)
  from m obtain s' where s': "bank s' = bank s" "contentType content \<noteq> CLAIM_TYPE_UNSPECIFIED"
    "mint_for S (claim_denom content) (contentAmount content) s' = (Ok cs, u)"
    by (cases "contentType content")
      (auto simp: Let_def result_inv claim_denom_def dest!: preservesD [OF AddPeggyToken_bank])
  from mint_for_Ok [OF this(3)] obtain b where b: "0 \<le> contentAmount content"
    "\<forall>e. amount_of cs e = (if e = claim_denom content then nat (contentAmount content) else 0)"
    "mint_coins S BridgeModule cs (bank s) = Ok b" "bank u = b"
    by (auto simp: s')
  from p obtain b' where b': "send_mod_to_acc S BridgeModule (contentReceiver content) cs b = Ok b'" "bank t = b'"
    by (auto simp: b(4))
  show ?thesis using payout_bank [OF b(3) b'(1)] b b'(2) c s'(2) by (simp add: paid_out_def)
qed

end

section \<open>Invariants of a run\<close>

text \<open>Every recorded vote was signed: the run holds the message with which the validator made the claim.\<close>

definition signed_vote :: "sdk \<Rightarrow> bridge_env \<Rightarrow> bridge_msg list \<Rightarrow> string \<Rightarrow> string \<Rightarrow> string \<Rightarrow> bool" where
  "signed_vote S B ms i v text \<longleftrightarrow> (\<exists>c content. MsgCreateEthBridgeClaim c \<in> set ms \<and> oracle_id c = i \<and>
     ethValidator c = v \<and> eth_content S B c = Some content \<and> claim_to_json B content = text)"

definition votes_signed :: "sdk \<Rightarrow> bridge_env \<Rightarrow> bridge_msg list \<Rightarrow> 's bridge_state_scheme \<Rightarrow> bool" where
  "votes_signed S B ms s \<longleftrightarrow> (\<forall>i p v text. GetProphecy i s = Some p \<longrightarrow>
     kv_get (validatorClaims p) v = Some text \<longrightarrow> signed_vote S B ms i v text)"

definition bridge_inv :: "sdk \<Rightarrow> bridge_env \<Rightarrow> bridge_msg list \<Rightarrow> 's bridge_state_scheme \<Rightarrow> bool" where
  "bridge_inv S B ms s \<longleftrightarrow> prophecies_ok s \<and> powers_ok (bondedPowers s) \<and> votes_signed S B ms s"

lemma signed_vote_mono: "signed_vote S B ms i v text \<Longrightarrow> signed_vote S B (m # ms) i v text"
  by (auto simp: signed_vote_def)

lemma bridge_inv_frame:
  assumes "bridge_inv S B ms s" "oracle_part t = oracle_part s"
  shows "bridge_inv S B ms t" "bridge_inv S B (m # ms) t"
  using assms signed_vote_mono [of S B ms]
  by (auto simp: bridge_inv_def oracle_part_def prophecies_ok_def votes_signed_def GetProphecy_def)

lemma open_votes: "kv_get (validatorClaims (open_prophecy i s)) v = Some x \<Longrightarrow>
    \<exists>p. GetProphecy i s = Some p \<and> kv_get (validatorClaims p) v = Some x"
  by (auto simp: open_prophecy_def NewProphecy_def split: option.splits)

lemma bridge_inv_store: "bridge_inv S B ms s \<Longrightarrow> prophecies t = prophecies s \<Longrightarrow> powers_ok (bondedPowers t) \<Longrightarrow> bridge_inv S B ms t"
  by (simp add: bridge_inv_def prophecies_ok_def votes_signed_def GetProphecy_def)

lemma ProcessClaim_votes_signed:
  assumes pc: "ProcessClaim V ord c (NewClaim i v text) s = (Ok st, u)" and can: "\<forall>x y. V x = Some y \<longrightarrow> V y = Some y"
    and inv: "bridge_inv S B ms s" and new: "signed_vote S B (m # ms) i v text"
  shows "bridge_inv S B (m # ms) u"
proof -
  have ok: "prophecies_ok s" "powers_ok (bondedPowers s)" and old: "votes_signed S B ms s"
    using inv by (auto simp: bridge_inv_def)
  from ProcessClaim_votes [OF pc can ok(1)]
  have u: "u = s\<lparr>prophecies := kv_put i ((AddClaim v text (open_prophecy i s))\<lparr>prophecyStatus := st\<rparr>) (prophecies s)\<rparr>"
    by auto
  have wf: "kv_wf (prophecies s)" "kv_wf (validatorClaims (open_prophecy i s))"
    using ok(1) open_prophecy_ok [OF ok(1)] by (simp_all add: prophecies_ok_def votes_ok_def)
  have "signed_vote S B (m # ms) j w x" if q: "GetProphecy j u = Some q" "kv_get (validatorClaims q) w = Some x" for j q w x
  proof (cases "j = i \<and> w = v")
    case True
    then have "x = text" using q wf by (auto simp: u GetProphecy_def AddClaim_def Let_def)
    with new True show ?thesis by simp
  next
    case False
    then have "\<exists>p. GetProphecy j s = Some p \<and> kv_get (validatorClaims p) w = Some x"
      using q wf open_votes [of i s w x] by (auto simp: u GetProphecy_def AddClaim_def Let_def split: if_splits)
    with old have "signed_vote S B ms j w x" by (auto simp: votes_signed_def)
    then show ?thesis by (rule signed_vote_mono)
  qed
  then have "votes_signed S B (m # ms) u" by (simp add: votes_signed_def)
  moreover have "prophecies_ok u" by (rule ProcessClaim_keeps [OF pc can ok(1)])
  ultimately show ?thesis using ok(2) u by (simp add: bridge_inv_def)
qed

context bridge_laws
begin

lemma run_bridge_inv:
  assumes inv: "bridge_inv S B ms s" and run: "run_bridge S B ord c m s = (Ok (), t)"
  shows "bridge_inv S B (m # ms) t"
proof (cases "\<exists>claim. m = MsgCreateEthBridgeClaim claim")
  case False
  then have "oracle_part t = oracle_part s" using preservesD [OF handler_oracle run] by blast
  with inv show ?thesis by (rule bridge_inv_frame)
next
  case True
  then obtain claim where m: "m = MsgCreateEthBridgeClaim claim" by blast
  from claim_Ok [OF run [unfolded m]] obtain content st u where ec: "eth_content S B claim = Some content"
    and pc: "ProcessClaim (val_from_bech32 B) ord c (NewClaim (oracle_id claim) (ethValidator claim) (claim_to_json B content)) s = (Ok st, u)"
    and t: "if statusText st = STATUS_TEXT_SUCCESS then ProcessSuccessfulClaim S B (finalClaim st) u = (Ok (), t) else t = u"
    by blast
  have "signed_vote S B (m # ms) (oracle_id claim) (ethValidator claim) (claim_to_json B content)"
    using ec by (auto simp: signed_vote_def m)
  then have u: "bridge_inv S B (m # ms) u"
    using ProcessClaim_votes_signed [OF pc _ inv] val_canonical by blast
  moreover have "oracle_part t = oracle_part u"
    using t preservesD [OF ProcessSuccessfulClaim_oracle] by (cases "statusText st = STATUS_TEXT_SUCCESS") auto
  ultimately show ?thesis by (rule bridge_inv_frame)
qed

lemma bridge_run_inv: "bridge_run S B s0 ms s \<Longrightarrow> bridge_inv S B ms0 s0 \<Longrightarrow> bridge_inv S B (ms @ ms0) s"
proof (induction rule: bridge_run.induct)
  case (tx ms s ord m t)
  then show ?case using run_bridge_inv by fastforce
next
  case (other ms s t)
  then show ?case using bridge_inv_store by blast
qed simp

lemma bridge_genesis_inv: "prophecies s = [] \<Longrightarrow> powers_ok (bondedPowers s) \<Longrightarrow> bridge_inv S B [] s"
  by (simp add: bridge_inv_def prophecies_ok_def votes_signed_def GetProphecy_def)

text \<open>A prophecy that is decided stays as it is, and no claim with its id is accepted any more.\<close>

lemma claim_decided:
  assumes inv: "bridge_inv S B ms s"
    and p: "GetProphecy (oracle_id claim) s = Some p" "statusText (prophecyStatus p) \<noteq> STATUS_TEXT_PENDING"
  shows "run_bridge S B ord c (MsgCreateEthBridgeClaim claim) s \<noteq> (Ok (), t)"
proof
  assume "run_bridge S B ord c (MsgCreateEthBridgeClaim claim) s = (Ok (), t)"
  from claim_Ok [OF this] obtain content st u where
    pc: "ProcessClaim (val_from_bech32 B) ord c (NewClaim (oracle_id claim) (ethValidator claim) (claim_to_json B content)) s = (Ok st, u)"
    by blast
  have v: "votes_ok p" using inv p(1) by (auto simp: bridge_inv_def prophecies_ok_def GetProphecy_def)
  have "statusText (prophecyStatus p) = STATUS_TEXT_PENDING"
    using ProcessClaim_Ok [OF pc _ v] p(1) val_canonical by auto
  with p(2) show False by simp
qed

lemma claim_elsewhere:
  assumes inv: "bridge_inv S B ms s" and run: "run_bridge S B ord c m s = (Ok (), t)"
    and p: "GetProphecy i s = Some p" "statusText (prophecyStatus p) \<noteq> STATUS_TEXT_PENDING"
  shows "GetProphecy i t = Some p"
proof (cases "\<exists>claim. m = MsgCreateEthBridgeClaim claim")
  case False
  then have "oracle_part t = oracle_part s" using preservesD [OF handler_oracle run] by blast
  with p show ?thesis by (simp add: oracle_part_def GetProphecy_def)
next
  case True
  then obtain claim where m: "m = MsgCreateEthBridgeClaim claim" by blast
  from claim_Ok [OF run [unfolded m]] obtain content st u where
    pc: "ProcessClaim (val_from_bech32 B) ord c (NewClaim (oracle_id claim) (ethValidator claim) (claim_to_json B content)) s = (Ok st, u)"
    and t: "if statusText st = STATUS_TEXT_SUCCESS then ProcessSuccessfulClaim S B (finalClaim st) u = (Ok (), t) else t = u"
    by blast
  have ne: "oracle_id claim \<noteq> i" using claim_decided [OF inv _ p(2)] p(1) run m by blast
  have "GetProphecy i u = Some p"
    using ProcessClaim_votes [OF pc] inv val_canonical ne p(1) by (auto simp: bridge_inv_def prophecies_ok_def GetProphecy_def)
  moreover have "oracle_part t = oracle_part u"
    using t preservesD [OF ProcessSuccessfulClaim_oracle] by (cases "statusText st = STATUS_TEXT_SUCCESS") auto
  ultimately show ?thesis by (simp add: oracle_part_def GetProphecy_def)
qed

lemma decided_for_good:
  assumes "bridge_run S B s ms' t" and inv: "bridge_inv S B ms s"
    and p: "GetProphecy i s = Some p" "statusText (prophecyStatus p) \<noteq> STATUS_TEXT_PENDING"
  shows "GetProphecy i t = Some p \<and> (\<forall>claim. oracle_id claim = i \<longrightarrow> MsgCreateEthBridgeClaim claim \<notin> set ms')"
  using assms(1)
proof (induction rule: bridge_run.induct)
  case (tx ms' s' ord m t)
  then have i': "bridge_inv S B (ms' @ ms) s'" using bridge_run_inv inv by blast
  from tx have "GetProphecy i t = Some p" using claim_elsewhere [OF i'] p(2) by blast
  moreover have "m \<noteq> MsgCreateEthBridgeClaim claim" if "oracle_id claim = i" for claim
    using claim_decided [OF i', of claim p] p(2) tx that by blast
  ultimately show ?case using tx.IH by auto
next
  case (other ms' s' t)
  then show ?case by (simp add: GetProphecy_def)
qed (use p in simp)

lemma json_votes:
  assumes "eth_content S B c = Some content'" "claim_to_json B content' = text" "claim_of_json B text = Some content"
    "ascii (ethSymbol c)"
  shows "content' = content"
proof -
  from assms(1) obtain r where r: "acc_from_bech32 S (cosmosReceiver c) = Some r"
    "content' = NewOracleClaimContent r (ethAmount c) (ethSymbol c) (hex_to_address B (tokenContractAddress c)) (ethClaimType c)"
    by (auto simp: eth_content_def)
  then have "claim_of_json B (claim_to_json B content') = Some content'"
    using assms(4) by (intro json_round_trip [of "cosmosReceiver c" _ "tokenContractAddress c"]) (simp_all add: NewOracleClaimContent_def)
  with assms(2,3) show ?thesis by simp
qed

lemma claim_backed:
  assumes inv: "bridge_inv S B ms s" and ord: "any_order ord"
    and run: "run_bridge S B ord DefaultConsensusNeeded (MsgCreateEthBridgeClaim claim) s = (Ok (), t)"
  shows "\<exists>p. GetProphecy (oracle_id claim) t = Some p \<and>
    (if statusText (prophecyStatus p) = STATUS_TEXT_SUCCESS
     then \<exists>wl content vs. GetOracleWhiteList (val_from_bech32 B) s = Ok wl \<and>
       2 * group_power (bondedPowers s) (set wl) < 3 * group_power (bondedPowers s) vs \<and>
       backed_by S B (MsgCreateEthBridgeClaim claim # ms) claim content vs \<and>
       0 \<le> contentAmount content \<and> bank t = paid_out content (bank s)
     else bank t = bank s)"
proof -
  let ?ms = "MsgCreateEthBridgeClaim claim # ms"
  let ?V = "val_from_bech32 B"
  from claim_Ok [OF run] obtain content st u where ec: "eth_content S B claim = Some content"
    and pc: "ProcessClaim ?V ord DefaultConsensusNeeded
      (NewClaim (oracle_id claim) (ethValidator claim) (claim_to_json B content)) s = (Ok st, u)"
    and t: "if statusText st = STATUS_TEXT_SUCCESS then ProcessSuccessfulClaim S B (finalClaim st) u = (Ok (), t) else t = u"
    by blast
  have ok: "prophecies_ok s" "powers_ok (bondedPowers s)" using inv by (auto simp: bridge_inv_def)
  have can: "\<forall>x y. ?V x = Some y \<longrightarrow> ?V y = Some y" using val_canonical by blast
  from ProcessClaim_votes [OF pc can ok(1)] obtain q where
    u: "u = s\<lparr>prophecies := kv_put (oracle_id claim) q (prophecies s)\<rparr>" "prophecyStatus q = st" by auto
  then have q: "GetProphecy (oracle_id claim) u = Some q" using ok(1) by (simp add: GetProphecy_def prophecies_ok_def)
  show ?thesis
  proof (cases "statusText st = STATUS_TEXT_SUCCESS")
    case False
    then show ?thesis using t q u by auto
  next
    case True
    from ProcessClaim_quorum [OF pc can ok(1) ord ok(2) True] q obtain wl where
      wl: "GetOracleWhiteList ?V s = Ok wl"
        "2 * group_power (bondedPowers s) (set wl) < 3 * group_power (bondedPowers s) (supporters q (finalClaim st))"
      by auto
    from t True have ps: "ProcessSuccessfulClaim S B (finalClaim st) u = (Ok (), t)" by simp
    from ProcessSuccessfulClaim_Ok [OF ps] obtain content' where
      c: "claim_of_json B (finalClaim st) = Some content'" "0 \<le> contentAmount content'" "bank t = paid_out content' (bank s)"
      using u(1) by auto
    have pt: "oracle_part t = oracle_part u" using preservesD [OF ProcessSuccessfulClaim_oracle ps] .
    then have qt: "GetProphecy (oracle_id claim) t = Some q" using q by (simp add: oracle_part_def GetProphecy_def)
    have "votes_signed S B ?ms t" using run_bridge_inv [OF inv run] by (simp add: bridge_inv_def)
    then have "backed_by S B ?ms claim content' (supporters q (finalClaim st))"
      using qt json_votes [OF _ _ c(1)] unfolding votes_signed_def backed_by_def supporters_def signed_vote_def by blast
    with True qt u(2) wl c(2,3) show ?thesis by auto
  qed
qed

end

section \<open>The order of loops\<close>

lemma run_bridge_order:
  assumes laws: "bridge_laws S B" and inv: "bridge_inv S B ms s" "voters_listed (val_from_bech32 B) s"
    and ord: "any_order ord" "any_order ord'"
  shows "run_bridge S B ord DefaultConsensusNeeded m s = run_bridge S B ord' DefaultConsensusNeeded m s"
proof (cases m)
  case (MsgCreateEthBridgeClaim claim)
  have can: "\<forall>x y. val_from_bech32 B x = Some y \<longrightarrow> val_from_bech32 B y = Some y"
    using bridge_laws.val_canonical [OF laws] by blast
  have "ProcessClaim (val_from_bech32 B) ord DefaultConsensusNeeded oc s =
    ProcessClaim (val_from_bech32 B) ord' DefaultConsensusNeeded oc s" for oc
    using ProcessClaim_order [OF can _ _ inv(2) ord] inv(1) by (simp add: bridge_inv_def)
  then show ?thesis
    by (simp add: MsgCreateEthBridgeClaim run_bridge_def msg_CreateEthBridgeClaim_def bridge_ProcessClaim_def bindM_def thenM_def
        liftR_def split: result.split)
qed (simp_all add: run_bridge_def)

end
