(* ===== verification/BridgeTransfers.thy ===== *)
theory BridgeTransfers
  imports BridgeClaims
begin

text \<open>
  Coins that leave over the bridge: an accepted \<open>MsgLock\<close> or \<open>MsgBurn\<close> takes the amount and the fee from the
  sender, destroys the amount and gives the fee to the account set for it, or to the module
  (\<open>run_Lock_Ok\<close>, \<open>run_Burn_Ok\<close>). The theory ends with the instance \<open>bridge_ref\<close> of the bridge's environment.
\<close>

definition fee_account :: "sdk \<Rightarrow> 's bridge_state_scheme \<Rightarrow> string" where
  "fee_account S s = (case GetCethReceiverAccount S s of None \<Rightarrow> module_address S BridgeModule | Some r \<Rightarrow> r)"

definition sent_out :: "string \<Rightarrow> string \<Rightarrow> MsgTransfer \<Rightarrow> bank \<Rightarrow> bank" where
  "sent_out a f m bk =
     (let b = move_coins a f [(CethSymbol, nat (transferCeth m))] bk in
      b(a := (b a)(transferSymbol m := b a (transferSymbol m) - nat (transferAmount m))))"

definition can_send_out :: "string \<Rightarrow> string \<Rightarrow> MsgTransfer \<Rightarrow> bank \<Rightarrow> bool" where
  "can_send_out a f m bk \<longleftrightarrow> nat (transferCeth m) \<le> bk a CethSymbol \<and>
     nat (transferAmount m) \<le> move_coins a f [(CethSymbol, nat (transferCeth m))] bk a (transferSymbol m)"

context sdk_laws
begin

text \<open>Coins that go to the module, part of which it burns.\<close>

lemma send_and_burn:
  assumes send: "send_acc_to_mod S a md cs bk = Ok b1" and burn: "burn_coins S md cs' b1 = Ok b2"
    and a: "a \<noteq> module_address S md"
    and cs: "\<And>d. amount_of cs d = fee d + amount_of cs' d"
  shows "fee d + amount_of cs' d \<le> bk a d"
    and "b2 x d = (if x = a then bk a d - fee d - amount_of cs' d
      else if x = module_address S md then bk x d + fee d else bk x d)"
  using send_acc_to_mod [OF send] burn_coins [OF burn] a cs by (auto simp: move_coins_def)

lemma fee_then_send:
  assumes fee: "one_coin_list S CethSymbol (transferCeth m) = Ok cf" "send_coins S a r cf bk = Ok b0"
    and amt: "one_coin_list S (transferSymbol m) (transferAmount m) = Ok cs" "send_acc_to_mod S a md cs b0 = Ok b1"
    and burn: "burn_coins S md cs b1 = Ok b2" and a: "a \<noteq> module_address S md"
  shows "can_send_out a r m bk \<and> b2 = sent_out a r m bk"
proof -
  have cf: "amount_of cf d = (if d = CethSymbol then nat (transferCeth m) else 0)"
    and cs: "amount_of cs d = (if d = transferSymbol m then nat (transferAmount m) else 0)" for d
    using one_coin_list_Ok [OF fee(1)] one_coin_list_Ok [OF amt(1)] by blast+
  have b0: "nat (transferCeth m) \<le> bk a CethSymbol" "b0 = move_coins a r [(CethSymbol, nat (transferCeth m))] bk"
    using send_coins [OF fee(2)] cf by (auto simp: move_coins_def fun_eq_iff dest: spec [of _ CethSymbol])
  note sb = send_and_burn [OF amt(2) burn a, of "\<lambda>_. 0"]
  have "nat (transferAmount m) \<le> b0 a (transferSymbol m)" using sb(1) [of "transferSymbol m"] cs by simp
  moreover have "b2 = b0(a := (b0 a)(transferSymbol m := b0 a (transferSymbol m) - nat (transferAmount m)))"
    using sb(2) cs by (auto simp: fun_eq_iff)
  ultimately show ?thesis using b0 by (simp add: can_send_out_def sent_out_def Let_def)
qed

lemma send_with_fee:
  assumes send: "send_acc_to_mod S a md cs bk = Ok b1" "burn_coins S md cs' b1 = Ok b2" "a \<noteq> module_address S md"
    and cs: "\<And>d. amount_of cs d = (if d = CethSymbol then nat (transferCeth m) else 0) + amount_of cs' d"
    and cs': "one_coin_list S (transferSymbol m) (transferAmount m) = Ok cs'"
  shows "can_send_out a (module_address S md) m bk \<and> b2 = sent_out a (module_address S md) m bk"
proof -
  have c': "amount_of cs' d = (if d = transferSymbol m then nat (transferAmount m) else 0)" for d
    using one_coin_list_Ok [OF cs'] by blast
  note sb = send_and_burn [OF send cs]
  show ?thesis
    using sb(1) [of CethSymbol] sb(1) [of "transferSymbol m"] sb(2) send(3)
    by (auto simp: can_send_out_def sent_out_def Let_def move_coins_def c' fun_eq_iff split: if_splits)
qed

lemma ProcessLock_Ok:
  assumes "ProcessLock S a m s = (Ok (), t)" "a \<noteq> module_address S BridgeModule"
  shows "\<not> IsBlacklisted (transferReceiver m) s \<and> can_send_out a (fee_account S s) m (bank s) \<and>
    t = s\<lparr>bank := sent_out a (fee_account S s) m (bank s)\<rparr>"
proof (cases "GetCethReceiverAccount S s")
  case None
  from assms(1) None obtain cs cs' b1 b2 where
    c: "\<not> IsBlacklisted (transferReceiver m) s"
      "two_coin_list S (transferSymbol m) (transferAmount m) CethSymbol (transferCeth m) = Ok cs"
      "send_acc_to_mod S a BridgeModule cs (bank s) = Ok b1"
      "one_coin_list S (transferSymbol m) (transferAmount m) = Ok cs'" "burn_coins S BridgeModule cs' b1 = Ok b2"
      "t = s\<lparr>bank := b2\<rparr>"
    by (auto simp: ProcessLock_def result_inv op_inv send_defs)
  have "amount_of cs d = (if d = CethSymbol then nat (transferCeth m) else 0) + amount_of cs' d" for d
    using two_coin_list_Ok [OF c(2), of d] one_coin_list_Ok [OF c(4), of d] by simp
  from send_with_fee [OF c(3,5) assms(2) this c(4)] c(1,6) None show ?thesis by (simp add: fee_account_def)
next
  case (Some r)
  from assms(1) Some obtain cf cs b0 b1 b2 where
    c: "\<not> IsBlacklisted (transferReceiver m) s"
      "one_coin_list S CethSymbol (transferCeth m) = Ok cf" "send_coins S a r cf (bank s) = Ok b0"
      "one_coin_list S (transferSymbol m) (transferAmount m) = Ok cs" "send_acc_to_mod S a BridgeModule cs b0 = Ok b1"
      "burn_coins S BridgeModule cs b1 = Ok b2" "t = s\<lparr>bank := b2\<rparr>"
    by (auto simp: ProcessLock_def pay_fee_def result_inv op_inv send_defs)
  from fee_then_send [OF c(2-6) assms(2)] c(1,7) Some show ?thesis by (simp add: fee_account_def)
qed

lemma ProcessBurn_Ok:
  assumes "ProcessBurn S a m s = (Ok (), t)" "a \<noteq> module_address S BridgeModule"
    "0 \<le> transferAmount m" "0 \<le> transferCeth m"
  shows "\<not> IsBlacklisted (transferReceiver m) s \<and> can_send_out a (fee_account S s) m (bank s) \<and>
    t = s\<lparr>bank := sent_out a (fee_account S s) m (bank s)\<rparr>"
proof (cases "GetCethReceiverAccount S s")
  case None
  from assms(1) None obtain cs cs' b1 b2 where
    c: "\<not> IsBlacklisted (transferReceiver m) s"
      "(if transferSymbol m = CethSymbol then rbind (int_add S (transferCeth m) (transferAmount m)) (one_coin_list S CethSymbol)
        else two_coin_list S (transferSymbol m) (transferAmount m) CethSymbol (transferCeth m)) = Ok cs"
      "send_acc_to_mod S a BridgeModule cs (bank s) = Ok b1"
      "one_coin_list S (transferSymbol m) (transferAmount m) = Ok cs'" "burn_coins S BridgeModule cs' b1 = Ok b2"
      "t = s\<lparr>bank := b2\<rparr>"
    by (auto simp: ProcessBurn_def result_inv op_inv send_defs)
  have "amount_of cs d = (if d = CethSymbol then nat (transferCeth m) else 0) + amount_of cs' d" for d
  proof (cases "transferSymbol m = CethSymbol")
    case True
    then have k: "one_coin_list S CethSymbol (transferCeth m + transferAmount m) = Ok cs"
      using c(2) by (auto simp: result_inv dest: int_add)
    show ?thesis
      using one_coin_list_Ok [OF k, of d] one_coin_list_Ok [OF c(4), of d] assms(3,4) True
      by (simp add: nat_add_distrib)
  next
    case False
    then show ?thesis using c(2) two_coin_list_Ok [of _ _ _ _ cs d] one_coin_list_Ok [OF c(4), of d] by auto
  qed
  from send_with_fee [OF c(3,5) assms(2) this c(4)] c(1,6) None show ?thesis by (simp add: fee_account_def)
next
  case (Some r)
  from assms(1) Some obtain cf cs b0 b1 b2 where
    c: "\<not> IsBlacklisted (transferReceiver m) s"
      "one_coin_list S CethSymbol (transferCeth m) = Ok cf" "send_coins S a r cf (bank s) = Ok b0"
      "one_coin_list S (transferSymbol m) (transferAmount m) = Ok cs" "send_acc_to_mod S a BridgeModule cs b0 = Ok b1"
      "burn_coins S BridgeModule cs b1 = Ok b2" "t = s\<lparr>bank := b2\<rparr>"
    by (auto simp: ProcessBurn_def pay_fee_def result_inv op_inv send_defs)
  from fee_then_send [OF c(2-6) assms(2)] c(1,7) Some show ?thesis by (simp add: fee_account_def)
qed

lemma run_Lock_Ok:
  assumes "run_bridge S B ord c (MsgLock m) s = (Ok (), t)" "acc_from_bech32 S (transferSender m) = Some a"
    "a \<noteq> module_address S BridgeModule"
  shows "\<not> bridgePaused s \<and> transferSymbol m \<notin> set (peggyTokens s) \<and> \<not> IsBlacklisted (transferReceiver m) s \<and> accounts s a \<and>
    0 < transferAmount m \<and> GasCost \<le> transferCeth m \<and> can_send_out a (fee_account S s) m (bank s) \<and>
    t = s\<lparr>bank := sent_out a (fee_account S s) m (bank s)\<rparr>"
proof -
  from assms(1,2) have "ProcessLock S a m s = (Ok (), t)" "\<not> bridgePaused s" "transferSymbol m \<notin> set (peggyTokens s)"
    "accounts s a" "0 < transferAmount m" "GasCost \<le> transferCeth m"
    by (auto simp: run_bridge_def msg_Lock_def sender_account_def result_inv IsPaused_def ExistsPeggyToken_def GetPeggyToken_def
        MsgLock_ValidateBasic_def check_def list_ex_iff split: if_splits)
  with ProcessLock_Ok [OF _ assms(3)] show ?thesis by blast
qed

lemma run_Burn_Ok:
  assumes "run_bridge S B ord c (MsgBurn m) s = (Ok (), t)" "acc_from_bech32 S (transferSender m) = Some a"
    "a \<noteq> module_address S BridgeModule"
  shows "\<not> bridgePaused s \<and> transferSymbol m \<in> set (peggyTokens s) \<and> \<not> IsBlacklisted (transferReceiver m) s \<and> accounts s a \<and>
    0 < transferAmount m \<and> GasCost \<le> transferCeth m \<and> can_send_out a (fee_account S s) m (bank s) \<and>
    t = s\<lparr>bank := sent_out a (fee_account S s) m (bank s)\<rparr>"
proof -
  from assms(1,2) have p: "ProcessBurn S a m s = (Ok (), t)" and c: "\<not> bridgePaused s" "transferSymbol m \<in> set (peggyTokens s)"
    "accounts s a" "0 < transferAmount m" "GasCost \<le> transferCeth m"
    by (auto simp: run_bridge_def msg_Burn_def sender_account_def result_inv IsPaused_def ExistsPeggyToken_def GetPeggyToken_def
        MsgBurn_ValidateBasic_def check_def list_ex_iff Let_def split: if_splits)
  moreover have "0 \<le> transferCeth m" using c(5) by (simp add: GasCost_def)
  ultimately show ?thesis using ProcessBurn_Ok [OF p assms(3)] by auto
qed

end

section \<open>An instance of the laws\<close>

definition enc :: "string \<Rightarrow> string" where
  "enc s = replicate (length s) CHR ''1'' @ CHR ''0'' # s"

definition dec :: "string \<Rightarrow> string \<times> string" where
  "dec t = (let n = length (takeWhile (\<lambda>ch. ch = CHR ''1'') t) in (take n (drop (Suc n) t), drop (Suc (2 * n)) t))"

fun type_char :: "ClaimType \<Rightarrow> char" where
  "type_char CLAIM_TYPE_UNSPECIFIED = CHR ''0''"
| "type_char CLAIM_TYPE_BURN = CHR ''1''"
| "type_char CLAIM_TYPE_LOCK = CHR ''2''"

definition char_type :: "char \<Rightarrow> ClaimType" where
  "char_type ch = (if ch = CHR ''1'' then CLAIM_TYPE_BURN else if ch = CHR ''2'' then CLAIM_TYPE_LOCK else CLAIM_TYPE_UNSPECIFIED)"

fun int_ref :: "string \<Rightarrow> int option" where
  "int_ref (ch # t) = (if ch = CHR ''-'' then map_option uminus (digits_ref t) else digits_ref (ch # t))"
| "int_ref [] = None"

definition json_ref :: "OracleClaimContent \<Rightarrow> string" where
  "json_ref c = type_char (contentType c) # enc (contentReceiver c) @ enc (show_int (contentAmount c)) @
     enc (contentSymbol c) @ enc (contentToken c)"

fun unjson_ref :: "string \<Rightarrow> OracleClaimContent option" where
  "unjson_ref (ch # t) =
     (let (r, t1) = dec t; (a, t2) = dec t1; (d, t3) = dec t2; (k, t4) = dec t3 in
      map_option (\<lambda>i. NewOracleClaimContent r i d k (char_type ch)) (int_ref a))"
| "unjson_ref [] = None"

definition bridge_ref :: bridge_env where
  "bridge_ref = \<lparr>val_from_bech32 = (\<lambda>s. if s = [] then None else Some s),
     is_hex_address = (\<lambda>s. length s = 42 \<and> take 2 s = ''0x''),
     hex_to_address = (\<lambda>s. if length s = 42 \<and> take 2 s = ''0x'' then s else ''0x0000000000000000000000000000000000000000''),
     claim_to_json = json_ref, claim_of_json = unjson_ref\<rparr>"

lemma dec_enc: "dec (enc s @ t) = (s, t)"
proof -
  have "takeWhile (\<lambda>ch. ch = CHR ''1'') (enc s @ t) = replicate (length s) CHR ''1''"
    by (simp add: enc_def takeWhile_append)
  then show ?thesis by (simp add: dec_def Let_def enc_def)
qed

lemma digits_from_append: "digits_from a (xs @ ys) = (case digits_from a xs of None \<Rightarrow> None | Some b \<Rightarrow> digits_from b ys)"
  by (induction a xs rule: digits_from.induct) (auto split: option.split)

lemma digit_value_char: "k < 10 \<Longrightarrow> digit_value (char_of (48 + k :: nat)) = Some (int k)"
  by (simp add: digit_value_def Let_def)

lemma digits_from_digits: "digits_from 0 (digits n) = Some (int n)"
proof (induction n rule: digits.induct)
  case (1 n)
  show ?case
  proof (cases "n < 10")
    case True
    then show ?thesis by (subst digits.simps) (simp add: digit_value_char)
  next
    case False
    moreover have "10 * int (n div 10) + int (n mod 10) = int n" using div_mult_mod_eq [of n 10] by linarith
    ultimately show ?thesis using 1
      by (subst digits.simps) (simp add: digits_from_append digit_value_char)
  qed
qed

lemma digits_head: "digits n \<noteq> [] \<and> hd (digits n) \<noteq> CHR ''-''"
proof (induction n rule: digits.induct)
  case (1 n)
  show ?case
  proof (cases "n < 10")
    case True
    then have "of_char (char_of (48 + n) :: char) \<noteq> (of_char (CHR ''-'') :: nat)" by simp
    then have "char_of (48 + n) \<noteq> CHR ''-''" by metis
    with True show ?thesis by (subst (1 2) digits.simps) simp
  next
    case False
    with 1 show ?thesis by (subst (1 2) digits.simps) simp
  qed
qed

lemma int_ref_show: "int_ref (show_int i) = Some i"
proof (cases "i < 0")
  case True
  then show ?thesis using digits_head [of "nat (- i)"] by (simp add: show_int_def digits_ref_def digits_from_digits)
next
  case False
  then show ?thesis using digits_head [of "nat i"] digits_from_digits [of "nat i"]
    by (cases "digits (nat i)") (simp_all add: show_int_def digits_ref_def)
qed

lemma json_ref_round_trip: "unjson_ref (json_ref c) = Some c"
proof -
  have "char_type (type_char (contentType c)) = contentType c"
    by (cases "contentType c") (simp_all add: char_type_def)
  then show ?thesis
    using dec_enc [of "contentToken c" "[]"] by (simp add: json_ref_def dec_enc int_ref_show NewOracleClaimContent_def)
qed

interpretation bridge: bridge_laws sdk_ref bridge_ref
  by unfold_locales (auto simp: bridge_ref_def json_ref_round_trip split: if_splits)

end
