(* ===== verification/BridgeDemo.thy ===== *)
theory BridgeDemo
  imports BridgeTransfers Demo
begin

text \<open>A small state of the bridge, with which the properties are tried out: three validators of power 2, 2 and 1.\<close>

definition eth_address :: string where
  "eth_address = ''0x0000000000000000000000000000000000000000''"

definition demo_claim :: "string \<Rightarrow> EthBridgeClaim" where
  "demo_claim v = \<lparr>ethereumChainId = 1, bridgeContractAddress = eth_address, ethNonce = 7, ethSymbol = ''eth'',
     tokenContractAddress = eth_address, ethereumSender = eth_address, cosmosReceiver = ''alice'', ethValidator = v,
     ethAmount = 25, ethClaimType = CLAIM_TYPE_LOCK\<rparr>"

definition demo_transfer :: MsgTransfer where
  "demo_transfer = \<lparr>transferSender = ''alice'', transferAmount = 10, transferSymbol = ''ceth'', transferChainId = 1,
     transferReceiver = eth_address, transferCeth = GasCost\<rparr>"

definition demo_text :: string where
  "demo_text = json_ref (NewOracleClaimContent ''alice'' 25 ''eth'' eth_address CLAIM_TYPE_LOCK)"

definition demo_id :: string where
  "demo_id = oracle_id (demo_claim '''')"

definition bridge_demo :: bridge_state where
  "bridge_demo = \<lparr>bank = (\<lambda>a d. if a = ''alice'' \<and> d = ''ceth'' then 10 ^ 18 else 0), height = 1, block_time = '''', adminAccounts = [],
     submitProposalFee = None, oracleWhitelist = Some [''val1'', ''val2'', ''val3''], oracleAdmin = None, prophecies = [],
     activeValidators = (\<lambda>v. v \<in> {''val1'', ''val2'', ''val3''}), bondedPowers = [(''val1'', 2), (''val2'', 2), (''val3'', 1)],
     peggyTokens = [''ceth''], cethReceiver = None, bridgeBlacklist = [], bridgePaused = False, accounts = (\<lambda>a. a = ''alice'')\<rparr>"

definition demo_vote :: "string \<Rightarrow> bridge_state \<Rightarrow> unit result \<times> bridge_state" where
  "demo_vote v = run_bridge sdk_ref bridge_ref (\<lambda>n. [0..<n]) DefaultConsensusNeeded (MsgCreateEthBridgeClaim (demo_claim v))"

definition demo_prophecy :: "string list \<Rightarrow> Status \<Rightarrow> Prophecy" where
  "demo_prophecy vs st = \<lparr>prophecyID = demo_id, prophecyStatus = st, claimValidators = [(demo_text, vs)],
     validatorClaims = map (\<lambda>v. (v, demo_text)) vs\<rparr>"

definition after_one :: bridge_state where
  "after_one = bridge_demo\<lparr>prophecies := [(demo_id, demo_prophecy [''val1''] (NewStatus STATUS_TEXT_PENDING ''''))]\<rparr>"

lemma demo_floats:
  "\<not> float_ge (float_div 2 5) DefaultConsensusNeeded" "\<not> float_less (float_div 5 5) DefaultConsensusNeeded"
  "float_ge (float_div 4 5) DefaultConsensusNeeded"
  by code_simp+

lemma demo_text_sel: "demo_text \<noteq> ''''" "unjson_ref demo_text = Some (NewOracleClaimContent ''alice'' 25 ''eth'' eth_address CLAIM_TYPE_LOCK)"
  unfolding demo_text_def by (simp add: json_ref_def) (rule json_ref_round_trip)

lemma demo_claim_sel: "oracle_id (demo_claim v) = demo_id" "demo_id \<noteq> ''''"
  "CreateOracleClaimFromEthClaim sdk_ref bridge_ref (demo_claim v) = Ok (NewClaim demo_id v demo_text)"
proof -
  show *: "oracle_id (demo_claim v) = demo_id" by (simp add: demo_id_def oracle_id_def demo_claim_def)
  show "demo_id \<noteq> ''''" by (simp add: demo_id_def oracle_id_def demo_claim_def eth_address_def)
  show "CreateOracleClaimFromEthClaim sdk_ref bridge_ref (demo_claim v) = Ok (NewClaim demo_id v demo_text)"
    unfolding CreateOracleClaimFromEthClaim_def * by (simp add: demo_claim_def sdk_ref_sel bridge_ref_def demo_text_def eth_address_def)
qed

lemma demo_valid: "v \<noteq> '''' \<Longrightarrow> MsgCreateEthBridgeClaim_ValidateBasic bridge_ref (demo_claim v) = Ok ()"
  by (simp add: MsgCreateEthBridgeClaim_ValidateBasic_def demo_claim_def check_def bridge_ref_def eth_address_def)

lemmas eval_oracle = ProcessClaim_def EnsureAddressIsInWhitelist_def GetOracleWhiteList_def checkActiveValidator_def GetProphecy_def
  NewProphecy_def NewStatus_def AddClaim_def processCompletion_def FindHighestClaim_def in_order_def inWhiteList_def
  claim_power_def power_of_def SetProphecy_def SetDBProphecy_def kv_get_def to_i64_def

lemma bridge_ref_sel:
  "val_from_bech32 bridge_ref x = (if x = [] then None else Some x)" "ethValidator (demo_claim v) = v"
  "claim_of_json bridge_ref = unjson_ref"
  by (simp_all add: bridge_ref_def demo_claim_def)

lemmas eval_bridge = eval_monad eval_oracle demo_valid msg_CreateEthBridgeClaim_def bridge_ProcessClaim_def demo_claim_sel demo_prophecy_def
  demo_floats demo_text_sel bridge_ref_sel Let_def after_one_def bridge_demo_def

lemma demo_first: "demo_vote ''val1'' bridge_demo = (Ok (), after_one)"
  unfolding demo_vote_def run_bridge_def by (simp add: eval_bridge cong: eval_cong)

lemma demo_second: "\<exists>t. demo_vote ''val2'' after_one = (Ok (), t) \<and>
    GetProphecy demo_id t = Some (demo_prophecy [''val1'', ''val2''] (NewStatus STATUS_TEXT_SUCCESS demo_text))"
  unfolding demo_vote_def run_bridge_def
  by (simp add: eval_bridge ProcessSuccessfulClaim_def CreateOracleClaimFromOracleString_def NewOracleClaimContent_def
    AddPeggyToken_def mint_for_def one_coin_list_def ExistsPeggyToken_def GetPeggyToken_def PeggedCoinPrefix_def eval_sdk
    send_defs bank_call_def cong: eval_cong)

lemma demo_burn: "\<exists>t. run_bridge sdk_ref bridge_ref ord c (MsgBurn demo_transfer) bridge_demo = (Ok (), t)"
  unfolding run_bridge_def
  by (simp add: eval_monad msg_Burn_def MsgBurn_ValidateBasic_def check_def demo_transfer_def bridge_demo_def bridge_ref_def
    eth_address_def PeggedCoinPrefix_def GasCost_def IsPaused_def ExistsPeggyToken_def GetPeggyToken_def sender_account_def eval_sdk
    ProcessBurn_def IsBlacklisted_def GetCethReceiverAccount_def CethSymbol_def one_coin_list_def send_defs bank_call_def
    BridgeModule_def cong: eval_cong)

lemma any_order_upt: "any_order (\<lambda>n. [0..<n])"
  by (simp add: any_order_def)

lemma demo_powers: "powers_ok (bondedPowers bridge_demo)"
  by (simp add: powers_ok_def bridge_demo_def)

lemma demo_run_one: "bridge_run sdk_ref bridge_ref bridge_demo [MsgCreateEthBridgeClaim (demo_claim ''val1'')] after_one"
  using bridge_run.tx [OF bridge_run.start any_order_upt demo_first [unfolded demo_vote_def]] .

lemma demo_run_two: "\<exists>t. bridge_run sdk_ref bridge_ref bridge_demo
      [MsgCreateEthBridgeClaim (demo_claim ''val2''), MsgCreateEthBridgeClaim (demo_claim ''val1'')] t \<and>
    GetProphecy demo_id t = Some (demo_prophecy [''val1'', ''val2''] (NewStatus STATUS_TEXT_SUCCESS demo_text))"
  using demo_second bridge_run.tx [OF demo_run_one any_order_upt] unfolding demo_vote_def by blast

end
