(* ===== verification/Dispensation.thy ===== *)
theory Dispensation
  imports ClpTypes Bank
begin

text \<open>
  Airdrops and other distributions (\<open>x/dispensation\<close>). A distributor pays the sum of a list of outputs into the module
  account, one record per recipient waits until the authorized runner asks for it to be paid, and a
  record that cannot be paid is marked as failed. At every block the module also mints for the
  ecosystem pool, up to a maximum.

  The records of all three states are in one store under the prefixes of their states; a coin of an output has a
  natural amount, since \<open>ValidateBasic\<close> refuses all others. The conversion of the block time to a
  protobuf timestamp, which fails only outside the years 1 to 9999, is left out.
\<close>

section \<open>Types (types/types.pb.go, types/records.go)\<close>

datatype DistributionType = DISTRIBUTION_TYPE_UNSPECIFIED | DISTRIBUTION_TYPE_AIRDROP
  | DISTRIBUTION_TYPE_VALIDATOR_SUBSIDY | DISTRIBUTION_TYPE_LIQUIDITY_MINING

datatype DistributionStatus = DISTRIBUTION_STATUS_UNSPECIFIED | DISTRIBUTION_STATUS_PENDING
  | DISTRIBUTION_STATUS_COMPLETED | DISTRIBUTION_STATUS_FAILED

fun DistributionType_code :: "DistributionType \<Rightarrow> int" where
  "DistributionType_code DISTRIBUTION_TYPE_UNSPECIFIED = 0"
| "DistributionType_code DISTRIBUTION_TYPE_AIRDROP = 1"
| "DistributionType_code DISTRIBUTION_TYPE_VALIDATOR_SUBSIDY = 2"
| "DistributionType_code DISTRIBUTION_TYPE_LIQUIDITY_MINING = 3"

fun DistributionType_String :: "DistributionType \<Rightarrow> string" where
  "DistributionType_String DISTRIBUTION_TYPE_UNSPECIFIED = ''DISTRIBUTION_TYPE_UNSPECIFIED''"
| "DistributionType_String DISTRIBUTION_TYPE_AIRDROP = ''DISTRIBUTION_TYPE_AIRDROP''"
| "DistributionType_String DISTRIBUTION_TYPE_VALIDATOR_SUBSIDY = ''DISTRIBUTION_TYPE_VALIDATOR_SUBSIDY''"
| "DistributionType_String DISTRIBUTION_TYPE_LIQUIDITY_MINING = ''DISTRIBUTION_TYPE_LIQUIDITY_MINING''"

record DistributionRecord =
  recordStatus :: DistributionStatus
  recordType :: DistributionType
  recordName :: string
  recordRecipient :: string
  recordCoins :: "coin list"
  recordStart :: int
  recordCompleted :: int
  recordRunner :: string

record Distribution =
  distType :: DistributionType
  distName :: string
  distRunner :: string

record UserClaim =
  userAddress :: string
  userClaimType :: DistributionType
  userClaimTime :: string

type_synonym drop_output = "string \<times> coin list"     \<comment> \<open>\<open>banktypes.Output\<close>: address and coins\<close>

definition NewDistributionRecord ::
  "DistributionStatus \<Rightarrow> DistributionType \<Rightarrow> string \<Rightarrow> string \<Rightarrow> coin list \<Rightarrow> int \<Rightarrow> int \<Rightarrow> string \<Rightarrow> DistributionRecord" where
  "NewDistributionRecord st ty name recipient coins start finish runner =
     \<lparr>recordStatus = st, recordType = ty, recordName = name, recordRecipient = recipient, recordCoins = coins,
      recordStart = start, recordCompleted = finish, recordRunner = runner\<rparr>"

text \<open>\<open>Coins.IsAllPositive\<close>, which is false for no coins.\<close>

definition all_positive :: "coin list \<Rightarrow> bool" where
  "all_positive cs \<longleftrightarrow> cs \<noteq> [] \<and> list_all (\<lambda>c. 0 < snd c) cs"

definition DistributionRecord_Validate :: "sdk \<Rightarrow> DistributionRecord \<Rightarrow> bool" where
  "DistributionRecord_Validate S dr \<longleftrightarrow>
     recordRecipient dr \<noteq> '''' \<and> coins_valid S (recordCoins dr) \<and> all_positive (recordCoins dr)"

definition DistributionRecord_Add :: "sdk \<Rightarrow> DistributionRecord \<Rightarrow> DistributionRecord \<Rightarrow> DistributionRecord result" where
  "DistributionRecord_Add S dr dr2 =
     rbind (coins_plus S (recordCoins dr) (recordCoins dr2)) (\<lambda>cs. Ok (dr\<lparr>recordCoins := cs\<rparr>))"

definition DoesTypeSupportClaim :: "DistributionRecord \<Rightarrow> bool" where
  "DoesTypeSupportClaim dr \<longleftrightarrow>
     recordType dr = DISTRIBUTION_TYPE_LIQUIDITY_MINING \<or> recordType dr = DISTRIBUTION_TYPE_VALIDATOR_SUBSIDY"

definition NewUserClaim :: "string \<Rightarrow> DistributionType \<Rightarrow> string \<Rightarrow> UserClaim" where
  "NewUserClaim a ty t = \<lparr>userAddress = a, userClaimType = ty, userClaimTime = t\<rparr>"

definition UserClaim_Validate :: "UserClaim \<Rightarrow> bool" where
  "UserClaim_Validate uc \<longleftrightarrow> userAddress uc \<noteq> ''''"

definition NewDistribution :: "DistributionType \<Rightarrow> string \<Rightarrow> string \<Rightarrow> Distribution" where
  "NewDistribution ty name runner = \<lparr>distType = ty, distName = name, distRunner = runner\<rparr>"

definition Distribution_Validate :: "Distribution \<Rightarrow> bool" where
  "Distribution_Validate d \<longleftrightarrow> distName d \<noteq> ''''"

definition IsValidDistributionType :: "string \<Rightarrow> DistributionType option" where
  "IsValidDistributionType str =
     (if str = ''DISTRIBUTION_TYPE_AIRDROP'' then Some DISTRIBUTION_TYPE_AIRDROP
      else if str = ''DISTRIBUTION_TYPE_LIQUIDITY_MINING'' then Some DISTRIBUTION_TYPE_LIQUIDITY_MINING
      else if str = ''DISTRIBUTION_TYPE_VALIDATOR_SUBSIDY'' then Some DISTRIBUTION_TYPE_VALIDATOR_SUBSIDY
      else None)"

definition IsValidClaimType :: "string \<Rightarrow> DistributionType option" where
  "IsValidClaimType str =
     (if str = ''DISTRIBUTION_TYPE_LIQUIDITY_MINING'' then Some DISTRIBUTION_TYPE_LIQUIDITY_MINING
      else if str = ''DISTRIBUTION_TYPE_VALIDATOR_SUBSIDY'' then Some DISTRIBUTION_TYPE_VALIDATOR_SUBSIDY
      else None)"

definition GetDistributionStatus :: "string \<Rightarrow> DistributionStatus option" where
  "GetDistributionStatus str =
     (if str = ''Completed'' then Some DISTRIBUTION_STATUS_COMPLETED
      else if str = ''Pending'' then Some DISTRIBUTION_STATUS_PENDING
      else if str = ''Failed'' then Some DISTRIBUTION_STATUS_FAILED
      else None)"

definition GetClaimType :: "string \<Rightarrow> DistributionType option" where
  "GetClaimType str =
     (if str = ''LiquidityMining'' then Some DISTRIBUTION_TYPE_LIQUIDITY_MINING
      else if str = ''ValidatorSubsidy'' then Some DISTRIBUTION_TYPE_VALIDATOR_SUBSIDY
      else None)"

definition GetDistributionTypeFromShortString :: "string \<Rightarrow> DistributionType option" where
  "GetDistributionTypeFromShortString str =
     (if str = ''Airdrop'' then Some DISTRIBUTION_TYPE_AIRDROP
      else if str = ''LiquidityMining'' then Some DISTRIBUTION_TYPE_LIQUIDITY_MINING
      else if str = ''ValidatorSubsidy'' then Some DISTRIBUTION_TYPE_VALIDATOR_SUBSIDY
      else None)"

section \<open>Keys (types/keys.go)\<close>

definition DispensationModule :: string where
  "DispensationModule = ''dispensation''"

definition MaxMintAmount :: int where
  "MaxMintAmount = 350000000000000000000000000"

definition MintAmountPerBlock :: int where
  "MintAmountPerBlock = 225000000000000000000"

definition EcoPool :: string where
  "EcoPool = ''fury1ct2s3t8u2kffjpaekhtngzv6yc4vm97xajqyl3''"

definition MaxRecordsPerBlock :: int where
  "MaxRecordsPerBlock = 20"

fun record_prefix :: "DistributionStatus \<Rightarrow> char" where
  "record_prefix DISTRIBUTION_STATUS_PENDING = CHR 0x00"
| "record_prefix DISTRIBUTION_STATUS_COMPLETED = CHR 0x11"
| "record_prefix DISTRIBUTION_STATUS_FAILED = CHR 0x12"
| "record_prefix DISTRIBUTION_STATUS_UNSPECIFIED = CHR 0x11"

definition GetDistributionRecordKey :: "DistributionStatus \<Rightarrow> string \<Rightarrow> string \<Rightarrow> DistributionType \<Rightarrow> string" where
  "GetDistributionRecordKey st name recipient ty =
     record_prefix st # name @ ''_'' @ show_int (DistributionType_code ty) @ ''_'' @ recipient"

definition GetDistributionsKey :: "string \<Rightarrow> DistributionType \<Rightarrow> string \<Rightarrow> string" where
  "GetDistributionsKey name ty runner = name @ ''_'' @ show_int (DistributionType_code ty) @ ''_'' @ runner"

definition GetUserClaimKey :: "string \<Rightarrow> DistributionType \<Rightarrow> string" where
  "GetUserClaimKey a ty = a @ ''_'' @ show_int (DistributionType_code ty)"

section \<open>State\<close>

record disp_state = chain_state +
  distRecords :: "DistributionRecord kv"
  distributions :: "Distribution kv"
  userClaims :: "UserClaim kv"
  mintController :: "coin option"      \<comment> \<open>\<open>TotalCounter\<close>\<close>

section \<open>Distributions (keeper/distribution.go)\<close>

definition SetDistribution :: "Distribution \<Rightarrow> ('s disp_state_scheme, unit) M" where
  "SetDistribution d =
     (if \<not> Distribution_Validate d then throw ErrInvalid
      else modify (\<lambda>s. s\<lparr>distributions := kv_put (GetDistributionsKey (distName d) (distType d) (distRunner d)) d (distributions s)\<rparr>))"

definition GetDistribution :: "string \<Rightarrow> DistributionType \<Rightarrow> string \<Rightarrow> 's disp_state_scheme \<Rightarrow> Distribution result" where
  "GetDistribution name ty runner s = of_option ErrInvalid (kv_get (distributions s) (GetDistributionsKey name ty runner))"

definition ExistsDistribution :: "string \<Rightarrow> DistributionType \<Rightarrow> string \<Rightarrow> 's disp_state_scheme \<Rightarrow> bool" where
  "ExistsDistribution name ty runner s \<longleftrightarrow> kv_get (distributions s) (GetDistributionsKey name ty runner) \<noteq> None"

definition GetDistributions :: "'s disp_state_scheme \<Rightarrow> Distribution list" where
  "GetDistributions s = kv_values (distributions s)"

section \<open>Records (keeper/distributionRecords.go)\<close>

definition SetDistributionRecord :: "sdk \<Rightarrow> DistributionRecord \<Rightarrow> ('s disp_state_scheme, unit) M" where
  "SetDistributionRecord S dr =
     (if \<not> DistributionRecord_Validate S dr then throw ErrInvalid
      else modify (\<lambda>s. s\<lparr>distRecords :=
        kv_put (GetDistributionRecordKey (recordStatus dr) (recordName dr) (recordRecipient dr) (recordType dr)) dr (distRecords s)\<rparr>))"

definition GetDistributionRecord ::
  "string \<Rightarrow> string \<Rightarrow> DistributionStatus \<Rightarrow> DistributionType \<Rightarrow> 's disp_state_scheme \<Rightarrow> DistributionRecord result" where
  "GetDistributionRecord name recipient st ty s =
     of_option ErrInvalid (kv_get (distRecords s) (GetDistributionRecordKey st name recipient ty))"

definition ExistsDistributionRecord ::
  "string \<Rightarrow> string \<Rightarrow> DistributionStatus \<Rightarrow> DistributionType \<Rightarrow> 's disp_state_scheme \<Rightarrow> bool" where
  "ExistsDistributionRecord name recipient st ty s \<longleftrightarrow>
     kv_get (distRecords s) (GetDistributionRecordKey st name recipient ty) \<noteq> None"

text \<open>For an unknown state the iterator is nil and its first use panics.\<close>

definition GetDistributionRecordsIterator :: "DistributionStatus \<Rightarrow> 's disp_state_scheme \<Rightarrow> DistributionRecord list result" where
  "GetDistributionRecordsIterator st s =
     (if st = DISTRIBUTION_STATUS_UNSPECIFIED then Panic else Ok (kv_prefix [record_prefix st] (distRecords s)))"

definition DeleteDistributionRecord ::
  "string \<Rightarrow> string \<Rightarrow> DistributionStatus \<Rightarrow> DistributionType \<Rightarrow> ('s disp_state_scheme, unit) M" where
  "DeleteDistributionRecord name recipient st ty =
     bindM (gets (ExistsDistributionRecord name recipient st ty)) (\<lambda>e.
     if \<not> e then throw ErrInvalid
     else modify (\<lambda>s. s\<lparr>distRecords := kv_del (GetDistributionRecordKey st name recipient ty) (distRecords s)\<rparr>))"

definition filter_records ::
  "(DistributionRecord \<Rightarrow> bool) \<Rightarrow> DistributionStatus \<Rightarrow> 's disp_state_scheme \<Rightarrow> DistributionRecord list result" where
  "filter_records P st s = rbind (GetDistributionRecordsIterator st s) (\<lambda>rs. Ok (filter P rs))"

definition GetRecordsForNameAndStatus ::
  "string \<Rightarrow> DistributionStatus \<Rightarrow> 's disp_state_scheme \<Rightarrow> DistributionRecord list result" where
  "GetRecordsForNameAndStatus name st s = filter_records (\<lambda>dr. recordName dr = name) st s"

definition GetRecordsForNameStatusAndType ::
  "string \<Rightarrow> DistributionStatus \<Rightarrow> DistributionType \<Rightarrow> 's disp_state_scheme \<Rightarrow> DistributionRecord list result" where
  "GetRecordsForNameStatusAndType name st ty s = filter_records (\<lambda>dr. recordName dr = name \<and> recordType dr = ty) st s"

text \<open>Pending, completed and failed records one after the other.\<close>

definition all_records :: "(DistributionRecord \<Rightarrow> bool) \<Rightarrow> 's disp_state_scheme \<Rightarrow> DistributionRecord list result" where
  "all_records P s =
     rbind (filter_records P DISTRIBUTION_STATUS_PENDING s) (\<lambda>ps.
     rbind (filter_records P DISTRIBUTION_STATUS_COMPLETED s) (\<lambda>cs.
     rbind (filter_records P DISTRIBUTION_STATUS_FAILED s) (\<lambda>fs. Ok (ps @ cs @ fs))))"

definition GetRecordsForRecipient :: "string \<Rightarrow> 's disp_state_scheme \<Rightarrow> DistributionRecord list result" where
  "GetRecordsForRecipient recipient s = all_records (\<lambda>dr. recordRecipient dr = recipient) s"

definition GetRecords :: "'s disp_state_scheme \<Rightarrow> DistributionRecord list result" where
  "GetRecords s = all_records (\<lambda>_. True) s"

definition GetRecordsForName :: "string \<Rightarrow> 's disp_state_scheme \<Rightarrow> DistributionRecord list result" where
  "GetRecordsForName name s = all_records (\<lambda>dr. recordName dr = name) s"

definition GetLimitedRecordsForStatus :: "DistributionStatus \<Rightarrow> 's disp_state_scheme \<Rightarrow> DistributionRecord list result" where
  "GetLimitedRecordsForStatus st s =
     rbind (GetDistributionRecordsIterator st s) (\<lambda>rs. Ok (take (nat MaxRecordsPerBlock) rs))"

text \<open>The loop stops when the number of hits equals the count asked for, so that a negative count never stops it.\<close>

fun limited :: "(DistributionRecord \<Rightarrow> bool) \<Rightarrow> int \<Rightarrow> int \<Rightarrow> DistributionRecord list \<Rightarrow> DistributionRecord list" where
  "limited P count n [] = []"
| "limited P count n (dr # rs) =
     (if count = n then [] else if P dr then dr # limited P (to_i64 (count + 1)) n rs else limited P count n rs)"

definition GetLimitedRecordsForRunner ::
  "string \<Rightarrow> string \<Rightarrow> DistributionType \<Rightarrow> DistributionStatus \<Rightarrow> int \<Rightarrow> 's disp_state_scheme \<Rightarrow> DistributionRecord list result" where
  "GetLimitedRecordsForRunner name runner ty st n s =
     rbind (GetDistributionRecordsIterator st s) (\<lambda>rs.
     Ok (limited (\<lambda>dr. recordName dr = name \<and> recordStatus dr = DISTRIBUTION_STATUS_PENDING \<and>
            recordRunner dr = runner \<and> recordType dr = ty) 0 n rs))"

definition ChangeRecordStatus ::
  "sdk \<Rightarrow> DistributionRecord \<Rightarrow> int \<Rightarrow> DistributionStatus \<Rightarrow> ('s disp_state_scheme, unit) M" where
  "ChangeRecordStatus S dr h st =
     thenM (wrapM ErrDistribution (SetDistributionRecord S (dr\<lparr>recordStatus := st, recordCompleted := h\<rparr>))) (
     wrapM ErrDistribution (DeleteDistributionRecord (recordName dr) (recordRecipient dr) (recordStatus dr) (recordType dr)))"

section \<open>User claims (keeper/userclaim.go)\<close>

definition SetClaim :: "UserClaim \<Rightarrow> ('s disp_state_scheme, unit) M" where
  "SetClaim uc =
     (if \<not> UserClaim_Validate uc then throw ErrInvalid
      else modify (\<lambda>s. s\<lparr>userClaims := kv_put (GetUserClaimKey (userAddress uc) (userClaimType uc)) uc (userClaims s)\<rparr>))"

definition GetClaim :: "string \<Rightarrow> DistributionType \<Rightarrow> 's disp_state_scheme \<Rightarrow> UserClaim result" where
  "GetClaim recipient ty s = of_option ErrInvalid (kv_get (userClaims s) (GetUserClaimKey recipient ty))"

definition ExistsClaim :: "string \<Rightarrow> DistributionType \<Rightarrow> 's disp_state_scheme \<Rightarrow> bool" where
  "ExistsClaim recipient ty s \<longleftrightarrow> kv_get (userClaims s) (GetUserClaimKey recipient ty) \<noteq> None"

definition DeleteClaim :: "string \<Rightarrow> DistributionType \<Rightarrow> ('s disp_state_scheme, unit) M" where
  "DeleteClaim recipient ty = modify (\<lambda>s. s\<lparr>userClaims := kv_del (GetUserClaimKey recipient ty) (userClaims s)\<rparr>)"

definition GetClaims :: "'s disp_state_scheme \<Rightarrow> UserClaim list" where
  "GetClaims s = kv_values (userClaims s)"

definition GetClaimsByType :: "DistributionType \<Rightarrow> 's disp_state_scheme \<Rightarrow> UserClaim list" where
  "GetClaimsByType ty s = filter (\<lambda>uc. userClaimType uc = ty) (kv_values (userClaims s))"

section \<open>Executors (keeper/executors.go)\<close>

definition create_drop :: "sdk \<Rightarrow> string \<Rightarrow> DistributionType \<Rightarrow> string \<Rightarrow> drop_output \<Rightarrow> ('s disp_state_scheme, unit) M" where
  "create_drop S name ty runner out =
     bindM (gets height) (\<lambda>h.
     let dr = NewDistributionRecord DISTRIBUTION_STATUS_PENDING ty name (fst out) (snd out) h (- 1) runner in
     bindM (gets (ExistsDistributionRecord name (fst out) DISTRIBUTION_STATUS_PENDING ty)) (\<lambda>e.
     bindM (if e
            then bindM (getsR (\<lambda>s. rwrap ErrDistribution (GetDistributionRecord name (fst out) DISTRIBUTION_STATUS_PENDING ty s))) (\<lambda>old.
                 liftR (DistributionRecord_Add S dr old))
            else ret dr) (\<lambda>dr'.
     wrapM ErrFailedOutputs (SetDistributionRecord S dr'))))"

definition CreateDrops :: "sdk \<Rightarrow> drop_output list \<Rightarrow> string \<Rightarrow> DistributionType \<Rightarrow> string \<Rightarrow> ('s disp_state_scheme, unit) M" where
  "CreateDrops S outs name ty runner = eachM (create_drop S name ty runner) outs"

text \<open>
  One record of \<open>DistributeDrops\<close>. A recipient that does not parse is skipped; a transfer that fails marks the record
  as failed; a record that cannot be marked as completed is not paid after all.
\<close>

definition pay_record :: "sdk \<Rightarrow> int \<Rightarrow> DistributionRecord \<Rightarrow> ('s disp_state_scheme, unit) M" where
  "pay_record S h dr =
     (case acc_from_bech32 S (recordRecipient dr) of
        None \<Rightarrow> ret ()
      | Some a \<Rightarrow>
          bindM (catchM (thenM (SendCoinsFromModuleToAccount S DispensationModule a (recordCoins dr)) (ret True)) (\<lambda>_. ret False)) (\<lambda>sent.
          if \<not> sent then catchM (ChangeRecordStatus S dr h DISTRIBUTION_STATUS_FAILED) (\<lambda>_. panic)
          else
          bindM (catchM (thenM (ChangeRecordStatus S dr h DISTRIBUTION_STATUS_COMPLETED) (ret True)) (\<lambda>_. ret False)) (\<lambda>ok.
          if \<not> ok then catchM (SendCoinsFromAccountToModule S a DispensationModule (recordCoins dr)) (\<lambda>_. panic)
          else if DoesTypeSupportClaim dr then DeleteClaim (recordRecipient dr) (recordType dr)
          else ret ())))"

definition DistributeDrops ::
  "sdk \<Rightarrow> int \<Rightarrow> string \<Rightarrow> string \<Rightarrow> DistributionType \<Rightarrow> int \<Rightarrow> ('s disp_state_scheme, DistributionRecord list) M" where
  "DistributeDrops S h name runner ty n =
     bindM (getsR (GetLimitedRecordsForRunner name runner ty DISTRIBUTION_STATUS_PENDING n)) (\<lambda>rs.
     thenM (eachM (pay_record S h) rs) (ret rs))"

definition AccumulateDrops :: "sdk \<Rightarrow> string \<Rightarrow> coin list \<Rightarrow> ('s disp_state_scheme, unit) M" where
  "AccumulateDrops S addr amount =
     bindM (liftR (of_option (ErrSdk ''bech32'') (acc_from_bech32 S addr))) (\<lambda>a.
     wrapM ErrFailedInputs (SendCoinsFromAccountToModule S a DispensationModule amount))"

definition VerifyAndSetDistribution :: "string \<Rightarrow> DistributionType \<Rightarrow> string \<Rightarrow> ('s disp_state_scheme, unit) M" where
  "VerifyAndSetDistribution name ty runner =
     bindM (gets (ExistsDistribution name ty runner)) (\<lambda>e.
     if e then throw ErrDistribution
     else wrapM ErrDistribution (SetDistribution (NewDistribution ty name runner)))"

section \<open>Minting (keeper/mint\_controller.go, abci.go)\<close>

definition SetMintController :: "coin \<Rightarrow> ('s disp_state_scheme, unit) M" where
  "SetMintController c = modify (\<lambda>s. s\<lparr>mintController := Some c\<rparr>)"

definition GetMintController :: "'s disp_state_scheme \<Rightarrow> coin option" where
  "GetMintController s = mintController s"

definition AddMintAmount :: "sdk \<Rightarrow> coin \<Rightarrow> ('s disp_state_scheme, unit) M" where
  "AddMintAmount S minted =
     bindM (gets GetMintController) (\<lambda>found.
     case found of
       None \<Rightarrow> throw ErrNotFoundMintController
     | Some c \<Rightarrow> bindM (liftR (coin_add S c minted)) SetMintController)"

text \<open>\<open>Coin.IsLT\<close> panics on different denominations.\<close>

definition coin_less :: "coin \<Rightarrow> coin \<Rightarrow> bool result" where
  "coin_less c c' = (if fst c \<noteq> fst c' then Panic else Ok (snd c < snd c'))"

definition TokensCanBeMinted :: "sdk \<Rightarrow> 's disp_state_scheme \<Rightarrow> bool result" where
  "TokensCanBeMinted S s =
     (case GetMintController s of
        None \<Rightarrow> Ok False
      | Some c \<Rightarrow> rbind (new_coin S (Symbol GetSettlementAsset) MaxMintAmount) (coin_less c))"

definition IsLastBlock :: "sdk \<Rightarrow> 's disp_state_scheme \<Rightarrow> bool result" where
  "IsLastBlock S s =
     (case GetMintController s of
        None \<Rightarrow> Ok False
      | Some c \<Rightarrow> rbind (int_sub S MaxMintAmount (int (snd c))) (\<lambda>left. Ok (left \<le> MintAmountPerBlock)))"

definition mint_amount :: "sdk \<Rightarrow> 's disp_state_scheme \<Rightarrow> int option result" where
  "mint_amount S s =
     rbind (IsLastBlock S s) (\<lambda>last.
     if \<not> last then Ok (Some MintAmountPerBlock)
     else case GetMintController s of
       None \<Rightarrow> Ok None
     | Some c \<Rightarrow> rbind (int_sub S MaxMintAmount (int (snd c))) (\<lambda>left. Ok (Some left)))"

definition disp_BeginBlocker :: "sdk \<Rightarrow> ('s disp_state_scheme, unit) M" where
  "disp_BeginBlocker S =
     bindM (getsR (TokensCanBeMinted S)) (\<lambda>can.
     if \<not> can then ret ()
     else
     bindM (getsR (mint_amount S)) (\<lambda>amount.
     case amount of
       None \<Rightarrow> ret ()
     | Some n \<Rightarrow>
         bindM (liftR (one_coin_list S (Symbol GetSettlementAsset) n)) (\<lambda>coins.
         if \<not> coins_valid S coins \<or> length coins \<noteq> 1 then ret ()
         else
         case acc_from_bech32 S EcoPool of
           None \<Rightarrow> ret ()
         | Some eco \<Rightarrow>
             bindM (catchM (thenM (MintCoins S DispensationModule coins) (ret True)) (\<lambda>_. ret False)) (\<lambda>minted.
             if \<not> minted then ret ()
             else
             thenM (ignoreM (SendCoinsFromModuleToAccount S DispensationModule eco coins)) (
             ignoreM (AddMintAmount S (coins ! 0)))))))"

section \<open>Messages (types/msgs.go, keeper/msg\_server.go, handler.go)\<close>

record MsgCreateDistribution =
  createDistributor :: string
  createRunner :: string
  createType :: DistributionType
  createOutput :: "drop_output list"

record MsgRunDistribution =
  runRunner :: string
  runName :: string
  runType :: DistributionType
  runCount :: int

datatype (plugins only: code size) disp_msg =
    CreateDistribution MsgCreateDistribution
  | CreateUserClaim string DistributionType       \<comment> \<open>\<open>MsgCreateUserClaim\<close>: address and type\<close>
  | RunDistribution MsgRunDistribution

fun check_outputs :: "sdk \<Rightarrow> drop_output list \<Rightarrow> unit result" where
  "check_outputs S [] = Ok ()"
| "check_outputs S (out # outs) =
     rbind (check (acc_from_bech32 S (fst out) \<noteq> None) ErrInvalid) (\<lambda>_.
     rbind (check (coins_valid S (sort_key fst (snd out))) ErrInvalid) (\<lambda>_.
     check_outputs S outs))"

definition MsgCreateDistribution_ValidateBasic :: "sdk \<Rightarrow> MsgCreateDistribution \<Rightarrow> unit result" where
  "MsgCreateDistribution_ValidateBasic S m =
     rbind (check (IsValidDistributionType (DistributionType_String (createType m)) \<noteq> None) ErrInvalid) (\<lambda>_.
     rbind (check (createOutput m \<noteq> []) ErrInvalid) (\<lambda>_.
     rbind (check (acc_from_bech32 S (createDistributor m) \<noteq> None) ErrInvalid) (\<lambda>_.
     rbind (check (acc_from_bech32 S (createRunner m) \<noteq> None) ErrInvalid) (\<lambda>_.
     check_outputs S (createOutput m)))))"

text \<open>\<open>Coins.Sort\<close> in the check sorts the coins of the message in place.\<close>

definition sorted_outputs :: "MsgCreateDistribution \<Rightarrow> MsgCreateDistribution" where
  "sorted_outputs m = m\<lparr>createOutput := map (\<lambda>out. (fst out, sort_key fst (snd out))) (createOutput m)\<rparr>"

definition MsgCreateUserClaim_ValidateBasic :: "sdk \<Rightarrow> string \<Rightarrow> DistributionType \<Rightarrow> unit result" where
  "MsgCreateUserClaim_ValidateBasic S a ty =
     rbind (check (acc_from_bech32 S a \<noteq> None) ErrInvalidAddress) (\<lambda>_.
     check (IsValidClaimType (DistributionType_String ty) \<noteq> None) ErrInvalid)"

definition MsgRunDistribution_ValidateBasic :: "sdk \<Rightarrow> MsgRunDistribution \<Rightarrow> unit result" where
  "MsgRunDistribution_ValidateBasic S m =
     rbind (check (IsValidDistributionType (DistributionType_String (runType m)) \<noteq> None) ErrInvalid) (\<lambda>_.
     rbind (check (runName m \<noteq> '''') ErrInvalid) (\<lambda>_.
     rbind (check (acc_from_bech32 S (runRunner m) \<noteq> None) ErrInvalid) (\<lambda>_.
     check (\<not> (MaxRecordsPerBlock < runCount m \<or> runCount m \<le> 0)) ErrInvalid)))"

fun disp_ValidateBasic :: "sdk \<Rightarrow> disp_msg \<Rightarrow> unit result" where
  "disp_ValidateBasic S (CreateDistribution m) = MsgCreateDistribution_ValidateBasic S m"
| "disp_ValidateBasic S (CreateUserClaim a ty) = MsgCreateUserClaim_ValidateBasic S a ty"
| "disp_ValidateBasic S (RunDistribution m) = MsgRunDistribution_ValidateBasic S m"

text \<open>\<open>TotalOutput\<close> of \<open>utils/parser.go\<close>.\<close>

fun TotalOutput :: "sdk \<Rightarrow> drop_output list \<Rightarrow> coin list result" where
  "TotalOutput S [] = Err (ErrSdk ''no outputs'')"
| "TotalOutput S (out # outs) = rfold (\<lambda>p total. coins_plus S total (snd p)) outs (snd out)"

definition msg_CreateDistribution :: "sdk \<Rightarrow> MsgCreateDistribution \<Rightarrow> ('s disp_state_scheme, unit) M" where
  "msg_CreateDistribution S m =
     bindM (gets height) (\<lambda>h.
     let name = show_int h @ ''_'' @ createDistributor m in
     thenM (VerifyAndSetDistribution name (createType m) (createRunner m)) (
     bindM (liftR (TotalOutput S (createOutput m))) (\<lambda>total.
     thenM (AccumulateDrops S (createDistributor m) total) (
     CreateDrops S (createOutput m) name (createType m) (createRunner m)))))"

definition msg_CreateUserClaim :: "string \<Rightarrow> DistributionType \<Rightarrow> ('s disp_state_scheme, unit) M" where
  "msg_CreateUserClaim a ty =
     bindM (gets (ExistsClaim a ty)) (\<lambda>e.
     if e then throw ErrInvalid
     else bindM (gets block_time) (\<lambda>t. SetClaim (NewUserClaim a ty t)))"

definition msg_RunDistribution :: "sdk \<Rightarrow> MsgRunDistribution \<Rightarrow> ('s disp_state_scheme, unit) M" where
  "msg_RunDistribution S m =
     bindM (gets height) (\<lambda>h.
     bindM (DistributeDrops S h (runName m) (runRunner m) (runType m) (runCount m)) (\<lambda>_. ret ()))"

fun disp_handler :: "sdk \<Rightarrow> disp_msg \<Rightarrow> ('s disp_state_scheme, unit) M" where
  "disp_handler S (CreateDistribution m) = msg_CreateDistribution S m"
| "disp_handler S (CreateUserClaim a ty) = msg_CreateUserClaim a ty"
| "disp_handler S (RunDistribution m) = msg_RunDistribution S m"

fun sorted_msg :: "disp_msg \<Rightarrow> disp_msg" where
  "sorted_msg (CreateDistribution m) = CreateDistribution (sorted_outputs m)"
| "sorted_msg m = m"

definition run_disp :: "sdk \<Rightarrow> disp_msg \<Rightarrow> ('s disp_state_scheme, unit) M" where
  "run_disp S m = thenM (liftR (disp_ValidateBasic S m)) (disp_handler S (sorted_msg m))"

section \<open>Genesis (genesis.go)\<close>

record DispGenesis =
  genesisRecords :: "DistributionRecord list"
  genesisDistributions :: "Distribution list"
  genesisClaims :: "UserClaim list"

definition disp_InitGenesis :: "sdk \<Rightarrow> DispGenesis \<Rightarrow> ('s disp_state_scheme, unit) M" where
  "disp_InitGenesis S g =
     bindM (liftR (new_coin S (Symbol GetSettlementAsset) 0)) (\<lambda>zero.
     thenM (SetMintController zero) (
     thenM (eachM (\<lambda>dr. catchM (SetDistributionRecord S dr) (\<lambda>_. panic)) (genesisRecords g)) (
     thenM (eachM (\<lambda>d. catchM (SetDistribution d) (\<lambda>_. panic)) (genesisDistributions g)) (
     eachM (\<lambda>uc. catchM (SetClaim uc) (\<lambda>_. panic)) (genesisClaims g)))))"

definition disp_ExportGenesis :: "'s disp_state_scheme \<Rightarrow> DispGenesis result" where
  "disp_ExportGenesis s =
     rbind (GetRecords s) (\<lambda>rs.
     Ok \<lparr>genesisRecords = rs, genesisDistributions = GetDistributions s, genesisClaims = GetClaims s\<rparr>)"

definition disp_ValidateGenesis :: "sdk \<Rightarrow> DispGenesis \<Rightarrow> unit result" where
  "disp_ValidateGenesis S g =
     rbind (check (list_all (DistributionRecord_Validate S) (genesisRecords g)) ErrInvalid) (\<lambda>_.
     rbind (check (list_all Distribution_Validate (genesisDistributions g)) ErrInvalid) (\<lambda>_.
     check (list_all UserClaim_Validate (genesisClaims g)) ErrInvalid))"

section \<open>Queries (keeper/grpc\_querier.go)\<close>

definition AllDistributions :: "'s disp_state_scheme \<Rightarrow> Distribution list" where
  "AllDistributions s = GetDistributions s"

definition ClaimsByType :: "DistributionType \<Rightarrow> 's disp_state_scheme \<Rightarrow> UserClaim list" where
  "ClaimsByType ty s = GetClaimsByType ty s"

definition RecordsByDistributionName ::
  "string \<Rightarrow> DistributionStatus \<Rightarrow> 's disp_state_scheme \<Rightarrow> DistributionRecord list result" where
  "RecordsByDistributionName name st s =
     rbind (GetRecordsForNameAndStatus name st s) (\<lambda>rs.
     if st = DISTRIBUTION_STATUS_UNSPECIFIED
     then rbind (GetRecordsForNameAndStatus name DISTRIBUTION_STATUS_PENDING s) (\<lambda>ps. Ok (rs @ ps))
     else Ok rs)"

definition RecordsByRecipient :: "string \<Rightarrow> 's disp_state_scheme \<Rightarrow> DistributionRecord list result" where
  "RecordsByRecipient a s = GetRecordsForRecipient a s"

end
