(* ===== verification/DispensationFunds.thy ===== *)
theory DispensationFunds
  imports Dispensation
begin

text \<open>
  The money of the distributions. A record is stored under its own key (\<open>records_ok\<close>), and
  \<open>owed\<close> is the sum of all records that are not completed: those that wait and those that failed.
  No operation of the module lowers what the module account has beyond it (\<open>backing\<close>): what a distributor pays in is
  what the new records promise, a payment and the completion of its record go together, and a payment that
  fails leaves the record owed. A record of the same name that failed before may be overwritten, which is why
  the bound is an inequality.
\<close>

section \<open>What the module owes\<close>

definition record_key :: "DistributionRecord \<Rightarrow> string" where
  "record_key dr = GetDistributionRecordKey (recordStatus dr) (recordName dr) (recordRecipient dr) (recordType dr)"

definition records_ok :: "sdk \<Rightarrow> 's disp_state_scheme \<Rightarrow> bool" where
  "records_ok S s \<longleftrightarrow> kv_wf (distRecords s) \<and> (\<forall>k dr. kv_get (distRecords s) k = Some dr \<longrightarrow>
     k = record_key dr \<and> recordStatus dr \<noteq> DISTRIBUTION_STATUS_UNSPECIFIED \<and> DistributionRecord_Validate S dr)"

definition owed_of :: "string \<Rightarrow> DistributionRecord \<Rightarrow> nat" where
  "owed_of d dr = (if recordStatus dr = DISTRIBUTION_STATUS_COMPLETED then 0 else amount_of (recordCoins dr) d)"

definition owed :: "string \<Rightarrow> 's disp_state_scheme \<Rightarrow> nat" where
  "owed d s = kv.total (\<lambda>_. owed_of d) (distRecords s)"

definition backing :: "sdk \<Rightarrow> string \<Rightarrow> 's disp_state_scheme \<Rightarrow> int" where
  "backing S d s = int (bank s (module_address S DispensationModule) d) - int (owed d s)"

lemma records_okD:
  assumes "records_ok S s" "kv_get (distRecords s) k = Some dr"
  shows "k = record_key dr" "recordStatus dr \<noteq> DISTRIBUTION_STATUS_UNSPECIFIED" "DistributionRecord_Validate S dr"
  using assms unfolding records_ok_def by blast+

lemma records_ok_wf: "records_ok S s \<Longrightarrow> kv_wf (distRecords s)"
  by (simp add: records_ok_def)

lemma records_ok_cong: "distRecords t = distRecords s \<Longrightarrow> records_ok S t = records_ok S s"
  by (simp add: records_ok_def)

lemma owed_cong: "distRecords t = distRecords s \<Longrightarrow> owed d t = owed d s"
  by (simp add: owed_def)

lemma records_ok_put:
  "records_ok S s \<Longrightarrow> DistributionRecord_Validate S dr \<Longrightarrow> recordStatus dr \<noteq> DISTRIBUTION_STATUS_UNSPECIFIED \<Longrightarrow>
    records_ok S (s\<lparr>distRecords := kv_put (record_key dr) dr (distRecords s)\<rparr>)"
  by (auto simp: records_ok_def split: if_splits)

lemma records_ok_del: "records_ok S s \<Longrightarrow> records_ok S (s\<lparr>distRecords := kv_del k (distRecords s)\<rparr>)"
  by (auto simp: records_ok_def split: if_splits)

lemma record_prefix_inj: "record_prefix a = record_prefix b \<Longrightarrow> a \<noteq> DISTRIBUTION_STATUS_UNSPECIFIED \<Longrightarrow>
    b \<noteq> DISTRIBUTION_STATUS_UNSPECIFIED \<Longrightarrow> a = b"
  by (cases a; cases b) simp_all

section \<open>Paying records\<close>

text \<open>A record that leaves the pending state.\<close>

lemma ChangeRecordStatus_run:
  assumes ok: "records_ok S s" and dr: "kv_get (distRecords s) (record_key dr) = Some dr"
    and st: "recordStatus dr = DISTRIBUTION_STATUS_PENDING" "st = DISTRIBUTION_STATUS_COMPLETED \<or> st = DISTRIBUTION_STATUS_FAILED"
    and new: "dr' = dr\<lparr>recordStatus := st, recordCompleted := h\<rparr>"
  shows "ChangeRecordStatus S dr h st s =
    (Ok (), s\<lparr>distRecords := kv_del (record_key dr) (kv_put (record_key dr') dr' (distRecords s))\<rparr>)"
proof -
  have v: "DistributionRecord_Validate S dr'"
    using records_okD(3) [OF ok dr] by (simp add: new DistributionRecord_Validate_def)
  have "record_key dr' \<noteq> record_key dr" using st by (auto simp: new record_key_def GetDistributionRecordKey_def)
  with dr st(1) records_ok_wf [OF ok] v show ?thesis
    by (auto simp: ChangeRecordStatus_def SetDistributionRecord_def DeleteDistributionRecord_def ExistsDistributionRecord_def
        new record_key_def monad_defs bindM_def thenM_def)
qed

lemma change_status:
  assumes ok: "records_ok S s" and dr: "kv_get (distRecords s) (record_key dr) = Some dr"
    and st: "recordStatus dr = DISTRIBUTION_STATUS_PENDING" "st = DISTRIBUTION_STATUS_COMPLETED \<or> st = DISTRIBUTION_STATUS_FAILED"
    and new: "dr' = dr\<lparr>recordStatus := st, recordCompleted := h\<rparr>"
    and t: "distRecords t = kv_del (record_key dr) (kv_put (record_key dr') dr' (distRecords s))"
  shows "records_ok S t"
    and "owed d t \<le> owed d s - (if st = DISTRIBUTION_STATUS_COMPLETED then amount_of (recordCoins dr) d else 0)"
    and "amount_of (recordCoins dr) d \<le> owed d s"
    and "recordStatus e = DISTRIBUTION_STATUS_PENDING \<Longrightarrow> kv_get (distRecords t) k = Some e \<longleftrightarrow>
      k \<noteq> record_key dr \<and> kv_get (distRecords s) k = Some e"
proof -
  have wf: "kv_wf (distRecords s)" by (rule records_ok_wf [OF ok])
  have v: "DistributionRecord_Validate S dr'"
    using records_okD(3) [OF ok dr] by (simp add: new DistributionRecord_Validate_def)
  have ne: "record_key dr' \<noteq> record_key dr" using st by (auto simp: new record_key_def GetDistributionRecordKey_def)
  show "records_ok S t"
    using records_ok_del [OF records_ok_put [OF ok v], of "record_key dr"] st(2) t
    by (auto simp: new records_ok_cong [of t "s\<lparr>distRecords := _\<rparr>"])
  let ?m = "distRecords s" and ?f = "\<lambda>_ :: string. owed_of d"
  have 1: "kv.total ?f (kv_put (record_key dr') dr' ?m) = owed d t + owed_of d dr"
    using kv.total_del [of "kv_put (record_key dr') dr' ?m" ?f "record_key dr"] wf dr ne
    by (simp add: owed_def t)
  have 2: "kv.total ?f (kv_put (record_key dr') dr' ?m) \<le> owed d s + owed_of d dr'"
    using kv.total_put [OF wf, of ?f "record_key dr'" dr'] kv.total_del [OF wf, of ?f "record_key dr'"]
    by (simp add: owed_def split: option.splits)
  have d: "owed_of d dr = amount_of (recordCoins dr) d"
    "owed_of d dr' = (if st = DISTRIBUTION_STATUS_COMPLETED then 0 else amount_of (recordCoins dr) d)"
    using st by (auto simp: owed_of_def new)
  show "amount_of (recordCoins dr) d \<le> owed d s"
    using kv.total_del [OF wf, of ?f "record_key dr"] dr d(1) by (simp add: owed_def)
  then show "owed d t \<le> owed d s - (if st = DISTRIBUTION_STATUS_COMPLETED then amount_of (recordCoins dr) d else 0)"
    using 1 2 d st(2) by auto
  show "kv_get (distRecords t) k = Some e \<longleftrightarrow> k \<noteq> record_key dr \<and> kv_get (distRecords s) k = Some e"
    if e: "recordStatus e = DISTRIBUTION_STATUS_PENDING"
  proof -
    have "dr' \<noteq> e" using st(2) e by (auto simp: new)
    moreover have "kv_get (distRecords s) (record_key dr') \<noteq> Some e"
      using records_okD(1) [OF ok, of "record_key dr'" e] st(2) e
      by (auto simp: record_key_def GetDistributionRecordKey_def new)
    ultimately show ?thesis using wf ne by (auto simp: t)
  qed
qed

definition moved :: "DistributionRecord \<Rightarrow> int \<Rightarrow> DistributionStatus \<Rightarrow> DistributionRecord kv \<Rightarrow> DistributionRecord kv" where
  "moved dr h st m = (let dr' = dr\<lparr>recordStatus := st, recordCompleted := h\<rparr> in kv_del (record_key dr) (kv_put (record_key dr') dr' m))"

lemma pay_record_run:
  assumes ok: "records_ok S s" and dr: "kv_get (distRecords s) (record_key dr) = Some dr"
    and st: "recordStatus dr = DISTRIBUTION_STATUS_PENDING"
  shows "pay_record S h dr s =
    (case acc_from_bech32 S (recordRecipient dr) of
       None \<Rightarrow> (Ok (), s)
     | Some a \<Rightarrow>
        (case send_mod_to_acc S DispensationModule a (recordCoins dr) (bank s) of
           Panic \<Rightarrow> (Panic, s)
         | Err e \<Rightarrow> (Ok (), s\<lparr>distRecords := moved dr h DISTRIBUTION_STATUS_FAILED (distRecords s)\<rparr>)
         | Ok b \<Rightarrow> (Ok (), s\<lparr>bank := b, distRecords := moved dr h DISTRIBUTION_STATUS_COMPLETED (distRecords s),
             userClaims := (if DoesTypeSupportClaim dr
               then kv_del (GetUserClaimKey (recordRecipient dr) (recordType dr)) (userClaims s) else userClaims s)\<rparr>)))"
proof -
  have run: "ChangeRecordStatus S dr h x u = (Ok (), u\<lparr>distRecords := moved dr h x (distRecords s)\<rparr>)"
    if "distRecords u = distRecords s" "x = DISTRIBUTION_STATUS_COMPLETED \<or> x = DISTRIBUTION_STATUS_FAILED" for x u
    using ChangeRecordStatus_run [of S u dr x _ h] ok dr st that by (simp add: moved_def Let_def records_ok_cong [of u s])
  show ?thesis
    by (auto simp: pay_record_def send_defs bank_call_def bindM_def thenM_def monad_defs run DeleteClaim_def
        split: option.split result.split)
qed

lemma pay_record_spec:
  assumes laws: "sdk_laws S" and ok: "records_ok S s" and dr: "kv_get (distRecords s) (record_key dr) = Some dr"
    and st: "recordStatus dr = DISTRIBUTION_STATUS_PENDING" and run: "pay_record S h dr s = (Ok (), t)"
  shows "records_ok S t" and "backing S d s \<le> backing S d t"
    and "recordStatus e = DISTRIBUTION_STATUS_PENDING \<Longrightarrow> kv_get (distRecords t) k = Some e \<longleftrightarrow>
      (k = record_key dr \<longrightarrow> acc_from_bech32 S (recordRecipient dr) = None) \<and> kv_get (distRecords s) k = Some e"
proof -
  consider (skip) "acc_from_bech32 S (recordRecipient dr) = None" "t = s"
    | (fail) a where "acc_from_bech32 S (recordRecipient dr) = Some a" "bank t = bank s"
        "distRecords t = moved dr h DISTRIBUTION_STATUS_FAILED (distRecords s)"
    | (paid) a b where "acc_from_bech32 S (recordRecipient dr) = Some a" "bank t = b"
        "send_mod_to_acc S DispensationModule a (recordCoins dr) (bank s) = Ok b"
        "distRecords t = moved dr h DISTRIBUTION_STATUS_COMPLETED (distRecords s)"
    using run unfolding pay_record_run [OF ok dr st] by (auto split: option.splits result.splits)
  then have "records_ok S t \<and> backing S d s \<le> backing S d t \<and>
    (recordStatus e = DISTRIBUTION_STATUS_PENDING \<longrightarrow> (kv_get (distRecords t) k = Some e \<longleftrightarrow>
      (k = record_key dr \<longrightarrow> acc_from_bech32 S (recordRecipient dr) = None) \<and> kv_get (distRecords s) k = Some e))"
  proof cases
    case skip
    then show ?thesis using ok by simp
  next
    case fail
    note m = change_status [OF ok dr st disjI2 [OF refl] refl fail(3) [unfolded moved_def Let_def]]
    from m(1) m(2) [of d] m(4) [of e k] fail show ?thesis by (auto simp: backing_def)
  next
    case paid
    from sdk_laws.send_mod_to_acc [OF laws paid(3)]
    have b: "amount_of (recordCoins dr) d \<le> bank s (module_address S DispensationModule) d"
      "bank s (module_address S DispensationModule) d - amount_of (recordCoins dr) d \<le> b (module_address S DispensationModule) d"
      by (auto simp: move_coins_def)
    note m = change_status [OF ok dr st disjI1 [OF refl] refl paid(4) [unfolded moved_def Let_def]]
    from m(1) m(2,3) [of d] m(4) [of e k] paid b show ?thesis by (auto simp: backing_def)
  qed
  then show "records_ok S t" "backing S d s \<le> backing S d t"
    "recordStatus e = DISTRIBUTION_STATUS_PENDING \<Longrightarrow> kv_get (distRecords t) k = Some e \<longleftrightarrow>
      (k = record_key dr \<longrightarrow> acc_from_bech32 S (recordRecipient dr) = None) \<and> kv_get (distRecords s) k = Some e"
    by blast+
qed

text \<open>The loop over records, which were read before it.\<close>

lemma pay_records_spec:
  assumes laws: "sdk_laws S" and ok: "records_ok S s" and run: "eachM (pay_record S h) rs s = (Ok (), t)"
    and rs: "distinct (map record_key rs)"
      "\<And>dr. dr \<in> set rs \<Longrightarrow> kv_get (distRecords s) (record_key dr) = Some dr \<and> recordStatus dr = DISTRIBUTION_STATUS_PENDING"
  shows "records_ok S t \<and> backing S d s \<le> backing S d t \<and>
    (\<forall>k e. recordStatus e = DISTRIBUTION_STATUS_PENDING \<longrightarrow> (kv_get (distRecords t) k = Some e \<longleftrightarrow>
       kv_get (distRecords s) k = Some e \<and>
       (\<forall>dr \<in> set rs. k = record_key dr \<longrightarrow> acc_from_bech32 S (recordRecipient dr) = None)))"
  using ok run rs
proof (induction rs arbitrary: s)
  case Nil
  then show ?case by (simp add: ret_def)
next
  case (Cons dr rs)
  from Cons.prems(2) obtain u where u: "pay_record S h dr s = (Ok (), u)" "eachM (pay_record S h) rs u = (Ok (), t)"
    by (auto simp: result_inv)
  have dr: "kv_get (distRecords s) (record_key dr) = Some dr" "recordStatus dr = DISTRIBUTION_STATUS_PENDING"
    using Cons.prems(4) [of dr] by simp_all
  note p = pay_record_spec [OF laws Cons.prems(1) dr u(1)]
  have "kv_get (distRecords u) (record_key e) = Some e \<and> recordStatus e = DISTRIBUTION_STATUS_PENDING" if "e \<in> set rs" for e
  proof -
    have "record_key e \<noteq> record_key dr" using Cons.prems(3) imageI [OF that, of record_key] by auto
    then show ?thesis using Cons.prems(4) [of e] that p(3) [of e "record_key e"] by auto
  qed
  from Cons.IH [OF p(1) u(2) _ this] Cons.prems(3) p(2) [of d] p(3) show ?case by auto
qed

section \<open>Running a distribution\<close>

definition waits_for :: "string \<Rightarrow> string \<Rightarrow> DistributionType \<Rightarrow> DistributionRecord \<Rightarrow> bool" where
  "waits_for name runner ty dr \<longleftrightarrow> recordName dr = name \<and> recordStatus dr = DISTRIBUTION_STATUS_PENDING \<and>
     recordRunner dr = runner \<and> recordType dr = ty"

lemma waits_for_fun: "waits_for name runner ty = (\<lambda>dr. recordName dr = name \<and> recordStatus dr = DISTRIBUTION_STATUS_PENDING \<and>
     recordRunner dr = runner \<and> recordType dr = ty)"
  by (rule ext) (simp add: waits_for_def)

definition waiting :: "string \<Rightarrow> string \<Rightarrow> DistributionType \<Rightarrow> 's disp_state_scheme \<Rightarrow> DistributionRecord list" where
  "waiting name runner ty s = filter (waits_for name runner ty) (kv_prefix [record_prefix DISTRIBUTION_STATUS_PENDING] (distRecords s))"

lemma limited_take:
  "0 \<le> c \<Longrightarrow> c \<le> n \<Longrightarrow> n < 2 ^ 63 \<Longrightarrow> limited P c n rs = take (nat (n - c)) (filter P rs)"
proof (induction P c n rs rule: limited.induct)
  case (2 P c n dr rs)
  show ?case
  proof (cases "c = n")
    case False
    then have c: "to_i64 (c + 1) = c + 1" "0 \<le> c + 1" "c + 1 \<le> n" using "2.prems" by (auto intro!: to_i64_id)
    have "nat (n - c) = Suc (nat (n - (c + 1)))" using False "2.prems" by simp
    then show ?thesis using 2 False c by simp
  qed simp
qed simp

lemma limited_records:
  assumes "0 \<le> n" "n < 2 ^ 63"
  shows "GetLimitedRecordsForRunner name runner ty DISTRIBUTION_STATUS_PENDING n s = Ok (take (nat n) (waiting name runner ty s))"
  using limited_take [of 0 n] assms
  by (simp add: GetLimitedRecordsForRunner_def GetDistributionRecordsIterator_def waiting_def waits_for_fun)

lemma waiting_set:
  assumes "records_ok S s"
  shows "dr \<in> set (waiting name runner ty s) \<longleftrightarrow> kv_get (distRecords s) (record_key dr) = Some dr \<and> waits_for name runner ty dr"
proof
  assume "dr \<in> set (waiting name runner ty s)"
  then obtain k where k: "(k, dr) \<in> set (distRecords s)" "waits_for name runner ty dr"
    by (auto simp: waiting_def kv_prefix_def)
  then have "kv_get (distRecords s) k = Some dr" using kv.in_entries_iff [OF records_ok_wf [OF assms]] by simp
  then show "kv_get (distRecords s) (record_key dr) = Some dr \<and> waits_for name runner ty dr"
    using records_okD(1) [OF assms] k(2) by blast
next
  assume dr: "kv_get (distRecords s) (record_key dr) = Some dr \<and> waits_for name runner ty dr"
  then have "(record_key dr, dr) \<in> set (distRecords s)" using kv.in_entries_iff [OF records_ok_wf [OF assms]] by simp
  with dr show "dr \<in> set (waiting name runner ty s)"
    by (force simp: waiting_def kv_prefix_def waits_for_def record_key_def GetDistributionRecordKey_def)
qed

lemma waiting_distinct:
  assumes "records_ok S s"
  shows "distinct (map record_key (waiting name runner ty s))"
proof -
  have "record_key (snd e) = fst e" if "e \<in> set (distRecords s)" for e
    using that records_okD(1) [OF assms, of "fst e" "snd e"] kv.in_entries_iff [OF records_ok_wf [OF assms], of "fst e" "snd e"] by simp
  then have e: "map record_key (map snd (filter P (distRecords s))) = map fst (filter P (distRecords s))" for P by auto
  have "waiting name runner ty s = map snd (filter (\<lambda>e. prefix [record_prefix DISTRIBUTION_STATUS_PENDING] (fst e) \<and>
      waits_for name runner ty (snd e)) (distRecords s))"
    by (simp add: waiting_def kv_prefix_def filter_map comp_def)
  then show ?thesis
    using e kv.entries_distinct [OF records_ok_wf [OF assms]] by (simp only: distinct_map_filter)
qed

lemma distinct_of_map: "distinct (map f xs) \<Longrightarrow> distinct xs"
  by (simp add: distinct_map)

text \<open>What a run of a distribution leaves.\<close>

lemma RunDistribution_spec:
  assumes laws: "sdk_laws S" and ok: "records_ok S s" and run: "run_disp S (RunDistribution m) s = (Ok (), t)"
  shows "records_ok S t \<and> backing S d s \<le> backing S d t \<and>
    ((\<forall>dr \<in> set (waiting (runName m) (runRunner m) (runType m) s). acc_from_bech32 S (recordRecipient dr) \<noteq> None) \<longrightarrow>
      length (waiting (runName m) (runRunner m) (runType m) t) = length (waiting (runName m) (runRunner m) (runType m) s) - nat (runCount m) \<and>
      set (waiting (runName m) (runRunner m) (runType m) t) \<subseteq> set (waiting (runName m) (runRunner m) (runType m) s))"
proof -
  let ?w = "waiting (runName m) (runRunner m) (runType m)"
  let ?rs = "take (nat (runCount m)) (?w s)"
  from run have n: "0 \<le> runCount m" "runCount m < 2 ^ 63" and r: "eachM (pay_record S (height s)) ?rs s = (Ok (), t)"
    by (auto simp: run_disp_def MsgRunDistribution_ValidateBasic_def check_def msg_RunDistribution_def DistributeDrops_def result_inv
        MaxRecordsPerBlock_def limited_records split: if_splits)
  have d: "distinct (map record_key (?w s))" by (rule waiting_distinct [OF ok])
  then have d': "distinct (map record_key ?rs)" by (simp add: take_map [symmetric] distinct_take)
  have p: "kv_get (distRecords s) (record_key dr) = Some dr \<and> recordStatus dr = DISTRIBUTION_STATUS_PENDING" if "dr \<in> set ?rs" for dr
    using waiting_set [OF ok, of dr "runName m" "runRunner m" "runType m"] in_set_takeD [OF that] by (simp add: waits_for_def)
  note spec = pay_records_spec [OF laws ok r d' p]
  have "set (?w t) = set (?w s) - set ?rs"
    if parse: "\<forall>dr \<in> set (?w s). acc_from_bech32 S (recordRecipient dr) \<noteq> None"
  proof -
    have key: "dr = e" if "dr \<in> set ?rs" "kv_get (distRecords s) (record_key e) = Some e" "record_key e = record_key dr" for dr e
      using p [OF that(1)] that(2,3) by simp
    have ne: "acc_from_bech32 S (recordRecipient dr) \<noteq> None" if "dr \<in> set ?rs" for dr using parse in_set_takeD [OF that] by blast
    have "e \<in> set (?w t) \<longleftrightarrow> e \<in> set (?w s) - set ?rs" for e
    proof (cases "waits_for (runName m) (runRunner m) (runType m) e \<and> kv_get (distRecords s) (record_key e) = Some e")
      case True
      then have "(\<forall>dr \<in> set ?rs. record_key e = record_key dr \<longrightarrow> acc_from_bech32 S (recordRecipient dr) = None) \<longleftrightarrow> e \<notin> set ?rs"
        using key ne by blast
      then have "kv_get (distRecords t) (record_key e) = Some e \<longleftrightarrow> e \<notin> set ?rs"
        using spec True by (simp add: waits_for_def)
      then show ?thesis using True spec by (simp add: waiting_set [OF ok] waiting_set [of S t])
    next
      case False
      then show ?thesis using spec by (auto simp: waiting_set [OF ok] waiting_set [of S t] waits_for_def)
    qed
    then show ?thesis by blast
  qed
  moreover have "card (set (?w s) - set ?rs) = length (?w s) - nat (runCount m)"
  proof -
    have "card (set (?w s) - set ?rs) = card (set (?w s)) - card (set ?rs)"
      by (intro card_Diff_subset) (auto dest: in_set_takeD)
    then show ?thesis
      using distinct_of_map [OF d] distinct_of_map [OF d'] by (simp add: distinct_card)
  qed
  moreover have "length (?w t) = card (set (?w t))"
    using spec waiting_distinct [of S t] by (metis distinct_card distinct_of_map)
  ultimately show ?thesis using spec by auto
qed

lemma pay_records_total:
  assumes laws: "sdk_laws S" and ok: "records_ok S s"
    and rs: "distinct (map record_key rs)"
      "\<And>dr. dr \<in> set rs \<Longrightarrow> kv_get (distRecords s) (record_key dr) = Some dr \<and> recordStatus dr = DISTRIBUTION_STATUS_PENDING"
    and send: "\<And>a cs bk. send_mod_to_acc S DispensationModule a cs bk \<noteq> Panic"
  shows "\<exists>t. eachM (pay_record S h) rs s = (Ok (), t)"
  using ok rs
proof (induction rs arbitrary: s)
  case (Cons dr rs)
  have dr: "kv_get (distRecords s) (record_key dr) = Some dr" "recordStatus dr = DISTRIBUTION_STATUS_PENDING"
    using Cons.prems(3) [of dr] by simp_all
  have "\<exists>u. pay_record S h dr s = (Ok (), u)"
    unfolding pay_record_run [OF Cons.prems(1) dr] by (simp add: send split: option.split result.split)
  then obtain u where u: "pay_record S h dr s = (Ok (), u)" by blast
  note p = pay_record_spec [OF laws Cons.prems(1) dr u]
  have "kv_get (distRecords u) (record_key e) = Some e \<and> recordStatus e = DISTRIBUTION_STATUS_PENDING" if "e \<in> set rs" for e
  proof -
    have "record_key e \<noteq> record_key dr" using Cons.prems(2) imageI [OF that, of record_key] by auto
    then show ?thesis using Cons.prems(3) [of e] that p(3) [of e "record_key e"] by auto
  qed
  from Cons.IH [OF p(1) _ this] Cons.prems(2) u show ?case by (auto simp: thenM_def bindM_def)
qed (simp add: ret_def)

section \<open>Creating a distribution\<close>

lemma create_drop_Ok:
  assumes laws: "sdk_laws S" and ok: "records_ok S s" and run: "create_drop S name ty runner out s = (Ok (), t)"
  shows "records_ok S t \<and> bank t = bank s \<and> owed d t = owed d s + amount_of (snd out) d"
proof -
  let ?k = "GetDistributionRecordKey DISTRIBUTION_STATUS_PENDING name (fst out) ty"
  let ?dr = "NewDistributionRecord DISTRIBUTION_STATUS_PENDING ty name (fst out) (snd out) (height s) (- 1) runner"
  have wf: "kv_wf (distRecords s)" by (rule records_ok_wf [OF ok])
  from run obtain cs where v: "DistributionRecord_Validate S (?dr\<lparr>recordCoins := cs\<rparr>)"
    and t: "t = s\<lparr>distRecords := kv_put ?k (?dr\<lparr>recordCoins := cs\<rparr>) (distRecords s)\<rparr>"
    and cs: "case kv_get (distRecords s) ?k of None \<Rightarrow> cs = snd out | Some old \<Rightarrow> coins_plus S (snd out) (recordCoins old) = Ok cs"
    by (auto simp: create_drop_def Let_def result_inv ExistsDistributionRecord_def GetDistributionRecord_def DistributionRecord_Add_def
        SetDistributionRecord_def NewDistributionRecord_def split: if_splits option.splits)
  let ?new = "?dr\<lparr>recordCoins := cs\<rparr>"
  have k: "record_key ?new = ?k" "recordStatus ?new = DISTRIBUTION_STATUS_PENDING" "recordCoins ?new = cs"
    by (simp_all add: record_key_def NewDistributionRecord_def)
  have "records_ok S t" using records_ok_put [OF ok v] k by (simp add: t)
  moreover have "owed d t = owed d s + amount_of (snd out) d"
  proof (cases "kv_get (distRecords s) ?k")
    case None
    then show ?thesis
      using kv.total_put [OF wf, of "\<lambda>_. owed_of d" ?k ?new] kv_del_absent [OF None] cs k by (simp add: owed_def t owed_of_def)
  next
    case (Some old)
    have "record_prefix DISTRIBUTION_STATUS_PENDING = record_prefix (recordStatus old)"
      using records_okD(1) [OF ok Some] by (simp add: record_key_def GetDistributionRecordKey_def)
    then have "recordStatus old = DISTRIBUTION_STATUS_PENDING"
      using record_prefix_inj records_okD(2) [OF ok Some] by fastforce
    moreover have "amount_of cs d = amount_of (snd out) d + amount_of (recordCoins old) d"
      using sdk_laws.coins_plus [OF laws] cs Some by simp
    ultimately show ?thesis
      using kv.total_put [OF wf, of "\<lambda>_. owed_of d" ?k ?new] kv.total_del [OF wf, of "\<lambda>_. owed_of d" ?k] Some k
      by (simp add: owed_def t owed_of_def)
  qed
  ultimately show ?thesis by (simp add: t)
qed

lemma CreateDrops_Ok:
  assumes laws: "sdk_laws S" and "records_ok S s" and "CreateDrops S outs name ty runner s = (Ok (), t)"
  shows "records_ok S t \<and> bank t = bank s \<and> owed d t = owed d s + (\<Sum>out\<leftarrow>outs. amount_of (snd out) d)"
  using assms(2,3) unfolding CreateDrops_def
proof (induction outs arbitrary: s)
  case (Cons out outs)
  then obtain u where u: "create_drop S name ty runner out s = (Ok (), u)" "eachM (create_drop S name ty runner) outs u = (Ok (), t)"
    by (auto simp: result_inv)
  from create_drop_Ok [OF laws Cons.prems(1) u(1), of d] Cons.IH [OF _ u(2)] show ?case by simp
qed (simp add: ret_def)

lemma TotalOutput_Ok:
  assumes laws: "sdk_laws S" and "TotalOutput S outs = Ok tot"
  shows "amount_of tot d = (\<Sum>out\<leftarrow>outs. amount_of (snd out) d)"
proof (cases outs)
  case (Cons out outs')
  have "amount_of tot d = amount_of (snd out) d + (\<Sum>o'\<leftarrow>outs'. amount_of (snd o') d)"
    if "rfold (\<lambda>p tot. coins_plus S tot (snd p)) outs' (snd out) = Ok tot"
    using that
  proof (induction outs' arbitrary: out)
    case (Cons p ps)
    then obtain c where c: "coins_plus S (snd out) (snd p) = Ok c" "rfold (\<lambda>p tot. coins_plus S tot (snd p)) ps c = Ok tot"
      by (auto simp: result_inv)
    from Cons.IH [of "(undefined, c)"] c(2) sdk_laws.coins_plus [OF laws c(1)] show ?case by simp
  qed simp
  then show ?thesis using assms(2) Cons by simp
qed (use assms in simp)

lemma CreateDistribution_spec:
  assumes laws: "sdk_laws S" and ok: "records_ok S s" and run: "msg_CreateDistribution S m s = (Ok (), t)"
    and addr: "acc_from_bech32 S (createDistributor m) \<noteq> Some (module_address S DispensationModule)"
  shows "records_ok S t \<and> backing S d t = backing S d s"
proof -
  from run obtain s1 tot a b name where v: "VerifyAndSetDistribution name (createType m) (createRunner m) s = (Ok (), s1)"
    and sum: "TotalOutput S (createOutput m) = Ok tot"
    and a: "acc_from_bech32 S (createDistributor m) = Some a" "send_acc_to_mod S a DispensationModule tot (bank s1) = Ok b"
    and c: "CreateDrops S (createOutput m) name (createType m) (createRunner m) (s1\<lparr>bank := b\<rparr>) = (Ok (), t)"
    by (auto simp: msg_CreateDistribution_def Let_def result_inv op_inv AccumulateDrops_def send_defs)
  have s1: "distRecords s1 = distRecords s" "bank s1 = bank s"
    using v by (auto simp: VerifyAndSetDistribution_def SetDistribution_def result_inv split: if_splits)
  have "records_ok S (s1\<lparr>bank := b\<rparr>)" using ok s1 by (simp add: records_ok_cong [of "s1\<lparr>bank := b\<rparr>" s])
  note d = CreateDrops_Ok [OF laws this c, of d]
  have "b (module_address S DispensationModule) d = bank s (module_address S DispensationModule) d + amount_of tot d"
    using sdk_laws.send_acc_to_mod [OF laws a(2)] addr a(1) s1(2) by (auto simp: move_coins_def)
  with d TotalOutput_Ok [OF laws sum, of d] s1(1) show ?thesis
    by (simp add: backing_def owed_cong [of "s1\<lparr>bank := b\<rparr>" s])
qed

section \<open>Blocks\<close>

text \<open>A block mints nothing and counts nothing, or mints what it counts: never more than the amount of a block and what is left.\<close>

definition credit :: "string \<Rightarrow> nat \<Rightarrow> bank \<Rightarrow> bank" where
  "credit a n bk = bk(a := (bk a)(NativeSymbol := bk a NativeSymbol + n))"

lemma coins_of_one:
  assumes "length cs = 1" "amount_of cs d = n" "0 < n"
  shows "cs = [(d, n)]"
proof -
  obtain c where "cs = [c]" using assms(1) by (auto simp: length_Suc_conv)
  then show ?thesis using assms(2,3) by (cases c) (auto split: if_splits)
qed

lemma TokensCanBeMinted_Ok:
  assumes laws: "sdk_laws S" and "mintController s = Some (NativeSymbol, c)" "TokensCanBeMinted S s = Ok True"
  shows "c < nat MaxMintAmount"
  using assms(2,3) sdk_laws.new_coin [OF laws, of NativeSymbol MaxMintAmount]
  by (auto simp: TokensCanBeMinted_def GetMintController_def GetSettlementAsset_def coin_less_def result_inv split: if_splits)

lemma mint_amount_Ok:
  assumes laws: "sdk_laws S" and "mintController s = Some (NativeSymbol, c)" "mint_amount S s = Ok (Some n)"
  shows "n = min MintAmountPerBlock (MaxMintAmount - int c)"
  using assms(2,3) sdk_laws.int_sub [OF laws, of MaxMintAmount "int c"]
  by (auto simp: mint_amount_def IsLastBlock_def GetMintController_def result_inv split: if_splits)

lemma AddMintAmount_Ok:
  assumes laws: "sdk_laws S" and "mintController u = Some (d, c)" "ignoreM (AddMintAmount S (d', n)) u = (Ok (), t)"
  shows "t = u\<lparr>mintController := Some (d, c + n)\<rparr>"
  using assms(2,3) sdk_laws.coin_add [OF laws, of "(d, c)" "(d', n)"] sdk_laws.coin_add_no_err [OF laws, of "(d, c)" "(d', n)"]
  by (cases "coin_add S (d, c) (d', n)")
    (auto simp: AddMintAmount_def SetMintController_def GetMintController_def bindM_def monad_defs)

lemma disp_BeginBlocker_spec:
  assumes laws: "sdk_laws S" and run: "disp_BeginBlocker S s = (Ok (), t)"
    and c: "mintController s = Some (NativeSymbol, c)"
  shows "t = s \<or> (\<exists>a n. n = min (nat MintAmountPerBlock) (nat MaxMintAmount - c) \<and> 0 < n \<and>
    (a = module_address S DispensationModule \<or> acc_from_bech32 S EcoPool = Some a) \<and>
    t = s\<lparr>bank := credit a n (bank s), mintController := Some (NativeSymbol, c + n)\<rparr>)"
proof (cases "t = s")
  case False
  with run obtain n cs eco b u where can: "TokensCanBeMinted S s = Ok True" and n: "mint_amount S s = Ok (Some n)"
    and cs: "one_coin_list S NativeSymbol n = Ok cs" "length cs = 1" and eco: "acc_from_bech32 S EcoPool = Some eco"
    and b: "mint_coins S DispensationModule cs (bank s) = Ok b"
    and u: "ignoreM (bank_call (send_mod_to_acc S DispensationModule eco cs)) (s\<lparr>bank := b\<rparr>) = (Ok (), u)"
    and t: "ignoreM (AddMintAmount S (cs ! 0)) u = (Ok (), t)"
    by (auto simp: disp_BeginBlocker_def result_inv send_defs bank_try split: if_splits)
  let ?n = "min (nat MintAmountPerBlock) (nat MaxMintAmount - c)"
  note n = mint_amount_Ok [OF laws c n]
  have pos: "0 < ?n" "nat n = ?n"
    using TokensCanBeMinted_Ok [OF laws c can] n by (simp_all add: MintAmountPerBlock_def MaxMintAmount_def) linarith?
  have cs1: "cs = [(NativeSymbol, ?n)]"
    using coins_of_one [OF cs(2) _ pos(1)] sdk_laws.one_coin_list_Ok [OF laws cs(1)] pos(2) by simp
  have b': "b = credit (module_address S DispensationModule) ?n (bank s)"
    using sdk_laws.mint_coins [OF laws b] by (auto simp: cs1 credit_def fun_eq_iff)
  obtain a where a: "a = module_address S DispensationModule \<or> a = eco" "u = s\<lparr>bank := credit a ?n (bank s)\<rparr>"
  proof (cases "u = s\<lparr>bank := b\<rparr>")
    case False
    then obtain b2 where b2: "send_mod_to_acc S DispensationModule eco cs b = Ok b2" "u = s\<lparr>bank := b2\<rparr>"
      using u by (auto simp: bank_ignore)
    have "b2 = credit eco ?n (bank s)"
      using sdk_laws.payout_bank [OF laws b b2(1)] by (auto simp: cs1 credit_def fun_eq_iff)
    then show ?thesis using that [of eco] b2(2) by simp
  qed (use b' that in blast)
  have "t = u\<lparr>mintController := Some (NativeSymbol, c + ?n)\<rparr>"
    using AddMintAmount_Ok [OF laws, of u] t c a(2) by (simp add: cs1)
  with a eco pos(1) show ?thesis by auto
qed simp

end
