(* ===== verification/DispensationRuns.thy ===== *)
theory DispensationRuns
  imports DispensationFunds
begin

text \<open>
  What becomes of a distribution over time. Runs of a distribution settle all its records: each is completed or failed and none
  is lost, after as many runs as the count of records per run asks for. Over transactions, blocks and what the other modules do, the
  module account always covers what the records promise, and the counter of minted coins stays within its maximum.
\<close>

section \<open>Settled records\<close>

definition settled :: "'s disp_state_scheme \<Rightarrow> DistributionRecord \<Rightarrow> bool" where
  "settled s dr \<longleftrightarrow> (\<exists>st \<in> {DISTRIBUTION_STATUS_COMPLETED, DISTRIBUTION_STATUS_FAILED}. \<exists>h.
     let dr' = dr\<lparr>recordStatus := st, recordCompleted := h\<rparr> in kv_get (distRecords s) (record_key dr') = Some dr')"

definition same_slot :: "string \<Rightarrow> DistributionRecord \<Rightarrow> bool" where
  "same_slot k dr \<longleftrightarrow> tl k = tl (record_key dr)"

lemma same_slot_simps [simp]:
  "same_slot (record_key dr) dr"
  "same_slot k (dr\<lparr>recordStatus := st, recordCompleted := h\<rparr>) = same_slot k dr"
  "same_slot (record_key (dr\<lparr>recordStatus := st, recordCompleted := h\<rparr>)) e = same_slot (record_key dr) e"
  by (simp_all add: same_slot_def record_key_def GetDistributionRecordKey_def)

lemma same_slot_pending:
  "recordStatus dr = DISTRIBUTION_STATUS_PENDING \<Longrightarrow> recordStatus e = DISTRIBUTION_STATUS_PENDING \<Longrightarrow>
    same_slot (record_key dr) e \<longleftrightarrow> record_key dr = record_key e"
  by (auto simp: same_slot_def record_key_def GetDistributionRecordKey_def)

lemma settled_frame:
  assumes "settled s dr" "\<And>k. same_slot k dr \<Longrightarrow> kv_get (distRecords t) k = kv_get (distRecords s) k"
  shows "settled t dr"
  using assms unfolding settled_def Let_def by (metis same_slot_simps(1,2))

lemma kv_get_moved:
  assumes "kv_wf m" "recordStatus dr = DISTRIBUTION_STATUS_PENDING" "st \<noteq> DISTRIBUTION_STATUS_PENDING"
  shows "kv_get (moved dr h st m) k =
    (if k = record_key dr then None
     else if k = record_key (dr\<lparr>recordStatus := st, recordCompleted := h\<rparr>) then Some (dr\<lparr>recordStatus := st, recordCompleted := h\<rparr>)
     else kv_get m k)"
  using assms by (simp add: moved_def Let_def)

lemma pay_record_settles:
  assumes ok: "records_ok S s" and dr: "kv_get (distRecords s) (record_key dr) = Some dr"
    and st: "recordStatus dr = DISTRIBUTION_STATUS_PENDING" and run: "pay_record S h dr s = (Ok (), t)"
  shows "acc_from_bech32 S (recordRecipient dr) \<noteq> None \<Longrightarrow> settled t dr"
    and "\<not> same_slot k dr \<Longrightarrow> kv_get (distRecords t) k = kv_get (distRecords s) k"
    and "height t = height s"
proof -
  note wf = records_ok_wf [OF ok]
  have ne: "record_key (dr\<lparr>recordStatus := x, recordCompleted := h\<rparr>) \<noteq> record_key dr" if "x \<noteq> DISTRIBUTION_STATUS_PENDING" for x
    using st that by (cases x) (auto simp: record_key_def GetDistributionRecordKey_def)
  show "acc_from_bech32 S (recordRecipient dr) \<noteq> None \<Longrightarrow> settled t dr"
    using run ne unfolding pay_record_run [OF ok dr st] settled_def Let_def
    by (fastforce simp: kv_get_moved [OF wf st] split: option.splits result.splits)
  show "kv_get (distRecords t) k = kv_get (distRecords s) k" if "\<not> same_slot k dr"
    using run that unfolding pay_record_run [OF ok dr st]
    by (auto simp: kv_get_moved [OF wf st] split: option.splits result.splits)
  show "height t = height s"
    using run unfolding pay_record_run [OF ok dr st] by (auto split: option.splits result.splits)
qed

lemma pay_records_settles:
  assumes laws: "sdk_laws S" and ok: "records_ok S s" and run: "eachM (pay_record S h) rs s = (Ok (), t)"
    and rs: "distinct (map record_key rs)"
      "\<And>dr. dr \<in> set rs \<Longrightarrow> kv_get (distRecords s) (record_key dr) = Some dr \<and> recordStatus dr = DISTRIBUTION_STATUS_PENDING"
  shows "(\<forall>dr \<in> set rs. acc_from_bech32 S (recordRecipient dr) \<noteq> None \<longrightarrow> settled t dr) \<and>
    (\<forall>k. (\<forall>dr \<in> set rs. \<not> same_slot k dr) \<longrightarrow> kv_get (distRecords t) k = kv_get (distRecords s) k) \<and> height t = height s"
  using ok run rs
proof (induction rs arbitrary: s)
  case (Cons dr rs)
  from Cons.prems(2) obtain u where u: "pay_record S h dr s = (Ok (), u)" "eachM (pay_record S h) rs u = (Ok (), t)"
    by (auto simp: result_inv)
  have dr: "kv_get (distRecords s) (record_key dr) = Some dr" "recordStatus dr = DISTRIBUTION_STATUS_PENDING"
    using Cons.prems(4) [of dr] by simp_all
  note p = pay_record_spec [OF laws Cons.prems(1) dr u(1)] and q = pay_record_settles [OF Cons.prems(1) dr u(1)]
  have key: "record_key e \<noteq> record_key dr" if "e \<in> set rs" for e
    using Cons.prems(3) imageI [OF that, of record_key] by auto
  have pend: "kv_get (distRecords u) (record_key e) = Some e \<and> recordStatus e = DISTRIBUTION_STATUS_PENDING" if "e \<in> set rs" for e
    using Cons.prems(4) [of e] that p(3) [of e "record_key e"] key [OF that] by auto
  from Cons.prems(3) have "distinct (map record_key rs)" by simp
  note ih = Cons.IH [OF p(1) u(2) this pend]
  have other: "\<not> same_slot (record_key dr) e" if "e \<in> set rs" for e
    using key [OF that] pend [OF that] dr(2) by (metis same_slot_pending)
  have "settled t dr" if "acc_from_bech32 S (recordRecipient dr) \<noteq> None"
  proof (rule settled_frame [OF q(1) [OF that]])
    fix k assume "same_slot k dr"
    then have "\<forall>e \<in> set rs. \<not> same_slot k e" using other by (auto simp: same_slot_def)
    then show "kv_get (distRecords t) k = kv_get (distRecords u) k" using ih by blast
  qed
  with ih q(2,3) show ?case by simp
qed (simp add: ret_def)

section \<open>Every distribution ends\<close>

definition payable :: "sdk \<Rightarrow> MsgRunDistribution \<Rightarrow> 's disp_state_scheme \<Rightarrow> bool" where
  "payable S m s \<longleftrightarrow> records_ok S s \<and> disp_ValidateBasic S (RunDistribution m) = Ok () \<and>
     list_all (\<lambda>dr. acc_from_bech32 S (recordRecipient dr) \<noteq> None) (waiting (runName m) (runRunner m) (runType m) s)"

lemma waiting_slot:
  assumes ok: "records_ok S s" and "dr \<in> set (waiting name runner ty s)" "e \<in> set (waiting name runner ty s)"
    and "same_slot (record_key dr) e"
  shows "dr = e"
proof -
  note w = assms(2,3) [unfolded waiting_set [OF ok] waits_for_def]
  have "record_key dr = record_key e" using same_slot_pending [of dr e] assms(4) w by blast
  then have "Some dr = Some e" using w by metis
  then show ?thesis by simp
qed

lemma RunDistribution_total:
  assumes laws: "sdk_laws S" and pay: "payable S m s"
    and send: "\<And>a cs bk. send_mod_to_acc S DispensationModule a cs bk \<noteq> Panic"
  defines "w \<equiv> waiting (runName m) (runRunner m) (runType m)"
  obtains t where "run_disp S (RunDistribution m) s = (Ok (), t)" "payable S m t"
    "length (w t) = length (w s) - nat (runCount m)" "set (w t) \<subseteq> set (w s)"
    "\<And>dr. dr \<in> set (w s) \<Longrightarrow> dr \<notin> set (w t) \<Longrightarrow> settled t dr"
    "\<And>k. (\<forall>dr \<in> set (w s). \<not> same_slot k dr) \<Longrightarrow> kv_get (distRecords t) k = kv_get (distRecords s) k"
proof -
  let ?rs = "take (nat (runCount m)) (w s)"
  from pay have ok: "records_ok S s" and parse: "\<forall>dr \<in> set (w s). acc_from_bech32 S (recordRecipient dr) \<noteq> None"
    and v: "MsgRunDistribution_ValidateBasic S m = Ok ()" by (auto simp: payable_def w_def list_all_iff)
  from v have n: "0 \<le> runCount m" "runCount m < 2 ^ 63"
    by (auto simp: MsgRunDistribution_ValidateBasic_def check_def result_inv MaxRecordsPerBlock_def split: if_splits)
  have d: "distinct (map record_key ?rs)"
    using waiting_distinct [OF ok] by (simp add: w_def take_map [symmetric] distinct_take)
  have p: "kv_get (distRecords s) (record_key dr) = Some dr \<and> recordStatus dr = DISTRIBUTION_STATUS_PENDING" if "dr \<in> set ?rs" for dr
    using waiting_set [OF ok, of dr "runName m" "runRunner m" "runType m"] in_set_takeD [OF that] by (simp add: w_def waits_for_def)
  obtain t where t: "eachM (pay_record S (height s)) ?rs s = (Ok (), t)"
    using pay_records_total [OF laws ok d p send] by blast
  then have run: "run_disp S (RunDistribution m) s = (Ok (), t)"
    using n v by (simp add: run_disp_def msg_RunDistribution_def DistributeDrops_def result_inv limited_records w_def)
  note spec = RunDistribution_spec [OF laws ok run, folded w_def]
    and fin = pay_records_settles [OF laws ok t d p]
  have w: "length (w t) = length (w s) - nat (runCount m)" "set (w t) \<subseteq> set (w s)" "records_ok S t" using spec parse by blast+
  show thesis
  proof (rule that [OF run _ w(1,2)])
    show "payable S m t" using pay w(2,3) parse by (auto simp: payable_def w_def list_all_iff)
    show "settled t dr" if dr: "dr \<in> set (w s)" "dr \<notin> set (w t)" for dr
    proof (rule ccontr)
      assume "\<not> settled t dr"
      then have out: "dr \<notin> set ?rs" using fin [THEN conjunct1] bspec [OF parse dr(1)] by fast
      have pend: "kv_get (distRecords s) (record_key dr) = Some dr" "recordStatus dr = DISTRIBUTION_STATUS_PENDING"
        using dr(1) by (simp_all add: w_def waiting_set [OF ok] waits_for_def)
      have "record_key dr \<noteq> record_key e" if "e \<in> set ?rs" for e
        using p [OF that] out that pend(1) by (cases "dr = e") auto
      then have "kv_get (distRecords t) (record_key dr) = Some dr"
        using pay_records_spec [OF laws ok t d p, THEN conjunct2, THEN conjunct2] pend by simp
      then show False using dr by (simp add: w_def waiting_set [OF ok] waiting_set [OF w(3)])
    qed
    show "kv_get (distRecords t) k = kv_get (distRecords s) k" if "\<forall>dr \<in> set (w s). \<not> same_slot k dr" for k
      using fin that by (meson in_set_takeD)
  qed
qed

lemma settled_runs:
  assumes laws: "sdk_laws S" and send: "\<And>a cs bk. send_mod_to_acc S DispensationModule a cs bk \<noteq> Panic" and "payable S m s"
    and "length (waiting (runName m) (runRunner m) (runType m) s) \<le> k * nat (runCount m)"
  defines "f \<equiv> deliver (run_disp S (RunDistribution m))"
  shows "waiting (runName m) (runRunner m) (runType m) ((f ^^ k) s) = [] \<and>
    (\<forall>dr \<in> set (waiting (runName m) (runRunner m) (runType m) s). settled ((f ^^ k) s) dr) \<and>
    (\<forall>key. (\<forall>dr \<in> set (waiting (runName m) (runRunner m) (runType m) s). \<not> same_slot key dr) \<longrightarrow>
       kv_get (distRecords ((f ^^ k) s)) key = kv_get (distRecords s) key)"
  using assms(3,4)
proof (induction k arbitrary: s)
  case (Suc k)
  let ?w = "waiting (runName m) (runRunner m) (runType m)"
  from RunDistribution_total [OF laws Suc.prems(1) send] obtain t
    where t: "run_disp S (RunDistribution m) s = (Ok (), t)" "payable S m t"
      "length (?w t) = length (?w s) - nat (runCount m)" "set (?w t) \<subseteq> set (?w s)"
      "\<And>dr. dr \<in> set (?w s) \<Longrightarrow> dr \<notin> set (?w t) \<Longrightarrow> settled t dr"
      "\<And>k. (\<forall>dr \<in> set (?w s). \<not> same_slot k dr) \<Longrightarrow> kv_get (distRecords t) k = kv_get (distRecords s) k" by metis
  have f: "(f ^^ Suc k) s = (f ^^ k) t" using t(1) by (simp add: funpow_swap1 f_def deliver_def)
  have ih: "?w ((f ^^ k) t) = []" "\<And>dr. dr \<in> set (?w t) \<Longrightarrow> settled ((f ^^ k) t) dr"
    "\<And>key. (\<forall>dr \<in> set (?w t). \<not> same_slot key dr) \<Longrightarrow> kv_get (distRecords ((f ^^ k) t)) key = kv_get (distRecords t) key"
    using Suc.IH [OF t(2)] Suc.prems(2) t(3) by auto
  have "settled ((f ^^ k) t) dr" if dr: "dr \<in> set (?w s)" for dr
  proof (cases "dr \<in> set (?w t)")
    case False
    have "\<not> same_slot (record_key dr) e" if "e \<in> set (?w t)" for e
      using waiting_slot [of S s dr "runName m" "runRunner m" "runType m" e] Suc.prems(1) dr False that t(4)
      by (auto simp: payable_def)
    then have "kv_get (distRecords ((f ^^ k) t)) key = kv_get (distRecords t) key" if "same_slot key dr" for key
      using ih(3) that by (auto simp: same_slot_def)
    from settled_frame [OF t(5) [OF dr False] this] show ?thesis .
  qed (use ih in blast)
  moreover have "kv_get (distRecords ((f ^^ k) t)) key = kv_get (distRecords s) key" if "\<forall>dr \<in> set (?w s). \<not> same_slot key dr" for key
    using ih(3) t(4,6) that by (metis subsetD)
  ultimately show ?case using ih(1) f by simp
qed simp

lemma payable_runs:
  assumes laws: "sdk_laws S" and send: "\<And>a cs bk. send_mod_to_acc S DispensationModule a cs bk \<noteq> Panic" and pay: "payable S m s"
  shows "payable S m ((deliver (run_disp S (RunDistribution m)) ^^ j) s)"
proof (induction j)
  case (Suc j)
  from RunDistribution_total [OF laws Suc send] obtain t
    where "run_disp S (RunDistribution m) ((deliver (run_disp S (RunDistribution m)) ^^ j) s) = (Ok (), t)" "payable S m t" by metis
  then show ?case by (simp add: deliver_Ok)
qed (use pay in simp)

lemma runs_return:
  assumes laws: "sdk_laws S" and send: "\<And>a cs bk. send_mod_to_acc S DispensationModule a cs bk \<noteq> Panic" and pay: "payable S m s"
  shows "\<exists>u. run_disp S (RunDistribution m) ((deliver (run_disp S (RunDistribution m)) ^^ j) s) = (Ok (), u)"
  using RunDistribution_total [OF laws payable_runs [OF laws send pay] send] by metis

section \<open>Steps of the chain\<close>

fun disp_signer :: "disp_msg \<Rightarrow> string" where
  "disp_signer (CreateDistribution m) = createDistributor m"
| "disp_signer (CreateUserClaim a ty) = a"
| "disp_signer (RunDistribution m) = runRunner m"

text \<open>
  A transaction, which no module account can sign, the begin of a block, and what the other modules do: they leave the
  records and the counter alone and take nothing out of the module account.
\<close>

inductive disp_step :: "sdk \<Rightarrow> 's disp_state_scheme \<Rightarrow> 's disp_state_scheme \<Rightarrow> bool" for S where
  tx: "acc_from_bech32 S (disp_signer m) \<noteq> Some (module_address S DispensationModule) \<Longrightarrow>
    disp_step S s (deliver (run_disp S m) s)"
| begin_block: "disp_BeginBlocker S (s\<lparr>height := h, block_time := bt\<rparr>) = (Ok (), t) \<Longrightarrow> disp_step S s t"
| other: "distRecords t = distRecords s \<Longrightarrow> mintController t = mintController s \<Longrightarrow>
    (\<And>d. bank s (module_address S DispensationModule) d \<le> bank t (module_address S DispensationModule) d) \<Longrightarrow> disp_step S s t"

inductive disp_reachable :: "sdk \<Rightarrow> 's disp_state_scheme \<Rightarrow> 's disp_state_scheme \<Rightarrow> bool" for S s where
  start: "disp_reachable S s s"
| more: "disp_reachable S s t \<Longrightarrow> disp_step S t u \<Longrightarrow> disp_reachable S s u"

definition covered :: "sdk \<Rightarrow> 's disp_state_scheme \<Rightarrow> bool" where
  "covered S s \<longleftrightarrow> records_ok S s \<and> (\<forall>d. owed d s \<le> bank s (module_address S DispensationModule) d) \<and>
     (\<exists>c \<le> nat MaxMintAmount. mintController s = Some (NativeSymbol, c))"

lemma covered_backing: "(\<forall>d. owed d s \<le> bank s (module_address S DispensationModule) d) \<longleftrightarrow> (\<forall>d. 0 \<le> backing S d s)"
  by (simp add: backing_def)

lemmas disp_ops = DeleteClaim_def SetClaim_def SetDistribution_def SetDistributionRecord_def DeleteDistributionRecord_def
  ChangeRecordStatus_def pay_record_def DistributeDrops_def AccumulateDrops_def VerifyAndSetDistribution_def
  create_drop_def CreateDrops_def send_defs bank_call_def

lemma msgs_keep_controller:
  "preserves mintController (msg_CreateDistribution S m)"
  "preserves mintController (msg_CreateUserClaim a ty)"
  "preserves mintController (msg_RunDistribution S r)"
  unfolding msg_CreateDistribution_def msg_CreateUserClaim_def msg_RunDistribution_def Let_def disp_ops
  by (intro frame_intros; simp)+

lemma run_disp_controller: "preserves mintController (run_disp S m)"
  by (cases m) (auto simp: run_disp_def intro!: frame_intros msgs_keep_controller)

lemma run_disp_backing:
  assumes laws: "sdk_laws S" and ok: "records_ok S s" and run: "run_disp S m s = (Ok (), t)"
    and signer: "acc_from_bech32 S (disp_signer m) \<noteq> Some (module_address S DispensationModule)"
  shows "records_ok S t \<and> backing S d s \<le> backing S d t"
proof (cases m)
  case (CreateDistribution c)
  then have "msg_CreateDistribution S (sorted_outputs c) s = (Ok (), t)"
    using run by (simp add: run_disp_def result_inv)
  from CreateDistribution_spec [OF laws ok this, of d] signer CreateDistribution show ?thesis by (simp add: sorted_outputs_def)
next
  case (CreateUserClaim a ty)
  then have "distRecords t = distRecords s" "bank t = bank s"
    using run by (auto simp: run_disp_def result_inv msg_CreateUserClaim_def SetClaim_def split: if_splits)
  then show ?thesis using ok by (simp add: records_ok_cong [of t s] backing_def owed_cong [of t s])
next
  case (RunDistribution r)
  then show ?thesis using RunDistribution_spec [OF laws ok] run by blast
qed

lemma step_covered:
  assumes laws: "sdk_laws S" and "disp_step S s t" and cov: "covered S s"
  shows "covered S t"
  using assms(2)
proof cases
  case (tx m)
  note signer = tx(2)
  have "covered S (deliver (run_disp S m) s)"
  proof (rule deliver_keeps [where I = "covered S", OF cov])
    fix x :: unit and u assume "run_disp S m s = (Ok x, u)"
    then have run: "run_disp S m s = (Ok (), u)" by simp
    from run_disp_backing [OF laws _ run signer] cov
    have "records_ok S u" "\<forall>d. 0 \<le> backing S d u" unfolding covered_def covered_backing by (force intro: order_trans)+
    moreover have "mintController u = mintController s" using run_disp_controller run by (rule preservesD)
    ultimately show "covered S u" using cov by (simp add: covered_def covered_backing)
  qed
  then show ?thesis by (simp add: tx(1))
next
  case (begin_block bt h)
  let ?s = "s\<lparr>height := h, block_time := bt\<rparr>"
  from cov obtain c where c: "c \<le> nat MaxMintAmount" "mintController s = Some (NativeSymbol, c)" by (auto simp: covered_def)
  from disp_BeginBlocker_spec [OF laws begin_block, of c] c(2)
  consider "t = ?s" | a n where "n = min (nat MintAmountPerBlock) (nat MaxMintAmount - c)"
      "t = ?s\<lparr>bank := credit a n (bank s), mintController := Some (NativeSymbol, c + n)\<rparr>" by auto
  then show ?thesis
  proof cases
    case 1
    then show ?thesis using cov by (simp add: covered_def records_ok_def owed_def)
  next
    case 2
    then have "c + n \<le> nat MaxMintAmount" using c(1) by linarith
    moreover have "bank s b d \<le> credit a n (bank s) b d" for b d by (simp add: credit_def)
    ultimately show ?thesis using cov 2(2) by (auto simp: covered_def records_ok_def owed_def intro: le_trans)
  qed
next
  case other
  then show ?thesis using cov by (auto simp: covered_def records_ok_def owed_def intro: le_trans)
qed

lemma reachable_covered:
  assumes "sdk_laws S" "disp_reachable S s t" "covered S s"
  shows "covered S t"
  using assms(2,3) by induction (blast intro: step_covered [OF assms(1)])+

end
