(* ===== verification/DispensationDemo.thy ===== *)
theory DispensationDemo
  imports DispensationRuns Demo
begin

text \<open>An airdrop to three recipients, with which the properties are tried out.\<close>

definition disp_demo :: disp_state where
  "disp_demo = \<lparr>bank = (\<lambda>a d. if a = ''alice'' \<and> d = NativeSymbol then 100 else 0), height = 7, block_time = '''',
     distRecords = [], distributions = [], userClaims = [], mintController = Some (NativeSymbol, 0)\<rparr>"

definition demo_drop :: MsgCreateDistribution where
  "demo_drop = \<lparr>createDistributor = ''alice'', createRunner = ''bob'', createType = DISTRIBUTION_TYPE_AIRDROP,
     createOutput = [(''carol'', [(NativeSymbol, 10)])]\<rparr>"

definition demo_payout :: MsgRunDistribution where
  "demo_payout = \<lparr>runRunner = ''bob'', runName = ''7_alice'', runType = DISTRIBUTION_TYPE_AIRDROP, runCount = 2\<rparr>"

definition demo_record :: "string \<Rightarrow> nat \<Rightarrow> DistributionRecord" where
  "demo_record r n = NewDistributionRecord DISTRIBUTION_STATUS_PENDING DISTRIBUTION_TYPE_AIRDROP ''7_alice'' r [(NativeSymbol, n)] 7 (- 1) ''bob''"

lemma show_int_7: "show_int 7 = ''7''" "show_int 1 = ''1''"
  by code_simp+

lemma demo_dropped: "\<exists>bk ds. run_disp sdk_ref (CreateDistribution demo_drop) disp_demo = (Ok (),
    disp_demo\<lparr>bank := bk, distributions := ds, distRecords :=
      map (\<lambda>dr. (record_key dr, dr)) [demo_record ''carol'' 10]\<rparr>)"
  unfolding run_disp_def
  by (simp add: eval_monad MsgCreateDistribution_ValidateBasic_def check_def demo_drop_def sorted_outputs_def IsValidDistributionType_def
    msg_CreateDistribution_def disp_ops disp_demo_def eval_sdk coins_valid_ref_def Let_def show_int_7 ExistsDistribution_def
    ExistsDistributionRecord_def NewDistribution_def Distribution_Validate_def NewDistributionRecord_def GetDistributionsKey_def
    GetDistributionRecordKey_def DistributionRecord_Validate_def all_positive_def demo_record_def record_key_def kv_get_def
    cong: eval_cong)

definition waiting_demo :: disp_state where
  "waiting_demo = disp_demo\<lparr>bank := (\<lambda>a d. if a = module_address sdk_ref DispensationModule \<and> d = NativeSymbol then 60 else 0),
     distRecords := map (\<lambda>dr. (record_key dr, dr)) [demo_record ''carol'' 10, demo_record ''dave'' 20, demo_record ''erin'' 30]\<rparr>"

lemma demo_record_key: "record_key (demo_record r n) = CHR 0x00 # ''7_alice_1_'' @ r"
  by (simp add: record_key_def demo_record_def NewDistributionRecord_def GetDistributionRecordKey_def show_int_7)

lemma demo_record_valid: "r \<noteq> '''' \<Longrightarrow> 0 < n \<Longrightarrow> DistributionRecord_Validate sdk_ref (demo_record r n)"
  by (simp add: DistributionRecord_Validate_def demo_record_def NewDistributionRecord_def eval_sdk coins_valid_ref_def all_positive_def)

lemma demo_key_order: "CHR ''c'' < CHR ''d''" "CHR ''d'' < CHR ''e''" "CHR ''c'' < CHR ''e''"
  by code_simp+

lemma demo_records: "records_ok sdk_ref waiting_demo"
proof -
  let ?rs = "[demo_record ''carol'' 10, demo_record ''dave'' 20, demo_record ''erin'' 30]"
  have "kv_wf (distRecords waiting_demo)" by (simp add: waiting_demo_def kv_wf_def demo_record_key demo_key_order)
  moreover have "k = record_key dr \<and> dr \<in> set ?rs" if "kv_get (distRecords waiting_demo) k = Some dr" for k dr
    using map_of_SomeD [OF that [unfolded kv_get_def]] by (auto simp: waiting_demo_def)
  moreover have "recordStatus dr \<noteq> DISTRIBUTION_STATUS_UNSPECIFIED \<and> DistributionRecord_Validate sdk_ref dr" if "dr \<in> set ?rs" for dr
    using that by (auto intro!: demo_record_valid) (simp_all add: demo_record_def NewDistributionRecord_def)
  ultimately show ?thesis unfolding records_ok_def by blast
qed

lemma demo_waiting:
  "waiting ''7_alice'' ''bob'' DISTRIBUTION_TYPE_AIRDROP waiting_demo =
    [demo_record ''carol'' 10, demo_record ''dave'' 20, demo_record ''erin'' 30]"
  by (simp add: waiting_def waiting_demo_def kv_prefix_def demo_record_key waits_for_def) (simp add: demo_record_def NewDistributionRecord_def)

lemma demo_payable: "payable sdk_ref demo_payout waiting_demo"
proof -
  have "MsgRunDistribution_ValidateBasic sdk_ref demo_payout = Ok ()"
    by (simp add: MsgRunDistribution_ValidateBasic_def demo_payout_def IsValidDistributionType_def check_def MaxRecordsPerBlock_def sdk_ref_sel)
  moreover have "list_all (\<lambda>dr. acc_from_bech32 sdk_ref (recordRecipient dr) \<noteq> None)
      (waiting (runName demo_payout) (runRunner demo_payout) (runType demo_payout) waiting_demo)"
    by (simp add: demo_payout_def demo_waiting) (simp add: demo_record_def NewDistributionRecord_def sdk_ref_sel)
  ultimately show ?thesis by (simp add: payable_def demo_records)
qed

lemma demo_covered: "covered sdk_ref disp_demo"
  by (simp add: covered_def disp_demo_def records_ok_def owed_def kv.total_def)

end
