(* ===== verification/IbcTransfer.thy ===== *)
theory IbcTransfer
  imports TokenRegistry Bank
begin

text \<open>
  Module \<open>x/ibctransfer\<close>: the wrapper around the token transfer of \<open>ibc-go\<close>. Outgoing transfers are allowed by the
  registry; an incoming token whose registry entry names a unit denomination of more decimals is burnt and
  replaced by the tokens held back on the channel's escrow address, scaled up to those decimals.

  What \<open>ibc-go\<close> and the hash function do is a parameter \<open>I\<close>: \<open>recv_packet\<close> and \<open>sdk_transfer\<close> are the
  calls of its keeper, over the balances. An acknowledgement with an error makes the core of \<open>ibc-go\<close> throw away what the
  module changed.
\<close>

section \<open>Types (ibc-go)\<close>

record packet =
  sourcePort :: string
  sourceChannel :: string
  destPort :: string
  destChannel :: string
  packetData :: string

record FungibleTokenPacketData =
  dataDenom :: string
  dataAmount :: string
  dataSender :: string
  dataReceiver :: string

record ibc_msg =      \<comment> \<open>\<open>MsgTransfer\<close>\<close>
  msgSourcePort :: string
  msgSourceChannel :: string
  msgDenom :: string
  msgAmount :: int
  msgSender :: string
  msgReceiver :: string

datatype ack = ErrorAcknowledgement err | ResultAcknowledgement

record ibc_env =
  packet_of_json :: "string \<Rightarrow> FungibleTokenPacketData option"
  recv_packet :: "packet \<Rightarrow> FungibleTokenPacketData \<Rightarrow> bank \<Rightarrow> bank result"
  sdk_transfer :: "ibc_msg \<Rightarrow> bank \<Rightarrow> bank result"
  denom_prefix :: "string \<Rightarrow> string \<Rightarrow> string"               \<comment> \<open>\<open>GetDenomPrefix\<close>\<close>
  receiver_is_source :: "string \<Rightarrow> string \<Rightarrow> string \<Rightarrow> bool"      \<comment> \<open>\<open>ReceiverChainIsSource\<close>\<close>
  trace_path :: "string \<Rightarrow> string"                             \<comment> \<open>\<open>ParseDenomTrace(denom).Path\<close>\<close>
  ibc_denom :: "string \<Rightarrow> string"                              \<comment> \<open>\<open>ParseDenomTrace(denom).IBCDenom()\<close>\<close>
  sha256 :: "string \<Rightarrow> string"
  bytes_address :: "string \<Rightarrow> string"                          \<comment> \<open>the text of an address given by its bytes\<close>

section \<open>Keys (types/keys.go)\<close>

definition IbcModule :: string where
  "IbcModule = ''scibctransfer''"

definition IbcVersion :: string where
  "IbcVersion = ''ics20-sc.1''"

definition GetEscrowAddress :: "ibc_env \<Rightarrow> string \<Rightarrow> string \<Rightarrow> string" where
  "GetEscrowAddress I portID channelID =
     (let contents = portID @ ''/'' @ channelID in
      bytes_address I (take 20 (sha256 I (IbcVersion @ [CHR 0x00] @ contents))))"

section \<open>Precision (helpers/conversion\_helper.go)\<close>

definition IncreasePrecision :: "sdk \<Rightarrow> int \<Rightarrow> int \<Rightarrow> int result" where
  "IncreasePrecision S d po = rbind (dec_power S (new_dec 10) po) (\<lambda>p. dec_mul_truncate S d p)"

definition ReducePrecision :: "sdk \<Rightarrow> int \<Rightarrow> int \<Rightarrow> int result" where
  "ReducePrecision S d po = rbind (dec_power S (new_dec 10) po) (\<lambda>p. dec_quo_truncate S d p)"

definition ConvertCoinsForTransfer :: "sdk \<Rightarrow> ibc_msg \<Rightarrow> RegistryEntry \<Rightarrow> RegistryEntry \<Rightarrow> (coin \<times> coin) result" where
  "ConvertCoinsForTransfer S msg sendEntry sendAsEntry =
     (let po = to_u64 (to_i64 (decimals sendEntry - decimals sendAsEntry)) in
      rbind (ReducePrecision S (new_dec (msgAmount msg)) po) (\<lambda>convDec.
      rbind (dec_truncate S convDec) (\<lambda>convAmount.
      rbind (new_coin S (ibc_counterparty_denom sendEntry) convAmount) (\<lambda>convToken.
      rbind (IncreasePrecision S (new_dec convAmount) po) (\<lambda>tokenDec.
      rbind (dec_truncate S tokenDec) (\<lambda>tokenAmount.
      rbind (new_coin S (msgDenom msg) tokenAmount) (\<lambda>token.
      Ok (token, convToken))))))))"

definition PrepareToSendConvertedCoins :: "sdk \<Rightarrow> ibc_env \<Rightarrow> ibc_msg \<Rightarrow> coin \<Rightarrow> coin \<Rightarrow> ('s chain_state_scheme, unit) M" where
  "PrepareToSendConvertedCoins S I msg token convToken =
     bindM (liftR (of_option (ErrSdk ''bech32'') (acc_from_bech32 S (msgSender msg)))) (\<lambda>sender.
     bindM (liftR (new_coins S [token])) (\<lambda>coins.
     thenM (SendCoins S sender (GetEscrowAddress I (msgSourcePort msg) (msgSourceChannel msg)) coins) (
     bindM (liftR (new_coins S [convToken])) (\<lambda>convCoins.
     thenM (MintCoins S IbcModule convCoins) (
     SendCoinsFromModuleToAccount S IbcModule sender convCoins)))))"

definition IsRecvPacketAllowed :: "ibc_env \<Rightarrow> packet \<Rightarrow> FungibleTokenPacketData \<Rightarrow> RegistryEntry \<Rightarrow> bool" where
  "IsRecvPacketAllowed I p data entry \<longleftrightarrow>
     receiver_is_source I (sourcePort p) (sourceChannel p) (dataDenom data) \<or> CheckEntryPermissions entry [IBCIMPORT]"

text \<open>Cutting the prefix off a shorter text panics.\<close>

definition GetMintedDenomFromPacket :: "ibc_env \<Rightarrow> packet \<Rightarrow> FungibleTokenPacketData \<Rightarrow> string result" where
  "GetMintedDenomFromPacket I p data =
     (if receiver_is_source I (sourcePort p) (sourceChannel p) (dataDenom data)
      then let n = length (denom_prefix I (sourcePort p) (sourceChannel p)) in
        if length (dataDenom data) < n then Panic
        else let d = drop n (dataDenom data) in
        Ok (if trace_path I d \<noteq> '''' then ibc_denom I d else d)
      else Ok (ibc_denom I (denom_prefix I (destPort p) (destChannel p) @ dataDenom data)))"

definition ConvertIncomingCoins :: "sdk \<Rightarrow> string \<Rightarrow> int \<Rightarrow> int result" where
  "ConvertIncomingCoins S amount diff =
     rbind (of_option (ErrSdk ''integer'') (int_of_str S amount)) (\<lambda>intAmount.
     rbind (IncreasePrecision S (new_dec intAmount) diff) (dec_truncate S))"

definition ExecConvForIncomingCoins ::
  "sdk \<Rightarrow> ibc_env \<Rightarrow> RegistryEntry \<Rightarrow> RegistryEntry \<Rightarrow> packet \<Rightarrow> FungibleTokenPacketData \<Rightarrow> ('s chain_state_scheme, unit) M" where
  "ExecConvForIncomingCoins S I mintedEntry convertToEntry p data =
     bindM (liftR (of_option (ErrSdk ''bech32'') (acc_from_bech32 S (dataReceiver data)))) (\<lambda>receiver.
     bindM (liftR (of_option (ErrSdk ''integer'') (int_of_str S (dataAmount data)))) (\<lambda>amount.
     bindM (liftR (one_coin_list S (denom mintedEntry) amount)) (\<lambda>incomingCoins.
     thenM (SendCoinsFromAccountToModule S receiver IbcModule incomingCoins) (
     thenM (BurnCoins S IbcModule incomingCoins) (
     bindM (liftR (one_coin_list S (denom convertToEntry) amount)) (\<lambda>sameCoins.
     bindM (if decimals mintedEntry < decimals convertToEntry
            then let diff = to_u64 (to_i64 (decimals convertToEntry - decimals mintedEntry)) in
              bindM (liftR (ConvertIncomingCoins S (dataAmount data) diff)) (\<lambda>convAmount.
              liftR (one_coin_list S (denom convertToEntry) convAmount))
            else ret sameCoins) (\<lambda>finalCoins.
     SendCoins S (GetEscrowAddress I (destPort p) (destChannel p)) receiver finalCoins)))))))"

section \<open>Messages (keeper/msg\_server.go)\<close>

definition ibc_Transfer :: "sdk \<Rightarrow> ibc_env \<Rightarrow> ibc_msg \<Rightarrow> ('s registry_state_scheme, unit) M" where
  "ibc_Transfer S I msg =
     bindM (gets GetRegistry) (\<lambda>registry.
     bindM (liftR (rwrap ErrPermissionDenied (GetEntry registry (msgDenom msg)))) (\<lambda>entry.
     if unit_denom entry \<noteq> '''' \<and> unit_denom entry \<noteq> denom entry then throw ErrPermissionDenied
     else if \<not> CheckEntryPermissions entry [IBCEXPORT] then throw ErrPermissionDenied
     else if msgAmount msg \<le> 0 then throw ErrAmountTooLowToConvert
     else bank_call (sdk_transfer I msg)))"

section \<open>Packets (onrecv\_packet.go, module.go)\<close>

text \<open>A call whose error becomes the acknowledgement.\<close>

definition or_ack :: "('s, unit) M \<Rightarrow> (err \<Rightarrow> err) \<Rightarrow> ('s, ack) M \<Rightarrow> ('s, ack) M" where
  "or_ack m f k = bindM (catchM (bindM m (\<lambda>_. ret None)) (\<lambda>e. ret (Some e))) (\<lambda>r.
     case r of None \<Rightarrow> k | Some e \<Rightarrow> ret (ErrorAcknowledgement (f e)))"

definition OnRecvPacketWhitelistConvert :: "sdk \<Rightarrow> ibc_env \<Rightarrow> packet \<Rightarrow> ('s registry_state_scheme, ack) M" where
  "OnRecvPacketWhitelistConvert S I p =
     (case packet_of_json I (packetData p) of
        None \<Rightarrow> ret (ErrorAcknowledgement (ErrSdk ''json''))
      | Some data \<Rightarrow>
          or_ack (bank_call (recv_packet I p data)) id (
          bindM (liftR (GetMintedDenomFromPacket I p data)) (\<lambda>mintedDenom.
          bindM (gets GetRegistry) (\<lambda>registry.
          case GetEntry registry mintedDenom of
            Ok mintedEntry \<Rightarrow>
              if \<not> IsRecvPacketAllowed I p data mintedEntry then ret (ErrorAcknowledgement (ErrSdk ''invalid coins''))
              else
              (case GetEntry registry (unit_denom mintedEntry) of
                 Ok convertToEntry \<Rightarrow>
                   if 0 < decimals convertToEntry \<and> 0 < decimals mintedEntry \<and> decimals mintedEntry < decimals convertToEntry
                   then or_ack (ExecConvForIncomingCoins S I mintedEntry convertToEntry p data) (\<lambda>_. ErrConvertingToUnitDenom)
                          (ret ResultAcknowledgement)
                   else ret ResultAcknowledgement
               | _ \<Rightarrow> ret ResultAcknowledgement)
          | _ \<Rightarrow> ret (ErrorAcknowledgement (ErrSdk ''invalid coins''))))))"

section \<open>Scaling\<close>

lemma tquo_exact: "b \<noteq> 0 \<Longrightarrow> tquo (q * b) b = q"
proof -
  assume b: "b \<noteq> 0"
  from tquo_error [OF this, of "q * b"] have "\<bar>(tquo (q * b) b - q) * b\<bar> < \<bar>b\<bar>" by (simp add: left_diff_distrib)
  then show ?thesis using b by (simp add: abs_mult)
qed

context sdk_laws
begin

lemma IncreasePrecision_Ok:
  assumes "IncreasePrecision S (new_dec a) po = Ok z" "0 \<le> po"
  shows "z = new_dec (a * 10 ^ nat po)"
proof -
  from assms(1) obtain p where p: "dec_power S (10 * dec_one) po = Ok p" "dec_mul_truncate S (new_dec a) p = Ok z"
    by (auto simp: IncreasePrecision_def new_dec_def result_inv)
  have "z = tquo ((a * 10 ^ nat po * dec_one) * dec_one) dec_one"
    using dec_mul_truncate [OF p(2)] dec_power_integer [of 10 po p] p(1) assms(2) by (simp add: new_dec_def ac_simps)
  also have "\<dots> = a * 10 ^ nat po * dec_one" by (rule tquo_exact) simp
  finally show ?thesis by (simp add: new_dec_def)
qed

lemma ReducePrecision_Ok:
  assumes "ReducePrecision S (new_dec a) po = Ok z" "0 \<le> po" "0 \<le> a" "dec_truncate S z = Ok i"
  shows "i = a div 10 ^ nat po"
proof -
  from assms(1) obtain p where p: "dec_power S (10 * dec_one) po = Ok p" "dec_quo_truncate S (new_dec a) p = Ok z"
    by (auto simp: ReducePrecision_def new_dec_def result_inv)
  have d: "(0 :: int) < dec_one" by simp
  have "z = (a * dec_one) div 10 ^ nat po"
    using dec_quo_truncate [OF p(2)] dec_power_integer [of 10 po p] p(1) assms(2) assms(3) d by (simp add: new_dec_def tquo_nonneg mult.commute)
  then have "i = (a * dec_one) div (10 ^ nat po * dec_one)"
    using dec_truncate [OF assms(4)] assms(3) d by (simp add: tquo_nonneg pos_imp_zdiv_nonneg_iff zdiv_zmult2_eq)
  then show ?thesis using d by simp
qed

lemma truncate_new_dec: "dec_truncate S (new_dec a) = Ok i \<Longrightarrow> i = a"
  using dec_truncate [of "new_dec a" i] by (simp add: new_dec_def tquo_exact)

lemma ConvertIncomingCoins_Ok:
  assumes "ConvertIncomingCoins S amount diff = Ok n" "int_of_str S amount = Some a" "0 \<le> diff"
  shows "n = a * 10 ^ nat diff"
  using assms by (auto simp: ConvertIncomingCoins_def result_inv dest!: IncreasePrecision_Ok truncate_new_dec)

text \<open>What an outgoing conversion deducts is what the conversion of the same tokens on their way back releases.\<close>

lemma convert_round_trip:
  assumes out: "ConvertCoinsForTransfer S msg e e' = Ok (token, conv)" and pos: "0 \<le> msgAmount msg"
    and home: "int_of_str S str = Some (int (snd conv))"
      "ConvertIncomingCoins S str (to_u64 (to_i64 (decimals e - decimals e'))) = Ok n"
  shows "n = int (snd token)" and "int (snd token) \<le> msgAmount msg"
proof -
  let ?po = "to_u64 (to_i64 (decimals e - decimals e'))"
  have po: "0 \<le> ?po" by (simp add: to_u64_def)
  from out obtain z c z' a where r: "ReducePrecision S (new_dec (msgAmount msg)) ?po = Ok z" "dec_truncate S z = Ok c"
    "new_coin S (ibc_counterparty_denom e) c = Ok conv" "IncreasePrecision S (new_dec c) ?po = Ok z'" "dec_truncate S z' = Ok a"
    "new_coin S (msgDenom msg) a = Ok token"
    by (auto simp: ConvertCoinsForTransfer_def Let_def result_inv)
  have c: "c = msgAmount msg div 10 ^ nat ?po" by (rule ReducePrecision_Ok [OF r(1) po pos r(2)])
  have a: "a = c * 10 ^ nat ?po" using IncreasePrecision_Ok [OF r(4) po] truncate_new_dec r(5) by simp
  have s: "int (snd conv) = c" "int (snd token) = a" using new_coin [OF r(3)] new_coin [OF r(6)] by auto
  show "n = int (snd token)" using ConvertIncomingCoins_Ok [OF home(2) home(1) po] a s by simp
  have "a = msgAmount msg - msgAmount msg mod 10 ^ nat ?po" by (simp only: a c minus_mod_eq_div_mult)
  moreover have "0 \<le> msgAmount msg mod 10 ^ nat ?po" by simp
  ultimately show "int (snd token) \<le> msgAmount msg" using s(2) by linarith
qed

end

section \<open>Receiving\<close>

text \<open>The receiver's tokens are burnt and others released from the escrow address.\<close>

definition converted :: "string \<Rightarrow> string \<Rightarrow> coin \<Rightarrow> coin \<Rightarrow> bank \<Rightarrow> bank" where
  "converted escrow receiver c c' bk =
     move_coins escrow receiver [c'] (bk(receiver := (\<lambda>d. bk receiver d - amount_of [c] d)))"

context sdk_laws
begin

lemma ExecConv_Ok:
  assumes run: "ExecConvForIncomingCoins S I e e' p data s = (Ok (), t)"
    and dec: "decimals e < decimals e'" "0 < decimals e" "decimals e' < 2 ^ 63"
  shows "\<exists>receiver a. acc_from_bech32 S (dataReceiver data) = Some receiver \<and> int_of_str S (dataAmount data) = Some a \<and> 0 \<le> a \<and>
    nat a \<le> bank s receiver (denom e) \<and>
    t = s\<lparr>bank := converted (GetEscrowAddress I (destPort p) (destChannel p)) receiver (denom e, nat a)
      (denom e', nat a * 10 ^ nat (decimals e' - decimals e)) (bank s)\<rparr>"
proof -
  let ?k = "decimals e' - decimals e" and ?esc = "GetEscrowAddress I (destPort p) (destChannel p)"
  have k: "to_u64 (to_i64 ?k) = ?k" using dec by (simp add: to_i64_id to_u64_id)
  from run obtain r a cs b1 b2 n fs b3 where r: "acc_from_bech32 S (dataReceiver data) = Some r"
    and a: "int_of_str S (dataAmount data) = Some a" and cs: "one_coin_list S (denom e) a = Ok cs"
    and b1: "send_acc_to_mod S r IbcModule cs (bank s) = Ok b1" and b2: "burn_coins S IbcModule cs b1 = Ok b2"
    and n: "ConvertIncomingCoins S (dataAmount data) ?k = Ok n" and fs: "one_coin_list S (denom e') n = Ok fs"
    and b3: "send_coins S ?esc r fs b2 = Ok b3" and t: "t = s\<lparr>bank := b3\<rparr>"
    using dec(1) by (auto simp: ExecConvForIncomingCoins_def Let_def k result_inv op_inv send_defs)
  have pos: "0 \<le> a" using one_coin_list_Ok [OF cs] by blast
  have n': "n = a * 10 ^ nat ?k" using ConvertIncomingCoins_Ok [OF n a] dec(1) by simp
  have cs': "amount_of cs = amount_of [(denom e, nat a)]" using one_coin_list_Ok [OF cs] by (auto simp: fun_eq_iff)
  have fs': "amount_of fs = amount_of [(denom e', nat a * 10 ^ nat ?k)]"
    using one_coin_list_Ok [OF fs] pos by (auto simp: fun_eq_iff n' nat_mult_distrib nat_power_eq)
  have le: "amount_of cs d \<le> bank s r d" for d using send_acc_to_mod [OF b1] by blast
  have "b2 = (bank s)(r := (\<lambda>d. bank s r d - amount_of cs d))"
    using send_acc_to_mod [OF b1] burn_coins [OF b2] by (auto simp: move_coins_def fun_eq_iff)
  then have "b3 = converted ?esc r (denom e, nat a) (denom e', nat a * 10 ^ nat ?k) (bank s)"
    using send_coins [OF b3] by (simp only: converted_def move_coins_def cs' fs')
  moreover have "nat a \<le> bank s r (denom e)" using le [of "denom e"] by (simp add: cs')
  ultimately show ?thesis using r a pos t by blast
qed

end

lemma or_ack_result: "or_ack m f k s = (Ok ResultAcknowledgement, t) \<longleftrightarrow>
    (\<exists>u. m s = (Ok (), u) \<and> k u = (Ok ResultAcknowledgement, t))"
  by (auto simp: or_ack_def bindM_def monad_defs split: prod.splits result.splits)

text \<open>Whether an incoming token is exchanged for its unit denomination.\<close>

definition exchange_entry :: "Registry \<Rightarrow> RegistryEntry \<Rightarrow> RegistryEntry option" where
  "exchange_entry wl e =
     (case GetEntry wl (unit_denom e) of
        Ok e' \<Rightarrow> if 0 < decimals e' \<and> 0 < decimals e \<and> decimals e < decimals e' then Some e' else None
      | _ \<Rightarrow> None)"

lemma exchange_entry_Some:
  "exchange_entry wl e = Some e' \<Longrightarrow> GetEntry wl (unit_denom e) = Ok e' \<and> 0 < decimals e \<and> decimals e < decimals e'"
  by (auto simp: exchange_entry_def split: result.splits if_splits)

lemma GetEntry_in_registry: "GetEntry wl d = Ok e \<Longrightarrow> Some e \<in> set wl"
  by (induction wl d rule: GetEntry.induct) (auto split: if_splits)

lemma OnRecvPacket_result:
  assumes "OnRecvPacketWhitelistConvert S I p s = (Ok ResultAcknowledgement, t)"
  obtains data b d e where "packet_of_json I (packetData p) = Some data" "recv_packet I p data (bank s) = Ok b"
    "GetMintedDenomFromPacket I p data = Ok d" "GetEntry (GetRegistry s) d = Ok e" "IsRecvPacketAllowed I p data e"
    "case exchange_entry (GetRegistry s) e of
       None \<Rightarrow> t = s\<lparr>bank := b\<rparr>
     | Some e' \<Rightarrow> ExecConvForIncomingCoins S I e e' p data (s\<lparr>bank := b\<rparr>) = (Ok (), t)"
proof -
  note run = assms
  from run obtain data b where data: "packet_of_json I (packetData p) = Some data" "recv_packet I p data (bank s) = Ok b"
    by (auto simp: OnRecvPacketWhitelistConvert_def or_ack_result op_inv result_inv)
  let ?u = "s\<lparr>bank := b\<rparr>"
  have reg: "GetRegistry ?u = GetRegistry s" by (simp add: GetRegistry_def)
  from run data obtain d where d: "GetMintedDenomFromPacket I p data = Ok d"
    by (auto simp: OnRecvPacketWhitelistConvert_def or_ack_result op_inv result_inv)
  show thesis
  proof (cases "GetEntry (GetRegistry s) d")
    case (Ok e)
    then show thesis
      using run data d by (intro that [OF data d Ok])
        (auto simp: OnRecvPacketWhitelistConvert_def or_ack_result op_inv result_inv reg exchange_entry_def split: if_splits result.splits)
  qed (use run data d reg in \<open>auto simp: OnRecvPacketWhitelistConvert_def or_ack_result op_inv result_inv\<close>)
qed

end
