(* ===== verification/IbcDemo.thy ===== *)
theory IbcDemo
  imports IbcTransfer Demo
begin

text \<open>A transfer of tokens of 6 decimals that are exchanged for ones of 8, with which the properties are tried out.\<close>

definition ibc_ref :: ibc_env where
  "ibc_ref = \<lparr>packet_of_json = (\<lambda>str. if str = '''' then None
       else Some \<lparr>dataDenom = ''uatom'', dataAmount = str, dataSender = ''bob'', dataReceiver = ''alice''\<rparr>),
     recv_packet = (\<lambda>p data bk. case digits_ref (dataAmount data) of None \<Rightarrow> Err (ErrSdk ''amount'')
       | Some n \<Rightarrow> Ok (bk(dataReceiver data := (bk (dataReceiver data))(''ibc/uatom'' := bk (dataReceiver data) ''ibc/uatom'' + nat n)))),
     sdk_transfer = (\<lambda>m bk. Ok bk), denom_prefix = (\<lambda>p c. p @ ''/'' @ c @ ''/''), receiver_is_source = (\<lambda>p c d. prefix (p @ ''/'' @ c @ ''/'') d),
     trace_path = (\<lambda>d. ''''), ibc_denom = (\<lambda>d. ''ibc/uatom''), sha256 = (\<lambda>str. ''escrow''), bytes_address = (\<lambda>str. str)\<rparr>"

definition demo_packet :: packet where
  "demo_packet = \<lparr>sourcePort = ''transfer'', sourceChannel = ''channel-1'', destPort = ''transfer'', destChannel = ''channel-2'', packetData = ''7''\<rparr>"

definition ibc_entry :: "string \<Rightarrow> int \<Rightarrow> RegistryEntry" where
  "ibc_entry d n = \<lparr>decimals = n, denom = d, base_denom = d, path = '''', ibc_channel_id = '''', ibc_counterparty_channel_id = '''',
     display_name = '''', display_symbol = '''', network = '''', reg_address = '''', external_symbol = '''', transfer_limit = '''',
     permissions = [IBCIMPORT, IBCEXPORT], unit_denom = ''atom'', ibc_counterparty_denom = '''', ibc_counterparty_chain_id = ''''\<rparr>"

definition ibc_demo :: registry_state where
  "ibc_demo = \<lparr>bank = (\<lambda>a d. if a = ''escrow'' \<and> d = ''atom'' then 1000 else 0), height = 1, block_time = '''', adminAccounts = [],
     submitProposalFee = None, whitelist = Some [Some (ibc_entry ''ibc/uatom'' 6), Some (ibc_entry ''atom'' 8)]\<rparr>"

lemma demo_seven: "digits_ref ''7'' = Some 7"
  by code_simp

lemma demo_power: "power_ref 10000000000000000000 2 = Ok 100000000000000000000"
  by (simp add: numeral_2_eq_2 round_div_def fits_def)

lemma demo_hundred: "IncreasePrecision sdk_ref 7000000000000000000 2 = Ok 700000000000000000000"
    "dec_truncate sdk_ref 700000000000000000000 = Ok 700"
  by (simp_all add: IncreasePrecision_def new_dec_def sdk_ref_sel demo_power tquo_def fits_def)

lemma demo_receive: "\<exists>t. OnRecvPacketWhitelistConvert sdk_ref ibc_ref demo_packet ibc_demo = (Ok ResultAcknowledgement, t)"
  by (simp add: OnRecvPacketWhitelistConvert_def ibc_ref_def demo_packet_def demo_seven or_ack_def eval_monad bank_call_def
    GetMintedDenomFromPacket_def GetRegistry_def ibc_demo_def ibc_entry_def IsRecvPacketAllowed_def CheckEntryPermissions_def
    ExecConvForIncomingCoins_def ConvertIncomingCoins_def demo_hundred one_coin_list_def send_defs eval_sdk GetEscrowAddress_def
    IbcModule_def Let_def cong: eval_cong)

lemmas eval_ibc = ibc_ref_def demo_packet_def demo_seven GetMintedDenomFromPacket_def GetRegistry_def ibc_demo_def ibc_entry_def
  IsRecvPacketAllowed_def CheckEntryPermissions_def eval_sdk GetEscrowAddress_def IbcModule_def Let_def

end
