(* ===== verification/Ante.thy ===== *)
theory Ante
  imports ClpTypes Bank
begin

text \<open>
  The two decorators of \<open>app/ante\<close> that the chain puts among those of the SDK: \<open>AdjustGasPriceDecorator\<close> asks for a
  minimal fee by type of message, \<open>ValidateMinCommissionDecorator\<close> for a minimal commission of validators and
  against too much voting power. A decorator checks a transaction and hands it to the next one, which is an argument; of
  the context only the minimal gas prices are passed on, since nothing else is changed. The staking
  module of the SDK keeps the tokens of the validators and names its two pools.
\<close>

section \<open>Transactions\<close>

datatype staking_msg =
    MsgCreateValidator int                      \<comment> \<open>\<open>Commission.Rate\<close>\<close>
  | MsgEditValidator "int option"               \<comment> \<open>\<open>CommissionRate\<close>, may be nil\<close>
  | MsgDelegate string int                      \<comment> \<open>\<open>ValidatorAddress\<close>, \<open>Amount.Amount\<close>\<close>
  | MsgBeginRedelegate string string int        \<comment> \<open>\<open>ValidatorSrcAddress\<close>, \<open>ValidatorDstAddress\<close>, \<open>Amount.Amount\<close>\<close>

text \<open>A message is known by its type URL and, for staking, by its contents; the fee is missing if the transaction is no \<open>FeeTx\<close>.\<close>

record tx_msg =
  typeURL :: string
  staking :: "staking_msg option"

record ante_tx =
  txMsgs :: "tx_msg list"
  txFee :: "(string \<times> int) list option"

record staking_env =
  val_address :: "string \<Rightarrow> string option"      \<comment> \<open>\<open>sdk.ValAddressFromBech32\<close>\<close>
  bonded_pool :: string
  not_bonded_pool :: string

record ante_state = admin_state +
  validators :: "string \<Rightarrow> int option"           \<comment> \<open>tokens by address\<close>
  bondDenom :: string

type_synonym gas_prices = "(string \<times> int) list"

section \<open>Fees (ante.go)\<close>

text \<open>The one branch of the loop over the messages.\<close>

definition min_fee_step :: "sdk \<Rightarrow> nat \<Rightarrow> tx_msg \<Rightarrow> int \<Rightarrow> int result" where
  "min_fee_step S submitFee m minFee =
     (let url = to_lower (typeURL m) in
      if list_ex (\<lambda>p. str_contains p url)
        [''send'', ''multisend'', ''createuserclaim'', ''swap'', ''removeliquidity'', ''removeliquidityunits'', ''addliquidity'']
      then Ok 100000000000000000
      else if str_contains ''transfer'' url \<and> minFee \<le> 10000000000000000 then Ok 10000000000000000
      else if str_contains ''submitproposal'' url \<or> str_contains ''submit_proposal'' url
      then (case int_of_uint S submitFee of None \<Rightarrow> Panic | Some i \<Rightarrow> Ok i)
      else Ok minFee)"

definition min_fee :: "sdk \<Rightarrow> nat \<Rightarrow> tx_msg list \<Rightarrow> int result" where
  "min_fee S submitFee msgs = rfold (min_fee_step S submitFee) msgs 0"

definition fury_fee :: "(string \<times> int) list \<Rightarrow> int" where
  "fury_fee fees = foldl (\<lambda>n c. if StringCompare (Symbol GetSettlementAsset) (fst c) then snd c else n) 0 fees"

definition is_distribution :: "tx_msg \<Rightarrow> bool" where
  "is_distribution m \<longleftrightarrow> str_contains (to_lower ''createDistribution'') (to_lower (typeURL m)) \<or>
     str_contains (to_lower ''runDistribution'') (to_lower (typeURL m))"

definition AdjustGasPrice_AnteHandle ::
  "sdk \<Rightarrow> ante_tx \<Rightarrow> (gas_prices \<Rightarrow> 'a result) \<Rightarrow> gas_prices \<Rightarrow> 's admin_state_scheme \<Rightarrow> 'a result" where
  "AdjustGasPrice_AnteHandle S tx nxt prices s =
     (let submitProposalFee = admin_GetParams s; msgs = txMsgs tx in
      if length msgs = 1 \<and> is_distribution (msgs ! 0) then nxt [(''fury'', 50000000000)]
      else
      rbind (min_fee S submitProposalFee msgs) (\<lambda>minFee.
      if minFee = 0 then nxt prices
      else case txFee tx of
        None \<Rightarrow> Err (ErrSdk ''tx must be a FeeTx'')
      | Some fees \<Rightarrow>
          if fury_fee fees \<le> 0 then Err (ErrSdk ''unsupported fee asset'')
          else if fury_fee fees < minFee then Err (ErrSdk ''tx fee is too low'')
          else nxt prices))"

section \<open>Commission and voting power (commission.go)\<close>

definition MinCommission :: int where
  "MinCommission = 50000000000000000"

definition maxVotingPower :: int where
  "maxVotingPower = 6600000000000000000"

definition getValidator :: "staking_env \<Rightarrow> string \<Rightarrow> 's ante_state_scheme \<Rightarrow> int result" where
  "getValidator V str s =
     rbind (of_option ErrInvalidAddress (val_address V str)) (\<lambda>a.
     of_option (ErrSdk ''no validator'') (validators s a))"

definition getTotalDelegatedTokens :: "sdk \<Rightarrow> staking_env \<Rightarrow> 's ante_state_scheme \<Rightarrow> int result" where
  "getTotalDelegatedTokens S V s =
     int_add S (int (bank s (not_bonded_pool V) (bondDenom s))) (int (bank s (bonded_pool V) (bondDenom s)))"

definition CalculateDelegateProjectedVotingPower ::
  "sdk \<Rightarrow> staking_env \<Rightarrow> int \<Rightarrow> int \<Rightarrow> 's ante_state_scheme \<Rightarrow> int result" where
  "CalculateDelegateProjectedVotingPower S V tokens delegateAmount s =
     rbind (getTotalDelegatedTokens S V s) (\<lambda>total.
     rbind (dec_add S (new_dec total) delegateAmount) (\<lambda>projectedTotal.
     rbind (dec_add S (new_dec tokens) delegateAmount) (\<lambda>projected.
     rbind (dec_quo S projected projectedTotal) (\<lambda>q.
     dec_mul S q (new_dec 100)))))"

definition CalculateRedelegateProjectedVotingPower ::
  "sdk \<Rightarrow> staking_env \<Rightarrow> int \<Rightarrow> int \<Rightarrow> 's ante_state_scheme \<Rightarrow> int result" where
  "CalculateRedelegateProjectedVotingPower S V tokens delegateAmount s =
     rbind (getTotalDelegatedTokens S V s) (\<lambda>total.
     rbind (dec_add S (new_dec tokens) delegateAmount) (\<lambda>projected.
     rbind (dec_quo S projected (new_dec total)) (\<lambda>q.
     dec_mul S q (new_dec 100))))"

fun validateMsg :: "sdk \<Rightarrow> staking_env \<Rightarrow> staking_msg option \<Rightarrow> 's ante_state_scheme \<Rightarrow> unit result" where
  "validateMsg S V None s = Ok ()"
| "validateMsg S V (Some (MsgCreateValidator rate)) s = check (\<not> rate < MinCommission) (ErrSdk ''commission'')"
| "validateMsg S V (Some (MsgEditValidator r)) s =
     check (\<not> (case r of None \<Rightarrow> False | Some rate \<Rightarrow> rate < MinCommission)) (ErrSdk ''commission'')"
| "validateMsg S V (Some (MsgDelegate v amount)) s =
     rbind (getValidator V v s) (\<lambda>tokens.
     rbind (CalculateDelegateProjectedVotingPower S V tokens (new_dec amount) s) (\<lambda>power.
     check (\<not> maxVotingPower \<le> power) (ErrSdk ''voting power'')))"
| "validateMsg S V (Some (MsgBeginRedelegate src dst amount)) s =
     rbind (getValidator V dst s) (\<lambda>tokens.
     rbind (CalculateRedelegateProjectedVotingPower S V tokens (if src = dst then 0 else new_dec amount) s) (\<lambda>power.
     check (\<not> maxVotingPower \<le> power) (ErrSdk ''voting power'')))"

definition ValidateMinCommission_AnteHandle ::
  "sdk \<Rightarrow> staking_env \<Rightarrow> ante_tx \<Rightarrow> (gas_prices \<Rightarrow> 'a result) \<Rightarrow> gas_prices \<Rightarrow> 's ante_state_scheme \<Rightarrow> 'a result" where
  "ValidateMinCommission_AnteHandle S V tx nxt prices s =
     rbind (rfold (\<lambda>m _. validateMsg S V (staking m) s) (txMsgs tx) ()) (\<lambda>_. nxt prices)"

section \<open>The limits hold exactly\<close>

lemma rfold_checks: "rfold (\<lambda>m _. f m) ms () = Ok () \<longleftrightarrow> (\<forall>m \<in> set ms. f m = Ok ())"
  by (induction ms) (auto simp: result_inv)

definition delegated :: "staking_env \<Rightarrow> 's ante_state_scheme \<Rightarrow> int" where
  "delegated V s = int (bank s (not_bonded_pool V) (bondDenom s) + bank s (bonded_pool V) (bondDenom s))"

definition tokens_of :: "staking_env \<Rightarrow> 's ante_state_scheme \<Rightarrow> string \<Rightarrow> int option" where
  "tokens_of V s v = Option.bind (val_address V v) (validators s)"

fun within_limits :: "staking_env \<Rightarrow> 's ante_state_scheme \<Rightarrow> staking_msg \<Rightarrow> bool" where
  "within_limits V s (MsgCreateValidator rate) \<longleftrightarrow> 5 * dec_one \<le> 100 * rate"
| "within_limits V s (MsgEditValidator r) \<longleftrightarrow> (case r of None \<Rightarrow> True | Some rate \<Rightarrow> 5 * dec_one \<le> 100 * rate)"
| "within_limits V s (MsgDelegate v a) \<longleftrightarrow>
     (case tokens_of V s v of None \<Rightarrow> False | Some n \<Rightarrow> 1000 * (n + a) < 66 * (delegated V s + a))"
| "within_limits V s (MsgBeginRedelegate src dst a) \<longleftrightarrow>
     (case tokens_of V s dst of None \<Rightarrow> False | Some n \<Rightarrow> 1000 * (n + (if src = dst then 0 else a)) < 66 * delegated V s)"

fun amount_ok :: "staking_msg \<Rightarrow> bool" where
  "amount_ok (MsgDelegate v a) \<longleftrightarrow> 0 \<le> a"
| "amount_ok _ \<longleftrightarrow> True"

text \<open>No transaction that passes gives a validator a share of 6.6 percent or more: the rounding of the SDK cannot help it over.\<close>

context sdk_laws
begin

lemma percent_Ok:
  assumes "dec_quo S x y = Ok q" "dec_mul S q (new_dec 100) = Ok p" "p < maxVotingPower" "0 < y"
  shows "1000 * x < 66 * y"
proof -
  have q: "\<bar>q * y - x * dec_one\<bar> < y" using dec_quo [OF assms(1)] assms(4) by simp
  have "2 * \<bar>p * dec_one - q * new_dec 100\<bar> \<le> dec_one" by (rule dec_mul [OF assms(2)])
  then have "p = q * 100" by (simp add: new_dec_def)
  then have "q + 1 \<le> 66000000000000000" using assms(3) by (simp add: maxVotingPower_def)
  then have "(q + 1) * y \<le> 66000000000000000 * y" using assms(4) by (simp only: mult_right_mono less_imp_le)
  moreover have "x * dec_one < (q + 1) * y" using q by (simp add: distrib_right)
  ultimately show ?thesis by simp
qed

lemma total_tokens: "getTotalDelegatedTokens S V s = Ok tot \<Longrightarrow> tot = delegated V s"
  unfolding getTotalDelegatedTokens_def delegated_def by (drule int_add) simp

lemma delegate_power:
  assumes "CalculateDelegateProjectedVotingPower S V tokens (new_dec amount) s = Ok p" "p < maxVotingPower" "0 \<le> amount"
    and "getTotalDelegatedTokens S V s = Ok tot"
  shows "1000 * (tokens + amount) < 66 * (tot + amount)"
proof -
  from assms(1,4) obtain y x q where y: "dec_add S (new_dec tot) (new_dec amount) = Ok y"
    and x: "dec_add S (new_dec tokens) (new_dec amount) = Ok x" and q: "dec_quo S x y = Ok q" "dec_mul S q (new_dec 100) = Ok p"
    by (auto simp: CalculateDelegateProjectedVotingPower_def result_inv)
  have eq: "y = (tot + amount) * dec_one" "x = (tokens + amount) * dec_one"
    using dec_add [OF y] dec_add [OF x] by (simp_all add: new_dec_def distrib_right)
  have "0 \<le> tot" using total_tokens [OF assms(4)] by (simp add: delegated_def)
  moreover have "y \<noteq> 0" using dec_quo [OF q(1)] by blast
  ultimately have "0 < y" using assms(3) by (simp add: eq)
  from percent_Ok [OF q assms(2) this] show ?thesis by (simp add: eq)
qed

lemma redelegate_power:
  assumes "CalculateRedelegateProjectedVotingPower S V tokens (new_dec amount) s = Ok p" "p < maxVotingPower"
    and "getTotalDelegatedTokens S V s = Ok tot"
  shows "1000 * (tokens + amount) < 66 * tot"
proof -
  from assms(1,3) obtain x q where x: "dec_add S (new_dec tokens) (new_dec amount) = Ok x"
    and q: "dec_quo S x (new_dec tot) = Ok q" "dec_mul S q (new_dec 100) = Ok p"
    by (auto simp: CalculateRedelegateProjectedVotingPower_def result_inv)
  have eq: "x = (tokens + amount) * dec_one" using dec_add [OF x] by (simp add: new_dec_def distrib_right)
  have "0 \<le> tot" using total_tokens [OF assms(3)] by (simp add: delegated_def)
  moreover have "new_dec tot \<noteq> 0" using dec_quo [OF q(1)] by blast
  ultimately have "0 < new_dec tot" by (simp add: new_dec_def)
  from percent_Ok [OF q assms(2) this] show ?thesis by (simp add: eq new_dec_def)
qed

lemma validateMsg_Ok:
  assumes "validateMsg S V (Some m) s = Ok ()" "amount_ok m"
  shows "within_limits V s m"
proof (cases m)
  case (MsgDelegate v a)
  with assms(1) obtain n p where n: "getValidator V v s = Ok n" "CalculateDelegateProjectedVotingPower S V n (new_dec a) s = Ok p"
    "p < maxVotingPower" by (auto simp: result_inv check_def split: if_splits)
  then obtain tot where "getTotalDelegatedTokens S V s = Ok tot" by (auto simp: CalculateDelegateProjectedVotingPower_def result_inv)
  with delegate_power [OF n(2,3) _ this] total_tokens [OF this] n(1) assms(2) MsgDelegate show ?thesis
    by (auto simp: getValidator_def tokens_of_def result_inv)
next
  case (MsgBeginRedelegate src dst a)
  let ?a = "if src = dst then 0 else a"
  have "(if src = dst then 0 else new_dec a) = new_dec ?a" by (simp add: new_dec_def)
  with assms(1) MsgBeginRedelegate obtain n p where n: "getValidator V dst s = Ok n"
    "CalculateRedelegateProjectedVotingPower S V n (new_dec ?a) s = Ok p" "p < maxVotingPower"
    by (auto simp: result_inv check_def split: if_splits)
  then obtain tot where "getTotalDelegatedTokens S V s = Ok tot" by (auto simp: CalculateRedelegateProjectedVotingPower_def result_inv)
  with redelegate_power [OF n(2,3) this] total_tokens [OF this] n(1) MsgBeginRedelegate show ?thesis
    by (auto simp: getValidator_def tokens_of_def result_inv)
qed (use assms in \<open>auto simp: check_def MinCommission_def split: if_splits option.splits\<close>)

end

section \<open>Properties\<close>

text \<open>
  C10. A transaction passes the check of validators only if every new commission is at least five percent and every
  delegation, taken for itself, leaves its validator with less than 6.6 percent of all delegated tokens, as exact
  fractions: rounding opens no gap. Negative delegations are refused before.
\<close>

theorem commission_enforced:
  assumes "sdk_laws S" and "ValidateMinCommission_AnteHandle S V tx nxt prices s = Ok r"
    and "\<forall>m \<in> set (txMsgs tx). pred_option amount_ok (staking m)"
  shows "nxt prices = Ok r \<and> (\<forall>m \<in> set (txMsgs tx). pred_option (within_limits V s) (staking m))"
proof -
  from assms(2) have "\<forall>m \<in> set (txMsgs tx). validateMsg S V (staking m) s = Ok ()" and n: "nxt prices = Ok r"
    by (auto simp: ValidateMinCommission_AnteHandle_def result_inv rfold_checks)
  then have "pred_option (within_limits V s) (staking m)" if "m \<in> set (txMsgs tx)" for m
    using that bspec [OF assms(3) that] sdk_laws.validateMsg_Ok [OF assms(1)] by (cases "staking m") (auto dest!: bspec)
  with n show ?thesis by blast
qed

definition staking_ref :: staking_env where
  "staking_ref = \<lparr>val_address = (\<lambda>str. if str = '''' then None else Some str), bonded_pool = ''bonded'', not_bonded_pool = ''loose''\<rparr>"

definition ante_demo :: ante_state where
  "ante_demo = \<lparr>bank = (\<lambda>a d. if a = ''bonded'' \<and> d = NativeSymbol then 1000 else 0), height = 1, block_time = '''', adminAccounts = [],
     submitProposalFee = None, validators = (\<lambda>v. if v = ''val1'' then Some 50 else None), bondDenom = NativeSymbol\<rparr>"

definition delegation :: "int \<Rightarrow> tx_msg" where
  "delegation n = \<lparr>typeURL = ''/cosmos.staking.v1beta1.MsgDelegate'', staking = Some (MsgDelegate ''val1'' n)\<rparr>"

lemma ante_demo_power:
  "CalculateDelegateProjectedVotingPower sdk_ref staking_ref 50 (new_dec 10) ante_demo = Ok 5940594059405940600"
  "CalculateDelegateProjectedVotingPower sdk_ref staking_ref 50 (new_dec 20) ante_demo = Ok 6862745098039215700"
  by (simp_all add: CalculateDelegateProjectedVotingPower_def getTotalDelegatedTokens_def sdk_ref_sel fits_def quo_ref_def round_div_def
    new_dec_def tquo_def ante_demo_def staking_ref_def cong: eval_cong)

lemma demo_validator: "getValidator staking_ref ''val1'' ante_demo = Ok 50"
  by (simp add: getValidator_def staking_ref_def ante_demo_def)

lemmas eval_ante = ValidateMinCommission_AnteHandle_def delegation_def demo_validator ante_demo_power check_def maxVotingPower_def

lemma demo_delegations:
  "ValidateMinCommission_AnteHandle sdk_ref staking_ref \<lparr>txMsgs = [delegation 10, delegation 10], txFee = None\<rparr> (\<lambda>_. Ok ()) [] ante_demo = Ok ()"
  by (simp add: eval_ante)

theorem commission_enforced_witness:
  "ValidateMinCommission_AnteHandle sdk_ref staking_ref \<lparr>txMsgs = [delegation 10, delegation 10], txFee = None\<rparr> (\<lambda>_. Ok ()) [] ante_demo = Ok () \<and>
    within_limits staking_ref ante_demo (MsgDelegate ''val1'' 10)"
  using commission_enforced [OF ref.sdk_laws_axioms demo_delegations] demo_delegations by (simp add: delegation_def)

text \<open>Each delegation of a transaction is checked against the same state: together they can pass the limit that one of the whole amount fails.\<close>

lemma split_delegation_passes:
  "ValidateMinCommission_AnteHandle sdk_ref staking_ref \<lparr>txMsgs = [delegation 10, delegation 10], txFee = None\<rparr> (\<lambda>_. Ok ()) [] ante_demo = Ok () \<and>
   ValidateMinCommission_AnteHandle sdk_ref staking_ref \<lparr>txMsgs = [delegation 20], txFee = None\<rparr> (\<lambda>_. Ok ()) [] ante_demo = Err (ErrSdk ''voting power'')"
  by (simp add: eval_ante)

definition of_type :: "string \<Rightarrow> tx_msg" where
  "of_type url = \<lparr>typeURL = url, staking = None\<rparr>"

definition proposal_url :: string where
  "proposal_url = ''/cosmos.gov.v1beta1.MsgSubmitProposal''"

definition swap_url :: string where
  "swap_url = ''/furynode.clp.v1.MsgSwap''"

section \<open>Which message sets the fee\<close>

text \<open>
  By its type URL a message has a fixed fee, that of a proposal, or none; a transfer asks for
  a lower bound only.
\<close>

definition charged :: "tx_msg \<Rightarrow> bool" where
  "charged m \<longleftrightarrow> list_ex (\<lambda>p. str_contains p (to_lower (typeURL m)))
     [''send'', ''multisend'', ''createuserclaim'', ''swap'', ''removeliquidity'', ''removeliquidityunits'', ''addliquidity'']"

definition is_transfer :: "tx_msg \<Rightarrow> bool" where
  "is_transfer m \<longleftrightarrow> str_contains ''transfer'' (to_lower (typeURL m))"

definition is_proposal :: "tx_msg \<Rightarrow> bool" where
  "is_proposal m \<longleftrightarrow> str_contains ''submitproposal'' (to_lower (typeURL m)) \<or> str_contains ''submit_proposal'' (to_lower (typeURL m))"

definition own_fee :: "nat \<Rightarrow> tx_msg \<Rightarrow> int option" where
  "own_fee n m = (if charged m then Some 100000000000000000 else if is_proposal m \<and> \<not> is_transfer m then Some (int n) else None)"

lemma min_fee_step_eq:
  "min_fee_step S n m f = (if charged m then Ok 100000000000000000
     else if is_transfer m \<and> f \<le> 10000000000000000 then Ok 10000000000000000
     else if is_proposal m then (case int_of_uint S n of None \<Rightarrow> Panic | Some i \<Rightarrow> Ok i) else Ok f)"
  by (simp only: min_fee_step_def Let_def charged_def is_transfer_def is_proposal_def)

text \<open>The fee that is left after a message with a fee of its own and further messages without one.\<close>

definition raised :: "int \<Rightarrow> tx_msg list \<Rightarrow> int" where
  "raised f ms = (if list_ex is_transfer ms then max f 10000000000000000 else f)"

lemma fees_after:
  assumes "\<forall>y \<in> set ys. \<not> charged y \<and> \<not> is_proposal y"
  shows "rfold (min_fee_step S n) ys f = Ok (raised f ys)"
  using assms by (induction ys arbitrary: f) (auto simp: raised_def min_fee_step_eq)

context sdk_laws
begin

lemma fee_step_total: "n < 2 ^ 255 \<Longrightarrow> \<exists>g. min_fee_step S n m f = Ok g"
  using int_of_uint_total [of n] by (auto simp: min_fee_step_eq)

lemma fees_total: "n < 2 ^ 255 \<Longrightarrow> \<exists>g. rfold (min_fee_step S n) xs f = Ok g"
proof (induction xs arbitrary: f)
  case (Cons x xs)
  then show ?case using fee_step_total [of n x f] by fastforce
qed simp

lemma min_fee_decided:
  assumes "n < 2 ^ 255" and "own_fee n m = Some f" and "\<forall>y \<in> set ys. \<not> charged y \<and> \<not> is_proposal y"
  shows "min_fee S n (xs @ m # ys) = Ok (raised f ys)"
proof -
  obtain g where "rfold (min_fee_step S n) xs 0 = Ok g" using fees_total [OF assms(1)] by blast
  moreover have "min_fee_step S n m g = Ok f"
    using assms(2) int_of_uint_total [OF assms(1)] by (auto simp: own_fee_def min_fee_step_eq split: if_splits)
  ultimately show ?thesis using fees_after [OF assms(3)] by (simp add: min_fee_def rfold_append)
qed

end

text \<open>
  C29. The minimal fee of a transaction is that of its last message with a fee of its own (a charged type, or a proposal), whatever comes
  before: messages before it, dearer ones included, do not count, and of those behind it only a transfer matters, which raises the fee to 0.01 at
  least. The fee of a proposal has to be below \<open>2 ^ 255\<close>, and the transaction is not one of the two messages of a distribution alone.
\<close>

theorem fee_of_last_message:
  assumes "sdk_laws S" and "admin_GetParams s < 2 ^ 255" and "own_fee (admin_GetParams s) m = Some f"
    and "\<forall>y \<in> set ys. \<not> charged y \<and> \<not> is_proposal y" and "\<not> (xs = [] \<and> ys = [] \<and> is_distribution m)"
  shows "AdjustGasPrice_AnteHandle S \<lparr>txMsgs = xs @ m # ys, txFee = fee\<rparr> nxt prices s =
    (if raised f ys = 0 then nxt prices
     else case fee of None \<Rightarrow> Err (ErrSdk ''tx must be a FeeTx'')
     | Some fees \<Rightarrow> if fury_fee fees \<le> 0 then Err (ErrSdk ''unsupported fee asset'')
         else if fury_fee fees < raised f ys then Err (ErrSdk ''tx fee is too low'') else nxt prices)"
proof -
  have "\<not> (length (xs @ m # ys) = 1 \<and> is_distribution ((xs @ m # ys) ! 0))" using assms(5) by (cases xs) auto
  then show ?thesis
    using sdk_laws.min_fee_decided [OF assms(1-4), of xs] by (auto simp: AdjustGasPrice_AnteHandle_def Let_def)
qed

lemma demo_kinds: "is_proposal (of_type proposal_url)" "charged (of_type swap_url)" "\<not> is_proposal (of_type swap_url)"
  by code_simp+

text \<open>A proposal with a fee of 0.1, below its own, passes when a swap is put behind it.\<close>

theorem fee_of_last_message_witness:
  "100000000000000000 < admin_GetParams ante_demo \<and>
   AdjustGasPrice_AnteHandle sdk_ref \<lparr>txMsgs = [of_type proposal_url] @ of_type swap_url # [], txFee = Some [(''fury'', 100000000000000000)]\<rparr>
     (\<lambda>_. Ok ()) [] ante_demo = Ok ()"
  using fee_of_last_message [OF ref.sdk_laws_axioms, of ante_demo "of_type swap_url" 100000000000000000 "[]" "[of_type proposal_url]"
      "Some [(''fury'', 100000000000000000)]" "\<lambda>_. Ok ()" "[]"] demo_kinds(2)
  by (simp add: ante_demo_def admin_GetParams_def own_fee_def raised_def fury_fee_def StringCompare_def)

end
