(* ===== verification/MarginQueries.thy ===== *)
theory MarginQueries
  imports ClpQueries MarginMsgs
begin

text \<open>
  The gRPC queries of \<open>x/margin/keeper/grpc_query.go\<close> over the pages of \<open>ClpQueries\<close>. The queries for all positions and for
  the whitelist read the limit through the pointer to the page, which panics when it is nil.
\<close>

definition margin_MaxPageLimit :: nat where
  "margin_MaxPageLimit = 100"

section \<open>Stores (keeper.go)\<close>

definition raw_page :: "'a list \<Rightarrow> (nat list \<times> PageResponse) result \<Rightarrow> ('a list \<times> PageResponse) result" where
  "raw_page xs r = rbind r (\<lambda>(is, res). Ok (map (\<lambda>i. xs ! i) is, res))"

definition page_or_all :: "PageRequest option \<Rightarrow> PageRequest" where
  "page_or_all p = (case p of None \<Rightarrow> NewPageRequest (2 ^ 64 - 2) | Some r \<Rightarrow> r)"

definition GetMTPs :: "page_env \<Rightarrow> PageRequest option \<Rightarrow> 's margin_state_scheme \<Rightarrow> (MTP list \<times> PageResponse) result" where
  "GetMTPs Q p s = raw_page (kv_values (mtps s)) (Paginate Q (page_or_all p) (length (mtps s)))"

definition mtps_page :: "page_env \<Rightarrow> string \<Rightarrow> PageRequest option \<Rightarrow> 's margin_state_scheme \<Rightarrow> (MTP list \<times> PageResponse) result" where
  "mtps_page Q asset p s =
     raw_page (kv_values (mtps s)) (FilteredPaginate Q (page_or_all p)
       (map (\<lambda>m. StringCompare (custodyAsset m) asset \<or> StringCompare (collateralAsset m) asset) (kv_values (mtps s))))"

definition GetMTPsForAddress ::
  "page_env \<Rightarrow> string \<Rightarrow> PageRequest option \<Rightarrow> 's margin_state_scheme \<Rightarrow> (MTP list \<times> PageResponse) result" where
  "GetMTPsForAddress Q addr p s =
     (let ms = kv_prefix addr (mtps s);
          r = (case p of None \<Rightarrow> NewPageRequest margin_MaxPageLimit | Some r \<Rightarrow> r) in
      if margin_MaxPageLimit < pageLimit r then Err (ErrSdk ''page size'')
      else raw_page ms (Paginate Q r (length ms)))"

definition GetWhitelist :: "page_env \<Rightarrow> PageRequest option \<Rightarrow> 's margin_state_scheme \<Rightarrow> (string list \<times> PageResponse) result" where
  "GetWhitelist Q p s = raw_page (kv_values (marginWhitelist s)) (Paginate Q (page_or_all p) (length (marginWhitelist s)))"

section \<open>Queries (grpc\_query.go)\<close>

text \<open>The limit behind a pointer.\<close>

definition limit_below :: "PageRequest option \<Rightarrow> unit result" where
  "limit_below p = (case p of None \<Rightarrow> Panic | Some r \<Rightarrow> check (\<not> margin_MaxPageLimit < pageLimit r) (ErrSdk ''page size''))"

definition query_GetMTP :: "string \<Rightarrow> int \<Rightarrow> 's margin_state_scheme \<Rightarrow> MTP result" where
  "query_GetMTP addr n s = GetMTP addr n s"

definition GetPositionsForAddress ::
  "sdk \<Rightarrow> page_env \<Rightarrow> string \<Rightarrow> PageRequest option \<Rightarrow> 's margin_state_scheme \<Rightarrow> (MTP list \<times> PageResponse) result" where
  "GetPositionsForAddress S Q a p s =
     rbind (of_option (ErrSdk ''bech32'') (acc_from_bech32 S a)) (\<lambda>addr. GetMTPsForAddress Q addr p s)"

definition query_margin_GetParams :: "'s margin_state_scheme \<Rightarrow> MarginParams" where
  "query_margin_GetParams s = margin_GetParams s"

definition GetPositionsByPool ::
  "page_env \<Rightarrow> string \<Rightarrow> PageRequest option \<Rightarrow> 's margin_state_scheme \<Rightarrow> (MTP list \<times> PageResponse) result" where
  "GetPositionsByPool Q asset p s = mtps_page Q asset p s"

definition GetPositions :: "page_env \<Rightarrow> PageRequest option \<Rightarrow> 's margin_state_scheme \<Rightarrow> (MTP list \<times> PageResponse) result" where
  "GetPositions Q p s = rbind (limit_below p) (\<lambda>_. GetMTPs Q p s)"

definition GetStatus :: "'s margin_state_scheme \<Rightarrow> int \<times> int" where
  "GetStatus s = (openMTPCount s, mtpCount s)"

definition query_GetWhitelist :: "page_env \<Rightarrow> PageRequest option \<Rightarrow> 's margin_state_scheme \<Rightarrow> (string list \<times> PageResponse) result" where
  "query_GetWhitelist Q p s = rbind (limit_below p) (\<lambda>_. GetWhitelist Q p s)"

definition GetSQParams :: "string \<Rightarrow> 's margin_state_scheme \<Rightarrow> int result" where
  "GetSQParams pool s = rbind (GetPool pool s) (\<lambda>p. Ok (to_i64 (GetSQBeginBlock p s)))"

definition query_IsWhitelisted :: "string \<Rightarrow> 's margin_state_scheme \<Rightarrow> string \<times> bool" where
  "query_IsWhitelisted a s = (a, IsWhitelisted a s)"

lemma nil_page_panics: "GetPositions Q None s = Panic" "query_GetWhitelist Q None s = Panic"
  by (simp_all add: GetPositions_def query_GetWhitelist_def limit_below_def)

context page_laws
begin

text \<open>Whoever asks with a page gets at most a page.\<close>

lemma positions_bounded:
  "GetPositions Q p s = Ok (ms, res) \<Longrightarrow> length ms \<le> margin_MaxPageLimit"
  "GetPositionsForAddress S Q a p s = Ok (ms, res) \<Longrightarrow> length ms \<le> margin_MaxPageLimit"
  by (auto simp: GetPositions_def GetPositionsForAddress_def GetMTPs_def GetMTPsForAddress_def raw_page_def limit_below_def check_def
      result_inv Let_def page_or_all_def page_size_def margin_MaxPageLimit_def NewPageRequest_def split: option.splits if_splits dest!: Paginate)

end

end
