(* ===== verification/Relayer.thy ===== *)
theory Relayer
  imports BridgeClaims
begin

text \<open>
  What the relayer (\<open>cmd/ebrelayer\<close>) makes of the events of the two chains. An event of the contract on Ethereum becomes a claim for
  \<open>x/ethbridge\<close> (\<open>txs/parser.go\<close>), an event of \<open>Lock\<close> or \<open>Burn\<close> on this chain a call of the contract; a claim or a call
  the validator has sent before is read back from the chains, so that a replay can leave out what is done.

  An Ethereum address is the text that \<open>Hex()\<close> gives for it, a byte a character. A pointer that may be nil is an option; reading
  through nil panics. Outside the repository are the parsing of numbers by the SDK (\<open>relay_env\<close>) and the bidirectional map
  behind a \<open>SymbolTranslator\<close>, whose values are of any type.
\<close>

section \<open>Types (types/types.go)\<close>

datatype Event =
    Event_Unsupported | Event_MsgBurn | Event_MsgLock | Event_LogLock | Event_LogBurn
  | Event_LogNewProphecyClaim | Event_NewProphecyClaim | Event_CreateEthBridgeClaim

fun Event_String :: "Event \<Rightarrow> string" where
  "Event_String Event_Unsupported = ''unsupported''"
| "Event_String Event_MsgBurn = ''burn''"
| "Event_String Event_MsgLock = ''lock''"
| "Event_String Event_LogLock = ''LogLock''"
| "Event_String Event_LogBurn = ''LogBurn''"
| "Event_String Event_LogNewProphecyClaim = ''LogNewProphecyClaim''"
| "Event_String Event_NewProphecyClaim = ''newProphecyClaim''"
| "Event_String Event_CreateEthBridgeClaim = ''create_claim''"

record EthereumEvent =
  eventTo :: string
  eventSymbol :: string
  eventChainID :: int
  eventValue :: int
  eventNonce :: int
  eventClaimType :: ClaimType
  eventID :: string
  eventContract :: string
  eventFrom :: string
  eventToken :: string

record CosmosMsg =
  cosmosSender :: string
  cosmosSenderSequence :: "int option"
  cosmosSymbol :: string
  cosmosAmount :: "int option"
  ethereumReceiver :: string
  cosmosClaimType :: Event

definition NewCosmosMsg :: "Event \<Rightarrow> string \<Rightarrow> int option \<Rightarrow> string \<Rightarrow> string \<Rightarrow> int option \<Rightarrow> CosmosMsg" where
  "NewCosmosMsg t sender sequ receiver symbol amount =
     \<lparr>cosmosSender = sender, cosmosSenderSequence = sequ, cosmosSymbol = symbol, cosmosAmount = amount, ethereumReceiver = receiver,
      cosmosClaimType = t\<rparr>"

datatype CosmosMsgAttributeKey =
    UnsupportedAttributeKey | CosmosSender | CosmosSenderSequence | EthereumReceiver | AmountKey | SymbolKey
  | EthereumSender | EthereumSenderNonce

fun AttributeKey_String :: "CosmosMsgAttributeKey \<Rightarrow> string" where
  "AttributeKey_String UnsupportedAttributeKey = ''unsupported''"
| "AttributeKey_String CosmosSender = ''cosmos_sender''"
| "AttributeKey_String CosmosSenderSequence = ''cosmos_sender_sequence''"
| "AttributeKey_String EthereumReceiver = ''ethereum_receiver''"
| "AttributeKey_String AmountKey = ''amount''"
| "AttributeKey_String SymbolKey = ''symbol''"
| "AttributeKey_String EthereumSender = ''ethereum_sender''"
| "AttributeKey_String EthereumSenderNonce = ''ethereum_sender_nonce''"

record EthereumBridgeClaim =
  bridgeEthereumSender :: string
  bridgeCosmosSender :: string        \<comment> \<open>empty if nil\<close>
  bridgeNonce :: "int option"

record ProphecyClaimUnique =
  uniqueSequence :: int
  uniqueSender :: string

section \<open>Symbols (internal/symbol_translator, internal/bimap_with_default)\<close>

datatype iface = IString string | IOther

record SymbolTranslator =
  bimap_Get :: "string \<Rightarrow> iface option"
  bimap_GetInverse :: "string \<Rightarrow> iface option"

definition GetWithDefault :: "SymbolTranslator \<Rightarrow> string \<Rightarrow> iface \<Rightarrow> iface" where
  "GetWithDefault T k d = (case bimap_Get T k of Some r \<Rightarrow> r | None \<Rightarrow> d)"

definition GetInverseWithDefault :: "SymbolTranslator \<Rightarrow> string \<Rightarrow> iface \<Rightarrow> iface" where
  "GetInverseWithDefault T k d = (case bimap_GetInverse T k of Some r \<Rightarrow> r | None \<Rightarrow> d)"

text \<open>The assertion \<open>.(string)\<close>.\<close>

fun as_string :: "iface \<Rightarrow> string result" where
  "as_string (IString s) = Ok s"
| "as_string IOther = Panic"

definition FurynetToEthereum :: "SymbolTranslator \<Rightarrow> string \<Rightarrow> string result" where
  "FurynetToEthereum T d = as_string (GetWithDefault T d (IString d))"

definition EthereumToFurynet :: "SymbolTranslator \<Rightarrow> string \<Rightarrow> string result" where
  "EthereumToFurynet T symbol = as_string (GetInverseWithDefault T symbol (IString symbol))"

section \<open>From Ethereum to this chain (txs/parser.go)\<close>

record relay_env =
  NewIntFromBigInt :: "int \<Rightarrow> int result"
  NewIntFromString :: "string \<Rightarrow> int option"

definition nullAddress :: string where
  "nullAddress = ''0x0000000000000000000000000000000000000000''"

definition defaultFurynetPrefix :: char where
  "defaultFurynetPrefix = CHR ''c''"

definition isZeroAddress :: "bridge_env \<Rightarrow> string \<Rightarrow> bool" where
  "isZeroAddress B a \<longleftrightarrow> a = hex_to_address B nullAddress"

text \<open>The symbol a claim names, by the kind of event.\<close>

definition claim_symbol :: "bridge_env \<Rightarrow> SymbolTranslator \<Rightarrow> EthereumEvent \<Rightarrow> string result" where
  "claim_symbol B T event =
     (case eventClaimType event of
        CLAIM_TYPE_LOCK \<Rightarrow>
          let symbol = to_lower (eventSymbol event) in
          rbind (check (\<not> (symbol = ''eth'' \<and> \<not> isZeroAddress B (eventToken event)))
            (ErrSdk ''symbol eth must have null address set as token address'')) (\<lambda>_. Ok symbol)
      | CLAIM_TYPE_BURN \<Rightarrow> EthereumToFurynet T (eventSymbol event)
      | CLAIM_TYPE_UNSPECIFIED \<Rightarrow> Ok (eventSymbol event))"

definition EthereumEventToEthBridgeClaim ::
  "sdk \<Rightarrow> bridge_env \<Rightarrow> relay_env \<Rightarrow> string \<Rightarrow> EthereumEvent \<Rightarrow> SymbolTranslator \<Rightarrow> EthBridgeClaim result" where
  "EthereumEventToEthBridgeClaim S B R valAddr event T =
     rbind (of_option (ErrSdk ''bech32'') (acc_from_bech32 S (eventTo event))) (\<lambda>recipient.
     rbind (check (recipient \<noteq> '''') (ErrSdk ''empty recipient address'')) (\<lambda>_.
     rbind (claim_symbol B T event) (\<lambda>symbol.
     rbind (NewIntFromBigInt R (eventValue event)) (\<lambda>amount.
     Ok \<lparr>ethereumChainId = to_i64 (eventChainID event),
         bridgeContractAddress = hex_to_address B (eventContract event),
         ethNonce = to_i64 (eventNonce event), ethSymbol = symbol,
         tokenContractAddress = hex_to_address B (eventToken event),
         ethereumSender = hex_to_address B (eventFrom event),
         cosmosReceiver = recipient, ethValidator = valAddr, ethAmount = amount, ethClaimType = eventClaimType event\<rparr>))))"

section \<open>From this chain to Ethereum (txs/parser.go)\<close>

text \<open>\<open>SetString(val, 10)\<close> of \<open>big.Int\<close>: an optional sign and at least one digit.\<close>

fun decimal_value :: "nat \<Rightarrow> string \<Rightarrow> nat option" where
  "decimal_value n [] = Some n"
| "decimal_value n (c # cs) = (let d = of_char c :: nat in
     if 48 \<le> d \<and> d \<le> 57 then decimal_value (10 * n + (d - 48)) cs else None)"

definition SetString10 :: "string \<Rightarrow> int option" where
  "SetString10 s =
     (let (neg, ds) = (case s of c # cs \<Rightarrow> if c = CHR ''-'' then (True, cs) else if c = CHR ''+'' then (False, cs) else (False, s)
                              | [] \<Rightarrow> (False, [])) in
      if ds = [] then None else map_option (\<lambda>n. if neg then - int n else int n) (decimal_value 0 ds))"

text \<open>\<open>strings.SplitAfter\<close> with a separator of one character.\<close>

fun SplitAfter :: "char \<Rightarrow> string \<Rightarrow> string list" where
  "SplitAfter c [] = [[]]"
| "SplitAfter c (x # xs) =
     (if x = c then [x] # SplitAfter c xs
      else (case SplitAfter c xs of [] \<Rightarrow> [[x]] | y # ys \<Rightarrow> (x # y) # ys))"

type_synonym attribute = "string \<times> string"

record burn_lock =
  attributeNumber :: nat
  accSender :: string
  accSequence :: "int option"
  accReceiver :: string
  accSymbol :: string
  accAmount :: "int option"

text \<open>The symbol as the contract knows it: a locked one is translated, a burnt one loses everything up to its first \<open>c\<close>.\<close>

definition relayed_symbol :: "SymbolTranslator \<Rightarrow> Event \<Rightarrow> string \<Rightarrow> string \<Rightarrow> string result" where
  "relayed_symbol T t val symbol =
     (case t of
        Event_MsgLock \<Rightarrow> FurynetToEthereum T val
      | Event_MsgBurn \<Rightarrow>
          rbind (check (str_contains [defaultFurynetPrefix] val) (ErrSdk ''can only relay burns of prefixed coins'')) (\<lambda>_.
          Ok (concat (drop 1 (SplitAfter defaultFurynetPrefix val))))
      | _ \<Rightarrow> Ok symbol)"

text \<open>One round of the loop over the attributes.\<close>

definition read_attribute ::
  "bridge_env \<Rightarrow> relay_env \<Rightarrow> SymbolTranslator \<Rightarrow> Event \<Rightarrow> attribute \<Rightarrow> burn_lock \<Rightarrow> burn_lock result" where
  "read_attribute B R T t kv acc =
     (let (key, val) = kv; acc' = acc\<lparr>attributeNumber := Suc (attributeNumber acc)\<rparr> in
      if key = AttributeKey_String CosmosSender then Ok (acc'\<lparr>accSender := val\<rparr>)
      else if key = AttributeKey_String CosmosSenderSequence then
        rbind (of_option (ErrSdk ''invalid account sequence'') (SetString10 val)) (\<lambda>i. Ok (acc'\<lparr>accSequence := Some i\<rparr>))
      else if key = AttributeKey_String EthereumReceiver then
        rbind (check (is_hex_address B val) (ErrSdk ''invalid recipient address'')) (\<lambda>_.
        Ok (acc'\<lparr>accReceiver := hex_to_address B val\<rparr>))
      else if key = AttributeKey_String SymbolKey then
        rbind (relayed_symbol T t val (accSymbol acc)) (\<lambda>symbol. Ok (acc'\<lparr>accSymbol := symbol\<rparr>))
      else if key = AttributeKey_String AmountKey then
        rbind (of_option (ErrSdk ''invalid amount'') (NewIntFromString R val)) (\<lambda>i. Ok (acc'\<lparr>accAmount := Some i\<rparr>))
      else Ok acc)"

definition BurnLockEventToCosmosMsg ::
  "bridge_env \<Rightarrow> relay_env \<Rightarrow> Event \<Rightarrow> attribute list \<Rightarrow> SymbolTranslator \<Rightarrow> CosmosMsg result" where
  "BurnLockEventToCosmosMsg B R t attributes T =
     rbind (rfold (read_attribute B R T t) attributes
       \<lparr>attributeNumber = 0, accSender = '''', accSequence = None, accReceiver = hex_to_address B nullAddress, accSymbol = '''',
        accAmount = None\<rparr>) (\<lambda>acc.
     rbind (check (\<not> attributeNumber acc < 5) (ErrSdk ''message not complete'')) (\<lambda>_.
     Ok (NewCosmosMsg t (accSender acc) (accSequence acc) (accReceiver acc) (accSymbol acc) (accAmount acc))))"

definition read_claim_attribute ::
  "bridge_env \<Rightarrow> relay_env \<Rightarrow> attribute \<Rightarrow> EthereumBridgeClaim \<Rightarrow> EthereumBridgeClaim result" where
  "read_claim_attribute B R kv acc =
     (let (key, val) = kv in
      if key = AttributeKey_String CosmosSender then
        rbind (of_option (ErrSdk ''bech32'') (val_from_bech32 B val)) (\<lambda>a. Ok (acc\<lparr>bridgeCosmosSender := a\<rparr>))
      else if key = AttributeKey_String EthereumSender then
        rbind (check (is_hex_address B val) (ErrSdk ''invalid recipient address'')) (\<lambda>_.
        Ok (acc\<lparr>bridgeEthereumSender := hex_to_address B val\<rparr>))
      else if key = AttributeKey_String EthereumSenderNonce then
        rbind (of_option (ErrSdk ''invalid nonce'') (NewIntFromString R val)) (\<lambda>i. Ok (acc\<lparr>bridgeNonce := Some i\<rparr>))
      else Ok acc)"

definition AttributesToEthereumBridgeClaim :: "bridge_env \<Rightarrow> relay_env \<Rightarrow> attribute list \<Rightarrow> EthereumBridgeClaim result" where
  "AttributesToEthereumBridgeClaim B R attributes =
     rfold (read_claim_attribute B R) attributes
       \<lparr>bridgeEthereumSender = hex_to_address B nullAddress, bridgeCosmosSender = '''', bridgeNonce = None\<rparr>"

section \<open>What has been done before (relayer/ethereum.go, relayer/cosmos.go)\<close>

text \<open>The loop stops at the first match; a claim without a nonce panics when its sender matches.\<close>

fun EventProcessed :: "EthereumBridgeClaim list \<Rightarrow> EthereumEvent \<Rightarrow> bool result" where
  "EventProcessed [] event = Ok False"
| "EventProcessed (claim # claims) event =
     (if eventFrom event = bridgeEthereumSender claim
      then (case bridgeNonce claim of None \<Rightarrow> Panic
            | Some n \<Rightarrow> if eventNonce event = n then Ok True else EventProcessed claims event)
      else EventProcessed claims event)"

fun MessageProcessed :: "CosmosMsg \<Rightarrow> ProphecyClaimUnique list \<Rightarrow> bool result" where
  "MessageProcessed message [] = Ok False"
| "MessageProcessed message (p # ps) =
     (if cosmosSender message = uniqueSender p
      then (case cosmosSenderSequence message of None \<Rightarrow> Panic
            | Some n \<Rightarrow> if n = uniqueSequence p then Ok True else MessageProcessed message ps)
      else MessageProcessed message ps)"

definition getOracleClaimType :: "string \<Rightarrow> Event" where
  "getOracleClaimType eventType =
     (if eventType = Event_String Event_MsgBurn then Event_MsgBurn
      else if eventType = Event_String Event_MsgLock then Event_MsgLock
      else Event_Unsupported)"

text \<open>\<open>hex.Encode\<close>, and \<open>strconv.ParseUint\<close> to the base 16 of lower case digits.\<close>

definition hex_digit :: "nat \<Rightarrow> char" where
  "hex_digit n = (if n < 10 then char_of (48 + n) else char_of (87 + n))"

definition hex_Encode :: "string \<Rightarrow> string" where
  "hex_Encode bs = concat (map (\<lambda>c. let n = of_char c :: nat in [hex_digit (n div 16), hex_digit (n mod 16)]) bs)"

definition hex_value :: "char \<Rightarrow> nat option" where
  "hex_value c = (let n = of_char c :: nat in
     if 48 \<le> n \<and> n \<le> 57 then Some (n - 48) else if 97 \<le> n \<and> n \<le> 102 then Some (n - 87)
     else if 65 \<le> n \<and> n \<le> 70 then Some (n - 55) else None)"

fun hex_number :: "nat \<Rightarrow> string \<Rightarrow> nat option" where
  "hex_number n [] = Some n"
| "hex_number n (c # cs) = (case hex_value c of None \<Rightarrow> None | Some d \<Rightarrow> hex_number (16 * n + d) cs)"

definition ParseUint16 :: "nat \<Rightarrow> string \<Rightarrow> nat result" where
  "ParseUint16 bits s =
     (if s = [] then Err (ErrSdk ''invalid syntax'')
      else case hex_number 0 s of
        None \<Rightarrow> Err (ErrSdk ''invalid syntax'')
      | Some n \<Rightarrow> if n < 2 ^ bits then Ok n else Err (ErrSdk ''value out of range''))"

definition MyDecode :: "string \<Rightarrow> ProphecyClaimUnique result" where
  "MyDecode bs =
     rbind (check (\<not> length bs < 32 * 7 + 42) (ErrSdk ''tx data length not enough'')) (\<lambda>_.
     rbind (ParseUint16 32 (hex_Encode (take 32 (drop 64 bs)))) (\<lambda>sequ.
     Ok \<lparr>uniqueSequence = int sequ, uniqueSender = take 42 (drop (32 * 7) bs)\<rparr>))"

text \<open>
  All claims the validator \<open>me\<close> has sent to the contract, from the blocks that the node returns. A transaction gives the address recovered
  from its signature, if any, and its input, which starts with the four bytes of the method called.
\<close>

record eth_tx =
  txSender :: "string option"
  txInput :: string

definition sent_claim :: "string \<Rightarrow> string \<Rightarrow> eth_tx \<Rightarrow> ProphecyClaimUnique list" where
  "sent_claim methodID me tx =
     (if txSender tx = Some me \<and> \<not> length (txInput tx) < 4 \<and> take 4 (txInput tx) = methodID
      then (case MyDecode (drop 4 (txInput tx)) of Ok p \<Rightarrow> [p] | _ \<Rightarrow> [])
      else [])"

definition GetAllProphecyClaim ::
  "string \<Rightarrow> (int \<Rightarrow> eth_tx list option) \<Rightarrow> string \<Rightarrow> int \<Rightarrow> int \<Rightarrow> ProphecyClaimUnique list" where
  "GetAllProphecyClaim methodID block_by_number me from to =
     concat (map (\<lambda>n. case block_by_number n of None \<Rightarrow> [] | Some txs \<Rightarrow> concat (map (sent_claim methodID me) txs)) [from..to - 1])"

section \<open>Claims of honest relayers\<close>

text \<open>What go-ethereum promises of addresses, and the SDK of numbers.\<close>

locale relay_laws = bridge_laws S B for S :: sdk and B :: bridge_env +
  fixes R :: relay_env
  assumes hex_valid: "is_hex_address B (hex_to_address B h)"
    and hex_idem: "hex_to_address B (hex_to_address B h) = hex_to_address B h"
    and NewIntFromBigInt: "NewIntFromBigInt R i = Ok j \<Longrightarrow> j = i"

lemma to_lower_idem: "to_lower (to_lower s) = to_lower s"
  by (auto simp: to_lower_def Let_def)

lemma SplitAfter_concat: "concat (SplitAfter c s) = s" "SplitAfter c s \<noteq> []"
  by (induction s) (auto split: list.splits)

lemma SplitAfter_rest: "concat (drop 1 (SplitAfter c s)) = drop 1 (dropWhile (\<lambda>x. x \<noteq> c) s)"
proof (induction s)
  case (Cons x xs)
  then show ?case using SplitAfter_concat [of c xs] by (auto split: list.splits)
qed simp

text \<open>The claims two validators make of one event differ in the validator only.\<close>

lemma claim_of_validator:
  assumes "EthereumEventToEthBridgeClaim S B R v event T = Ok c" and "EthereumEventToEthBridgeClaim S B R w event T = Ok d"
  shows "d = c\<lparr>ethValidator := w\<rparr>" and "ethValidator c = v"
  using assms by (auto simp: EthereumEventToEthBridgeClaim_def result_inv)

lemma lock_symbol:
  assumes "EthereumEventToEthBridgeClaim S B R v event T = Ok c" and "eventClaimType event = CLAIM_TYPE_LOCK"
  shows "ethSymbol c = to_lower (eventSymbol event)"
  using assms by (auto simp: EthereumEventToEthBridgeClaim_def claim_symbol_def result_inv Let_def)

context relay_laws
begin

lemma lock_claim_valid:
  assumes c: "EthereumEventToEthBridgeClaim S B R v event T = Ok c" and v: "v \<noteq> ''''"
    and t: "eventClaimType event = CLAIM_TYPE_LOCK" and n: "0 \<le> eventNonce event" "eventNonce event < 2 ^ 63"
  shows "MsgCreateEthBridgeClaim_ValidateBasic B c = Ok ()"
  using c v t n
  by (auto simp: EthereumEventToEthBridgeClaim_def MsgCreateEthBridgeClaim_ValidateBasic_def claim_symbol_def result_inv check_def
      hex_valid hex_idem to_lower_idem to_i64_id isZeroAddress_def nullAddress_def Let_def split: if_splits)

lemma claim_content:
  assumes "EthereumEventToEthBridgeClaim S B R v event T = Ok c"
  shows "\<exists>receiver. acc_from_bech32 S (eventTo event) = Some receiver \<and>
    eth_content S B c = Some (NewOracleClaimContent receiver (eventValue event) (ethSymbol c) (hex_to_address B (eventToken event)) (eventClaimType event))"
  using assms
  by (auto simp: EthereumEventToEthBridgeClaim_def eth_content_def result_inv hex_idem bech32_canonical dest: NewIntFromBigInt)

end

section \<open>Recognition of earlier messages\<close>

definition be_value :: "string \<Rightarrow> nat" where
  "be_value bs = foldl (\<lambda>n c. 256 * n + of_char c) 0 bs"

lemma hex_value_digit: "n < 16 \<Longrightarrow> hex_value (hex_digit n) = Some n"
  by (auto simp: hex_value_def hex_digit_def)

lemma hex_number_Encode: "hex_number k (hex_Encode bs) = Some (foldl (\<lambda>n c. 256 * n + of_char c) k bs)"
proof (induction bs arbitrary: k)
  case (Cons c cs)
  have "of_char c < (256 :: nat)" using nat_of_char_less_256 [of c] by simp
  then have "of_char c div 16 < (16 :: nat)" by (simp add: less_mult_imp_div_less)
  moreover have "16 * (16 * k + of_char c div 16) + of_char c mod 16 = 256 * k + (of_char c :: nat)" by simp
  ultimately show ?case using Cons by (simp add: hex_Encode_def hex_value_digit Let_def add.commute)
qed (simp add: hex_Encode_def)

lemma ParseUint16_Encode: "bs \<noteq> [] \<Longrightarrow>
    ParseUint16 n (hex_Encode bs) = (if be_value bs < 2 ^ n then Ok (be_value bs) else Err (ErrSdk ''value out of range''))"
  by (cases bs) (auto simp: ParseUint16_def hex_number_Encode be_value_def, auto simp: hex_Encode_def Let_def)

lemma MyDecode_Ok: "MyDecode bs = Ok p \<longleftrightarrow> 266 \<le> length bs \<and> be_value (take 32 (drop 64 bs)) < 2 ^ 32 \<and>
    p = \<lparr>uniqueSequence = int (be_value (take 32 (drop 64 bs))), uniqueSender = take 42 (drop 224 bs)\<rparr>"
proof -
  have "266 \<le> length bs \<Longrightarrow> take 32 (drop 64 bs) \<noteq> []" by simp
  then show ?thesis by (auto simp: MyDecode_def result_inv check_def ParseUint16_Encode)
qed

lemma MyDecode_sender: "MyDecode bs = Ok p \<Longrightarrow> length (uniqueSender p) = 42"
  by (auto simp: MyDecode_Ok)

lemma decoded_sender: "p \<in> set (GetAllProphecyClaim mid blocks me from to) \<Longrightarrow> length (uniqueSender p) = 42"
  by (auto simp: GetAllProphecyClaim_def sent_claim_def split: option.splits if_splits result.splits)
    (metis MyDecode_sender)

lemma MessageProcessed_True:
  assumes "cosmosSenderSequence m = Some i"
  shows "MessageProcessed m ps = Ok (\<exists>p\<in>set ps. uniqueSender p = cosmosSender m \<and> uniqueSequence p = i)"
  using assms by (induction ps) auto

text \<open>
  The layout that the contract's binary interface prescribes for the input of \<open>newProphecyClaim\<close>, after the method: six words, then the
  length of the sender and its bytes.
\<close>

locale abi_laws =
  fixes pack :: "CosmosMsg \<Rightarrow> string"
  assumes sequence_word: "cosmosSenderSequence m = Some i \<Longrightarrow> 0 \<le> i \<Longrightarrow> i < 2 ^ 256 \<Longrightarrow> be_value (take 32 (drop 64 (pack m))) = nat i"
    and sender_bytes: "take (length (cosmosSender m)) (drop 224 (pack m)) = cosmosSender m"
    and pack_length: "224 + length (cosmosSender m) \<le> length (pack m)"
begin

lemma decode_pack:
  assumes "cosmosSenderSequence m = Some i" "0 \<le> i" "i < 2 ^ 32" "length (cosmosSender m) = 42"
  shows "MyDecode (pack m) = Ok \<lparr>uniqueSequence = i, uniqueSender = cosmosSender m\<rparr>"
proof -
  have "be_value (take 32 (drop 64 (pack m))) = nat i"
    using assms by (intro sequence_word) auto
  moreover have "take 42 (drop 224 (pack m)) = cosmosSender m" using sender_bytes [of m] assms(4) by simp
  ultimately show ?thesis
    using assms pack_length [of m] by (subst MyDecode_Ok) simp
qed

lemma sent_recognised:
  assumes "cosmosSenderSequence m = Some i" "0 \<le> i" "i < 2 ^ 32" "length (cosmosSender m) = 42" "length mid = 4"
    and "from \<le> n" "n < to" "blocks n = Some txs" "\<lparr>txSender = Some me, txInput = mid @ pack m\<rparr> \<in> set txs"
  shows "MessageProcessed m (GetAllProphecyClaim mid blocks me from to) = Ok True"
proof -
  let ?tx = "\<lparr>txSender = Some me, txInput = mid @ pack m\<rparr>" and ?p = "\<lparr>uniqueSequence = i, uniqueSender = cosmosSender m\<rparr>"
  have "?p \<in> set (sent_claim mid me ?tx)" using decode_pack [OF assms(1-4)] assms(5) by (simp add: sent_claim_def)
  then have "?p \<in> set (GetAllProphecyClaim mid blocks me from to)"
    using assms(6-9) by (auto simp: GetAllProphecyClaim_def intro!: bexI [of _ n] bexI [of _ ?tx])
  then have "\<exists>p\<in>set (GetAllProphecyClaim mid blocks me from to). uniqueSender p = cosmosSender m \<and> uniqueSequence p = i"
    by (rule bexI [rotated]) simp
  then show ?thesis by (simp add: MessageProcessed_True [OF assms(1)])
qed

end

lemma other_length_forgotten:
  assumes "length (cosmosSender m) \<noteq> 42"
  shows "MessageProcessed m (GetAllProphecyClaim mid blocks me from to) = Ok False"
proof -
  have "\<forall>p\<in>set ps. length (uniqueSender p) = 42 \<Longrightarrow> MessageProcessed m ps = Ok False" for ps
    using assms by (induction ps) auto
  then show ?thesis using decoded_sender by blast
qed

end
