(* ===== verification/RelayerRuns.thy ===== *)
theory RelayerRuns
  imports Relayer
begin

text \<open>
  The two listeners of the relayer and the replays (\<open>relayer/ethereum.go\<close>, \<open>relayer/cosmos.go\<close>, \<open>txs/relayToCosmos.go\<close>), as steps on a
  state that holds what the process remembers and what it has sent. The networks are arguments: \<open>relay_net\<close> says how the nodes react to what
  is sent, and each step gets the answers to its queries. A fatal error ends the process like a panic.
\<close>

section \<open>State\<close>

record eth_log =
  logTopics :: "string list"
  logData :: string
  logTxHash :: string

type_synonym abci_event = "string \<times> attribute list"

record relay_net =
  event_id :: "string \<Rightarrow> string"                               \<comment> \<open>the topic of an event of the contract\<close>
  unpack :: "string \<Rightarrow> string \<Rightarrow> EthereumEvent option"          \<comment> \<open>\<open>UnpackIntoInterface\<close>\<close>
  validator_key :: "string option"                             \<comment> \<open>the key ring\<close>
  symbols :: SymbolTranslator
  broadcast_ok :: "EthBridgeClaim list \<Rightarrow> bool"                 \<comment> \<open>\<open>tx.BroadcastTx\<close>\<close>
  config_ok :: "CosmosMsg \<Rightarrow> nat \<Rightarrow> bool"                       \<comment> \<open>\<open>txs.InitRelayConfig\<close>, by the number of the attempt\<close>
  bridge_ok :: bool                                            \<comment> \<open>\<open>cosmosbridge.NewCosmosBridge\<close>\<close>
  relay_ok :: "CosmosMsg \<Rightarrow> nat \<Rightarrow> bool"                        \<comment> \<open>\<open>RelayProphecyClaimToEthereum\<close>, by the number of the attempt\<close>
  db_put_ok :: "int \<Rightarrow> bool"

record relay_state =
  EventRecords :: "string \<Rightarrow> EthereumEvent option"
  ethLastBlock :: int                    \<comment> \<open>\<open>lastProcessedBlock\<close> of the two listeners, and what the database holds\<close>
  ethDB :: "int option"
  cosmosLastBlock :: int
  cosmosDB :: "int option"
  broadcasts :: "EthBridgeClaim list list"   \<comment> \<open>transactions that \<open>tx.BroadcastTx\<close> took\<close>
  lost :: "EthBridgeClaim list list"         \<comment> \<open>transactions for which it returned an error, kept by nobody in the program\<close>
  ethCalls :: "CosmosMsg list"

section \<open>Ethereum events (relayer/ethereum.go)\<close>

definition NewEventWrite :: "string \<Rightarrow> EthereumEvent \<Rightarrow> (relay_state, unit) M" where
  "NewEventWrite h event = modify (\<lambda>s. s\<lparr>EventRecords := (EventRecords s)(h \<mapsto> event)\<rparr>)"

text \<open>\<open>None\<close> is returned for a log that is no burn or lock.\<close>

definition logToEvent :: "relay_net \<Rightarrow> int \<Rightarrow> string \<Rightarrow> eth_log \<Rightarrow> (relay_state, EthereumEvent option) M" where
  "logToEvent N chainID contract cLog =
     (case logTopics cLog of [] \<Rightarrow> panic
      | topic # _ \<Rightarrow>
        let name = (if topic = event_id N (Event_String Event_LogBurn) then Event_String Event_LogBurn
                    else if topic = event_id N (Event_String Event_LogLock) then Event_String Event_LogLock else '''') in
        if name = '''' then ret None
        else (case unpack N name (logData cLog) of
            None \<Rightarrow> throw (ErrSdk ''abi'')
          | Some e \<Rightarrow>
            let event = e\<lparr>eventContract := contract, eventChainID := chainID,
              eventClaimType := (if name = Event_String Event_LogBurn then CLAIM_TYPE_BURN else CLAIM_TYPE_LOCK)\<rparr> in
            thenM (NewEventWrite (logTxHash cLog) event) (ret (Some event))))"

definition RelayToCosmos :: "bridge_env \<Rightarrow> relay_net \<Rightarrow> EthBridgeClaim list \<Rightarrow> (relay_state, unit) M" where
  "RelayToCosmos B N claims =
     (let messages = filter (\<lambda>c. MsgCreateEthBridgeClaim_ValidateBasic B c = Ok ()) claims in
      if broadcast_ok N messages then modify (\<lambda>s. s\<lparr>broadcasts := broadcasts s @ [messages]\<rparr>)
      else thenM (modify (\<lambda>s. s\<lparr>lost := lost s @ [messages]\<rparr>)) (throw (ErrSdk ''broadcast'')))"

text \<open>The loop of \<open>handleEthereumEvent\<close>: an event that gives no claim is left out.\<close>

fun event_claims ::
  "sdk \<Rightarrow> bridge_env \<Rightarrow> relay_env \<Rightarrow> SymbolTranslator \<Rightarrow> string \<Rightarrow> EthereumEvent list \<Rightarrow> EthBridgeClaim list result" where
  "event_claims S B R T v [] = Ok []"
| "event_claims S B R T v (e # es) =
     (case EthereumEventToEthBridgeClaim S B R v e T of
        Ok c \<Rightarrow> rbind (event_claims S B R T v es) (\<lambda>cs. Ok (c # cs))
      | Err _ \<Rightarrow> event_claims S B R T v es
      | Panic \<Rightarrow> Panic)"

definition handleEthereumEvent ::
  "sdk \<Rightarrow> bridge_env \<Rightarrow> relay_env \<Rightarrow> relay_net \<Rightarrow> EthereumEvent list \<Rightarrow> (relay_state, unit) M" where
  "handleEthereumEvent S B R N events =
     bindM (liftR (of_option (ErrSdk ''keyring'') (validator_key N))) (\<lambda>v.
     bindM (liftR (event_claims S B R (symbols N) v events)) (\<lambda>claims.
     if events = [] then ret () else RelayToCosmos B N claims))"

text \<open>The events of the logs; a log that cannot be unpacked is left out.\<close>

definition read_log :: "relay_net \<Rightarrow> int \<Rightarrow> string \<Rightarrow> eth_log \<Rightarrow> EthereumEvent list \<Rightarrow> (relay_state, EthereumEvent list) M" where
  "read_log N chainID contract l es =
     bindM (catchM (logToEvent N chainID contract l) (\<lambda>_. ret None)) (\<lambda>r.
     ret (case r of None \<Rightarrow> es | Some e \<Rightarrow> es @ [e]))"

definition trailingBlocks :: int where
  "trailingBlocks = 50"

text \<open>
  The branch of \<open>Start\<close> for the header of block \<open>n\<close>, with the answer of the node to a query for the logs from one block to another.
\<close>

definition eth_new_head ::
  "sdk \<Rightarrow> bridge_env \<Rightarrow> relay_env \<Rightarrow> relay_net \<Rightarrow> int \<Rightarrow> string \<Rightarrow> int \<Rightarrow> (int \<Rightarrow> int \<Rightarrow> eth_log list option) \<Rightarrow> (relay_state, unit) M" where
  "eth_new_head S B R N chainID contract n FilterLogs =
     (let endingBlock = n - trailingBlocks in
      if endingBlock < 0 then ret ()
      else
      thenM (modify (\<lambda>s. if ethLastBlock s = 0 then s\<lparr>ethLastBlock := endingBlock\<rparr> else s)) (
      bindM (gets ethLastBlock) (\<lambda>lastBlock.
      case FilterLogs lastBlock endingBlock of
        None \<Rightarrow> ret ()
      | Some logs \<Rightarrow>
        bindM (foldM (read_log N chainID contract) logs []) (\<lambda>events.
        thenM (if 0 < length events then ignoreM (handleEthereumEvent S B R N events) else ret ()) (
        if db_put_ok N (endingBlock + 1)
        then modify (\<lambda>s. s\<lparr>ethDB := Some (endingBlock + 1), ethLastBlock := endingBlock + 1\<rparr>)
        else panic)))))"

text \<open>The start reads the block from the database, or zero; then come the headers.\<close>

definition eth_start :: "relay_state \<Rightarrow> relay_state" where
  "eth_start s = s\<lparr>ethLastBlock := (case ethDB s of None \<Rightarrow> 0 | Some b \<Rightarrow> b)\<rparr>"

definition eth_listen ::
  "sdk \<Rightarrow> bridge_env \<Rightarrow> relay_env \<Rightarrow> relay_net \<Rightarrow> int \<Rightarrow> string \<Rightarrow> (int \<times> (int \<Rightarrow> int \<Rightarrow> eth_log list option)) list \<Rightarrow> (relay_state, unit) M" where
  "eth_listen S B R N chainID contract heads = eachM (\<lambda>(n, q). eth_new_head S B R N chainID contract n q) heads"

text \<open>Without a client there are no claims, and a block the node does not return is left out.\<close>

definition own_claims :: "bridge_env \<Rightarrow> relay_env \<Rightarrow> string \<Rightarrow> abci_event \<Rightarrow> EthereumBridgeClaim list" where
  "own_claims B R me event =
     (if fst event = ''create_claim''
      then (case AttributesToEthereumBridgeClaim B R (snd event) of
          Ok claim \<Rightarrow> if bridgeCosmosSender claim = me then [claim] else []
        | _ \<Rightarrow> [])
      else [])"

definition getAllClaims ::
  "bridge_env \<Rightarrow> relay_env \<Rightarrow> string \<Rightarrow> (int \<Rightarrow> abci_event list list option) option \<Rightarrow> int \<Rightarrow> int \<Rightarrow> EthereumBridgeClaim list" where
  "getAllClaims B R me client fromBlock toBlock =
     (case client of None \<Rightarrow> []
      | Some BlockResults \<Rightarrow>
        concat (map (\<lambda>n. case BlockResults n of None \<Rightarrow> []
          | Some results \<Rightarrow> concat (map (\<lambda>events. concat (map (own_claims B R me) events)) results)) [fromBlock..toBlock - 1]))"

definition replay_log ::
  "sdk \<Rightarrow> bridge_env \<Rightarrow> relay_env \<Rightarrow> relay_net \<Rightarrow> int \<Rightarrow> string \<Rightarrow> EthereumBridgeClaim list \<Rightarrow> eth_log \<Rightarrow> (relay_state, unit) M" where
  "replay_log S B R N chainID contract bridgeClaims l =
     bindM (catchM (logToEvent N chainID contract l) (\<lambda>_. ret None)) (\<lambda>r.
     case r of None \<Rightarrow> ret ()
     | Some event \<Rightarrow>
       bindM (liftR (EventProcessed bridgeClaims event)) (\<lambda>seen.
       if \<not> seen then ignoreM (handleEthereumEvent S B R N [event]) else ret ()))"

definition eth_Replay ::
  "sdk \<Rightarrow> bridge_env \<Rightarrow> relay_env \<Rightarrow> relay_net \<Rightarrow> int \<Rightarrow> string \<Rightarrow> EthereumBridgeClaim list \<Rightarrow> eth_log list option \<Rightarrow> (relay_state, unit) M" where
  "eth_Replay S B R N chainID contract bridgeClaims FilterLogs =
     (case FilterLogs of None \<Rightarrow> ret () | Some logs \<Rightarrow> eachM (replay_log S B R N chainID contract bridgeClaims) logs)"

section \<open>Events of this chain (relayer/cosmos.go)\<close>

text \<open>Five attempts each at the configuration and at the call.\<close>

definition tryInitRelayConfig :: "relay_net \<Rightarrow> CosmosMsg \<Rightarrow> unit result" where
  "tryInitRelayConfig N m = check (list_ex (config_ok N m) [0..<5]) (ErrSdk ''hit max initRelayConfig retries'')"

fun relay_attempts :: "relay_net \<Rightarrow> CosmosMsg \<Rightarrow> nat list \<Rightarrow> (relay_state, unit) M" where
  "relay_attempts N m [] = ret ()"
| "relay_attempts N m (i # is) =
     thenM (modify (\<lambda>s. s\<lparr>ethCalls := ethCalls s @ [m]\<rparr>)) (if relay_ok N m i then ret () else relay_attempts N m is)"

definition handleBurnLockMsg :: "relay_net \<Rightarrow> CosmosMsg \<Rightarrow> (relay_state, unit) M" where
  "handleBurnLockMsg N m =
     (case tryInitRelayConfig N m of
        Ok _ \<Rightarrow> if bridge_ok N then relay_attempts N m [0..<5] else ret ()
      | Err _ \<Rightarrow> ret ()
      | Panic \<Rightarrow> panic)"

text \<open>The message of an event that is a burn or lock; \<open>None\<close> for others and for those that do not parse.\<close>

definition event_message :: "bridge_env \<Rightarrow> relay_env \<Rightarrow> relay_net \<Rightarrow> abci_event \<Rightarrow> CosmosMsg option result" where
  "event_message B R N event =
     (let claimType = getOracleClaimType (fst event) in
      if claimType = Event_MsgBurn \<or> claimType = Event_MsgLock
      then (case BurnLockEventToCosmosMsg B R claimType (snd event) (symbols N) of
          Ok m \<Rightarrow> Ok (Some m) | Err _ \<Rightarrow> Ok None | Panic \<Rightarrow> Panic)
      else Ok None)"

definition relay_event :: "bridge_env \<Rightarrow> relay_env \<Rightarrow> relay_net \<Rightarrow> abci_event \<Rightarrow> (relay_state, unit) M" where
  "relay_event B R N event =
     bindM (liftR (event_message B R N event)) (\<lambda>r. case r of None \<Rightarrow> ret () | Some m \<Rightarrow> handleBurnLockMsg N m)"

text \<open>The request for a block is repeated until it is answered: \<open>attempts i\<close> is the answer to the request with number \<open>i\<close>.\<close>

partial_function (option) await_block :: "(nat \<Rightarrow> 'a option) \<Rightarrow> nat \<Rightarrow> 'a option" where
  "await_block attempts i = (case attempts i of Some r \<Rightarrow> Some r | None \<Rightarrow> await_block attempts (Suc i))"

declare await_block.simps [code]

definition relay_block :: "bridge_env \<Rightarrow> relay_env \<Rightarrow> relay_net \<Rightarrow> int \<Rightarrow> abci_event list list \<Rightarrow> (relay_state, unit) M" where
  "relay_block B R N b results =
     thenM (eachM (eachM (relay_event B R N)) results) (
     if db_put_ok N b then modify (\<lambda>s. s\<lparr>cosmosLastBlock := b, cosmosDB := Some b\<rparr>)
     else (\<lambda>s. (Panic, s\<lparr>cosmosLastBlock := b\<rparr>)))"

fun relay_blocks ::
  "bridge_env \<Rightarrow> relay_env \<Rightarrow> relay_net \<Rightarrow> (int \<Rightarrow> nat \<Rightarrow> abci_event list list option) \<Rightarrow> int list \<Rightarrow> relay_state \<Rightarrow>
    (unit result \<times> relay_state) option" where
  "relay_blocks B R N BlockResults [] s = Some (Ok (), s)"
| "relay_blocks B R N BlockResults (b # bs) s =
     (case await_block (BlockResults b) 0 of None \<Rightarrow> None
      | Some results \<Rightarrow>
        (case relay_block B R N b results s of
           (Ok _, t) \<Rightarrow> relay_blocks B R N BlockResults bs t
         | (r, t) \<Rightarrow> Some (r, t)))"

text \<open>The branch of \<open>Start\<close> for a new block; an event of another type has no block to read the height from.\<close>

definition cosmos_new_block ::
  "bridge_env \<Rightarrow> relay_env \<Rightarrow> relay_net \<Rightarrow> (int \<Rightarrow> nat \<Rightarrow> abci_event list list option) \<Rightarrow> int option \<Rightarrow> relay_state \<Rightarrow>
    (unit result \<times> relay_state) option" where
  "cosmos_new_block B R N BlockResults block s =
     (case block of None \<Rightarrow> Some (Panic, s)
      | Some blockHeight \<Rightarrow>
        let s' = (if cosmosLastBlock s = 0 then s\<lparr>cosmosLastBlock := blockHeight\<rparr> else s) in
        relay_blocks B R N BlockResults [cosmosLastBlock s' + 1..blockHeight] s')"

definition cosmos_start :: "relay_state \<Rightarrow> relay_state" where
  "cosmos_start s = s\<lparr>cosmosLastBlock := (case cosmosDB s of None \<Rightarrow> 0 | Some b \<Rightarrow> to_i64 b)\<rparr>"

definition replay_event ::
  "bridge_env \<Rightarrow> relay_env \<Rightarrow> relay_net \<Rightarrow> ProphecyClaimUnique list \<Rightarrow> abci_event \<Rightarrow> (relay_state, unit) M" where
  "replay_event B R N claims event =
     bindM (liftR (event_message B R N event)) (\<lambda>r.
     case r of None \<Rightarrow> ret ()
     | Some m \<Rightarrow>
       bindM (liftR (MessageProcessed m claims)) (\<lambda>seen.
       if \<not> seen then handleBurnLockMsg N m else ret ()))"

text \<open>The replay of a range of blocks; one that the node does not return is left out.\<close>

definition cosmos_Replay ::
  "bridge_env \<Rightarrow> relay_env \<Rightarrow> relay_net \<Rightarrow> ProphecyClaimUnique list \<Rightarrow> (int \<Rightarrow> abci_event list list option) \<Rightarrow> int \<Rightarrow> int \<Rightarrow> (relay_state, unit) M" where
  "cosmos_Replay B R N claims BlockResults fromBlock toBlock =
     eachM (\<lambda>b. case BlockResults b of None \<Rightarrow> ret ()
       | Some results \<Rightarrow> eachM (eachM (replay_event B R N claims)) results) [fromBlock..toBlock - 1]"

text \<open>\<open>ListMissedCosmosEvent\<close> prints the messages of the last days that are not recognised.\<close>

definition missed_message :: "bridge_env \<Rightarrow> relay_env \<Rightarrow> relay_net \<Rightarrow> ProphecyClaimUnique list \<Rightarrow> abci_event \<Rightarrow> CosmosMsg list \<Rightarrow> CosmosMsg list result" where
  "missed_message B R N claims event ms =
     rbind (event_message B R N event) (\<lambda>r.
     case r of None \<Rightarrow> Ok ms
     | Some m \<Rightarrow> rbind (MessageProcessed m claims) (\<lambda>seen. Ok (if \<not> seen then ms @ [m] else ms)))"

definition from_height :: "int \<Rightarrow> int \<Rightarrow> int \<Rightarrow> int" where
  "from_height current blocksPerMinute days =
     (let h = to_i64 (current - to_i64 (blocksPerMinute * 60 * 24 * days)) in if h < 0 then 0 else h)"

definition ListMissedCosmosEvent ::
  "bridge_env \<Rightarrow> relay_env \<Rightarrow> relay_net \<Rightarrow> string \<Rightarrow> (int \<Rightarrow> eth_tx list option) \<Rightarrow> string \<Rightarrow> int \<Rightarrow>
    (int \<Rightarrow> abci_event list list option) \<Rightarrow> int \<Rightarrow> int \<Rightarrow> CosmosMsg list result" where
  "ListMissedCosmosEvent B R N methodID block_by_number me ethHeight BlockResults cosmosHeight days =
     (let claims = GetAllProphecyClaim methodID block_by_number me (from_height ethHeight 4 days) ethHeight in
      rfold (\<lambda>b. case BlockResults b of None \<Rightarrow> Ok
        | Some results \<Rightarrow> rfold (\<lambda>events. rfold (missed_message B R N claims) events) results)
        [from_height cosmosHeight 10 days..cosmosHeight - 1] [])"

section \<open>No event of a block is left out\<close>

text \<open>The event of a log, which does not depend on the state.\<close>

definition log_event :: "relay_net \<Rightarrow> int \<Rightarrow> string \<Rightarrow> eth_log \<Rightarrow> EthereumEvent option" where
  "log_event N chainID contract l =
     (case fst (logToEvent N chainID contract l
         \<lparr>EventRecords = Map.empty, ethLastBlock = 0, ethDB = None, cosmosLastBlock = 0, cosmosDB = None, broadcasts = [], lost = [], ethCalls = []\<rparr>)
      of Ok r \<Rightarrow> r | _ \<Rightarrow> None)"

text \<open>A node answers honestly if it returns the logs of all blocks asked for, or fails.\<close>

definition honest :: "(int \<Rightarrow> eth_log list) \<Rightarrow> (int \<Rightarrow> int \<Rightarrow> eth_log list option) \<Rightarrow> bool" where
  "honest chain q \<longleftrightarrow> (\<forall>f t logs. q f t = Some logs \<longrightarrow> logs = concat (map chain [f..t]))"

text \<open>What the process needs to keep running: logs with a topic, values the SDK takes, symbols that are texts, a key and a database.\<close>

definition log_ok :: "relay_env \<Rightarrow> relay_net \<Rightarrow> int \<Rightarrow> string \<Rightarrow> eth_log \<Rightarrow> bool" where
  "log_ok R N chainID contract l \<longleftrightarrow> logTopics l \<noteq> [] \<and>
     (\<forall>e. log_event N chainID contract l = Some e \<longrightarrow> NewIntFromBigInt R (eventValue e) \<noteq> Panic)"

definition net_ok :: "relay_net \<Rightarrow> bool" where
  "net_ok N \<longleftrightarrow> validator_key N \<noteq> None \<and> (\<forall>k. bimap_Get (symbols N) k \<noteq> Some IOther) \<and> (\<forall>k. bimap_GetInverse (symbols N) k \<noteq> Some IOther) \<and> (\<forall>b. db_put_ok N b)"

text \<open>
  The claim of an event, if there is one and it is valid, is part of a transaction that has been given to \<open>tx.BroadcastTx\<close>: the
  transaction has been broadcast, or the broadcast has failed and the transaction is lost.
\<close>

definition relayed :: "sdk \<Rightarrow> bridge_env \<Rightarrow> relay_env \<Rightarrow> relay_net \<Rightarrow> EthereumEvent \<Rightarrow> relay_state \<Rightarrow> bool" where
  "relayed S B R N e s \<longleftrightarrow> (\<forall>v c. validator_key N = Some v \<longrightarrow> EthereumEventToEthBridgeClaim S B R v e (symbols N) = Ok c \<longrightarrow>
     MsgCreateEthBridgeClaim_ValidateBasic B c = Ok () \<longrightarrow> (\<exists>tx. c \<in> set tx \<and> tx \<in> set (if broadcast_ok N tx then broadcasts s else lost s)))"

definition sent_more :: "relay_state \<Rightarrow> relay_state \<Rightarrow> bool" where
  "sent_more s t \<longleftrightarrow> set (broadcasts s) \<subseteq> set (broadcasts t) \<and> set (lost s) \<subseteq> set (lost t)"

definition block_relayed ::
  "sdk \<Rightarrow> bridge_env \<Rightarrow> relay_env \<Rightarrow> relay_net \<Rightarrow> int \<Rightarrow> string \<Rightarrow> eth_log list \<Rightarrow> relay_state \<Rightarrow> bool" where
  "block_relayed S B R N chainID contract logs s \<longleftrightarrow>
     (\<forall>l\<in>set logs. \<forall>e. log_event N chainID contract l = Some e \<longrightarrow> relayed S B R N e s)"

lemma read_log_step:
  assumes "logTopics l \<noteq> []"
  shows "\<exists>t. catchM (logToEvent N i k l) (\<lambda>_. ret None) s = (Ok (log_event N i k l), t) \<and> broadcasts t = broadcasts s \<and> lost t = lost s \<and>
    ethLastBlock t = ethLastBlock s"
  using assms
  by (auto simp: logToEvent_def log_event_def catchM_def NewEventWrite_def thenM_prim ret_def throw_def Let_def split: list.splits option.splits)

lemma read_logs:
  assumes "\<forall>l\<in>set logs. logTopics l \<noteq> []"
  shows "\<exists>t. foldM (read_log N i k) logs es s = (Ok (es @ List.map_filter (log_event N i k) logs), t) \<and>
    broadcasts t = broadcasts s \<and> lost t = lost s \<and> ethLastBlock t = ethLastBlock s"
  using assms
proof (induction logs arbitrary: es s)
  case (Cons l ls)
  obtain u where u: "catchM (logToEvent N i k l) (\<lambda>_. ret None) s = (Ok (log_event N i k l), u)"
    "broadcasts u = broadcasts s" "lost u = lost s" "ethLastBlock u = ethLastBlock s"
    using read_log_step Cons.prems by fastforce
  let ?es = "case log_event N i k l of None \<Rightarrow> es | Some e \<Rightarrow> es @ [e]"
  have "read_log N i k l es s = (Ok ?es, u)"
    unfolding read_log_def by (subst bindM_run(1), rule u(1)) (simp add: ret_def)
  then have "foldM (read_log N i k) (l # ls) es s = foldM (read_log N i k) ls ?es u" by (simp add: bindM_run)
  then show ?case
    using Cons.IH [of ?es u] Cons.prems u(2-4) by (auto simp: List.map_filter_simps split: option.splits)
qed (simp add: ret_def List.map_filter_simps)

lemma claim_no_panic:
  assumes "NewIntFromBigInt R (eventValue e) \<noteq> Panic" and "\<forall>k. bimap_GetInverse T k \<noteq> Some IOther"
  shows "EthereumEventToEthBridgeClaim S B R v e T \<noteq> Panic"
proof -
  have "EthereumToFurynet T x \<noteq> Panic" for x
    using assms(2) by (cases "GetInverseWithDefault T x (IString x)") (auto simp: EthereumToFurynet_def GetInverseWithDefault_def split: option.splits)
  then have "claim_symbol B T e \<noteq> Panic"
    by (auto simp: claim_symbol_def check_def Let_def split: ClaimType.splits)
  with assms(1) show ?thesis
    by (cases "acc_from_bech32 S (eventTo e)"; cases "claim_symbol B T e"; cases "NewIntFromBigInt R (eventValue e)")
      (auto simp: EthereumEventToEthBridgeClaim_def check_def)
qed

lemma event_claims_total:
  assumes "\<forall>e\<in>set es. EthereumEventToEthBridgeClaim S B R v e T \<noteq> Panic"
  shows "\<exists>cs. event_claims S B R T v es = Ok cs \<and> (\<forall>e\<in>set es. \<forall>c. EthereumEventToEthBridgeClaim S B R v e T = Ok c \<longrightarrow> c \<in> set cs)"
  using assms
proof (induction es)
  case (Cons e es)
  then show ?case by (cases "EthereumEventToEthBridgeClaim S B R v e T") auto
qed simp

lemma handle_events:
  assumes "\<forall>e\<in>set es. NewIntFromBigInt R (eventValue e) \<noteq> Panic" and "net_ok N" and "es \<noteq> []"
  shows "\<exists>t. ignoreM (handleEthereumEvent S B R N es) s = (Ok (), t) \<and> ethLastBlock t = ethLastBlock s \<and>
    (\<forall>e\<in>set es. relayed S B R N e t) \<and> sent_more s t"
proof -
  obtain v where v: "validator_key N = Some v" and T: "\<forall>k. bimap_GetInverse (symbols N) k \<noteq> Some IOther"
    using assms(2) by (auto simp: net_ok_def)
  obtain cs where cs: "event_claims S B R (symbols N) v es = Ok cs"
    "\<forall>e\<in>set es. \<forall>c. EthereumEventToEthBridgeClaim S B R v e (symbols N) = Ok c \<longrightarrow> c \<in> set cs"
    using event_claims_total claim_no_panic assms(1) T by meson
  let ?ms = "filter (\<lambda>c. MsgCreateEthBridgeClaim_ValidateBasic B c = Ok ()) cs"
  let ?t = "if broadcast_ok N ?ms then s\<lparr>broadcasts := broadcasts s @ [?ms]\<rparr> else s\<lparr>lost := lost s @ [?ms]\<rparr>"
  have "ignoreM (handleEthereumEvent S B R N es) s = (Ok (), ?t)"
    using assms(3)
    by (simp add: handleEthereumEvent_def v cs(1) run ignoreM_def catchM_def RelayToCosmos_def Let_def ret_def throw_def modify_def)
  moreover have "relayed S B R N e ?t" if "e \<in> set es" for e
    using cs(2) v that by (auto simp: relayed_def intro!: exI [of _ ?ms])
  ultimately show ?thesis by (auto simp: sent_more_def)
qed

lemma relayed_more: "relayed S B R N e s \<Longrightarrow> sent_more s t \<Longrightarrow> relayed S B R N e t"
  unfolding relayed_def sent_more_def by (fastforce split: if_splits)

lemma block_relayed_more:
  "block_relayed S B R N i k ls s \<Longrightarrow> sent_more s t \<Longrightarrow> block_relayed S B R N i k ls t"
  by (auto simp: block_relayed_def intro: relayed_more)

text \<open>One header: the logs of the blocks asked for are relayed, or nothing happens.\<close>

lemma new_head:
  assumes ok: "\<forall>b. \<forall>l\<in>set (chain b). log_ok R N i k l" and net: "net_ok N" and q: "honest chain q" and pos: "0 < ethLastBlock s"
  shows "\<exists>t. eth_new_head S B R N i k n q s = (Ok (), t) \<and> sent_more s t \<and>
    (if 50 \<le> n \<and> q (ethLastBlock s) (n - 50) \<noteq> None
     then ethLastBlock t = n - 49 \<and> (\<forall>b. ethLastBlock s \<le> b \<longrightarrow> b \<le> n - 50 \<longrightarrow> block_relayed S B R N i k (chain b) t)
     else ethLastBlock t = ethLastBlock s)"
proof (cases "50 \<le> n \<and> q (ethLastBlock s) (n - 50) \<noteq> None")
  case True
  then obtain logs where logs: "q (ethLastBlock s) (n - 50) = Some logs" by blast
  have set_logs: "logs = concat (map chain [ethLastBlock s..n - 50])" using q logs by (simp add: honest_def)
  let ?es = "List.map_filter (log_event N i k) logs"
  have lok: "\<forall>l\<in>set logs. log_ok R N i k l" using ok by (auto simp: set_logs)
  then obtain u where u: "foldM (read_log N i k) logs [] s = (Ok ?es, u)" "sent_more s u" "ethLastBlock u = ethLastBlock s"
    using read_logs [of logs N i k "[]" s] by (auto simp: log_ok_def sent_more_def)
  have val: "\<forall>e\<in>set ?es. NewIntFromBigInt R (eventValue e) \<noteq> Panic"
    using lok by (auto simp: log_ok_def List.map_filter_def)
  obtain w where w: "(if 0 < length ?es then ignoreM (handleEthereumEvent S B R N ?es) else ret ()) u = (Ok (), w)"
    "\<forall>e\<in>set ?es. relayed S B R N e w" "sent_more u w"
    using handle_events [OF val net, of S B u] by (cases "?es = []") (auto simp: ret_def sent_more_def)
  let ?t = "w\<lparr>ethDB := Some (n - 49), ethLastBlock := n - 49\<rparr>"
  have "eth_new_head S B R N i k n q s = (Ok (), ?t)"
    using True pos net logs u(1) w(1)
    by (simp add: eth_new_head_def trailingBlocks_def run net_ok_def thenM_def Let_def) (simp add: modify_def)
  moreover have "block_relayed S B R N i k (chain b) ?t" if "ethLastBlock s \<le> b" "b \<le> n - 50" for b
  proof -
    have "set (chain b) \<subseteq> set logs" using that by (auto simp: set_logs)
    then have "e \<in> set ?es" if "l \<in> set (chain b)" "log_event N i k l = Some e" for l e
      using that by (force simp: List.map_filter_def)
    moreover have "relayed S B R N e ?t" if "e \<in> set ?es" for e
      using relayed_more [of S B R N e w ?t] w(2) that by (simp add: sent_more_def)
    ultimately show ?thesis by (simp add: block_relayed_def)
  qed
  moreover have "sent_more s ?t" using u(2) w(3) by (auto simp: sent_more_def)
  ultimately show ?thesis using True by auto
next
  case False
  then show ?thesis using pos by (auto simp: eth_new_head_def trailingBlocks_def run Let_def) (auto simp: ret_def sent_more_def)
qed

lemma listen:
  assumes "\<forall>b. \<forall>l\<in>set (chain b). log_ok R N i k l" and "net_ok N" and "\<forall>(n, q)\<in>set heads. honest chain q"
    and "0 < ethLastBlock s" and "\<forall>b. b0 \<le> b \<longrightarrow> b < ethLastBlock s \<longrightarrow> block_relayed S B R N i k (chain b) s"
  shows "\<exists>t. eth_listen S B R N i k heads s = (Ok (), t) \<and> 0 < ethLastBlock t \<and>
    (\<forall>b. b0 \<le> b \<longrightarrow> b < ethLastBlock t \<longrightarrow> block_relayed S B R N i k (chain b) t)"
  using assms(3-)
proof (induction heads arbitrary: s)
  case Nil
  then show ?case by (simp add: eth_listen_def ret_def)
next
  case (Cons h heads)
  obtain n q where h: "h = (n, q)" by fastforce
  have "honest chain q" using Cons.prems h by simp
  then obtain u where u: "eth_new_head S B R N i k n q s = (Ok (), u)" "sent_more s u"
    "if 50 \<le> n \<and> q (ethLastBlock s) (n - 50) \<noteq> None
     then ethLastBlock u = n - 49 \<and> (\<forall>b. ethLastBlock s \<le> b \<longrightarrow> b \<le> n - 50 \<longrightarrow> block_relayed S B R N i k (chain b) u)
     else ethLastBlock u = ethLastBlock s"
    using new_head [OF assms(1,2), of q s] Cons.prems(2) by blast
  have "block_relayed S B R N i k (chain b) u" if "b0 \<le> b" "b < ethLastBlock u" for b
  proof (cases "b < ethLastBlock s")
    case True
    then show ?thesis using Cons.prems(3) that u(2) block_relayed_more by blast
  next
    case False
    then show ?thesis using u(3) that by (auto split: if_splits)
  qed
  moreover have "0 < ethLastBlock u" using u(3) Cons.prems(2) by (auto split: if_splits)
  ultimately show ?case
    using Cons.IH [of u] Cons.prems(1) u(1) by (auto simp: eth_listen_def h run thenM_def)
qed

text \<open>A last header whose query is answered brings the relayer up to date.\<close>

lemma listen_append: "eth_listen S B R N i k (hs @ hs') s = bindM (eth_listen S B R N i k hs) (\<lambda>_. eth_listen S B R N i k hs') s"
proof (induction hs arbitrary: s)
  case Nil
  then show ?case by (simp add: eth_listen_def run)
next
  case (Cons h hs)
  then show ?case by (auto simp: eth_listen_def thenM_def bindM_def split: prod.splits result.splits)
qed

lemma listen_to:
  assumes "\<forall>b. \<forall>l\<in>set (chain b). log_ok R N i k l" and "net_ok N" and "\<forall>(n, q)\<in>set heads. honest chain q" and "0 < ethLastBlock s"
    and "50 \<le> n" and "honest chain q" and "\<forall>f. q f (n - 50) \<noteq> None"
  shows "\<exists>t. eth_listen S B R N i k (heads @ [(n, q)]) s = (Ok (), t) \<and>
    (\<forall>b. ethLastBlock s \<le> b \<longrightarrow> b \<le> n - 50 \<longrightarrow> block_relayed S B R N i k (chain b) t)"
proof -
  obtain u where u: "eth_listen S B R N i k heads s = (Ok (), u)" "0 < ethLastBlock u"
    "\<forall>b. ethLastBlock s \<le> b \<longrightarrow> b < ethLastBlock u \<longrightarrow> block_relayed S B R N i k (chain b) u"
    using listen [OF assms(1-4), of "ethLastBlock s" S B] by auto
  obtain t where t: "eth_new_head S B R N i k n q u = (Ok (), t)" "sent_more u t"
    "\<forall>b. ethLastBlock u \<le> b \<longrightarrow> b \<le> n - 50 \<longrightarrow> block_relayed S B R N i k (chain b) t"
    using new_head [OF assms(1,2,6) u(2), of S B n] assms(5,7) by auto
  have "eth_listen S B R N i k (heads @ [(n, q)]) s = (Ok (), t)"
    using u(1) t(1) by (simp add: listen_append bindM_run) (simp add: eth_listen_def thenM_def bindM_run ret_def)
  moreover have "block_relayed S B R N i k (chain b) t" if "ethLastBlock s \<le> b" "b \<le> n - 50" for b
    using that u(3) t(2,3) block_relayed_more by (cases "b < ethLastBlock u") auto
  ultimately show ?thesis by blast
qed

section \<open>Blocks of this chain\<close>

text \<open>How often a message is sent: once unless a call fails, five times at most, never without a configuration.\<close>

definition attempts :: "relay_net \<Rightarrow> CosmosMsg \<Rightarrow> nat" where
  "attempts N m =
     (if list_ex (config_ok N m) [0..<5] \<and> bridge_ok N
      then min 5 (Suc (length (takeWhile (\<lambda>i. \<not> relay_ok N m i) [0..<5]))) else 0)"

lemma attempts_le: "attempts N m \<le> 5"
  by (simp add: attempts_def)

lemma relay_attempts_calls:
  "relay_attempts N m is s =
     (Ok (), s\<lparr>ethCalls := ethCalls s @ replicate (min (length is) (Suc (length (takeWhile (\<lambda>i. \<not> relay_ok N m i) is)))) m\<rparr>)"
  by (induction "is" arbitrary: s) (auto simp: run ret_def)

lemma handleBurnLockMsg_calls: "handleBurnLockMsg N m s = (Ok (), s\<lparr>ethCalls := ethCalls s @ replicate (attempts N m) m\<rparr>)"
proof (cases "list_ex (config_ok N m) [0..<5] \<and> bridge_ok N")
  case True
  then show ?thesis
    by (simp add: handleBurnLockMsg_def tryInitRelayConfig_def check_def attempts_def relay_attempts_calls del: upt_conv_Cons upt_rec_numeral)
next
  case False
  then show ?thesis
    by (auto simp: handleBurnLockMsg_def tryInitRelayConfig_def check_def attempts_def ret_def simp del: upt_conv_Cons upt_rec_numeral)
qed

text \<open>The messages in the events of a block, in order.\<close>

definition message_of :: "bridge_env \<Rightarrow> relay_env \<Rightarrow> relay_net \<Rightarrow> abci_event \<Rightarrow> CosmosMsg list" where
  "message_of B R N event = (case event_message B R N event of Ok (Some m) \<Rightarrow> [m] | _ \<Rightarrow> [])"

definition event_calls :: "bridge_env \<Rightarrow> relay_env \<Rightarrow> relay_net \<Rightarrow> abci_event \<Rightarrow> CosmosMsg list" where
  "event_calls B R N event = concat (map (\<lambda>m. replicate (attempts N m) m) (message_of B R N event))"

definition calls_of :: "bridge_env \<Rightarrow> relay_env \<Rightarrow> relay_net \<Rightarrow> abci_event list list \<Rightarrow> CosmosMsg list" where
  "calls_of B R N results = concat (map (event_calls B R N) (concat results))"

lemma read_attribute_no_panic:
  assumes "\<forall>k. bimap_Get T k \<noteq> Some IOther"
  shows "read_attribute B R T t kv acc \<noteq> Panic"
proof -
  have "FurynetToEthereum T x \<noteq> Panic" for x
    using assms by (cases "GetWithDefault T x (IString x)") (auto simp: FurynetToEthereum_def GetWithDefault_def split: option.splits)
  then have rs: "relayed_symbol T t v y \<noteq> Panic" for v y
    by (auto simp: relayed_symbol_def check_def split: Event.splits)
  show ?thesis
  proof (cases kv)
    case (Pair key v)
    then show ?thesis using rs [of v "accSymbol acc"]
      by (cases "relayed_symbol T t v (accSymbol acc)"; cases "SetString10 v"; cases "NewIntFromString R v")
        (auto simp: read_attribute_def check_def Let_def)
  qed
qed

lemma rfold_no_panic: "(\<And>x a. f x a \<noteq> Panic) \<Longrightarrow> rfold f xs a \<noteq> Panic"
proof (induction xs arbitrary: a)
  case (Cons x xs)
  then show ?case by (cases "f x a") auto
qed simp

lemma event_message_total:
  assumes "net_ok N"
  shows "\<exists>r. event_message B R N event = Ok r"
proof -
  have "BurnLockEventToCosmosMsg B R t as (symbols N) \<noteq> Panic" for t as
    using rfold_no_panic [of "read_attribute B R (symbols N) t"] read_attribute_no_panic [of "symbols N"] assms
    by (simp add: BurnLockEventToCosmosMsg_def net_ok_def check_def rbind_Panic_iff)
  then show ?thesis by (auto simp: event_message_def Let_def split: result.splits)
qed

lemma relay_event_calls:
  assumes "net_ok N"
  shows "relay_event B R N event s = (Ok (), s\<lparr>ethCalls := ethCalls s @ event_calls B R N event\<rparr>)"
proof -
  obtain r where "event_message B R N event = Ok r" using event_message_total [OF assms] by blast
  then show ?thesis
    by (cases r) (simp_all add: relay_event_def event_calls_def message_of_def run handleBurnLockMsg_calls, simp add: ret_def)
qed

lemma relay_results_calls:
  assumes "net_ok N"
  shows "eachM (eachM (relay_event B R N)) results s = (Ok (), s\<lparr>ethCalls := ethCalls s @ calls_of B R N results\<rparr>)"
proof -
  have one: "eachM (relay_event B R N) es s = (Ok (), s\<lparr>ethCalls := ethCalls s @ concat (map (event_calls B R N) es)\<rparr>)" for es s
    by (induction es arbitrary: s) (simp_all add: ret_def thenM_def bindM_def relay_event_calls [OF assms])
  show ?thesis
    unfolding calls_of_def by (induction results arbitrary: s) (simp_all add: ret_def thenM_def bindM_def one)
qed

text \<open>A request that is answered at some time is answered to the loop.\<close>

lemma await_block_answer:
  assumes "f n = Some r" and "\<And>i. i < n \<Longrightarrow> f i = None" and "i \<le> n"
  shows "await_block f i = Some r"
  using assms(3)
proof (induction "n - i" arbitrary: i)
  case 0
  then show ?case using assms(1) by (subst await_block.simps) simp
next
  case (Suc d)
  then have "f i = None" "d = n - Suc i" "Suc i \<le> n" using assms(2) by auto
  then show ?case using Suc.hyps(1) by (subst await_block.simps) simp
qed

lemma await_block_first:
  assumes "\<And>i r'. f i = Some r' \<Longrightarrow> r' = r" and "f n \<noteq> None"
  shows "await_block f 0 = Some r"
proof -
  obtain k where k: "f k \<noteq> None" "\<forall>i<k. \<not> f i \<noteq> None"
    using assms(2) exists_least_iff [of "\<lambda>i. f i \<noteq> None"] by blast
  obtain r' where "f k = Some r'" using k(1) by blast
  then have "f k = Some r" using assms(1) by blast
  then show ?thesis by (rule await_block_answer) (use k(2) in blast)+
qed

lemma relay_blocks_calls:
  assumes "net_ok N" and "\<And>b. b \<in> set bs \<Longrightarrow> await_block (BR b) 0 = Some (chain b)"
  shows "\<exists>t. relay_blocks B R N BR bs s = Some (Ok (), t) \<and> ethCalls t = ethCalls s @ concat (map (\<lambda>b. calls_of B R N (chain b)) bs) \<and>
    cosmosLastBlock t = (if bs = [] then cosmosLastBlock s else last bs)"
  using assms(2)
proof (induction bs arbitrary: s)
  case (Cons b bs)
  let ?u = "s\<lparr>ethCalls := ethCalls s @ calls_of B R N (chain b), cosmosLastBlock := b, cosmosDB := Some b\<rparr>"
  have "relay_block B R N b (chain b) s = (Ok (), ?u)"
    using assms(1) unfolding relay_block_def thenM_def
    by (subst bindM_run(1) [OF relay_results_calls]) (simp_all add: modify_def net_ok_def)
  moreover have "await_block (BR b) 0 = Some (chain b)" using Cons.prems by simp
  moreover obtain t where "relay_blocks B R N BR bs ?u = Some (Ok (), t)"
      "ethCalls t = ethCalls ?u @ concat (map (\<lambda>b. calls_of B R N (chain b)) bs)"
      "cosmosLastBlock t = (if bs = [] then cosmosLastBlock ?u else last bs)"
    using Cons.IH [of ?u] Cons.prems by (meson list.set_intros(2))
  ultimately show ?case by simp
qed simp

text \<open>
  A new block: if the node answers every request at some time, with the results of the block, the listener comes through and has
  sent the messages of all blocks since the last one, in order and each at least once unless Ethereum cannot be reached.
\<close>

lemma cosmos_blocks_relayed:
  assumes "net_ok N" and "cosmosLastBlock s \<noteq> 0" and "cosmosLastBlock s < h"
    and "\<And>b i r. BR b i = Some r \<Longrightarrow> r = chain b" and "\<And>b. \<exists>i. BR b i \<noteq> None"
  shows "\<exists>t. cosmos_new_block B R N BR (Some h) s = Some (Ok (), t) \<and> cosmosLastBlock t = h \<and>
    ethCalls t = ethCalls s @ concat (map (\<lambda>b. calls_of B R N (chain b)) [cosmosLastBlock s + 1..h])"
proof -
  have "await_block (BR b) 0 = Some (chain b)" for b
    using await_block_first [of "BR b"] assms(4,5) by blast
  moreover have "[cosmosLastBlock s + 1..h] \<noteq> []" "last [cosmosLastBlock s + 1..h] = h" using assms(3) by (simp_all add: upto_rec2)
  ultimately show ?thesis
    using relay_blocks_calls [OF assms(1), of "[cosmosLastBlock s + 1..h]" BR chain B R s] assms(2)
    by (auto simp: cosmos_new_block_def)
qed

end
