(* ===== verification/RelayerDemo.thy ===== *)
theory RelayerDemo
  imports RelayerRuns BridgeDemo
begin

text \<open>
  Instances of what the relayer relies on, an encoder for the contract's interface among them, and a relayer that has one event of
  the contract and one message of this chain to carry over.
\<close>

section \<open>Numbers and addresses\<close>

definition relay_ref :: relay_env where
  "relay_ref = \<lparr>NewIntFromBigInt = (\<lambda>i. if \<bar>i\<bar> < 2 ^ 255 then Ok i else Panic), NewIntFromString = SetString10\<rparr>"

interpretation relay: relay_laws sdk_ref bridge_ref relay_ref
  by unfold_locales (auto simp: bridge_ref_def relay_ref_def split: if_splits)

section \<open>The input of \<open>newProphecyClaim\<close>\<close>

fun be_bytes :: "nat \<Rightarrow> nat \<Rightarrow> string" where
  "be_bytes 0 n = []"
| "be_bytes (Suc k) n = be_bytes k (n div 256) @ [char_of (n mod 256)]"

definition pad :: "string \<Rightarrow> string" where
  "pad s = s @ replicate ((32 - length s mod 32) mod 32) (char_of (0 :: nat))"

fun event_number :: "Event \<Rightarrow> nat" where
  "event_number Event_Unsupported = 0"
| "event_number Event_MsgBurn = 1"
| "event_number Event_MsgLock = 2"
| "event_number Event_LogLock = 3"
| "event_number Event_LogBurn = 4"
| "event_number Event_LogNewProphecyClaim = 5"
| "event_number Event_NewProphecyClaim = 6"
| "event_number Event_CreateEthBridgeClaim = 7"

definition opt_number :: "int option \<Rightarrow> nat" where
  "opt_number x = (case x of None \<Rightarrow> 0 | Some i \<Rightarrow> nat i)"

definition abi_ref :: "CosmosMsg \<Rightarrow> string" where
  "abi_ref m =
     be_bytes 32 (event_number (cosmosClaimType m)) @ be_bytes 32 192 @ be_bytes 32 (opt_number (cosmosSenderSequence m)) @
     be_bytes 32 (case hex_number 0 (drop 2 (ethereumReceiver m)) of None \<Rightarrow> 0 | Some a \<Rightarrow> a) @
     be_bytes 32 (224 + length (pad (cosmosSender m))) @ be_bytes 32 (opt_number (cosmosAmount m)) @
     be_bytes 32 (length (cosmosSender m)) @ pad (cosmosSender m) @
     be_bytes 32 (length (cosmosSymbol m)) @ pad (cosmosSymbol m)"

lemma length_be_bytes: "length (be_bytes k n) = k"
  by (induction k arbitrary: n) auto

lemma be_value_snoc: "be_value (bs @ [c]) = 256 * be_value bs + of_char c"
  by (simp add: be_value_def)

lemma be_value_bytes: "be_value (be_bytes k n) = n mod 256 ^ k"
proof (induction k arbitrary: n)
  case 0
  then show ?case by (simp add: be_value_def)
next
  case (Suc k)
  have "of_char (char_of (n mod 256)) = n mod (256 :: nat)" by simp
  then show ?case using Suc by (simp add: be_value_snoc mod_mult2_eq [of n 256])
qed

interpretation abi: abi_laws abi_ref
proof
  fix m :: CosmosMsg and i :: int
  assume "cosmosSenderSequence m = Some i" "0 \<le> i" "i < 2 ^ 256"
  moreover have "take 32 (drop 64 (abi_ref m)) = be_bytes 32 (opt_number (cosmosSenderSequence m))"
    by (simp add: abi_ref_def length_be_bytes)
  moreover have "nat i < 2 ^ 256" if "0 \<le> i" "i < 2 ^ 256" using that by (simp add: nat_less_iff)
  ultimately show "be_value (take 32 (drop 64 (abi_ref m))) = nat i"
    by (simp add: be_value_bytes opt_number_def)
next
  fix m show "take (length (cosmosSender m)) (drop 224 (abi_ref m)) = cosmosSender m"
    by (simp add: abi_ref_def length_be_bytes pad_def)
next
  fix m show "224 + length (cosmosSender m) \<le> length (abi_ref m)"
    by (simp add: abi_ref_def length_be_bytes pad_def)
qed

section \<open>A small relayer\<close>

definition demo_event :: EthereumEvent where
  "demo_event = \<lparr>eventTo = ''alice'', eventSymbol = ''ETH'', eventChainID = 1, eventValue = 25, eventNonce = 7, eventClaimType = CLAIM_TYPE_LOCK,
     eventID = '''', eventContract = eth_address, eventFrom = eth_address, eventToken = eth_address\<rparr>"

definition demo_net :: relay_net where
  "demo_net = \<lparr>event_id = (\<lambda>n. n), unpack = (\<lambda>n d. Some demo_event), validator_key = Some ''val1'',
     symbols = \<lparr>bimap_Get = Map.empty, bimap_GetInverse = Map.empty\<rparr>, broadcast_ok = (\<lambda>ms. True), config_ok = (\<lambda>m i. True),
     bridge_ok = True, relay_ok = (\<lambda>m i. True), db_put_ok = (\<lambda>b. True)\<rparr>"

definition demo_log :: eth_log where
  "demo_log = \<lparr>logTopics = [''LogLock''], logData = '''', logTxHash = ''0x1''\<rparr>"

definition demo_chain :: "int \<Rightarrow> eth_log list" where
  "demo_chain b = (if b = 10 then [demo_log] else [])"

definition demo_relay :: relay_state where
  "demo_relay = \<lparr>EventRecords = Map.empty, ethLastBlock = 10, ethDB = Some 10, cosmosLastBlock = 5, cosmosDB = Some 5, broadcasts = [], lost = [], ethCalls = []\<rparr>"

definition demo_sender :: string where
  "demo_sender = replicate 42 CHR ''a''"

definition demo_burn :: abci_event where
  "demo_burn = (''burn'', [(''cosmos_sender'', demo_sender), (''cosmos_sender_sequence'', ''9''), (''ethereum_receiver'', eth_address),
     (''symbol'', ''ceth''), (''amount'', ''5'')])"

definition demo_message :: CosmosMsg where
  "demo_message = NewCosmosMsg Event_MsgBurn demo_sender (Some 9) eth_address ''eth'' (Some 5)"

lemma demo_net_ok: "net_ok demo_net"
  by (simp add: net_ok_def demo_net_def)

lemma demo_log_event: "log_event demo_net 1 eth_address demo_log = Some demo_event"
  by (simp add: log_event_def logToEvent_def demo_log_def demo_net_def demo_event_def NewEventWrite_def thenM_prim ret_def Let_def)

lemma demo_logs_ok: "\<forall>b. \<forall>l\<in>set (demo_chain b). log_ok relay_ref demo_net 1 eth_address l"
  using demo_log_event by (auto simp: demo_chain_def log_ok_def demo_event_def relay_ref_def) (simp add: demo_log_def)

lemma demo_hex: "to_lower ''ETH'' = ''eth''" "hex_to_address bridge_ref eth_address = eth_address"
proof -
  show "to_lower ''ETH'' = ''eth''" by code_simp
  show "hex_to_address bridge_ref eth_address = eth_address" by (simp add: bridge_ref_def eth_address_def)
qed

lemma demo_event_claim:
  "v \<noteq> '''' \<Longrightarrow> EthereumEventToEthBridgeClaim sdk_ref bridge_ref relay_ref v demo_event (symbols demo_net) = Ok (demo_claim v)"
  by (simp add: EthereumEventToEthBridgeClaim_def demo_event_def demo_claim_def claim_symbol_def demo_hex isZeroAddress_def nullAddress_def
      eth_address_def bridge_ref_def relay_ref_def sdk_ref_sel check_def to_i64_def Let_def)

lemma demo_event_message: "event_message bridge_ref relay_ref demo_net demo_burn = Ok (Some demo_message)"
  by (simp add: event_message_def demo_burn_def getOracleClaimType_def BurnLockEventToCosmosMsg_def read_attribute_def
      SetString10_def relayed_symbol_def defaultFurynetPrefix_def check_def relay_ref_def bridge_ref_def eth_address_def
      demo_message_def NewCosmosMsg_def demo_net_def Let_def)

end
