(* ===== verification/Migrations.thy ===== *)
theory Migrations
  imports ClpUnits MarginParams Dispensation
begin

text \<open>
  What is written when the chain is set up or upgraded: the initial registry and administrators and the store migrations of the
  modules, with the handlers, stateless checks, genesis and queries of the registry and the administrators. The last section shows that the migration of the pools that takes units from
  six providers keeps the issued units equal to the held ones.
\<close>

section \<open>Registry (x/tokenregistry/types)\<close>

definition empty_entry :: RegistryEntry where
  "empty_entry = \<lparr>decimals = 0, denom = '''', base_denom = '''', path = '''', ibc_channel_id = '''', ibc_counterparty_channel_id = '''',
     display_name = '''', display_symbol = '''', network = '''', reg_address = '''', external_symbol = '''', transfer_limit = '''',
     permissions = [], unit_denom = '''', ibc_counterparty_denom = '''', ibc_counterparty_chain_id = ''''\<rparr>"

definition InitialRegistry :: Registry where
  "InitialRegistry = map (\<lambda>(d, n). Some (empty_entry\<lparr>denom := d, decimals := n, permissions := [CLP],
       base_denom := (if prefix ''ibc/'' d then '''' else d)\<rparr>))
     [(''fury'', 18), (''causc'', 6), (''cusdt'', 6), (''cusdc'', 6), (''cwscrt'', 6), (''cwbtc'', 8), (''ceth'', 18),
      (''cdai'', 18), (''cyfi'', 18), (''czrx'', 18), (''cwfil'', 18), (''cuni'', 18), (''cuma'', 18), (''ctusd'', 18),
      (''csxp'', 18), (''csushi'', 18), (''csusd'', 18), (''csrm'', 18), (''csnx'', 18), (''csand'', 18), (''crune'', 18),
      (''creef'', 18), (''cogn'', 18), (''cocean'', 18), (''cmana'', 18), (''clrc'', 18), (''clon'', 18), (''clink'', 18),
      (''ciotx'', 18), (''cgrt'', 18), (''cftm'', 18), (''cesd'', 18), (''cenj'', 18), (''ccream'', 18), (''ccomp'', 18),
      (''ccocos'', 18), (''cbond'', 18), (''cbnt'', 18), (''cbat'', 18), (''cband'', 18), (''cbal'', 18), (''cant'', 18),
      (''caave'', 18), (''c1inch'', 18), (''cleash'', 18), (''cshib'', 18), (''ctidal'', 18), (''cpaid'', 18), (''crndr'', 18),
      (''cconv'', 18), (''crally'', 18), (''crfuel'', 18), (''cakro'', 18), (''cb20'', 18), (''ctshp'', 18), (''clina'', 18),
      (''cdaofi'', 18), (''ckeep'', 18)]"

text \<open>The checks of one entry: \<open>IsValid\<close> of a coin of one asks for a valid denomination.\<close>

definition entry_denom_ok :: "sdk \<Rightarrow> string \<Rightarrow> unit result" where
  "entry_denom_ok S d =
     rbind (check (d \<noteq> '''') (ErrSdk ''no denom specified'')) (\<lambda>_. check (valid_denom S d) (ErrSdk ''Denom is not valid''))"

definition from_ok :: "sdk \<Rightarrow> string \<Rightarrow> unit result" where
  "from_ok S from = check (acc_from_bech32 S from \<noteq> None) (ErrSdk ''invalid from address'')"

definition decimals_ok :: "RegistryEntry \<Rightarrow> unit result" where
  "decimals_ok e = check (\<not> decimals e < 0) (ErrSdk ''Decimals cannot be less than zero'')"

definition MsgRegister_ValidateBasic :: "sdk \<Rightarrow> string \<Rightarrow> RegistryEntry option \<Rightarrow> unit result" where
  "MsgRegister_ValidateBasic S from entry =
     (case entry of None \<Rightarrow> Err (ErrSdk ''no token entry specified'')
      | Some e \<Rightarrow>
        rbind (entry_denom_ok S (denom e)) (\<lambda>_.
        rbind (from_ok S from) (\<lambda>_. decimals_ok e)))"

definition MsgSetRegistry_ValidateBasic :: "sdk \<Rightarrow> string \<Rightarrow> Registry option \<Rightarrow> unit result" where
  "MsgSetRegistry_ValidateBasic S from reg =
     (case reg of None \<Rightarrow> Err (ErrSdk ''no token entry specified'')
      | Some entries \<Rightarrow>
        rbind (rfold (\<lambda>entry _. case entry of None \<Rightarrow> Panic
          | Some e \<Rightarrow> rbind (entry_denom_ok S (denom e)) (\<lambda>_. decimals_ok e)) entries ()) (\<lambda>_.
        from_ok S from))"

definition MsgDeregister_ValidateBasic :: "sdk \<Rightarrow> string \<Rightarrow> string \<Rightarrow> unit result" where
  "MsgDeregister_ValidateBasic S from d = rbind (entry_denom_ok S d) (\<lambda>_. from_ok S from)"

datatype registry_msg =
    MsgRegister string RegistryEntry
  | MsgDeregister string string
  | MsgSetRegistry string Registry

fun registry_handler :: "sdk \<Rightarrow> registry_msg \<Rightarrow> ('s registry_state_scheme, unit) M" where
  "registry_handler S (MsgRegister from entry) = msg_Register S from entry"
| "registry_handler S (MsgDeregister from d) = msg_Deregister S from d"
| "registry_handler S (MsgSetRegistry from wl) = msg_SetRegistry S from wl"

definition registry_InitGenesis :: "Registry option \<Rightarrow> ('s registry_state_scheme, unit) M" where
  "registry_InitGenesis reg = (case reg of None \<Rightarrow> ret () | Some wl \<Rightarrow> SetRegistry wl)"

definition registry_ExportGenesis :: "'s registry_state_scheme \<Rightarrow> Registry option" where
  "registry_ExportGenesis s = Some (GetRegistry s)"

definition Entries :: "'s registry_state_scheme \<Rightarrow> Registry" where
  "Entries s = GetRegistry s"

text \<open>The migration works on the raw store: it deletes the keys of a prefix that the module no longer uses.\<close>

definition registry_MigrateToVer4 :: "string kv \<Rightarrow> string kv" where
  "registry_MigrateToVer4 store = fold kv_del (filter (prefix [char_of (2 :: nat)]) (map fst store)) store"

section \<open>Administrators (x/admin)\<close>

datatype admin_msg =
    MsgAddAccount string AdminAccount
  | MsgRemoveAccount string AdminAccount
  | AdminMsgSetParams string nat

text \<open>The handler has no case for the message that sets the parameters.\<close>

fun admin_handler :: "sdk \<Rightarrow> admin_msg \<Rightarrow> ('s admin_state_scheme, unit) M" where
  "admin_handler S (MsgAddAccount signer acc) = msg_AddAccount S signer acc"
| "admin_handler S (MsgRemoveAccount signer acc) = msg_RemoveAccount S signer acc"
| "admin_handler S (AdminMsgSetParams signer fee) = throw (ErrSdk ''unrecognized message type'')"

definition ListAccounts :: "'s admin_state_scheme \<Rightarrow> AdminAccount list" where
  "ListAccounts s = GetAdminAccounts s"

definition ProdAdminAccounts :: "AdminAccount list" where
  "ProdAdminAccounts =
     [\<lparr>adminType = ADMIN, adminAddress = ''fury144w8cpva2xkly74xrms8djg69y3mljzplx3fjt''\<rparr>,
      \<lparr>adminType = PMTPREWARDS, adminAddress = ''fury144w8cpva2xkly74xrms8djg69y3mljzplx3fjt''\<rparr>,
      \<lparr>adminType = CLPDEX, adminAddress = ''fury144w8cpva2xkly74xrms8djg69y3mljzplx3fjt''\<rparr>,
      \<lparr>adminType = TOKENREGISTRY, adminAddress = ''fury144w8cpva2xkly74xrms8djg69y3mljzplx3fjt''\<rparr>,
      \<lparr>adminType = ETHBRIDGE, adminAddress = ''fury144w8cpva2xkly74xrms8djg69y3mljzplx3fjt''\<rparr>,
      \<lparr>adminType = TOKENREGISTRY, adminAddress = ''fury1npzemsc4s5gxpv2qt3na97tna03cj2h5xxe3cw''\<rparr>,
      \<lparr>adminType = ETHBRIDGE, adminAddress = ''fury10wgwh7g3jktemd4d8jnswnf0zyk3hsq3uk3tff''\<rparr>]"

definition InitialAdminAccounts :: "AdminAccount list" where
  "InitialAdminAccounts =
     [\<lparr>adminType = ADMIN, adminAddress = ''fury1syavy2npfyt9tcncdtsdzf7kny9lh777yqc2nd''\<rparr>,
      \<lparr>adminType = CLPDEX, adminAddress = ''fury1syavy2npfyt9tcncdtsdzf7kny9lh777yqc2nd''\<rparr>,
      \<lparr>adminType = CLPDEX, adminAddress = ''fury1l7hypmqk2yc334vc6vmdwzp5sdefygj2ad93p5''\<rparr>,
      \<lparr>adminType = PMTPREWARDS, adminAddress = ''fury1syavy2npfyt9tcncdtsdzf7kny9lh777yqc2nd''\<rparr>,
      \<lparr>adminType = PMTPREWARDS, adminAddress = ''fury144w8cpva2xkly74xrms8djg69y3mljzplx3fjt''\<rparr>,
      \<lparr>adminType = PMTPREWARDS, adminAddress = ''fury1l7hypmqk2yc334vc6vmdwzp5sdefygj2ad93p5''\<rparr>,
      \<lparr>adminType = ETHBRIDGE, adminAddress = ''fury1syavy2npfyt9tcncdtsdzf7kny9lh777yqc2nd''\<rparr>,
      \<lparr>adminType = TOKENREGISTRY, adminAddress = ''fury1syavy2npfyt9tcncdtsdzf7kny9lh777yqc2nd''\<rparr>]"

definition admin_InitialMigration :: "string \<Rightarrow> ('s admin_state_scheme, unit) M" where
  "admin_InitialMigration chainID =
     eachM SetAdminAccount (if chainID = ''furynet-1'' then ProdAdminAccounts else InitialAdminAccounts)"

section \<open>Pools (x/clp/keeper/migrations.go)\<close>

definition clp_MigrateToVer2 :: "sdk \<Rightarrow> ('s clp_state_scheme, unit) M" where
  "clp_MigrateToVer2 S =
     thenM (SetRewardParams GetDefaultRewardParams) (
     thenM (SetPmtpRateParams \<lparr>pmtpPeriodBlockRate = 0, pmtpCurrentRunningRate = 0, pmtpInterPolicyRate = 0\<rparr>) (
     thenM (SetPmtpEpoch \<lparr>epochCounter = 0, blockCounter = 0\<rparr>) (
     thenM (SetPmtpParams GetDefaultPmtpParams) (
     thenM (SetPmtpInterPolicyRate (new_dec 0)) (
     bindM (gets GetPools) (\<lambda>ps.
     eachM (\<lambda>p. catchM (SetPool S (p\<lparr>swapPriceExternal := Some 0, swapPriceNative := Some 0, rewardPeriodNativeDistributed := 0\<rparr>))
       (\<lambda>_. panic)) ps))))))"

definition migrated_providers :: "(string \<times> nat) list" where
  "migrated_providers =
     [(''fury1smknl4uf89ef84kg020ff7ask7l0sxz3s93gva'', 49661617604396299845632),
      (''fury1gy2ne7m62uer4h5s4e7xlfq7aeem5zpwx6nu9q'', 57436791960686469054464),
      (''fury1uk77p6he26undp9wjjav6ygtu53kswl60cd5va'', 54301402049261093257216),
      (''fury1hspkfnzexvn4drk9dlfpg8n0ppw8sxsl00t65a'', 55396192200751201648640),
      (''fury1y2rfrgh374gd40gj0yusjasw2paaysahu9qk5j'', 138696029054663414251520),
      (''fury1ra9563z5tn2lmqhydt2atrgzftk2d7umyr4vqw'', 139123862445111950442496)]"

text \<open>One round of the loop: a provider without a record is left out.\<close>

definition take_units :: "sdk \<Rightarrow> string \<Rightarrow> string \<times> nat \<Rightarrow> ('s clp_state_scheme, unit) M" where
  "take_units S symbol lp =
     (let (address, units) = lp in
      bindM (gets (GetLiquidityProvider symbol address)) (\<lambda>r.
      case r of Err _ \<Rightarrow> ret () | Panic \<Rightarrow> panic
      | Ok l \<Rightarrow>
        bindM (catchM (getsR (GetPool symbol)) (\<lambda>_. panic)) (\<lambda>pool.
        bindM (liftR (uint_sub S (liquidityProviderUnits l) units)) (\<lambda>left.
        thenM (SetLiquidityProvider S (l\<lparr>liquidityProviderUnits := left\<rparr>)) (
        bindM (liftR (uint_sub S (poolUnits pool) units)) (\<lambda>n.
        ignoreM (SetPool S (pool\<lparr>poolUnits := n\<rparr>))))))))"

definition clp_MigrateToVer3 :: "sdk \<Rightarrow> ('s clp_state_scheme, unit) M" where
  "clp_MigrateToVer3 S = eachM (take_units S ''cusdc'') migrated_providers"

definition clp_DefaultMinCreatePoolThreshold :: int where
  "clp_DefaultMinCreatePoolThreshold = 100"

definition clp_MigrateToVer4 :: "('s clp_state_scheme, unit) M" where
  "clp_MigrateToVer4 = clp_SetParams clp_DefaultMinCreatePoolThreshold False"

section \<open>Margin and dispensation\<close>

definition margin_MigrateToVer2 :: "('s margin_params_state_scheme, unit) M" where
  "margin_MigrateToVer2 =
     bindM (gets margin_GetParams) (\<lambda>p. margin_SetParams (p\<lparr>furyCollateralEnabled := False\<rparr>))"

definition disp_MigrateToVer2 :: "sdk \<Rightarrow> ('s disp_state_scheme, unit) M" where
  "disp_MigrateToVer2 S = bindM (liftR (new_coin S (Symbol GetSettlementAsset) 0)) SetMintController"

section \<open>What the set-up gives\<close>

lemma registry_genesis_roundtrip: "registry_InitGenesis (Some wl) s = (Ok (), t) \<Longrightarrow> registry_ExportGenesis t = Some wl"
  by (auto simp: registry_InitGenesis_def registry_ExportGenesis_def SetRegistry_def GetRegistry_def result_inv)

lemma fold_kv_del: "kv_get (fold kv_del ks m) k = (if k \<in> set ks then None else kv_get m k)"
  by (induction ks arbitrary: m) (auto simp: kv_get_fun kv_del_get)

lemma registry_MigrateToVer4_get: "kv_get (registry_MigrateToVer4 m) k = (if prefix [char_of (2 :: nat)] k then None else kv_get m k)"
proof -
  have "kv_get m k = None" if "k \<notin> set (map fst m)"
    using that by (simp add: kv_get_fun map_of_eq_None_iff)
  then show ?thesis by (auto simp: registry_MigrateToVer4_def fold_kv_del)
qed

text \<open>After the first migration the accounts of the source are administrators.\<close>

lemma initial_admins:
  assumes "admin_InitialMigration chainID s = (Ok (), t)" and "kv_wf (adminAccounts s)"
    and "acc \<in> set (if chainID = ''furynet-1'' then ProdAdminAccounts else InitialAdminAccounts)"
  shows "IsAdminAccount (adminType acc) (adminAddress acc) t"
proof -
  have step: "\<lbrakk>eachM SetAdminAccount accs s = (Ok (), t); kv_wf (adminAccounts s)\<rbrakk> \<Longrightarrow> kv_wf (adminAccounts t) \<and>
      (\<forall>a. a \<in> set accs \<or> (\<exists>k. kv_get (adminAccounts s) k = Some a \<and> k = GetAdminAccountKey a) \<longrightarrow>
        kv_get (adminAccounts t) (GetAdminAccountKey a) = Some a)" for accs :: "AdminAccount list" and s t
    by (induction accs arbitrary: s) (auto simp: SetAdminAccount_def result_inv GetAdminAccountKey_inj)
  show ?thesis
    using step [OF assms(1) [unfolded admin_InitialMigration_def] assms(2)] assms(3) IsAdminAccount_scan by metis
qed


text \<open>The accounts named in the source have 43 characters, as every Bech32 text of 20 bytes with the prefix \<open>fury\<close>.\<close>

lemma account_lengths:
  "\<forall>(a, n)\<in>set migrated_providers. length a = 43" "\<forall>x\<in>set (ProdAdminAccounts @ InitialAdminAccounts). length (adminAddress x) = 43"
  by (simp_all add: migrated_providers_def ProdAdminAccounts_def InitialAdminAccounts_def)

lemma initial_denoms_distinct: "distinct (map (map_option denom) InitialRegistry)"
  by (simp add: InitialRegistry_def)

section \<open>The migration of units\<close>

context sdk_laws
begin

lemma take_units_Ok:
  assumes "take_units S symbol (a, n) s = (Ok (), t)" and "kv_get (providers s) (GetLiquidityProviderKey symbol a) = Some l"
    and "lp_asset l = Asset symbol" and "pools_wf s"
  shows "\<exists>p. kv_get (pools s) (pool_key (Asset symbol)) = Some p \<and> n \<le> liquidityProviderUnits l \<and> n \<le> poolUnits p \<and>
    (t = s \<or> t = s\<lparr>providers := kv_put (lp_key l) (l\<lparr>liquidityProviderUnits := liquidityProviderUnits l - n\<rparr>) (providers s),
       pools := kv_put (pool_key (Asset symbol)) (p\<lparr>poolUnits := poolUnits p - n\<rparr>) (pools s)\<rparr>)"
proof -
  from assms(1,2) obtain p where p: "kv_get (pools s) (pool_key (Asset symbol)) = Some p" "n \<le> liquidityProviderUnits l" "n \<le> poolUnits p"
    and k: "\<exists>u. SetLiquidityProvider S (l\<lparr>liquidityProviderUnits := liquidityProviderUnits l - n\<rparr>) s = (Ok (), u) \<and>
      ignoreM (SetPool S (p\<lparr>poolUnits := poolUnits p - n\<rparr>)) u = (Ok (), t)"
    by (auto simp: take_units_def GetLiquidityProvider_def GetPool_def run result_inv uint_Ok split: option.splits)
  have "externalAsset p = Asset symbol" by (rule stored_asset [OF assms(4) p(1)])
  with p k assms(3) show ?thesis
    by (auto simp: SetLiquidityProvider_def SetPool_def LiquidityProvider_Validate_def Pool_Validate_def result_inv ignoreM_def catchM_def
        throw_def ret_def modify_def bindM_def liftR_def split: result.splits if_splits prod.splits)
qed

lemma take_units_inv:
  assumes inv: "units_inv s" and h: "take_units S symbol (a, n) s = (Ok (), t)" and a: "CHR ''_'' \<notin> set a"
  shows "units_inv t"
proof (cases "kv_get (providers s) (GetLiquidityProviderKey symbol a)")
  case None
  then show ?thesis using h inv by (simp add: take_units_def GetLiquidityProvider_def run result_inv)
next
  case (Some l)
  have wf: "pools_wf s" "providers_wf s" "issued s = held s" using inv by (simp_all add: units_inv_def)
  have la: "lp_asset l = Asset symbol" "liquidityProviderAddress l = a" using provider_at [OF wf(2) Some a] by auto
  obtain p where p: "kv_get (pools s) (pool_key (Asset symbol)) = Some p" "n \<le> liquidityProviderUnits l" "n \<le> poolUnits p"
    and t: "t = s \<or> t = s\<lparr>providers := kv_put (lp_key l) (l\<lparr>liquidityProviderUnits := liquidityProviderUnits l - n\<rparr>) (providers s),
       pools := kv_put (pool_key (Asset symbol)) (p\<lparr>poolUnits := poolUnits p - n\<rparr>) (pools s)\<rparr>"
    using take_units_Ok [OF h Some la(1) wf(1)] by blast
  let ?l = "l\<lparr>liquidityProviderUnits := liquidityProviderUnits l - n\<rparr>" and ?p = "p\<lparr>poolUnits := poolUnits p - n\<rparr>"
  let ?u = "s\<lparr>providers := kv_put (lp_key ?l) ?l (providers s)\<rparr>"
  have pa: "externalAsset ?p = Asset symbol" using stored_asset [OF wf(1) p(1)] by simp
  have hold: "holding s (lp_key ?l) = liquidityProviderUnits l" using Some la by (simp add: holding_def)
  have "liquidityProviderUnits l \<le> held s (Asset symbol)"
    using held_split [OF wf(2), of "Asset symbol" "GetLiquidityProviderKey symbol a"] Some la by simp
  moreover have u: "held ?u = (held s)(Asset symbol := held s (Asset symbol) - liquidityProviderUnits l + (liquidityProviderUnits l - n))"
    using held_put [OF wf(2), of ?l] a la hold by simp
  ultimately have "held ?u = (held s)(Asset symbol := held s (Asset symbol) - n)" using p(2) by simp
  moreover have "issued s (Asset symbol) = poolUnits p" using p(1) by (simp add: issued_def)
  moreover have wfu: "pools_wf ?u" "providers_wf ?u" using wf(1) providers_wf_put [OF wf(2), of ?l] a la by (simp_all add: pools_wf_def)
  moreover have "issued (?u\<lparr>pools := kv_put (pool_key (externalAsset ?p)) ?p (pools ?u)\<rparr>) = (issued ?u)(externalAsset ?p := poolUnits ?p)"
    by (rule issued_put [OF wfu(1)])
  moreover have "pools_wf (?u\<lparr>pools := kv_put (pool_key (externalAsset ?p)) ?p (pools ?u)\<rparr>)" by (rule pools_wf_put [OF wfu(1)])
  ultimately have "units_inv (?u\<lparr>pools := kv_put (pool_key (externalAsset ?p)) ?p (pools ?u)\<rparr>)"
    using wf(3) stored_asset [OF wf(1) p(1)] by (simp add: units_inv_def providers_wf_def held_def)
  then show ?thesis using t inv pa by auto
qed

lemma MigrateToVer3_units:
  assumes "units_inv s" and "clp_MigrateToVer3 S s = (Ok (), t)"
  shows "units_inv t"
proof -
  have "units_inv t" if "units_inv s" "eachM (take_units S symbol) lps s = (Ok (), t)" "\<forall>(a, n)\<in>set lps. CHR ''_'' \<notin> set a" for lps symbol s t
    using that
  proof (induction lps arbitrary: s)
    case (Cons lp lps)
    then show ?case using take_units_inv [of s symbol "fst lp" "snd lp"] by (auto simp: result_inv)
  qed (simp add: result_inv)
  moreover have "\<forall>(a, n)\<in>set migrated_providers. CHR ''_'' \<notin> set a" by (simp add: migrated_providers_def)
  ultimately show ?thesis using assms unfolding clp_MigrateToVer3_def by blast
qed

end

end
