(* ===== verification/BridgeQueries.thy ===== *)
theory BridgeQueries
  imports BridgeClaims
begin

text \<open>
  The gRPC queries of \<open>x/ethbridge/keeper/grpc_query.go\<close> with the translation of stored claims back into claims of the bridge. The claims of
  a prophecy are read in the order of Go's loop over a map, given by \<open>ord\<close>.
\<close>

definition NewEthBridgeClaim ::
  "int \<Rightarrow> string \<Rightarrow> int \<Rightarrow> string \<Rightarrow> string \<Rightarrow> string \<Rightarrow> string \<Rightarrow> string \<Rightarrow> int \<Rightarrow> ClaimType \<Rightarrow> EthBridgeClaim" where
  "NewEthBridgeClaim chainID bridgeContract nonce symbol tokenContract sender receiver validator amount t =
     \<lparr>ethereumChainId = chainID, bridgeContractAddress = bridgeContract, ethNonce = nonce, ethSymbol = symbol,
      tokenContractAddress = tokenContract, ethereumSender = sender, cosmosReceiver = receiver, ethValidator = validator,
      ethAmount = amount, ethClaimType = t\<rparr>"

definition CreateEthClaimFromOracleString ::
  "bridge_env \<Rightarrow> int \<Rightarrow> string \<Rightarrow> int \<Rightarrow> string \<Rightarrow> string \<Rightarrow> string \<Rightarrow> EthBridgeClaim result" where
  "CreateEthClaimFromOracleString B chainID bridgeContract nonce sender validator text =
     rbind (CreateOracleClaimFromOracleString B text) (\<lambda>c.
     Ok (NewEthBridgeClaim chainID bridgeContract nonce (contentSymbol c) (contentToken c) sender (contentReceiver c) validator
       (contentAmount c) (contentType c)))"

text \<open>One round of the loop over the claims of the validators.\<close>

definition map_claim :: "bridge_env \<Rightarrow> int \<Rightarrow> string \<Rightarrow> int \<Rightarrow> string \<Rightarrow> string \<times> string \<Rightarrow> EthBridgeClaim result" where
  "map_claim B chainID bridgeContract nonce sender vc =
     (let (v, str) = vc in
      rbind (of_option ErrInvalidAddress (val_from_bech32 B v)) (\<lambda>validator.
      CreateEthClaimFromOracleString B chainID bridgeContract nonce sender validator str))"

definition MapOracleClaimsToEthBridgeClaims ::
  "bridge_env \<Rightarrow> (nat \<Rightarrow> nat list) \<Rightarrow> int \<Rightarrow> string \<Rightarrow> int \<Rightarrow> string \<Rightarrow> string kv \<Rightarrow> EthBridgeClaim list result" where
  "MapOracleClaimsToEthBridgeClaims B ord chainID bridgeContract nonce sender claims =
     rfold (\<lambda>vc cs. rbind (map_claim B chainID bridgeContract nonce sender vc) (\<lambda>c. Ok (cs @ [c]))) (in_order ord claims) []"

record EthProphecyRequest =
  reqChainId :: int
  reqBridgeContract :: string
  reqNonce :: int
  reqSymbol :: string
  reqToken :: string
  reqSender :: string

definition EthProphecy ::
  "bridge_env \<Rightarrow> (nat \<Rightarrow> nat list) \<Rightarrow> EthProphecyRequest \<Rightarrow> 's oracle_state_scheme \<Rightarrow> (string \<times> Status \<times> EthBridgeClaim list) result" where
  "EthProphecy B ord req s =
     (case GetProphecy (show_int (reqChainId req) @ show_int (reqNonce req) @ reqSender req) s of
        None \<Rightarrow> Err (ErrSdk ''prophecy not found'')
      | Some p \<Rightarrow>
        rbind (MapOracleClaimsToEthBridgeClaims B ord (reqChainId req) (hex_to_address B (reqBridgeContract req)) (reqNonce req)
          (hex_to_address B (reqSender req)) (validatorClaims p)) (\<lambda>cs.
        Ok (prophecyID p, prophecyStatus p, cs)))"

definition GetPauseStatus :: "'s bridge_state_scheme \<Rightarrow> bool" where
  "GetPauseStatus s = IsPaused s"

section \<open>The answer is the stored claims\<close>


lemma rfold_snoc:
  assumes "rfold (\<lambda>x ys. rbind (f x) (\<lambda>y. Ok (ys @ [y]))) xs acc = Ok ys"
  shows "map Ok ys = map Ok acc @ map f xs"
  using assms
proof (induction xs arbitrary: acc)
  case (Cons x xs)
  then obtain y where "f x = Ok y" "rfold (\<lambda>x ys. rbind (f x) (\<lambda>y. Ok (ys @ [y]))) xs (acc @ [y]) = Ok ys"
    by (auto simp: rbind_Ok_iff)
  then show ?case using Cons.IH [of "acc @ [y]"] by simp
qed simp

text \<open>Every stored claim is in the answer and nothing else, whatever the order of the loop.\<close>

lemma MapOracleClaims_Ok:
  assumes "MapOracleClaimsToEthBridgeClaims B ord i k n sender claims = Ok cs" and "any_order ord"
  shows "Ok ` set cs = map_claim B i k n sender ` set claims"
proof -
  have "map Ok cs = map (map_claim B i k n sender) (in_order ord claims)"
    using rfold_snoc [OF assms(1) [unfolded MapOracleClaimsToEthBridgeClaims_def]] by simp
  then have "Ok ` set cs = map_claim B i k n sender ` set (in_order ord claims)" by (metis list.set_map)
  then show ?thesis by (simp add: in_order_set [OF assms(2)])
qed

text \<open>What a validator claimed is read back as its content.\<close>

lemma map_claim_Ok:
  "map_claim B i k n sender (v, str) = Ok c \<longleftrightarrow> (\<exists>w d. val_from_bech32 B v = Some w \<and> claim_of_json B str = Some d \<and>
     c = NewEthBridgeClaim i k n (contentSymbol d) (contentToken d) sender (contentReceiver d) w (contentAmount d) (contentType d))"
  by (auto simp: map_claim_def CreateEthClaimFromOracleString_def CreateOracleClaimFromOracleString_def rbind_Ok_iff of_option_Ok_iff)

end
