(* ===== verification/Spec2Isabelle.thy ===== *)
theory Spec2Isabelle
  imports MarginDemo BridgeDemo DispensationDemo IbcDemo Ante MarginQueries RelayerDemo Migrations BridgeQueries
begin

text \<open>
  A verification library for the Furynode chain (Go, Cosmos SDK). The node consists of modules under
  \<open>src/x\<close>, wired together in \<open>src/app\<close>; a module keeps its state in a key-value store and
  changes it in the handlers of its messages and at the begin and the end of a block. The library
  models the modules that carry the exchange (the administrators, the token registry, the liquidity
  pools with everything a block does to them, and the margin positions that borrow from the pools), the
  bridge to Ethereum with the oracle that decides its claims, the distributions (airdrops), the wrapper around the
  token transfer between chains, the checks of a transaction before its messages run, the queries, and the relayer, a process
  beside the node that carries events between the two chains.

  \<^bold>\<open>Conventions.\<close> Every operation that may fail or write is a state transformer
  \<open>('s, 'a) M = 's \<Rightarrow> 'a result \<times> 's\<close> (theory \<open>Prelude\<close>); a result is \<open>Ok\<close>, \<open>Err\<close> with the
  sentinel error of the source, or \<open>Panic\<close>. The state is an extensible record that grows module by
  module (\<open>chain_state\<close>, \<open>admin_state\<close>, \<open>registry_state\<close>, \<open>margin_params_state\<close>, \<open>clp_state\<close>, \<open>margin_state\<close>;
  from \<open>admin_state\<close> also \<open>oracle_state\<close>, \<open>bridge_state\<close> and \<open>ante_state\<close>; from \<open>chain_state\<close> also \<open>disp_state\<close>); the relayer
  has a state of its own, \<open>relay_state\<close>. A store is a
  sorted association list per key prefix (\<open>KVStore\<close>). \<open>sdk.Uint\<close> is \<open>nat\<close> and \<open>sdk.Int\<close> is \<open>int\<close>, with the panics of
  the SDK above 256 bits; \<open>sdk.Dec\<close> is \<open>int\<close>, scaled by \<open>10 ^ 18\<close>; \<open>int64\<close> and
  \<open>uint64\<close> are \<open>int\<close> with \<open>to_i64\<close> and \<open>to_u64\<close> where the source can wrap around.
  The Cosmos SDK itself is not part of the repository: it is the record \<open>sdk\<close>, an
  argument of the definitions, and the locale \<open>sdk_laws\<close> states the documented behaviour the proofs
  use (theory \<open>Sdk\<close>). \<open>sdk_ref\<close> is a computable instance that satisfies the laws
  (interpretation \<open>ref\<close>), with which the witnesses evaluate.

  \<^bold>\<open>Theories and sources.\<close>
  \<^item> \<open>Admin\<close>: \<open>x/admin\<close>. Administrators by role; the gate that opens administrative handlers.
  \<^item> \<open>TokenRegistry\<close>: \<open>x/tokenregistry\<close>. Tokens with permissions; the locale
    \<open>registry\<close> states what a registry promises, interpreted on the lists of the code.
  \<^item> \<open>PureCalculation\<close>, \<open>ClpTypes\<close>, \<open>ClpCalc\<close>: \<open>x/clp/keeper/pureCalculation.go\<close>, \<open>x/clp/types\<close>,
    \<open>x/clp/keeper/calculations.go\<close>. \<open>ClpPricing\<close> proves what the calculations promise.
  \<^item> \<open>MarginParams\<close>: \<open>x/margin/keeper/params.go\<close> and the pool health of \<open>x/margin/keeper/keeper.go\<close>.
  \<^item> \<open>ClpState\<close>, \<open>ClpExecutors\<close>, \<open>ClpPmtp\<close>, \<open>ClpRewards\<close>, \<open>ClpMsgServer\<close>, \<open>ClpMsgs\<close>, \<open>ClpBlocks\<close>: the stores,
    \<open>executors.go\<close> with the removal queue, the liquidity protection and the unlock records, the ratio
    shift, the payouts, every message of \<open>msg_server.go\<close> with its checks in \<open>types/msgs.go\<close>,
    and the block hooks, genesis and the checks of \<open>invariants.go\<close>.
  \<^item> \<open>ClpUnits\<close>, \<open>ClpBlockUnits\<close>: every message and both block hooks keep issued units equal to held units.
    \<open>ClpSolvency\<close>: the coins of the module account move with the balances of the pools.
    \<open>ClpInvariants\<close>: what the two checks of \<open>invariants.go\<close> decide. \<open>ClpUnlocks\<close>, \<open>ClpProtection\<close>, \<open>ClpDistribution\<close>, \<open>ClpGenesis\<close>:
    locks, protection, payouts and genesis.
  \<^item> \<open>ClpChain\<close>: the step relation of the chain (a transaction, a block begin, a block end, a change
    outside the module), with guards of a transaction on the state before it (\<open>accounted\<close>), reachability, and the invariant by rule induction.
  \<^item> \<open>Margin\<close>, \<open>MarginMsgs\<close>: \<open>x/margin\<close>. Positions with borrowing, custody, interest and liquidation, the
    block hook, every message, genesis. The pool and the position a Go function works on through pointers are
    the fields \<open>poolVar\<close> and \<open>mtpVar\<close> of the state.
  \<^item> \<open>Triples\<close>: weakest preconditions for handlers. \<open>MarginSolvency\<close>: the messages of the margin module keep the coins behind the pools.
    \<open>MarginPositions\<close>: what opening guarantees, and the bounds of the interest rate.
  \<^item> \<open>GoLib\<close>: loops over Go maps, digits, white space and \<open>float64\<close>. \<open>Bank\<close>: the calls of the SDK's bank keeper.
  \<^item> \<open>Oracle\<close>: \<open>x/oracle\<close>. Prophecies, votes, the whitelist of validators. \<open>OracleVotes\<close>: the votes
    of a prophecy, and that floating point quotients above 0.7 mean more than two thirds of the power.
  \<^item> \<open>EthBridge\<close>: \<open>x/ethbridge\<close>. Claims, locks and burns, blacklist, pause, genesis. Its environment
    outside the repository is the record \<open>bridge_env\<close>, with the locale \<open>bridge_laws\<close> for what is relied on. \<open>BridgeClaims\<close>:
    runs of the bridge and their invariant. \<open>BridgeTransfers\<close>: what leaves over the bridge, and the instance \<open>bridge_ref\<close>.
  \<^item> \<open>Dispensation\<close>: \<open>x/dispensation\<close>. Distributions, their records in three states, user claims, payment, minting, genesis and
    queries. \<open>DispensationFunds\<close>: every operation keeps the module account ahead of the records.
    \<open>DispensationRuns\<close>: runs settle every record; the step relation of the module and its invariant.
  \<^item> \<open>IbcTransfer\<close>: \<open>x/ibctransfer\<close>. The gate of outgoing transfers and the exchange of incoming tokens for
    ones of more decimals; \<open>ibc-go\<close> is the record \<open>ibc_env\<close>.
  \<^item> \<open>Ante\<close>: \<open>app/ante\<close>. Minimal fees by message, minimal commission and maximal voting power of validators.
  \<^item> \<open>ClpQueries\<close>, \<open>MarginQueries\<close>, \<open>BridgeQueries\<close>: the gRPC queries. Pagination by the SDK is the record \<open>page_env\<close> with the
    locale \<open>page_laws\<close>, interpreted on \<open>page_ref\<close>. \<open>Migrations\<close>: the initial registry and administrators, with
    handlers, checks, genesis and queries of the two modules, and the store migrations.
  \<^item> \<open>Relayer\<close>: \<open>cmd/ebrelayer/txs/parser.go\<close>, \<open>cmd/ebrelayer/types\<close>, \<open>cmd/ebrelayer/internal\<close> and the recognition of earlier messages in
    \<open>cmd/ebrelayer/relayer\<close>. The locale \<open>relay_laws\<close> states what is relied on of addresses and numbers, \<open>abi_laws\<close> the layout of a
    contract call. \<open>RelayerRuns\<close>: the two listeners and the replays, block by block, with the answers of the networks as
    arguments; no block is left out. \<open>RelayerDemo\<close> interprets the locales, on a full encoder for the second.
  \<^item> \<open>Demo\<close>, \<open>MarginDemo\<close>, \<open>BridgeDemo\<close>, \<open>DispensationDemo\<close>, \<open>IbcDemo\<close>: small chains at which the hypotheses of the properties hold.

  \<^bold>\<open>What is shown.\<close> In every reachable state the units of a pool are exactly those its providers hold
  (C1), and the two checks of the module fire exactly when units or coins do not agree (C2, C5); messages neither create nor lose coins of the pools (C3, C4, C6, C15, C16); swaps keep the
  constant product and pay the computed price (C7, C8); asymmetric deposits are balanced to within two
  units, and never take the root of a negative number (C9, C11, C28); withdrawals are covered (C12), and a deposit gets the share that
  the query for an estimate announces (C13); roles are needed (C17, C27); genesis round trips (C18); locks and protection work as
  described, and a threshold above its maximum halts the chain (C20, C22, C23); payouts stay within their budget (C24, C25).
  Margin messages move coins and pool balances together, opening is guarded, and interest is bounded (C32 to C34).
  The bridge pays out only what two thirds of the voting power have claimed, whatever the order of map iteration, and only
  once; what leaves is destroyed and charged exactly (C35 to C38). Relayers make the same claim of an event and miss no
  block (though a broadcast that fails is not repeated), but a replay knows what it has sent only for addresses of 42 characters (C14, C19, C21). The dispensation account covers what the
  records promise, and every distribution ends (C39, C40). Tokens from other chains are let in by the registry and scaled exactly (C31).
  Transactions of validators respect commission and voting power, each message for itself, while the minimal fee is that of the last
  message with a fee of its own (C10, C29). Registry and administrators refine a finite map and a set (C26, C27); keys are faithful (C30).

  \<^bold>\<open>Bounds.\<close> No definition uses fuel: every loop of the source runs over a finite list or store, except for the relayer's request for a
  block, which is repeated until it is answered (\<open>await_block\<close>, a partial function). A loop over a Go map runs in
  an order given by the argument \<open>ord\<close>, a permutation (\<open>any_order\<close>). Pagination returns
  a complete page when the limit is below \<open>math.MaxUint64\<close> and not below the number of entries; with the limit \<open>math.MaxUint64\<close>, which closing a pool uses,
  the model promises only that a page holds stored entries, and \<open>page_complete\<close> says that it has all of an asset.

  \<^bold>\<open>Not modelled.\<close> Events, logs and telemetry; gas; the codec (values are stored as such); nil
  pointers inside messages; the legacy query routes, command line and REST clients; the translation of
  genesis files of older versions; the rest of \<open>app\<close>, which only puts the modules together; the network clients of the relayer
  and the contracts.
  \<open>math.Pow\<close> in \<open>PolicyStart\<close> is the field \<open>float_block_rate\<close> of the record \<open>sdk\<close>.
\<close>

section \<open>The chain\<close>

text \<open>
  C1. In every state the chain can reach by transactions, beginnings and ends of blocks and changes outside the module,
  every pool has issued exactly the units its providers hold and no removal waits in the queue, if this holds at the
  start. A transaction (one that fails is rolled back) is subject to three guards on the state before it, without which the code
  breaks the books: its signer is spelled as the address is printed, a deposit goes to a pool with depth on both
  sides, and the page of providers that closing a pool asks for misses none of them.
\<close>

theorem reachable_units:
  assumes "sdk_laws S" and "ledger_inv s" and "reachable S s t"
  shows "issued t = held t \<and> removalQueues t = [] \<and> removalRequests t = []"
  using sdk_laws.reachable_ledger [OF assms(1,3,2)] by (simp add: ledger_inv_def units_inv_def)

theorem reachable_units_witness:
  "\<exists>t. run_msg sdk_ref (MsgSwap ''alice'' (Asset ''fury'') (Asset ''ceth'') 1000 1) demo = (Ok (), t) \<and>
     reachable sdk_ref demo t \<and> issued t = held t"
proof -
  let ?m = "MsgSwap ''alice'' (Asset ''fury'') (Asset ''ceth'') 1000 1"
  obtain t where t: "run_msg sdk_ref ?m demo = (Ok (), t)" using demo_run_swap by blast
  have "step sdk_ref demo (deliver (run_msg sdk_ref ?m) demo)"
    by (rule step.tx) (simp add: accounted_def sdk_ref_sel)
  then have "reachable sdk_ref demo t"
    using reachable.more [OF reachable.start] t by (simp add: deliver_def)
  moreover have "ledger_inv demo" using demo_inv by (simp add: chain_inv_iff)
  ultimately show ?thesis
    using reachable_units [OF ref.sdk_laws_axioms] t by blast
qed

text \<open>
  C2. \<open>UnitsCheck\<close> decides whether the books are right: it fires exactly when the units of some pool differ from the units
  its providers hold. The providers have to fit onto one page of \<open>math.MaxUint64 - 1\<close> entries and the units held
  of an asset into 256 bits. (The check is not registered with the chain: its call is commented out.)
\<close>

theorem units_check_exact:
  assumes "sdk_laws S" and "kv_wf (pools s)" and "length (providers s) < 2 ^ 64 - 1" and "\<And>a. held s a < 2 ^ 256"
  shows "UnitsCheck S s = Ok (\<exists>k p. kv_get (pools s) k = Some p \<and> poolUnits p \<noteq> held s (externalAsset p))"
  by (rule sdk_laws.UnitsCheck_exact [OF assms])

theorem units_check_exact_witness:
  "UnitsCheck sdk_ref demo = Ok False \<and> UnitsCheck sdk_ref (demo\<lparr>providers := []\<rparr>) = Ok True"
proof
  have held: "held demo a < 2 ^ 256" for a
    by (cases a) (simp add: demo_defs eval_types held_def held_in_def kv.total_def)
  have "kv_wf (pools demo)" using chain_inv_wf [OF demo_inv] by simp
  from units_check_exact [OF ref.sdk_laws_axioms this _ held] show "UnitsCheck sdk_ref demo = Ok False"
    by (auto simp: demo_defs NewPool_def kv_get_def held_def held_in_def kv.total_def NewLiquidityProvider_def split: if_splits)
  from units_check_exact [OF ref.sdk_laws_axioms, of "demo\<lparr>providers := []\<rparr>"] \<open>kv_wf (pools demo)\<close>
  show "UnitsCheck sdk_ref (demo\<lparr>providers := []\<rparr>) = Ok True"
    by (auto simp: demo_defs NewPool_def kv_get_def held_def held_in_def kv.total_def split: if_splits)
qed

text \<open>
  C3. A transaction that does not close a pool leaves what the module account holds beyond the
  claims of the pools exactly as it was, in every denomination: coins and pool balances move together.
\<close>

theorem coins_conserved:
  assumes "sdk_laws S" and "chain_inv s" and "acc_from_bech32 S (msg_signer m) = Some (msg_signer m)"
    and "msg_signer m \<noteq> module_address S ModuleName" and "\<not> closes_pool m"
  shows "surplus S (deliver (run_msg S m) s) = surplus S s"
  by (rule deliver_keeps [of "\<lambda>t. surplus S t = surplus S s"])
    (auto simp: run_msg_Ok intro: sdk_laws.route_msg_surplus [OF assms(1) _ assms(2-5)])

theorem coins_conserved_witness:
  "\<exists>t. run_msg sdk_ref (MsgSwap ''alice'' (Asset ''fury'') (Asset ''ceth'') 1000 1) demo = (Ok (), t) \<and>
     surplus sdk_ref t = surplus sdk_ref demo"
proof -
  let ?m = "MsgSwap ''alice'' (Asset ''fury'') (Asset ''ceth'') 1000 1"
  have "surplus sdk_ref (deliver (run_msg sdk_ref ?m) demo) = surplus sdk_ref demo"
    by (rule coins_conserved [OF ref.sdk_laws_axioms demo_inv])
      (simp_all add: sdk_ref_sel mod_ref_def closes_pool_def)
  then show ?thesis using demo_run_swap by (auto simp: deliver_def)
qed

text \<open>
  C4. Closing a pool never pays out more than the pool records: the surplus does not fall in any
  denomination, whichever providers are on the page the handler gets. The pools are stored under their keys and no provider is the module itself.
\<close>

theorem closing_covered:
  assumes "sdk_laws S" and "pools_wf s" and "kv_wf (providers s)"
    and "\<And>k l a. kv_get (providers s) k = Some l \<Longrightarrow> acc_from_bech32 S (liquidityProviderAddress l) = Some a \<Longrightarrow>
      a \<noteq> module_address S ModuleName"
  shows "surplus S s d \<le> surplus S (deliver (msg_DecommissionPool S signer symbol) s) d"
proof (rule deliver_keeps [of "\<lambda>t. surplus S s d \<le> surplus S t d"])
  fix x t assume "msg_DecommissionPool S signer symbol s = (Ok x, t)"
  then show "surplus S s d \<le> surplus S t d"
    using sdk_laws.msg_DecommissionPool_surplus [OF assms(1) _ assms(2) assms(4,3)] by simp
qed simp

theorem closing_covered_witness:
  "(\<exists>t. msg_DecommissionPool sdk_ref ''carol'' ''ceth'' demo = (Ok (), t)) \<and>
   surplus sdk_ref demo ''fury'' \<le> surplus sdk_ref (deliver (msg_DecommissionPool sdk_ref ''carol'' ''ceth'') demo) ''fury''"
proof
  show "surplus sdk_ref demo ''fury'' \<le> surplus sdk_ref (deliver (msg_DecommissionPool sdk_ref ''carol'' ''ceth'') demo) ''fury''"
  proof (rule closing_covered [OF ref.sdk_laws_axioms])
    show "pools_wf demo" "kv_wf (providers demo)" using chain_inv_wf [OF demo_inv] by (simp_all add: providers_wf_def)
  qed (auto simp: demo_defs kv_get_def sdk_ref_sel mod_ref_def NewLiquidityProvider_def split: if_splits)
qed (rule demo_close)

text \<open>
  C5. \<open>BalanceModuleAccountCheck\<close> decides whether the module account covers the pools exactly: it fires exactly when there
  is a surplus or a deficit in Fury or in the asset of some pool. The pools are stored under their keys, none of them is a
  pool of Fury against itself, and the claims of every denomination fit into 256 bits. (The check is
  not registered with the chain: its route is commented out.)
\<close>

theorem balance_check_exact:
  assumes "sdk_laws S" and "pools_wf s" and "kv_get (pools s) (pool_key GetSettlementAsset) = None"
    and "\<And>d. claims s d < 2 ^ 256"
  shows "BalanceModuleAccountCheck S s = Ok (surplus S s NativeSymbol \<noteq> 0 \<or>
    (\<exists>k p. kv_get (pools s) k = Some p \<and> surplus S s (Symbol (externalAsset p)) \<noteq> 0))"
  by (rule sdk_laws.BalanceModuleAccountCheck_exact [OF assms])

theorem balance_check_exact_witness:
  "BalanceModuleAccountCheck sdk_ref demo = Ok False \<and>
   BalanceModuleAccountCheck sdk_ref (demo\<lparr>bank := (\<lambda>_ _. 0)\<rparr>) = Ok True"
proof -
  have wf: "pools_wf demo" "pools_wf (demo\<lparr>bank := (\<lambda>_ _. 0)\<rparr>)" using chain_inv_wf [OF demo_inv] by (simp_all add: pools_wf_def)
  have claims: "claims demo d < 2 ^ 256" "claims (demo\<lparr>bank := (\<lambda>_ _. 0)\<rparr>) d < 2 ^ 256" for d
    by (simp_all add: demo_defs claims_def kv.total_def claim_of_def NewPool_def)
  have none: "kv_get (pools demo) (pool_key GetSettlementAsset) = None"
    by (simp add: demo_defs kv_get_def GetPoolKey_def GetSettlementAsset_def)
  have s: "surplus sdk_ref demo d = 0" for d
    by (simp add: surplus_def claims_def kv.total_def claim_of_def demo_defs NewPool_def sdk_ref_sel mod_ref_def)
  have d: "surplus sdk_ref (demo\<lparr>bank := (\<lambda>_ _. 0)\<rparr>) NativeSymbol \<noteq> 0"
    by (simp add: surplus_def claims_def kv.total_def claim_of_def demo_defs NewPool_def)
  show ?thesis
    using balance_check_exact [OF ref.sdk_laws_axioms wf(1) none claims(1)] s
      balance_check_exact [OF ref.sdk_laws_axioms wf(2) _ claims(2)] none d by simp
qed

text \<open>
  C6. A successful swap pays at least the least amount asked for; the swapper's balance falls by
  exactly the amount sent and rises by exactly the amount announced.
\<close>

theorem swap_balances:
  assumes "sdk_laws S" and "msg_Swap S signer sent recv x mn s = (Ok (y, fee, impact), t)"
    and "acc_from_bech32 S signer = Some addr" and "addr \<noteq> module_address S ModuleName" and "sent \<noteq> recv"
  shows "mn \<le> y \<and> bank t addr (Symbol sent) + x = bank s addr (Symbol sent) \<and>
    bank t addr (Symbol recv) = bank s addr (Symbol recv) + y"
  by (rule sdk_laws.msg_Swap_balances [OF assms])

theorem swap_balances_witness:
  "\<exists>t. msg_Swap sdk_ref ''alice'' (Asset ''fury'') (Asset ''ceth'') 1000 1 demo = (Ok (498, 1, 0), t) \<and>
     bank t ''alice'' ''fury'' + 1000 = bank demo ''alice'' ''fury'' \<and>
     bank t ''alice'' ''ceth'' = bank demo ''alice'' ''ceth'' + 498"
proof -
  obtain t where t: "msg_Swap sdk_ref ''alice'' (Asset ''fury'') (Asset ''ceth'') 1000 1 demo = (Ok (498, 1, 0), t)"
    using demo_swap by blast
  with swap_balances [OF ref.sdk_laws_axioms t, of "''alice''"] show ?thesis
    by (simp add: sdk_ref_sel mod_ref_def)
qed

section \<open>Liquidity\<close>

text \<open>
  C15. A successful deposit moves exactly the two amounts of the message: the provider loses them,
  the pool's balances grow by them, and no other pool changes.
\<close>

theorem deposit_exact:
  assumes "sdk_laws S" and "chain_inv s" and "msg_AddLiquidity S signer a n e s = (Ok (), t)"
    and "acc_from_bech32 S signer = Some signer"
  shows "deposits S signer a n e s t"
  using assms(2) by (intro sdk_laws.msg_AddLiquidity_deposits [OF assms(1,3) _ _ assms(4)])
    (auto simp: chain_inv_def units_inv_def deep_all_deep)

theorem deposit_exact_witness:
  "\<exists>t. msg_AddLiquidity sdk_ref ''alice'' (Asset ''ceth'') 2000 1000 demo = (Ok (), t) \<and>
     deposits sdk_ref ''alice'' (Asset ''ceth'') 2000 1000 demo t"
proof -
  obtain t where t: "msg_AddLiquidity sdk_ref ''alice'' (Asset ''ceth'') 2000 1000 demo = (Ok (), t)"
    using demo_add by blast
  with deposit_exact [OF ref.sdk_laws_axioms demo_inv t] show ?thesis by (simp add: sdk_ref_sel)
qed

text \<open>
  C16. A successful removal of units pays out exactly what the pool's balances fall by, from one
  pool, and leaves both sides of it with depth.
\<close>

theorem removal_exact:
  assumes "sdk_laws S" and "chain_inv s" and "msg_RemoveLiquidityUnits S signer a wu s = (Ok (), t)"
    and "acc_from_bech32 S signer = Some signer"
  shows "\<exists>n e. withdraws S signer a n e s t"
  using assms(2) by (intro sdk_laws.msg_RemoveLiquidityUnits_withdraws [OF assms(1,3) _ _ assms(4)])
    (auto simp: chain_inv_def units_inv_def)

theorem removal_exact_witness:
  "\<exists>t n e. msg_RemoveLiquidityUnits sdk_ref ''bob'' (Asset ''ceth'') 500000 demo = (Ok (), t) \<and>
     withdraws sdk_ref ''bob'' (Asset ''ceth'') n e demo t"
proof -
  obtain t where t: "msg_RemoveLiquidityUnits sdk_ref ''bob'' (Asset ''ceth'') 500000 demo = (Ok (), t)"
    using demo_remove by blast
  with removal_exact [OF ref.sdk_laws_axioms demo_inv t] show ?thesis by (auto simp: sdk_ref_sel)
qed

text \<open>
  C13. The estimate of \<open>GetPoolShareEstimate\<close> is what a deposit gets: a deposit of the same amounts in the same state gives the provider
  exactly the share of the pool's units that the query announced.
\<close>

theorem estimate_matches:
  assumes "sdk_laws S" and "chain_inv s" and "acc_from_bech32 S signer = Some signer"
    and "GetPoolShareEstimate S a n e s = Ok est" and "msg_AddLiquidity S signer a n e s = (Ok (), t)"
  shows "\<exists>p. GetPool (Symbol a) t = Ok p \<and>
    dec_quo S (new_dec (int (units_gained signer a s t))) (new_dec (int (poolUnits p))) = Ok (percentage est)"
  using assms(2) by (intro sdk_laws.estimate_share [OF assms(1,5) _ _ assms(3) _ _ assms(4)])
    (auto simp: chain_inv_def units_inv_def deep_all_deep)

theorem estimate_matches_witness:
  "\<exists>t est p. msg_AddLiquidity sdk_ref ''alice'' (Asset ''ceth'') 2000 1000 demo = (Ok (), t) \<and>
    GetPoolShareEstimate sdk_ref (Asset ''ceth'') 2000 1000 demo = Ok est \<and> GetPool ''ceth'' t = Ok p \<and>
    dec_quo sdk_ref (new_dec (int (units_gained ''alice'' (Asset ''ceth'') demo t))) (new_dec (int (poolUnits p))) = Ok (percentage est)"
proof -
  obtain t where t: "msg_AddLiquidity sdk_ref ''alice'' (Asset ''ceth'') 2000 1000 demo = (Ok (), t)" using demo_add by blast
  obtain est where est: "GetPoolShareEstimate sdk_ref (Asset ''ceth'') 2000 1000 demo = Ok est" using demo_estimate by blast
  from estimate_matches [OF ref.sdk_laws_axioms demo_inv _ est t] t est show ?thesis by (auto simp: sdk_ref_sel)
qed

section \<open>Administration\<close>

text \<open>
  C17. A message that needs a role does nothing for a signer without it: it fails and the state of
  the chain stays as it is.
\<close>

theorem admin_needed:
  assumes "admin_role m = Some r" and "\<And>addr. acc_from_bech32 S (msg_signer m) = Some addr \<Longrightarrow> \<not> IsAdminAccount r addr s"
  shows "fst (run_msg S m s) \<noteq> Ok () \<and> deliver (run_msg S m) s = s"
proof -
  obtain e where e: "route_msg S m s = (Err e, s)" using route_msg_denied [OF assms] by blast
  have "fst (run_msg S m s) \<noteq> Ok ()"
  proof
    assume "fst (run_msg S m s) = Ok ()"
    then have "run_msg S m s = (Ok (), snd (run_msg S m s))" by (simp add: prod_eq_iff)
    then show False using e by (simp add: run_msg_Ok)
  qed
  then show ?thesis by (auto simp: deliver_def split: prod.splits result.splits)
qed

theorem admin_needed_witness:
  "deliver (run_msg sdk_ref (MsgModifyLiquidityProtectionRates ''alice'' 5)) demo = demo"
proof -
  have "\<not> IsAdminAccount CLPDEX ''alice'' demo"
    by (simp add: IsAdminAccount_def GetAdminAccountsForType_def demo_defs kv_values_def)
  then show ?thesis
    using admin_needed [of "MsgModifyLiquidityProtectionRates ''alice'' 5" CLPDEX sdk_ref demo] by (simp add: sdk_ref_sel)
qed

section \<open>Genesis\<close>


definition demo_genesis :: GenesisState where
  "demo_genesis = \<lparr>genMinCreatePoolThreshold = 100, genEnableRemovalQueue = False, addressWhitelist = [''carol''],
     poolList = [demo_pool], liquidityProviders = [demo_provider]\<rparr>"


text \<open>
  A chain started from an export has the pools and the providers of the chain that was
  exported, each under its key.
\<close>

theorem restart_keeps_ledger:
  assumes "ExportGenesis S s = Ok g" and "pools_wf s" and "providers_wf s" and "genesis_ok S g"
    and "pools s0 = []" and "providers s0 = []"
  shows "\<exists>t. InitGenesis S g s0 = (Ok (), t) \<and> pools t = pools s \<and> providers t = providers s"
  using assms(4) by (intro export_restart [OF assms(1-3) _ _ _ _ _ assms(5,6)]) (auto simp: genesis_ok_def)

theorem restart_keeps_ledger_witness:
  "\<exists>t. InitGenesis sdk_ref demo_genesis (demo\<lparr>pools := [], providers := []\<rparr>) = (Ok (), t) \<and>
     pools t = pools demo \<and> providers t = providers demo"
proof (rule restart_keeps_ledger)
  show "ExportGenesis sdk_ref demo = Ok demo_genesis"
    by (simp add: ExportGenesis_def GetClpWhiteList_def demo_genesis_def eval)
  show "pools_wf demo" "providers_wf demo" using chain_inv_wf [OF demo_inv] by simp_all
qed (simp_all add: genesis_ok_def demo_genesis_def eval)

section \<open>Locks and protection\<close>

text \<open>
  C20. With a lock period, units leave only by unlock requests whose lock has run out (by any request in a cancellation). If such requests
  hold the wanted units, the use succeeds: they are debited by exactly the wanted units in total, no request grows, one whose
  lock has not run out stays as it is, and the provider is stored with what is left of its requests. Otherwise it
  fails and nothing is written. The asset of the provider is a valid one (for others nothing would be stored).
\<close>

theorem unlocks_cover_use:
  assumes "liquidityRemovalLockPeriod (rewardParams s) \<noteq> 0" and "Asset_Validate S (lp_asset lp) = Ok True"
  shows "if n \<le> matured anyway s lp
    then \<exists>rs. UseUnlockedLiquidity S lp n anyway s = (Ok rs, s\<lparr>providers :=
        kv_put (lp_key lp) (lp\<lparr>unlocks := filter (\<lambda>r. units r \<noteq> 0) rs\<rparr>) (providers s)\<rparr>) \<and>
      list_all2 (debited anyway (liquidityRemovalLockPeriod (rewardParams s)) (height s)) (unlocks lp) rs \<and>
      locked_units rs + n = locked_units (unlocks lp)
    else UseUnlockedLiquidity S lp n anyway s = (Err ErrBalanceNotAvailable, s)"
  by (rule UseUnlockedLiquidity_exact [OF assms])

theorem unlocks_cover_use_witness:
  "\<exists>rs t. UseUnlockedLiquidity sdk_ref (demo_provider\<lparr>unlocks := [\<lparr>requestHeight = 1, units = 70\<rparr>]\<rparr>) 50 False
      (demo\<lparr>rewardParams := GetDefaultRewardParams\<lparr>liquidityRemovalLockPeriod := 5\<rparr>\<rparr>) = (Ok rs, t) \<and>
    locked_units rs + 50 = 70"
proof -
  let ?l = "demo_provider\<lparr>unlocks := [\<lparr>requestHeight = 1, units = 70\<rparr>]\<rparr>"
  let ?s = "demo\<lparr>rewardParams := GetDefaultRewardParams\<lparr>liquidityRemovalLockPeriod := 5\<rparr>\<rparr>"
  have "Asset_Validate sdk_ref (lp_asset ?l) = Ok True" by (simp add: eval cong: eval_cong)
  moreover have "matured False ?s ?l = 70" by (simp add: matured_def unlocked_def locked_units_def demo_defs to_i64_def)
  ultimately show ?thesis
    using unlocks_cover_use [of ?s sdk_ref ?l 50 False] by (auto simp: locked_units_def)
qed

text \<open>
  While the protection is active, a sale of Fury takes its value off the current threshold or
  stops, and a purchase adds its value, up to the maximum.
\<close>

theorem threshold_follows_swaps:
  assumes "sdk_laws S" and "isActive (protectionParams s)" and "CalcFuryValue S n price = Ok v" and "threshold_ok s"
    and "maxFuryLiquidityThreshold (protectionParams s) < 2 ^ 256"
  shows "MustUpdateLiquidityProtectionThreshold S sell n price s =
    (if \<not> sell then (Ok (), s\<lparr>currentFuryLiquidityThreshold :=
       min (maxFuryLiquidityThreshold (protectionParams s)) (currentFuryLiquidityThreshold s + v)\<rparr>)
     else if v \<le> currentFuryLiquidityThreshold s
     then (Ok (), s\<lparr>currentFuryLiquidityThreshold := currentFuryLiquidityThreshold s - v\<rparr>) else (Panic, s))"
  using sdk_laws.MustUpdate_sell [OF assms(1-3)] sdk_laws.MustUpdate_buy [OF assms(1-5)] by (cases sell) simp_all

definition demo_protected :: clp_state where
  "demo_protected = demo\<lparr>protectionParams := \<lparr>maxFuryLiquidityThreshold = 1000, maxFuryLiquidityThresholdAsset = ''ceth'',
     protectionEpochLength = 10, isActive = True\<rparr>, currentFuryLiquidityThreshold := 300\<rparr>"

theorem threshold_follows_swaps_witness:
  "MustUpdateLiquidityProtectionThreshold sdk_ref True 100 1000000000000000000 demo_protected =
     (Ok (), demo_protected\<lparr>currentFuryLiquidityThreshold := 200\<rparr>)"
proof -
  have "CalcFuryValue sdk_ref 100 1000000000000000000 = Ok 100" by (simp add: CalcFuryValue_def eval cong: eval_cong)
  from threshold_follows_swaps [OF ref.sdk_laws_axioms _ this, of demo_protected True] show ?thesis
    by (simp add: demo_protected_def threshold_ok_def)
qed

text \<open>
  C22. A used up threshold comes back: after \<open>n\<close> blocks without swaps (beginnings and ends of blocks, and anything in between that leaves the
  protection alone) it has grown by \<open>n\<close> times the epoch's share of the maximum, and never beyond the maximum. The beginning of a block does return
  outside the period of a policy of the ratio shift, as long as the rate is not -1 and the prices of the pools can be written. The threshold starts at
  the maximum or below it, the epoch is not empty and the maximum fits into 256 bits.
\<close>

theorem threshold_recovers:
  assumes "sdk_laws S" and "isActive (protectionParams s)" and "threshold_ok s"
    and "0 < protectionEpochLength (protectionParams s)" and "maxFuryLiquidityThreshold (protectionParams s) < 2 ^ 256"
    and "quiet_blocks S s n t"
  shows "protectionParams t = protectionParams s \<and>
    currentFuryLiquidityThreshold t = min (maxFuryLiquidityThreshold (protectionParams s)) (currentFuryLiquidityThreshold s +
      n * (maxFuryLiquidityThreshold (protectionParams s) div nat (protectionEpochLength (protectionParams s)))) \<and>
    (\<forall>h bt. no_policy h t \<longrightarrow> pmtpCurrentRunningRate (pmtpRateParams t) \<noteq> - dec_one \<longrightarrow>
      (\<forall>p \<in> set (GetPools t). quotable S t p) \<longrightarrow> (\<exists>u. BeginBlocker S (t\<lparr>height := h, block_time := bt\<rparr>) = (Ok (), u)))"
proof -
  have t: "protection t = (protectionParams s, min (maxFuryLiquidityThreshold (protectionParams s)) (currentFuryLiquidityThreshold s +
      n * (maxFuryLiquidityThreshold (protectionParams s) div nat (protectionEpochLength (protectionParams s)))))"
    by (rule sdk_laws.quiet_blocks_threshold [OF assms(1,6,2-5)])
  have "\<exists>u. BeginBlocker S (t\<lparr>height := h, block_time := bt\<rparr>) = (Ok (), u)"
    if "no_policy h t" "pmtpCurrentRunningRate (pmtpRateParams t) \<noteq> - dec_one"
      "\<forall>p \<in> set (GetPools t). quotable S t p" for h bt
    by (rule sdk_laws.BeginBlocker_returns [OF assms(1)])
      (use that t assms(2-5) in \<open>auto simp: protection_def threshold_ok_def no_policy_def GetPools_def quotable_def GetAssetDecimals_def GetRegistry_def\<close>)
  then show ?thesis using t by (simp add: protection_def)
qed

theorem threshold_recovers_witness:
  "\<exists>t. quiet_blocks sdk_ref demo_protected 1 t \<and> currentFuryLiquidityThreshold t = 400"
proof -
  have ok: "isActive (protectionParams demo_protected)" "threshold_ok demo_protected" "0 < protectionEpochLength (protectionParams demo_protected)"
    "maxFuryLiquidityThreshold (protectionParams demo_protected) < 2 ^ 256"
    by (simp_all add: demo_protected_def threshold_ok_def)
  note run = threshold_recovers [OF ref.sdk_laws_axioms ok]
  have "\<forall>p \<in> set (GetPools demo_protected). quotable sdk_ref demo_protected p"
    by (simp add: demo_protected_def quotable_def GetAssetDecimals_def Int64ToUint8Safe_def eval cong: eval_cong)
  moreover have "no_policy 2 demo_protected" "pmtpCurrentRunningRate (pmtpRateParams demo_protected) \<noteq> - dec_one"
    by (simp_all add: demo_protected_def no_policy_def demo_defs)
  ultimately obtain u where u: "BeginBlocker sdk_ref (demo_protected\<lparr>height := 2, block_time := ''''\<rparr>) = (Ok (), u)"
    using run [OF quiet_blocks.start] by blast
  then have "quiet_blocks sdk_ref demo_protected (Suc 0) u" by (rule quiet_blocks.begin_block [OF quiet_blocks.start])
  with run [OF this] show ?thesis by (auto simp: demo_protected_def)
qed



section \<open>Payouts\<close>

text \<open>
  C24. A distribution to the providers of a pool, with a rate of at most one, hands out no more than
  the pool's Fury, and exactly what it takes from the pool.
\<close>

theorem distribution_covered:
  assumes "sdk_laws S" and "rate \<le> dec_one"
    and "CollectProviderDistribution S ptr (new_dec (int b)) rate pu lps lf lpp = Ok (tot, lf', lpp')"
  shows "tot \<le> b \<and> map_sum lf' = map_sum lf + tot"
proof -
  obtain d n where "dec_mul S rate (new_dec (int b)) = Ok d" "uint_round S d = Ok n" "tot \<le> n"
    "map_sum lf' = map_sum lf + tot"
    using sdk_laws.CollectProviderDistribution_Ok [OF assms(1,3)] by blast
  with sdk_laws.share_of_balance [OF assms(1) _ _ assms(2)] show ?thesis by force
qed

theorem distribution_covered_witness:
  "\<exists>lf lpp. CollectProviderDistribution sdk_ref 0 (new_dec (int 1000)) 500000000000000000 2000000
     [(''bob'', demo_provider)] [] [] = Ok (500, lf, lpp) \<and> map_sum lf = 500"
proof -
  obtain lf lpp where c: "CollectProviderDistribution sdk_ref 0 (new_dec (int 1000)) 500000000000000000 2000000
      [(''bob'', demo_provider)] [] [] = Ok (500, lf, lpp)"
    by (simp add: CollectProviderDistribution_def collect_share_def CalcProviderDistributionAmount_def eval cong: eval_cong)
  with distribution_covered [OF ref.sdk_laws_axioms _ c] show ?thesis by (auto simp: map_sum_def)
qed

text \<open>
  C25. The rewards of a block: what is minted is exactly what the pools get, and stays within the
  allocation of the block.
\<close>

theorem rewards_covered:
  assumes "sdk_laws S" and "CollectPoolRewardTuples S ps bd depth period = Ok (ts, minted)"
  shows "minted = sum_list (map snd ts) \<and> minted \<le> bd"
  using sdk_laws.collect_tuples_sum [OF assms(1)] assms(2) by (fastforce simp: CollectPoolRewardTuples_def)

definition demo_period :: RewardPeriod where
  "demo_period = \<lparr>rewardPeriodId = ''1'', rewardPeriodStartBlock = 1, rewardPeriodEndBlock = 10,
     rewardPeriodAllocation = Some 1000, rewardPeriodPoolMultipliers = [], rewardPeriodDefaultMultiplier = Some dec_one,
     rewardPeriodDistribute = False, rewardPeriodMod = 1\<rparr>"

theorem rewards_covered_witness:
  "\<exists>ts. CollectPoolRewardTuples sdk_ref [demo_pool] 100 (new_dec 2000000) demo_period = Ok (ts, 100) \<and>
     100 = sum_list (map snd ts)"
proof -
  obtain ts where c: "CollectPoolRewardTuples sdk_ref [demo_pool] 100 (new_dec 2000000) demo_period = Ok (ts, 100)"
    by (simp add: CollectPoolRewardTuples_def GetPoolMultiplier_def calcPoolDistribution_def demo_period_def eval cong: eval_cong)
  with rewards_covered [OF ref.sdk_laws_axioms c] show ?thesis by auto
qed

section \<open>Margin positions\<close>

text \<open>
  C32. A transaction with a message of the margin module leaves what the account of the pools holds
  beyond the claims of the pools exactly as it was, in every denomination, and keeps the pools and
  positions well-formed; interest that could not be paid included. One side of an opened position, and of every stored one,
  has to be Fury (which \<open>Open\<close> does not check: without that its books go wrong), and neither owners nor funds are the module itself.
\<close>

theorem margin_coins_conserved:
  assumes "sdk_laws S" and "pools_wf s" and "positions_ok S s" and "funds_foreign S s"
    and "\<And>o'. m = MarginOpen o' \<Longrightarrow> msg_one_sided o'" and "foreign S (margin_signer m)"
  shows "surplus S (deliver (run_margin S m) s) = surplus S s \<and> pools_wf (deliver (run_margin S m) s) \<and>
    positions_ok S (deliver (run_margin S m) s)"
proof (rule deliver_keeps [of "\<lambda>t. surplus S t = surplus S s \<and> pools_wf t \<and> positions_ok S t"])
  fix x t assume "run_margin S m s = (Ok x, t)"
  then have "NewLegacyHandler S m s = (Ok x, t)" by (auto simp: run_margin_def result_inv)
  from sdk_laws.NewLegacyHandler_surplus [OF assms(1) this assms(2-6)]
  show "surplus S t = surplus S s \<and> pools_wf t \<and> positions_ok S t" by auto
qed (use assms in simp)

theorem margin_coins_conserved_witness:
  "\<exists>t. run_margin sdk_ref (MarginOpen mdemo_open) mdemo = (Ok (), t) \<and> surplus sdk_ref t = surplus sdk_ref mdemo"
proof -
  have "surplus sdk_ref (deliver (run_margin sdk_ref (MarginOpen mdemo_open)) mdemo) = surplus sdk_ref mdemo"
    using margin_coins_conserved [OF ref.sdk_laws_axioms mdemo_wf, of "MarginOpen mdemo_open"]
    by (simp add: mdemo_open_def msg_one_sided_def foreign_def sdk_ref_sel mod_ref_def)
  then show ?thesis using mdemo_opens by (auto simp: deliver_def)
qed

text \<open>
  C33. A position is opened only for a signer on the whitelist (where there is one), below the limit of open
  positions, in a pool that is enabled, not closed and of a health above the threshold (or without a health). The store then holds one new position: it belongs
  to the signer, has the assets and the whole collateral of the message, at most the maximal leverage and the next id, under a key that was free. The pool the message
  names, and no other, takes the collateral and the debt and sets the custody aside; at its new balances the health of the position exceeds the safety factor.
  The ids in the store are those the counter has given out, and the counter does not wrap around.
\<close>

theorem open_guarded:
  assumes "sdk_laws S" and "pools_wf s" and "ids_counted s" and "mtpCount s + 1 < 2 ^ 64" and "msg_Open S m s = (Ok (), t)"
    and "ext = external_of (openCollateralAsset m) (openBorrowAsset m)" and "ps = margin_GetParams s"
  shows "(whitelistingEnabled ps \<longrightarrow> IsWhitelisted (openSigner m) s) \<and> openMTPCount s < maxOpenPositions ps \<and>
    IsPoolEnabled ext s \<and> \<not> IsPoolClosed ext s \<and>
    (\<exists>pool x p hp h. GetPool ext s = Ok pool \<and> (case health pool of None \<Rightarrow> True | Some h0 \<Rightarrow> poolOpenThreshold ps < h0) \<and>
      mtpAddress x = openSigner m \<and> collateralAsset x = openCollateralAsset m \<and> custodyAsset x = openBorrowAsset m \<and>
      collateralAmount x = openCollateralAmount m \<and> leverage x \<le> leverageMax ps \<and> mtpId x = mtpCount s + 1 \<and> mtpCount t = mtpId x \<and>
      kv_get (mtps s) (GetMTPKey (openSigner m) (mtpId x)) = None \<and> mtps t = kv_put (GetMTPKey (openSigner m) (mtpId x)) x (mtps s) \<and>
      p = set_aside (openBorrowAsset m) (custodyAmount x)
        ((lend (openCollateralAsset m) (openCollateralAmount m) (liabilities x) pool)\<lparr>health := Some hp\<rparr>) \<and>
      pools t = kv_put (pool_key (Asset ext)) p (pools s) \<and> UpdateMTPHealth S x p t = Ok h \<and> safetyFactor ps < h)"
proof -
  from assms(5-7) obtain pool l x where g: "\<not> (whitelistingEnabled ps \<and> \<not> IsWhitelisted (openSigner m) s)"
      "openMTPCount s < maxOpenPositions ps" "GetPool ext s = Ok pool" "IsPoolEnabled ext s" "\<not> IsPoolClosed ext s"
      "case health pool of None \<Rightarrow> True | Some h0 \<Rightarrow> poolOpenThreshold ps < h0"
    and o: "OpenLong S m l s = (Ok x, t)"
    by (auto simp: msg_Open_def result_inv Let_def not_le split: option.splits Position.splits)
  obtain p li k hx hp h where x: "x = (NewMTP (openSigner m) (openCollateralAsset m) (openBorrowAsset m) (openPosition m) (min l (leverageMax ps)))
      \<lparr>collateralAmount := openCollateralAmount m, liabilities := li, custodyAmount := k, mtpHealth := hx, mtpId := to_u64 (mtpCount s + 1)\<rparr>"
    and p: "p = set_aside (openBorrowAsset m) k ((lend (openCollateralAsset m) (openCollateralAmount m) li pool)\<lparr>health := Some hp\<rparr>)"
    and t: "pools t = kv_put (pool_key (Asset ext)) p (pools s)" "mtps t = kv_put (GetMTPKey (openSigner m) (mtpId x)) x (mtps s)"
      "mtpCount t = mtpId x" "UpdateMTPHealth S x p t = Ok h" "safetyFactor ps < h"
    using sdk_laws.OpenLong_Ok [OF assms(1) o assms(2)] g(3) assms(6,7) by auto
  have n: "to_u64 (mtpCount s + 1) = mtpCount s + 1" using assms(3,4) by (intro to_u64_id) (simp_all add: ids_counted_def)
  have "\<exists>pool x p hp h. GetPool ext s = Ok pool \<and> (case health pool of None \<Rightarrow> True | Some h0 \<Rightarrow> poolOpenThreshold ps < h0) \<and>
      mtpAddress x = openSigner m \<and> collateralAsset x = openCollateralAsset m \<and> custodyAsset x = openBorrowAsset m \<and>
      collateralAmount x = openCollateralAmount m \<and> leverage x \<le> leverageMax ps \<and> mtpId x = mtpCount s + 1 \<and> mtpCount t = mtpId x \<and>
      kv_get (mtps s) (GetMTPKey (openSigner m) (mtpId x)) = None \<and> mtps t = kv_put (GetMTPKey (openSigner m) (mtpId x)) x (mtps s) \<and>
      p = set_aside (openBorrowAsset m) (custodyAmount x)
        ((lend (openCollateralAsset m) (openCollateralAmount m) (liabilities x) pool)\<lparr>health := Some hp\<rparr>) \<and>
      pools t = kv_put (pool_key (Asset ext)) p (pools s) \<and> UpdateMTPHealth S x p t = Ok h \<and> safetyFactor ps < h"
    by (rule exI [of _ pool], rule exI [of _ x], rule exI [of _ p], rule exI [of _ hp], rule exI [of _ h])
      (use g(3,6) t p fresh_id [OF assms(3,4)] in \<open>simp add: x n NewMTP_def\<close>)
  with g show ?thesis by blast
qed

theorem open_guarded_witness:
  "\<exists>t x. msg_Open sdk_ref mdemo_open mdemo = (Ok (), t) \<and> mtps t = kv_put (GetMTPKey (openSigner mdemo_open) (mtpId x)) x (mtps mdemo) \<and>
     mtpAddress x = openSigner mdemo_open \<and> collateralAmount x = 10000"
proof -
  obtain t where t: "msg_Open sdk_ref mdemo_open mdemo = (Ok (), t)"
    using mdemo_opens by (auto simp: run_margin_def result_inv)
  moreover have "pools_wf mdemo" "ids_counted mdemo" "mtpCount mdemo + 1 < 2 ^ 64"
    using mdemo_wf by (simp_all add: ids_counted_def mdemo_sel kv_get_def kv_wf_def)
  moreover have "openCollateralAmount mdemo_open = 10000" by (simp add: mdemo_open_def)
  ultimately show ?thesis using open_guarded [OF ref.sdk_laws_axioms _ _ _ t refl refl] by auto
qed

text \<open>
  C34. The interest rate of a pool is a base rate between the configured bounds plus the surcharge of
  \<open>GetSQFromBlocks\<close>; inside the bounds the base rate is at most one step away from the rate before.
\<close>

theorem interest_rate_bounded:
  assumes "sdk_laws S" and "InterestRateComputation S p s = Ok r" and "ps = margin_GetParams s"
    and "interestRateMin ps \<le> interestRateMax ps" and "0 \<le> interestRateIncrease ps" and "0 \<le> interestRateDecrease ps"
  shows "\<exists>b q. r = b + q \<and> GetSQFromBlocks S p b s = Ok q \<and> interestRateMin ps \<le> b \<and> b \<le> interestRateMax ps \<and>
    (interestRateMin ps < b \<longrightarrow> b < interestRateMax ps \<longrightarrow>
       interestRate p - interestRateDecrease ps \<le> b \<and> b \<le> interestRate p + interestRateIncrease ps)"
proof -
  from assms(2,3) obtain target r' q where s: "step_rate S target (interestRate p) ps = Ok r'"
    and q: "GetSQFromBlocks S p (clamp_rate r' ps) s = Ok q" "dec_add S (clamp_rate r' ps) q = Ok r"
    by (auto simp: InterestRateComputation_def Let_def result_inv)
  from sdk_laws.dec_add [OF assms(1) q(2)] q(1) sdk_laws.clamp_rate_range [OF assms(1,4), of r']
    sdk_laws.step_rate_near [OF assms(1) s assms(5,6)]
  show ?thesis by (intro exI [of _ "clamp_rate r' ps"] exI [of _ q]) auto
qed

theorem interest_rate_bounded_witness:
  "\<exists>b q. (100000000000000000 :: int) = b + q \<and> GetSQFromBlocks sdk_ref demo_pool b mdemo = Ok q \<and> 5000000000000000 \<le> b"
proof -
  have "InterestRateComputation sdk_ref demo_pool mdemo = Ok 100000000000000000"
    by (simp add: InterestRateComputation_def step_rate_def clamp_rate_def GetSQFromBlocks_def GetSQBeginBlock_def
        eval eval_margin cong: eval_cong)
  from interest_rate_bounded [OF ref.sdk_laws_axioms this refl] show ?thesis
    by (auto simp: mdemo_sel mdemo_params_def margin_GetParams_def margin_DefaultParams_def new_dec_def)
qed

section \<open>The bridge\<close>

text \<open>
  C35. When a claim of the bridge is accepted, either the balances stay as they are or the prophecy has
  succeeded, and then the chain pays out exactly one content, which validators with more than two
  thirds of the voting power of the whitelist have claimed under this id, each in a signed message of the run.
\<close>

theorem bridge_mint_backed:
  assumes "bridge_laws S B" and "prophecies s0 = []" and "powers_ok (bondedPowers s0)" and "bridge_run S B s0 ms s"
    and "any_order ord" and "run_bridge S B ord DefaultConsensusNeeded (MsgCreateEthBridgeClaim claim) s = (Ok (), t)"
  shows "\<exists>p. GetProphecy (oracle_id claim) t = Some p \<and>
    (if statusText (prophecyStatus p) = STATUS_TEXT_SUCCESS
     then \<exists>wl content vs. GetOracleWhiteList (val_from_bech32 B) s = Ok wl \<and>
       2 * group_power (bondedPowers s) (set wl) < 3 * group_power (bondedPowers s) vs \<and>
       backed_by S B (MsgCreateEthBridgeClaim claim # ms) claim content vs \<and>
       0 \<le> contentAmount content \<and> bank t = paid_out content (bank s)
     else bank t = bank s)"
proof -
  have "bridge_inv S B ms s"
    using bridge_laws.bridge_run_inv [OF assms(1,4) bridge_laws.bridge_genesis_inv [OF assms(1-3)]] by simp
  then show ?thesis by (rule bridge_laws.claim_backed [OF assms(1) _ assms(5,6)])
qed

theorem bridge_mint_backed_witness:
  "\<exists>t wl content vs. demo_vote ''val2'' after_one = (Ok (), t) \<and> GetOracleWhiteList (val_from_bech32 bridge_ref) after_one = Ok wl \<and>
     2 * group_power (bondedPowers after_one) (set wl) < 3 * group_power (bondedPowers after_one) vs \<and>
     bank t = paid_out content (bank after_one)"
proof -
  obtain t where t: "demo_vote ''val2'' after_one = (Ok (), t)"
    and p: "GetProphecy demo_id t = Some (demo_prophecy [''val1'', ''val2''] (NewStatus STATUS_TEXT_SUCCESS demo_text))"
    using demo_second by blast
  have "prophecies bridge_demo = []" by (simp add: bridge_demo_def)
  from bridge_mint_backed [OF bridge.bridge_laws_axioms this demo_powers demo_run_one any_order_upt t [unfolded demo_vote_def]] p t
  show ?thesis by (auto simp: demo_claim_sel demo_prophecy_def NewStatus_def)
qed

text \<open>
  C36. While every validator that has voted on a prophecy is on the whitelist, the order in which Go runs
  through the map of claims makes no difference to any message of the bridge.
\<close>

theorem bridge_order_irrelevant:
  assumes "bridge_laws S B" and "prophecies s0 = []" and "powers_ok (bondedPowers s0)" and "bridge_run S B s0 ms s"
    and "voters_listed (val_from_bech32 B) s" and "any_order ord" and "any_order ord'"
  shows "run_bridge S B ord DefaultConsensusNeeded m s = run_bridge S B ord' DefaultConsensusNeeded m s"
proof -
  have "bridge_inv S B ms s"
    using bridge_laws.bridge_run_inv [OF assms(1,4) bridge_laws.bridge_genesis_inv [OF assms(1-3)]] by simp
  then show ?thesis by (rule run_bridge_order [OF assms(1) _ assms(5-7)])
qed

theorem bridge_order_irrelevant_witness:
  "run_bridge sdk_ref bridge_ref (\<lambda>n. [0..<n]) DefaultConsensusNeeded (MsgCreateEthBridgeClaim (demo_claim ''val2'')) after_one =
   run_bridge sdk_ref bridge_ref (\<lambda>n. rev [0..<n]) DefaultConsensusNeeded (MsgCreateEthBridgeClaim (demo_claim ''val2'')) after_one"
proof -
  have "prophecies bridge_demo = []" by (simp add: bridge_demo_def)
  moreover have "voters_listed (val_from_bech32 bridge_ref) after_one"
    by (auto simp: voters_listed_def after_one_def bridge_demo_def GetProphecy_def GetOracleWhiteList_def kv_get_def
        demo_prophecy_def bridge_ref_sel split: if_splits)
  moreover have "any_order (\<lambda>n. rev [0..<n])" by (simp add: any_order_def)
  ultimately show ?thesis
    using bridge_order_irrelevant [OF bridge.bridge_laws_axioms _ demo_powers demo_run_one _ any_order_upt] by blast
qed

text \<open>
  C37. A prophecy that is decided, whether it succeeded or failed, stays as it is; no claim under its id is accepted
  in the rest of the run or at its end, so that nothing is paid out twice under one id.
\<close>

theorem bridge_claim_once:
  assumes "bridge_laws S B" and "prophecies s0 = []" and "powers_ok (bondedPowers s0)" and "bridge_run S B s0 ms s"
    and "GetProphecy i s = Some p" and "statusText (prophecyStatus p) \<noteq> STATUS_TEXT_PENDING" and "bridge_run S B s ms' t"
  shows "GetProphecy i t = Some p \<and>
    (\<forall>claim. oracle_id claim = i \<longrightarrow> MsgCreateEthBridgeClaim claim \<notin> set ms' \<and>
       (\<forall>ord c u. run_bridge S B ord c (MsgCreateEthBridgeClaim claim) t \<noteq> (Ok (), u)))"
proof -
  note laws = assms(1)
  have inv: "bridge_inv S B ms s"
    using bridge_laws.bridge_run_inv [OF laws assms(4) bridge_laws.bridge_genesis_inv [OF laws assms(2,3)]] by simp
  note d = bridge_laws.decided_for_good [OF laws assms(7) inv assms(5,6)]
  then show ?thesis
    using bridge_laws.claim_decided [OF laws bridge_laws.bridge_run_inv [OF laws assms(7) inv] _ assms(6)] by blast
qed

theorem bridge_claim_once_witness:
  "\<exists>t :: bridge_state. GetProphecy demo_id t = Some (demo_prophecy [''val1'', ''val2''] (NewStatus STATUS_TEXT_SUCCESS demo_text)) \<and>
     (\<forall>ord c u. run_bridge sdk_ref bridge_ref ord c (MsgCreateEthBridgeClaim (demo_claim ''val3'')) t \<noteq> (Ok (), u))"
proof -
  obtain t where r: "bridge_run sdk_ref bridge_ref bridge_demo
      [MsgCreateEthBridgeClaim (demo_claim ''val2''), MsgCreateEthBridgeClaim (demo_claim ''val1'')] t"
    and p: "GetProphecy demo_id t = Some (demo_prophecy [''val1'', ''val2''] (NewStatus STATUS_TEXT_SUCCESS demo_text))"
    using demo_run_two by blast
  have "prophecies bridge_demo = []" by (simp add: bridge_demo_def)
  then have "GetProphecy demo_id t = Some (demo_prophecy [''val1'', ''val2''] (NewStatus STATUS_TEXT_SUCCESS demo_text)) \<and>
    (\<forall>claim. oracle_id claim = demo_id \<longrightarrow> MsgCreateEthBridgeClaim claim \<notin> set [] \<and>
      (\<forall>ord c u. run_bridge sdk_ref bridge_ref ord c (MsgCreateEthBridgeClaim claim) t \<noteq> (Ok (), u)))"
    by (intro bridge_claim_once [OF bridge.bridge_laws_axioms _ demo_powers r p _ bridge_run.start])
      (simp_all add: demo_prophecy_def NewStatus_def)
  with demo_claim_sel(1) [of "''val3''"] show ?thesis by blast
qed

text \<open>
  C38. Coins leave over the bridge only while it is not paused, to a receiver that is not blacklisted, with a fee of
  at least the gas cost; tokens of this chain are locked and pegged ones are burnt. The sender pays the fee to the
  account set for it (or to the module), the amount is destroyed, and nothing else changes.
\<close>

theorem bridge_transfer_exact:
  assumes "sdk_laws S" and "acc_from_bech32 S (transferSender m) = Some a" and "a \<noteq> module_address S BridgeModule"
    and "msg = MsgLock m \<or> msg = MsgBurn m" and "run_bridge S B ord c msg s = (Ok (), t)"
  shows "\<not> bridgePaused s \<and> (transferSymbol m \<in> set (peggyTokens s) \<longleftrightarrow> msg = MsgBurn m) \<and>
    \<not> IsBlacklisted (transferReceiver m) s \<and> 0 < transferAmount m \<and> GasCost \<le> transferCeth m \<and>
    can_send_out a (fee_account S s) m (bank s) \<and> t = s\<lparr>bank := sent_out a (fee_account S s) m (bank s)\<rparr>"
  using assms(4)
proof
  assume "msg = MsgLock m"
  then show ?thesis using sdk_laws.run_Lock_Ok [OF assms(1) _ assms(2,3)] assms(5) by blast
next
  assume "msg = MsgBurn m"
  then show ?thesis using sdk_laws.run_Burn_Ok [OF assms(1) _ assms(2,3)] assms(5) by blast
qed

theorem bridge_transfer_exact_witness:
  "\<exists>t. run_bridge sdk_ref bridge_ref (\<lambda>n. [0..<n]) DefaultConsensusNeeded (MsgBurn demo_transfer) bridge_demo = (Ok (), t) \<and>
     t = bridge_demo\<lparr>bank := sent_out ''alice'' (fee_account sdk_ref bridge_demo) demo_transfer (bank bridge_demo)\<rparr>"
proof -
  obtain t where t: "run_bridge sdk_ref bridge_ref (\<lambda>n. [0..<n]) DefaultConsensusNeeded (MsgBurn demo_transfer) bridge_demo = (Ok (), t)"
    using demo_burn by blast
  have "acc_from_bech32 sdk_ref (transferSender demo_transfer) = Some ''alice''" "''alice'' \<noteq> module_address sdk_ref BridgeModule"
    by (simp_all add: sdk_ref_sel demo_transfer_def mod_ref_def)
  from bridge_transfer_exact [OF ref.sdk_laws_axioms this _ t] t show ?thesis by blast
qed

text \<open>
  C39. In every state that transactions, blocks and the other modules can reach from one in which it does, the account of
  the dispensation module covers every record that is pending or failed, in every denomination. Every record is valid and stored
  under its own key, and the count of minted coins has not passed the maximum.
\<close>

theorem dispensation_covered:
  assumes "sdk_laws S" and "disp_reachable S s t" and "covered S s"
  shows "owed d t \<le> bank t (module_address S DispensationModule) d \<and>
    (\<exists>c \<le> nat MaxMintAmount. mintController t = Some (NativeSymbol, c)) \<and>
    (\<forall>k dr. kv_get (distRecords t) k = Some dr \<longrightarrow> k = record_key dr \<and> DistributionRecord_Validate S dr)"
  using reachable_covered [OF assms] by (simp add: covered_def records_ok_def)

theorem dispensation_covered_witness:
  "\<exists>t :: disp_state. disp_reachable sdk_ref disp_demo t \<and> distRecords t = [(record_key (demo_record ''carol'' 10), demo_record ''carol'' 10)] \<and>
    owed NativeSymbol t \<le> bank t (module_address sdk_ref DispensationModule) NativeSymbol"
proof -
  let ?m = "run_disp sdk_ref (CreateDistribution demo_drop)"
  have "acc_from_bech32 sdk_ref (disp_signer (CreateDistribution demo_drop)) \<noteq> Some (module_address sdk_ref DispensationModule)"
    by (simp add: demo_drop_def eval_sdk)
  from disp_reachable.more [OF disp_reachable.start disp_step.tx [OF this]]
  have r: "disp_reachable sdk_ref disp_demo (deliver ?m disp_demo)" .
  moreover have "distRecords (deliver ?m disp_demo) = [(record_key (demo_record ''carol'' 10), demo_record ''carol'' 10)]"
    using demo_dropped by (auto simp: deliver_def)
  ultimately show ?thesis using dispensation_covered [OF ref.sdk_laws_axioms r demo_covered] by blast
qed

text \<open>
  C40. A distribution ends. When every recipient is an address and the bank does not panic, as many runs as it takes at
  the count of the message leave no record waiting: every run returns, and each record that waited is stored as completed or as
  failed, with the same name, recipient and coins.
\<close>

theorem distribution_ends:
  assumes "sdk_laws S" and "\<And>a cs bk. send_mod_to_acc S DispensationModule a cs bk \<noteq> Panic" and "payable S m s"
    and "length (waiting (runName m) (runRunner m) (runType m) s) \<le> k * nat (runCount m)"
  defines "t \<equiv> (deliver (run_disp S (RunDistribution m)) ^^ k) s"
  shows "waiting (runName m) (runRunner m) (runType m) t = [] \<and>
    (\<forall>dr \<in> set (waiting (runName m) (runRunner m) (runType m) s). settled t dr) \<and>
    (\<forall>j. \<exists>u. run_disp S (RunDistribution m) ((deliver (run_disp S (RunDistribution m)) ^^ j) s) = (Ok (), u))"
  using settled_runs [OF assms(1-4)] runs_return [OF assms(1-3)] unfolding t_def by simp

theorem distribution_ends_witness:
  "waiting ''7_alice'' ''bob'' DISTRIBUTION_TYPE_AIRDROP
     ((deliver (run_disp sdk_ref (RunDistribution demo_payout)) ^^ 2) waiting_demo) = [] \<and>
   settled ((deliver (run_disp sdk_ref (RunDistribution demo_payout)) ^^ 2) waiting_demo) (demo_record ''erin'' 30)"
proof -
  have send: "send_mod_to_acc sdk_ref DispensationModule a cs bk \<noteq> Panic" for a cs bk by (simp add: sdk_ref_sel send_ref_def)
  have "length (waiting (runName demo_payout) (runRunner demo_payout) (runType demo_payout) waiting_demo) \<le> 2 * nat (runCount demo_payout)"
    by (simp add: demo_payout_def demo_waiting)
  from distribution_ends [OF ref.sdk_laws_axioms send demo_payable this] show ?thesis
    by (simp add: demo_payout_def demo_waiting)
qed

text \<open>
  C31. A packet is acknowledged with success only when the token it brings is registered and may come in. Then the
  balances are those the token transfer left, except that a token with a unit denomination of more decimals is exchanged: the receiver
  loses exactly the amount of the packet and gets that amount scaled by the difference of the decimals from the escrow
  address of the channel. No digit is lost and nothing else of the state changes.
\<close>

theorem incoming_exact:
  assumes "sdk_laws S" and "list_all (\<lambda>e. case e of None \<Rightarrow> True | Some x \<Rightarrow> decimals x < 2 ^ 63) (GetRegistry s)"
    and "OnRecvPacketWhitelistConvert S I p s = (Ok ResultAcknowledgement, t)"
  shows "\<exists>data b d e. packet_of_json I (packetData p) = Some data \<and> recv_packet I p data (bank s) = Ok b \<and>
    GetMintedDenomFromPacket I p data = Ok d \<and> GetEntry (GetRegistry s) d = Ok e \<and> IsRecvPacketAllowed I p data e \<and>
    (case exchange_entry (GetRegistry s) e of
       None \<Rightarrow> t = s\<lparr>bank := b\<rparr>
     | Some e' \<Rightarrow> \<exists>receiver a. acc_from_bech32 S (dataReceiver data) = Some receiver \<and>
         int_of_str S (dataAmount data) = Some a \<and> 0 \<le> a \<and> nat a \<le> b receiver (denom e) \<and>
         t = s\<lparr>bank := converted (GetEscrowAddress I (destPort p) (destChannel p)) receiver (denom e, nat a)
           (denom e', nat a * 10 ^ nat (decimals e' - decimals e)) b\<rparr>)"
  using assms(3)
proof (rule OnRecvPacket_result, goal_cases)
  case (1 data b d e)
  show ?case
  proof (cases "exchange_entry (GetRegistry s) e")
    case (Some e')
    then have "decimals e < decimals e'" "0 < decimals e" "decimals e' < 2 ^ 63"
      using exchange_entry_Some [OF Some] GetEntry_in_registry [of "GetRegistry s" "unit_denom e" e'] assms(2)
      by (force simp: list_all_iff)+
    from sdk_laws.ExecConv_Ok [OF assms(1) _ this] 1 Some show ?thesis by fastforce
  qed (use 1 in auto)
qed

theorem incoming_exact_witness:
  "\<exists>t :: registry_state. OnRecvPacketWhitelistConvert sdk_ref ibc_ref demo_packet ibc_demo = (Ok ResultAcknowledgement, t) \<and>
    bank t ''alice'' ''ibc/uatom'' = 0 \<and> bank t ''alice'' ''atom'' = 700 \<and> bank t ''escrow'' ''atom'' = 300"
proof -
  obtain t where t: "OnRecvPacketWhitelistConvert sdk_ref ibc_ref demo_packet ibc_demo = (Ok ResultAcknowledgement, t)"
    using demo_receive by blast
  have "list_all (\<lambda>e. case e of None \<Rightarrow> True | Some x \<Rightarrow> decimals x < 2 ^ 63) (GetRegistry ibc_demo)"
    by (simp add: GetRegistry_def ibc_demo_def ibc_entry_def)
  from incoming_exact [OF ref.sdk_laws_axioms this t] t show ?thesis
    by (intro exI [of _ t]) (auto simp: eval_ibc exchange_entry_def converted_def)
qed

section \<open>The relayer\<close>

text \<open>
  C14. The relayer misses no block: whatever headers come and whichever queries fail, once the query for the header of block \<open>n\<close> is answered,
  the claim of every event from the block it has to start with up to 50 blocks before \<open>n\<close> is, if it is valid, in a transaction that was given to
  \<open>tx.BroadcastTx\<close>: the transaction is among those broadcast if that succeeded, and among the lost ones if it failed (nothing sends it again). The
  process has a key, a database it can write to and a translation of symbols that holds texts, logs have a topic and values the SDK takes, nodes answer
  with all logs of the blocks asked for or fail, and the process starts from a stored block.
\<close>

theorem eth_blocks_relayed:
  assumes "net_ok N" and "\<And>b l. l \<in> set (chain b) \<Longrightarrow> log_ok R N i k l" and "\<And>m p. (m, p) \<in> set heads \<Longrightarrow> honest chain p"
    and "0 < ethLastBlock s" and "50 \<le> n" and "honest chain q" and "\<And>f. q f (n - 50) \<noteq> None"
  shows "\<exists>t. eth_listen S B R N i k (heads @ [(n, q)]) s = (Ok (), t) \<and>
    (\<forall>b. ethLastBlock s \<le> b \<longrightarrow> b \<le> n - 50 \<longrightarrow> block_relayed S B R N i k (chain b) t)"
  using listen_to [of chain R N i k heads s n q S B] assms by blast

theorem eth_blocks_relayed_witness:
  "\<exists>t. eth_listen sdk_ref bridge_ref relay_ref demo_net 1 eth_address [(60, \<lambda>f t. Some (concat (map demo_chain [f..t])))] demo_relay = (Ok (), t) \<and>
    (\<exists>tx\<in>set (broadcasts t). demo_claim ''val1'' \<in> set tx)"
proof -
  let ?q = "\<lambda>f t. Some (concat (map demo_chain [f..t]))"
  obtain t where t: "eth_listen sdk_ref bridge_ref relay_ref demo_net 1 eth_address ([] @ [(60, ?q)]) demo_relay = (Ok (), t)"
    "\<forall>b. ethLastBlock demo_relay \<le> b \<longrightarrow> b \<le> 60 - 50 \<longrightarrow> block_relayed sdk_ref bridge_ref relay_ref demo_net 1 eth_address (demo_chain b) t"
    using eth_blocks_relayed [OF demo_net_ok, of demo_chain relay_ref 1 eth_address "[]" demo_relay 60 ?q sdk_ref bridge_ref] demo_logs_ok
    by (auto simp: honest_def demo_relay_def)
  then have "block_relayed sdk_ref bridge_ref relay_ref demo_net 1 eth_address (demo_chain 10) t" by (simp add: demo_relay_def)
  then have "\<exists>tx\<in>set (broadcasts t). demo_claim ''val1'' \<in> set tx"
    using demo_log_event demo_event_claim [of "''val1''"] demo_valid [of "''val1''"]
    by (simp add: block_relayed_def demo_chain_def relayed_def demo_net_def Bex_def conj_commute)
  with t(1) show ?thesis by auto
qed

text \<open>
  C19. A replay leaves a message of this chain out if it was sent to Ethereum before, in a block of the range searched, exactly when the sender's address
  has 42 characters; otherwise the message is sent again.
\<close>

theorem replay_recognises:
  assumes "abi_laws pack" and "event_message B R N event = Ok (Some m)" and "cosmosSenderSequence m = Some i" and "0 \<le> i" and "i < 2 ^ 32"
    and "length mid = 4" and "from \<le> n" and "n < to" and "blocks n = Some txs"
    and "\<lparr>txSender = Some me, txInput = mid @ pack m\<rparr> \<in> set txs"
  shows "replay_event B R N (GetAllProphecyClaim mid blocks me from to) event s =
    (Ok (), if length (cosmosSender m) = 42 then s else s\<lparr>ethCalls := ethCalls s @ replicate (attempts N m) m\<rparr>)"
proof (cases "length (cosmosSender m) = 42")
  case True
  have "MessageProcessed m (GetAllProphecyClaim mid blocks me from to) = Ok True"
    by (rule abi_laws.sent_recognised [where blocks = blocks, OF assms(1,3-5) True assms(6-10)])
  then show ?thesis using True assms(2) by (simp add: replay_event_def run) (simp add: ret_def)
next
  case False
  then show ?thesis using other_length_forgotten [OF False] assms(2)
    by (simp add: replay_event_def run handleBurnLockMsg_calls)
qed

theorem replay_recognises_witness:
  "replay_event bridge_ref relay_ref demo_net
     (GetAllProphecyClaim ''abcd'' (\<lambda>n. Some [\<lparr>txSender = Some ''me'', txInput = ''abcd'' @ abi_ref demo_message\<rparr>]) ''me'' 1 2) demo_burn demo_relay =
   (Ok (), demo_relay)"
  using replay_recognises [OF abi.abi_laws_axioms demo_event_message, of 9 "''abcd''" 1 1 2
      "\<lambda>n. Some [\<lparr>txSender = Some ''me'', txInput = ''abcd'' @ abi_ref demo_message\<rparr>]" _ "''me''" demo_relay]
  by (simp add: demo_message_def NewCosmosMsg_def demo_sender_def)

text \<open>
  C21. The claims of two relayers for a lock on Ethereum agree: they have the same id and the same content, which is what the event says, and
  the chain accepts their form.
\<close>

theorem relayers_agree:
  assumes "relay_laws S B R" and "EthereumEventToEthBridgeClaim S B R v e T = Ok c" and "EthereumEventToEthBridgeClaim S B R w e T = Ok d"
    and "eventClaimType e = CLAIM_TYPE_LOCK" and "0 \<le> eventNonce e" and "eventNonce e < 2 ^ 63" and "v \<noteq> ''''"
  shows "MsgCreateEthBridgeClaim_ValidateBasic B c = Ok () \<and> oracle_id d = oracle_id c \<and> eth_content S B d = eth_content S B c \<and>
    (\<exists>r. acc_from_bech32 S (eventTo e) = Some r \<and> eth_content S B c =
      Some (NewOracleClaimContent r (eventValue e) (to_lower (eventSymbol e)) (hex_to_address B (eventToken e)) CLAIM_TYPE_LOCK))"
proof -
  have "d = c\<lparr>ethValidator := w\<rparr>" by (rule claim_of_validator(1) [OF assms(2,3)])
  moreover have "ethSymbol c = to_lower (eventSymbol e)" by (rule lock_symbol [OF assms(2,4)])
  ultimately show ?thesis
    using relay_laws.lock_claim_valid [OF assms(1,2,7,4,5,6)] relay_laws.claim_content [OF assms(1,2)] assms(4)
    by (auto simp: oracle_id_def eth_content_def)
qed

theorem relayers_agree_witness:
  "oracle_id (demo_claim ''val2'') = oracle_id (demo_claim ''val1'') \<and>
   eth_content sdk_ref bridge_ref (demo_claim ''val1'') = Some (NewOracleClaimContent ''alice'' 25 ''eth'' eth_address CLAIM_TYPE_LOCK)"
  using relayers_agree [OF relay.relay_laws_axioms demo_event_claim [of "''val1''"] demo_event_claim [of "''val2''"]]
  by (auto simp: demo_event_def sdk_ref_sel demo_hex)

end
